(* ===== verification/Prelude.thy ===== *)
theory Prelude
  imports Main "HOL-Library.Word" "HOL-Library.Monad_Syntax" "HOL-Library.Multiset"
begin

text \<open>
  What every component shares: the C integer types as words, little-endian byte
  sequences, the two result shapes of the model (a total operation returns a pair of a
  value and a new state; an operation that may wait for ever returns an option of such a
  pair, \<open>None\<close> when it does not return), the rules that compute the outcome of a
  sequence of such operations, and the collections the component proofs are driven by.
\<close>

unbundle bit_operations_syntax

named_theorems frame \<open>what an operation leaves alone\<close>
named_theorems rule_of \<open>outcome of an operation that may not return\<close>

section \<open>Machine integers\<close>

type_synonym u8 = "8 word"
type_synonym u16 = "16 word"
type_synonym u32 = "32 word"
type_synonym u64 = "64 word"
type_synonym u128 = "128 word"
type_synonym addr = u64
type_synonym tid = u64
type_synonym pid = int

section \<open>Little-endian bytes\<close>

text \<open>
  \<open>le_word\<close> is what \<^verbatim>\<open>memcpy(&value, buf, n)\<close> into a zeroed integer yields on
  arm64, \<open>le_bytes n\<close> the first \<open>n\<close> bytes of an integer in memory.
\<close>

fun le_word :: "u8 list \<Rightarrow> 'a::len word" where
  "le_word [] = 0"
| "le_word (b # bs) = ucast b OR push_bit 8 (le_word bs)"

fun le_bytes :: "nat \<Rightarrow> 'a::len word \<Rightarrow> u8 list" where
  "le_bytes 0 w = []"
| "le_bytes (Suc n) w = ucast w # le_bytes n (drop_bit 8 w)"

lemma length_le_bytes [simp]: "length (le_bytes n w) = n"
  by (induction n arbitrary: w) auto

lemma bit_ucast8: "bit (ucast (w :: 'a::len word) :: u8) n \<longleftrightarrow> n < 8 \<and> bit w n"
  by (auto simp: bit_ucast_iff dest: bit_imp_le_length)

lemma bit_ucast_of8: "bit (ucast (b :: u8) :: 'a::len word) n \<longleftrightarrow> n < LENGTH('a) \<and> bit b n"
  by (auto simp: bit_ucast_iff)

lemma le_word_le_bytes: "le_word (le_bytes n w) = take_bit (8 * n) (w :: 'a::len word)"
proof (induction n arbitrary: w)
  case 0
  then show ?case by simp
next
  case (Suc n)
  show ?case
    by (rule bit_word_eqI)
      (auto simp: Suc bit_or_iff bit_push_bit_iff bit_take_bit_iff bit_drop_bit_eq bit_ucast8
        bit_ucast_of8)
qed

lemma le_bytes_inj: "8 * n \<ge> LENGTH('a) \<Longrightarrow> le_word (le_bytes n w) = (w :: 'a::len word)"
  by (simp add: le_word_le_bytes take_bit_word_eq_self)

lemma bit_le_word: "bit (le_word bs :: 'a::len word) n \<Longrightarrow> n < 8 * length bs"
proof (induction bs arbitrary: n)
  case (Cons b bs)
  then show ?case
    by (cases "n < 8")
      (auto simp: bit_or_iff bit_push_bit_iff bit_ucast_of8 dest: bit_imp_le_length Cons.IH)
qed simp

lemma le_bytes_le_word:
  "8 * length bs \<le> LENGTH('a) \<Longrightarrow> le_bytes (length bs) (le_word bs :: 'a::len word) = bs"
proof (induction bs)
  case (Cons b bs)
  have low: "ucast (ucast b OR push_bit 8 (le_word bs :: 'a word)) = b"
    using Cons.prems
    by (intro bit_word_eqI) (auto simp: bit_ucast8 bit_or_iff bit_push_bit_iff bit_ucast_of8)
  have "drop_bit 8 (ucast b OR push_bit 8 (le_word bs)) = (le_word bs :: 'a word)"
    using Cons.prems
    by (intro bit_word_eqI)
      (auto simp: bit_drop_bit_eq bit_or_iff bit_push_bit_iff bit_ucast_of8
        dest: bit_imp_le_length bit_le_word)
  with Cons low show ?case by simp
qed simp

section \<open>Operations that may not return\<close>

text \<open>
  \<open>ensures b m Q\<close>: if \<open>m\<close> returns, the value and the state it returns satisfy \<open>Q\<close>;
  if it does not, \<open>b\<close>. With \<open>b = False\<close> this is total correctness (the operation
  returns, and \<open>Q\<close> holds), with \<open>b = True\<close> partial correctness; one proof serves both.
\<close>

definition ensures :: "bool \<Rightarrow> ('a \<times> 's) option \<Rightarrow> ('a \<Rightarrow> 's \<Rightarrow> bool) \<Rightarrow> bool" where
  "ensures b m Q = (case m of None \<Rightarrow> b | Some (a, s) \<Rightarrow> Q a s)"

lemma ensures_Some [simp]: "ensures b (Some (a, s)) Q = Q a s"
  by (simp add: ensures_def)

lemma ensures_Some_pair: "ensures b (Some p) Q = Q (fst p) (snd p)"
  by (cases p) simp

lemma ensures_bind [simp]:
  "ensures b (Option.bind m f) Q = ensures b m (\<lambda>a s. ensures b (f (a, s)) Q)"
  by (cases m) (auto simp: ensures_def)

lemma ensures_if [simp]:
  "ensures b (if c then m else m') Q = (if c then ensures b m Q else ensures b m' Q)"
  by simp

lemma ensures_mono:
  assumes "ensures b m P" and "\<And>a s. P a s \<Longrightarrow> Q a s"
  shows "ensures b m Q"
  using assms by (auto simp: ensures_def split: option.splits)

lemma ensures_conj: "ensures b m P \<Longrightarrow> ensures b m Q \<Longrightarrow> ensures b m (\<lambda>a s. P a s \<and> Q a s)"
  by (auto simp: ensures_def split: option.splits)

lemma ensures_total: "ensures False m Q \<longleftrightarrow> (\<exists>a s. m = Some (a, s) \<and> Q a s)"
  by (auto simp: ensures_def split: option.splits)

lemma ensures_partial: "ensures True m Q \<longleftrightarrow> (\<forall>a s. m = Some (a, s) \<longrightarrow> Q a s)"
  by (auto simp: ensures_def split: option.splits)

end
