(* ===== verification/CString.thy ===== *)
theory CString
  imports Prelude "HOL-Library.Char_ord" "HOL-Library.Sublist"
begin

text \<open>
  The part of the C library the debugger's text handling uses (\<^verbatim>\<open>ctype.h\<close>,
  \<^verbatim>\<open>string.h\<close>, \<^verbatim>\<open>strtoull\<close>/\<^verbatim>\<open>strtol\<close>, \<^verbatim>\<open>strtok\<close>, \<^verbatim>\<open>snprintf\<close> with
  \<^verbatim>\<open>%s\<close>, integer conversions of \<^verbatim>\<open>printf\<close>), and the source's own text helpers
  (\<^verbatim>\<open>trim_space\<close>, \<^verbatim>\<open>str_ieq\<close>, \<^verbatim>\<open>parse_u64\<close>, \<^verbatim>\<open>parse_quoted_value\<close>,
  \<^verbatim>\<open>parse_hex_value\<close>). A C string is the list of its characters before the NUL; a
  pointer into a string is the suffix it points to.
\<close>

section \<open>Character classes\<close>

definition ccode :: "char \<Rightarrow> nat" where
  "ccode c = (of_char c :: nat)"

definition isspace :: "char \<Rightarrow> bool" where
  "isspace c \<longleftrightarrow> ccode c = 32 \<or> (9 \<le> ccode c \<and> ccode c \<le> 13)"

definition isdigit :: "char \<Rightarrow> bool" where
  "isdigit c \<longleftrightarrow> 48 \<le> ccode c \<and> ccode c \<le> 57"

definition isupper :: "char \<Rightarrow> bool" where
  "isupper c \<longleftrightarrow> 65 \<le> ccode c \<and> ccode c \<le> 90"

definition islower :: "char \<Rightarrow> bool" where
  "islower c \<longleftrightarrow> 97 \<le> ccode c \<and> ccode c \<le> 122"

definition isalpha :: "char \<Rightarrow> bool" where
  "isalpha c \<longleftrightarrow> isupper c \<or> islower c"

definition isalnum :: "char \<Rightarrow> bool" where
  "isalnum c \<longleftrightarrow> isalpha c \<or> isdigit c"

definition isprint :: "char \<Rightarrow> bool" where
  "isprint c \<longleftrightarrow> 32 \<le> ccode c \<and> ccode c \<le> 126"

definition tolower :: "char \<Rightarrow> char" where
  "tolower c = (if isupper c then char_of (ccode c + 32) else c)"

definition digit_val :: "char \<Rightarrow> nat option" where
  "digit_val c =
     (if isdigit c then Some (ccode c - 48)
      else if islower c then Some (ccode c - 87)
      else if isupper c then Some (ccode c - 55)
      else None)"

definition is_digit_of :: "nat \<Rightarrow> char \<Rightarrow> bool" where
  "is_digit_of base c = (case digit_val c of None \<Rightarrow> False | Some d \<Rightarrow> d < base)"

definition isxdigit :: "char \<Rightarrow> bool" where
  "isxdigit c = is_digit_of 16 c"

section \<open>Searching\<close>

fun strchr :: "string \<Rightarrow> char \<Rightarrow> string option" where
  "strchr [] c = None"
| "strchr (x # xs) c = (if x = c then Some (x # xs) else strchr xs c)"

fun strrchr :: "string \<Rightarrow> char \<Rightarrow> string option" where
  "strrchr [] c = None"
| "strrchr (x # xs) c =
     (case strrchr xs c of
        Some r \<Rightarrow> Some r
      | None \<Rightarrow> if x = c then Some (x # xs) else None)"

fun strstr :: "string \<Rightarrow> string \<Rightarrow> string option" where
  "strstr [] p = (if p = [] then Some [] else None)"
| "strstr (x # xs) p = (if prefix p (x # xs) then Some (x # xs) else strstr xs p)"

abbreviation contains :: "string \<Rightarrow> string \<Rightarrow> bool" where
  "contains s p \<equiv> strstr s p \<noteq> None"

definition strpbrk :: "string \<Rightarrow> string \<Rightarrow> string option" where
  "strpbrk s cs = (case dropWhile (\<lambda>c. c \<notin> set cs) s of [] \<Rightarrow> None | r \<Rightarrow> Some r)"

text \<open>\<^verbatim>\<open>strncmp(s, p, strlen(p)) == 0\<close>.\<close>

definition starts_with :: "string \<Rightarrow> string \<Rightarrow> bool" where
  "starts_with s p = prefix p s"

text \<open>All the tokens that successive calls of \<^verbatim>\<open>strtok\<close> return.\<close>

function strtok :: "string \<Rightarrow> string \<Rightarrow> string list" where
  "strtok s delims =
     (let s' = dropWhile (\<lambda>c. c \<in> set delims) s
      in if s' = [] then []
         else takeWhile (\<lambda>c. c \<notin> set delims) s'
              # strtok (dropWhile (\<lambda>c. c \<notin> set delims) s') delims)"
  by pat_completeness auto
termination
proof (relation "measure (\<lambda>(s, d). length s)", goal_cases)
  case (2 s delims s')
  obtain x xs where s': "s' = x # xs" using 2(2) by (meson neq_Nil_conv)
  have "x \<notin> set delims"
    using s' unfolding 2(1) by (simp add: dropWhile_eq_Cons_conv)
  with s' have "length (dropWhile (\<lambda>c. c \<notin> set delims) s') < length s'"
    by (simp add: length_dropWhile_le less_Suc_eq_le)
  moreover have "length s' \<le> length s"
    using 2 by (simp add: length_dropWhile_le)
  ultimately show ?case by simp
qed simp

declare strtok.simps [simp del]

lemma strchr_contains: "strchr s c \<noteq> None \<longleftrightarrow> c \<in> set s"
  by (induction s) auto

lemma strchr_None: "strchr s c = None \<longleftrightarrow> c \<notin> set s"
  using strchr_contains [of s c] by auto

lemma strchr_Some: "strchr s c = Some r \<Longrightarrow> \<exists>ys. r = c # ys \<and> (\<exists>xs. s = xs @ r \<and> c \<notin> set xs)"
proof (induction s)
  case (Cons x xs)
  show ?case
  proof (cases "x = c")
    case True
    with Cons.prems show ?thesis by auto
  next
    case False
    with Cons obtain ys zs where "r = c # ys" "xs = zs @ r" "c \<notin> set zs" by auto
    with False show ?thesis by (intro exI [of _ ys] conjI exI [of _ "x # zs"]) auto
  qed
qed simp

lemma strstr_sublist: "contains s p \<longleftrightarrow> sublist p s"
proof (induction s)
  case Nil
  then show ?case by auto
next
  case (Cons x xs)
  then show ?case
    by (auto simp: sublist_Cons_right split: if_splits)
qed

lemma strtok_no_delims: "t \<in> set (strtok s delims) \<Longrightarrow> t \<noteq> [] \<and> set t \<inter> set delims = {}"
proof (induction s delims rule: strtok.induct)
  case (1 s delims)
  let ?s = "dropWhile (\<lambda>c. c \<in> set delims) s"
  have "takeWhile (\<lambda>c. c \<notin> set delims) ?s \<noteq> []" if "?s \<noteq> []"
    using that hd_dropWhile [of "\<lambda>c. c \<in> set delims" s] by (cases ?s) auto
  moreover have "set (takeWhile (\<lambda>c. c \<notin> set delims) ?s) \<inter> set delims = {}"
    by (auto dest: set_takeWhileD)
  ultimately show ?case
    using 1 by (subst (asm) (2) strtok.simps) (auto simp: Let_def split: if_splits)
qed

section \<open>Numbers\<close>

definition digits_value :: "nat \<Rightarrow> string \<Rightarrow> nat" where
  "digits_value base ds = foldl (\<lambda>a c. a * base + the (digit_val c)) 0 ds"

text \<open>
  The common part of the \<^verbatim>\<open>strto*\<close> family: white space, a sign, a base prefix and the
  longest run of digits. \<open>None\<close> is \<^verbatim>\<open>end == text\<close>; otherwise the sign, the value and
  the rest of the text. A prefix \<^verbatim>\<open>0x\<close> counts only when a hexadecimal digit follows.
\<close>

definition skip_sign :: "string \<Rightarrow> bool \<times> string" where
  "skip_sign s =
     (case s of
        [] \<Rightarrow> (False, [])
      | c # cs \<Rightarrow> if c = CHR ''-'' then (True, cs) else if c = CHR ''+'' then (False, cs) else (False, s))"

definition hex_prefix :: "string \<Rightarrow> bool" where
  "hex_prefix s =
     (case s of
        a # b # d # _ \<Rightarrow> a = CHR ''0'' \<and> (b = CHR ''x'' \<or> b = CHR ''X'') \<and> isxdigit d
      | _ \<Rightarrow> False)"

definition scan_number :: "nat \<Rightarrow> string \<Rightarrow> (bool \<times> nat \<times> string) option" where
  "scan_number base s =
     (let (neg, s2) = skip_sign (dropWhile isspace s);
          (b, s3) = (if (base = 0 \<or> base = 16) \<and> hex_prefix s2 then (16, drop 2 s2)
                     else if base = 0 then (if starts_with s2 ''0'' then 8 else 10, s2)
                     else (base, s2));
          ds = takeWhile (is_digit_of b) s3
      in if ds = [] then None
         else Some (neg, digits_value b ds, dropWhile (is_digit_of b) s3))"

definition strtoull :: "nat \<Rightarrow> string \<Rightarrow> (u64 \<times> string) option" where
  "strtoull base s =
     (case scan_number base s of
        None \<Rightarrow> None
      | Some (neg, n, rest) \<Rightarrow>
          Some (if n > 2 ^ 64 - 1 then - 1 else if neg then - of_nat n else of_nat n, rest))"

definition strtoll :: "nat \<Rightarrow> string \<Rightarrow> (int \<times> string) option" where
  "strtoll base s =
     (case scan_number base s of
        None \<Rightarrow> None
      | Some (neg, n, rest) \<Rightarrow>
          Some (if neg then (if n > 2 ^ 63 then - (2 ^ 63) else - int n)
                else (if n \<ge> 2 ^ 63 then 2 ^ 63 - 1 else int n), rest))"

text \<open>\<^verbatim>\<open>snprintf(buf, n, "%s", s)\<close>: at most \<open>n - 1\<close> characters and the NUL.\<close>

definition snprintf_s :: "nat \<Rightarrow> string \<Rightarrow> string" where
  "snprintf_s n s = take (n - 1) s"

lemma length_snprintf_s: "0 < n \<Longrightarrow> length (snprintf_s n s) < n"
  by (simp add: snprintf_s_def)

lemma snprintf_s_fits: "length s < n \<Longrightarrow> snprintf_s n s = s"
  by (simp add: snprintf_s_def)

text \<open>The integer conversions of \<^verbatim>\<open>printf\<close>.\<close>

definition digit_char :: "nat \<Rightarrow> char" where
  "digit_char d = (if d < 10 then char_of (48 + d) else char_of (87 + d))"

lemma digit_char_simps [simp]:
  "digit_char 0 = CHR ''0''" "digit_char (Suc 0) = CHR ''1''" "digit_char 2 = CHR ''2''"
  "digit_char 3 = CHR ''3''" "digit_char 4 = CHR ''4''" "digit_char 5 = CHR ''5''"
  "digit_char 6 = CHR ''6''" "digit_char 7 = CHR ''7''" "digit_char 8 = CHR ''8''"
  "digit_char 9 = CHR ''9''" "digit_char 10 = CHR ''a''" "digit_char 11 = CHR ''b''"
  "digit_char 12 = CHR ''c''" "digit_char 13 = CHR ''d''" "digit_char 14 = CHR ''e''"
  "digit_char 15 = CHR ''f''"
  by code_simp+

function digits_of :: "nat \<Rightarrow> nat \<Rightarrow> string" where
  "digits_of base n =
     (if base < 2 \<or> n < base then [digit_char n]
      else digits_of base (n div base) @ [digit_char (n mod base)])"
  by pat_completeness auto
termination
  by (relation "measure (\<lambda>(b, n). n)") auto

declare digits_of.simps [simp del]

definition pad_left :: "nat \<Rightarrow> char \<Rightarrow> string \<Rightarrow> string" where
  "pad_left n c s = replicate (n - length s) c @ s"

definition pad_right :: "nat \<Rightarrow> string \<Rightarrow> string" where
  "pad_right n s = s @ replicate (n - length s) CHR '' ''"

definition fmt_u :: "nat \<Rightarrow> string" where "fmt_u n = digits_of 10 n"
definition fmt_d :: "int \<Rightarrow> string" where
  "fmt_d i = (if i < 0 then CHR ''-'' # fmt_u (nat (- i)) else fmt_u (nat i))"
definition fmt_x :: "'a::len word \<Rightarrow> string" where "fmt_x w = digits_of 16 (unat w)"
definition fmt_0x16 :: "u64 \<Rightarrow> string" where
  "fmt_0x16 w = ''0x'' @ pad_left 16 CHR ''0'' (fmt_x w)"
definition fmt_0x8 :: "u32 \<Rightarrow> string" where
  "fmt_0x8 w = ''0x'' @ pad_left 8 CHR ''0'' (fmt_x w)"
definition fmt_02x :: "u8 \<Rightarrow> string" where "fmt_02x b = pad_left 2 CHR ''0'' (fmt_x b)"

abbreviation nl :: string where "nl \<equiv> [CHR 0x0A]"

end
