(* ===== verification/Expr.thy ===== *)
theory Expr
  imports CString
begin

text \<open>
  The expression language: the syntax tree of \<^verbatim>\<open>include/expr_ast.h\<close>, the scanner of
  \<^verbatim>\<open>src/expr.l\<close> and the grammar of \<^verbatim>\<open>src/expr.y\<close>. The scanner takes the longest match of
  the rules, the parser resolves the binary rules by the precedences of the \<^verbatim>\<open>%left\<close>
  lines. \<open>strtod\<close> is the C library's conversion, as the bit pattern of the double.
\<close>

section \<open>Syntax tree\<close>

datatype cdbg_expr_op =
  Op_ADD | Op_SUB | Op_MUL | Op_DIV | Op_MOD | Op_SHL | Op_SHR
| Op_LT | Op_GT | Op_LE | Op_GE | Op_EQ | Op_NE
| Op_BAND | Op_BXOR | Op_BOR | Op_LAND | Op_LOR
| Op_POS | Op_NEG | Op_NOT | Op_BNOT

text \<open>A number carries the integer, or the bits of the double, and which of the two it is;
  the \<^verbatim>\<open>double\<close> that the code keeps beside the bits is the one they denote.\<close>

datatype cdbg_expr =
  Num u64 bool
| Ident string
| Unary cdbg_expr_op cdbg_expr
| Binary cdbg_expr_op cdbg_expr cdbg_expr
| Member cdbg_expr string
| Arrow cdbg_expr string
| Index cdbg_expr cdbg_expr
| Addr cdbg_expr
| Deref cdbg_expr

section \<open>Scanner\<close>

datatype token =
  T_Num u64 bool
| T_Ident string
| T_Arrow | T_AndAnd | T_OrOr | T_Eq | T_Ne | T_Le | T_Ge | T_Shl | T_Shr
| T_Char char

definition set_number_token :: "(string \<Rightarrow> u64) \<Rightarrow> string \<Rightarrow> token" where
  "set_number_token strtod text =
     (case strtoull 0 text of
        None \<Rightarrow> T_Num 0 False
      | Some (uval, rest) \<Rightarrow>
          if rest \<noteq> [] \<and> hd rest \<in> set ''.eE'' then T_Num (strtod text) True else T_Num uval False)"

definition set_float_token :: "(string \<Rightarrow> u64) \<Rightarrow> string \<Rightarrow> token" where
  "set_float_token strtod text = T_Num (strtod text) True"

definition digits_len :: "string \<Rightarrow> nat" where
  "digits_len s = length (takeWhile (\<lambda>c. c \<in> set ''0123456789'') s)"

definition hex_len :: "string \<Rightarrow> nat" where
  "hex_len s =
     (if starts_with s ''0x'' \<or> starts_with s ''0X''
      then let n = length (takeWhile isxdigit (drop 2 s)) in if n = 0 then 0 else n + 2
      else 0)"

definition exp_len :: "string \<Rightarrow> nat" where
  "exp_len s =
     (if s \<noteq> [] \<and> hd s \<in> set ''eE''
      then let t = tl s; sign = (if t \<noteq> [] \<and> hd t \<in> set ''+-'' then 1 else 0);
               n = digits_len (drop sign t)
           in if n = 0 then 0 else 1 + sign + n
      else 0)"

definition suffix_len :: "string \<Rightarrow> string \<Rightarrow> nat" where
  "suffix_len cs s = (if s \<noteq> [] \<and> hd s \<in> set cs then 1 else 0)"

text \<open>The lengths of the matches of the three floating-point rules, 0 for no match.\<close>

definition float1_len :: "string \<Rightarrow> nat" where
  "float1_len s =
     (let n = digits_len s
      in if n = 0 \<or> \<not> starts_with (drop n s) ''.'' then 0
         else let m = n + 1 + digits_len (drop (n + 1) s);
                  m = m + exp_len (drop m s)
              in m + suffix_len ''fFlL'' (drop m s))"

definition float2_len :: "string \<Rightarrow> nat" where
  "float2_len s =
     (if \<not> starts_with s ''.'' then 0
      else let n = digits_len (drop 1 s)
           in if n = 0 then 0 else n + 1 + suffix_len ''fF'' (drop (n + 1) s))"

definition float3_len :: "string \<Rightarrow> nat" where
  "float3_len s =
     (let n = digits_len s; e = exp_len (drop n s)
      in if n = 0 \<or> e = 0 then 0 else n + e + suffix_len ''fFlL'' (drop (n + e) s))"

definition is_idstart :: "char \<Rightarrow> bool" where
  "is_idstart c \<longleftrightarrow> isalpha c \<or> c = CHR ''_''"

definition is_idchar :: "char \<Rightarrow> bool" where
  "is_idchar c \<longleftrightarrow> isalnum c \<or> c = CHR ''_''"

definition operators2 :: "(string \<times> token) list" where
  "operators2 = [(''->'', T_Arrow), (''&&'', T_AndAnd), (''||'', T_OrOr), (''=='', T_Eq),
     (''!='', T_Ne), (''<='', T_Le), (''>='', T_Ge), (''<<'', T_Shl), (''>>'', T_Shr)]"

text \<open>One token at the front of a text that is not empty: the token, if the match gives
  one, and its length. A newline matches no rule and is passed over.\<close>

definition lex_one :: "(string \<Rightarrow> u64) \<Rightarrow> string \<Rightarrow> token option \<times> nat" where
  "lex_one strtod s =
     (let c = hd s
      in if c = CHR '' '' \<or> c = CHR 0x09
         then (None, length (takeWhile (\<lambda>c. c = CHR '' '' \<or> c = CHR 0x09) s))
         else if hex_len s > 0 then (Some (set_number_token strtod (take (hex_len s) s)), hex_len s)
         else if float1_len s > 0 then (Some (set_float_token strtod (take (float1_len s) s)), float1_len s)
         else if float2_len s > 0 then (Some (set_float_token strtod (take (float2_len s) s)), float2_len s)
         else if float3_len s > 0 then (Some (set_float_token strtod (take (float3_len s) s)), float3_len s)
         else if digits_len s > 0 then (Some (set_number_token strtod (take (digits_len s) s)), digits_len s)
         else if is_idstart c
         then let n = length (takeWhile is_idchar s) in (Some (T_Ident (snprintf_s 128 (take n s))), n)
         else case map_of operators2 (take 2 s) of
                Some t \<Rightarrow> (Some t, 2)
              | None \<Rightarrow> if c = CHR 0x0A then (None, 1) else (Some (T_Char c), 1))"

lemma idstart_idchar: "is_idstart c \<Longrightarrow> is_idchar c"
  by (auto simp: is_idstart_def is_idchar_def isalnum_def)

lemma lex_one_progress: "s \<noteq> [] \<Longrightarrow> 0 < snd (lex_one strtod s)"
  by (cases s) (auto simp: lex_one_def Let_def idstart_idchar split: option.split)

text \<open>A byte of 128 or more is returned as a negative \<^verbatim>\<open>char\<close>, which the parser takes for the
  end of the input.\<close>

function lex :: "(string \<Rightarrow> u64) \<Rightarrow> string \<Rightarrow> token list" where
  "lex strtod s =
     (if s = [] \<or> 128 \<le> (of_char (hd s) :: nat) then []
      else let (t, n) = lex_one strtod s
           in (case t of None \<Rightarrow> [] | Some t \<Rightarrow> [t]) @ lex strtod (drop n s))"
  by pat_completeness auto
termination
proof (relation "measure (\<lambda>(strtod, s). length s)", goal_cases)
  case (2 strtod s x t n)
  then show ?case using lex_one_progress [of s strtod] by (simp add: prod_eq_iff)
qed simp

declare lex.simps [simp del]

section \<open>Parser\<close>

text \<open>The binary operators with their precedence, 1 (loosest) to 10.\<close>

fun binary_op :: "token \<Rightarrow> (cdbg_expr_op \<times> nat) option" where
  "binary_op T_OrOr = Some (Op_LOR, 1)"
| "binary_op T_AndAnd = Some (Op_LAND, 2)"
| "binary_op T_Eq = Some (Op_EQ, 6)"
| "binary_op T_Ne = Some (Op_NE, 6)"
| "binary_op T_Le = Some (Op_LE, 7)"
| "binary_op T_Ge = Some (Op_GE, 7)"
| "binary_op T_Shl = Some (Op_SHL, 8)"
| "binary_op T_Shr = Some (Op_SHR, 8)"
| "binary_op (T_Char c) =
     map_of [(CHR ''|'', (Op_BOR, 3)), (CHR ''^'', (Op_BXOR, 4)), (CHR ''&'', (Op_BAND, 5)),
       (CHR ''<'', (Op_LT, 7)), (CHR ''>'', (Op_GT, 7)),
       (CHR ''+'', (Op_ADD, 9)), (CHR ''-'', (Op_SUB, 9)),
       (CHR ''*'', (Op_MUL, 10)), (CHR ''/'', (Op_DIV, 10)), (CHR ''%'', (Op_MOD, 10))] c"
| "binary_op _ = None"

fun prefix_op :: "token \<Rightarrow> (cdbg_expr \<Rightarrow> cdbg_expr) option" where
  "prefix_op (T_Char c) =
     map_of [(CHR ''+'', Unary Op_POS), (CHR ''-'', Unary Op_NEG), (CHR ''!'', Unary Op_NOT),
       (CHR ''~'', Unary Op_BNOT), (CHR ''&'', Addr), (CHR ''*'', Deref)] c"
| "prefix_op _ = None"

fun leaf :: "token \<Rightarrow> cdbg_expr option" where
  "leaf (T_Num v f) = Some (Num v f)"
| "leaf (T_Ident x) = Some (Ident (snprintf_s 128 x))"
| "leaf _ = None"

fun member_op :: "token \<Rightarrow> (cdbg_expr \<Rightarrow> string \<Rightarrow> cdbg_expr) option" where
  "member_op T_Arrow = Some Arrow"
| "member_op (T_Char c) = (if c = CHR ''.'' then Some Member else None)"
| "member_op _ = None"

fun expect_ident :: "token list \<Rightarrow> (string \<times> token list) option" where
  "expect_ident (T_Ident x # ts) = Some (snprintf_s 128 x, ts)"
| "expect_ident _ = None"

definition expect :: "char \<Rightarrow> token list \<Rightarrow> token list option" where
  "expect c ts = (if ts \<noteq> [] \<and> hd ts = T_Char c then Some (tl ts) else None)"

text \<open>
  \<open>parse_expr p\<close> reads an \<open>expr\<close> whose outermost binary operators bind at least as tightly
  as \<open>p\<close>; \<open>parse_rest p l\<close> goes on after the left operand \<open>l\<close>. The first argument is
  fuel, one unit for each call.
\<close>

fun parse_expr :: "nat \<Rightarrow> nat \<Rightarrow> token list \<Rightarrow> (cdbg_expr \<times> token list) option"
  and parse_rest :: "nat \<Rightarrow> nat \<Rightarrow> cdbg_expr \<Rightarrow> token list \<Rightarrow> (cdbg_expr \<times> token list) option"
  and parse_unary :: "nat \<Rightarrow> token list \<Rightarrow> (cdbg_expr \<times> token list) option"
  and parse_postfix :: "nat \<Rightarrow> cdbg_expr \<Rightarrow> token list \<Rightarrow> (cdbg_expr \<times> token list) option"
where
  "parse_expr 0 p ts = None"
| "parse_expr (Suc n) p ts =
     (case parse_unary n ts of None \<Rightarrow> None | Some (l, ts) \<Rightarrow> parse_rest n p l ts)"
| "parse_rest 0 p l ts = None"
| "parse_rest (Suc n) p l ts =
     (case ts of
        [] \<Rightarrow> Some (l, [])
      | t # ts' \<Rightarrow>
          (case binary_op t of
             None \<Rightarrow> Some (l, ts)
           | Some (op, q) \<Rightarrow>
               if q < p then Some (l, ts)
               else case parse_expr n (q + 1) ts' of
                      None \<Rightarrow> None
                    | Some (r, ts'') \<Rightarrow> parse_rest n p (Binary op l r) ts''))"
| "parse_unary 0 ts = None"
| "parse_unary (Suc n) ts =
     (case ts of
        [] \<Rightarrow> None
      | t # ts' \<Rightarrow>
          (case prefix_op t of
             Some make \<Rightarrow> map_option (\<lambda>(e, ts). (make e, ts)) (parse_unary n ts')
           | None \<Rightarrow>
               (case leaf t of
                  Some e \<Rightarrow> parse_postfix n e ts'
                | None \<Rightarrow>
                    if t \<noteq> T_Char CHR ''('' then None
                    else case parse_expr n 1 ts' of
                           None \<Rightarrow> None
                         | Some (e, ts'') \<Rightarrow>
                             (case expect CHR '')'' ts'' of
                                None \<Rightarrow> None
                              | Some ts3 \<Rightarrow> parse_postfix n e ts3))))"
| "parse_postfix 0 e ts = None"
| "parse_postfix (Suc n) e ts =
     (case ts of
        [] \<Rightarrow> Some (e, [])
      | t # ts' \<Rightarrow>
          (case member_op t of
             Some make \<Rightarrow>
               (case expect_ident ts' of
                  None \<Rightarrow> None
                | Some (x, ts'') \<Rightarrow> parse_postfix n (make e x) ts'')
           | None \<Rightarrow>
               if t \<noteq> T_Char CHR ''['' then Some (e, ts)
               else case parse_expr n 1 ts' of
                      None \<Rightarrow> None
                    | Some (i, ts'') \<Rightarrow>
                        (case expect CHR '']'' ts'' of
                           None \<Rightarrow> None
                         | Some ts3 \<Rightarrow> parse_postfix n (Index e i) ts3)))"

definition parse_fuel :: "token list \<Rightarrow> nat" where
  "parse_fuel ts = 4 * length ts + 4"

definition parse_tokens :: "token list \<Rightarrow> cdbg_expr option" where
  "parse_tokens ts =
     (case parse_expr (parse_fuel ts) 1 ts of
        Some (e, []) \<Rightarrow> Some e
      | _ \<Rightarrow> None)"

definition cdbg_expr_parse :: "(string \<Rightarrow> u64) \<Rightarrow> string \<Rightarrow> cdbg_expr option" where
  "cdbg_expr_parse strtod text = parse_tokens (lex strtod text)"

end
