(* ===== verification/ExprPrint.thy ===== *)
theory ExprPrint
  imports Expr
begin

text \<open>
  A printer of syntax trees with no more parentheses than precedence requires, and the
  correctness of the parser against it: parsing what it prints gives the tree back.
\<close>

section \<open>The printer\<close>

fun binary_token :: "cdbg_expr_op \<Rightarrow> (token \<times> nat) option" where
  "binary_token Op_LOR = Some (T_OrOr, 1)"
| "binary_token Op_LAND = Some (T_AndAnd, 2)"
| "binary_token Op_BOR = Some (T_Char CHR ''|'', 3)"
| "binary_token Op_BXOR = Some (T_Char CHR ''^'', 4)"
| "binary_token Op_BAND = Some (T_Char CHR ''&'', 5)"
| "binary_token Op_EQ = Some (T_Eq, 6)"
| "binary_token Op_NE = Some (T_Ne, 6)"
| "binary_token Op_LT = Some (T_Char CHR ''<'', 7)"
| "binary_token Op_GT = Some (T_Char CHR ''>'', 7)"
| "binary_token Op_LE = Some (T_Le, 7)"
| "binary_token Op_GE = Some (T_Ge, 7)"
| "binary_token Op_SHL = Some (T_Shl, 8)"
| "binary_token Op_SHR = Some (T_Shr, 8)"
| "binary_token Op_ADD = Some (T_Char CHR ''+'', 9)"
| "binary_token Op_SUB = Some (T_Char CHR ''-'', 9)"
| "binary_token Op_MUL = Some (T_Char CHR ''*'', 10)"
| "binary_token Op_DIV = Some (T_Char CHR ''/'', 10)"
| "binary_token Op_MOD = Some (T_Char CHR ''%'', 10)"
| "binary_token _ = None"

fun unary_char :: "cdbg_expr_op \<Rightarrow> char option" where
  "unary_char Op_POS = Some CHR ''+''"
| "unary_char Op_NEG = Some CHR ''-''"
| "unary_char Op_NOT = Some CHR ''!''"
| "unary_char Op_BNOT = Some CHR ''~''"
| "unary_char _ = None"

definition parens :: "bool \<Rightarrow> token list \<Rightarrow> token list" where
  "parens b ts = (if b then T_Char CHR ''('' # ts @ [T_Char CHR '')''] else ts)"

text \<open>Context 1 to 10 is an operand of a binary operator of that precedence, 11 of a prefix
  operator, 12 of a postfix operator.\<close>

fun show_expr :: "nat \<Rightarrow> cdbg_expr \<Rightarrow> token list" where
  "show_expr p (Num v f) = [T_Num v f]"
| "show_expr p (Ident x) = [T_Ident x]"
| "show_expr p (Unary op e) =
     parens (11 < p) (T_Char (the (unary_char op)) # show_expr 11 e)"
| "show_expr p (Addr e) = parens (11 < p) (T_Char CHR ''&'' # show_expr 11 e)"
| "show_expr p (Deref e) = parens (11 < p) (T_Char CHR ''*'' # show_expr 11 e)"
| "show_expr p (Binary op l r) =
     (let (t, q) = the (binary_token op)
      in parens (q < p) (show_expr q l @ t # show_expr (q + 1) r))"
| "show_expr p (Member e m) = show_expr 12 e @ [T_Char CHR ''.'', T_Ident m]"
| "show_expr p (Arrow e m) = show_expr 12 e @ [T_Arrow, T_Ident m]"
| "show_expr p (Index e i) =
     show_expr 12 e @ T_Char CHR ''['' # show_expr 1 i @ [T_Char CHR '']'']"

text \<open>The trees that the grammar can produce: operators of the right arity, names that fit
  their buffer.\<close>

fun wf_expr :: "cdbg_expr \<Rightarrow> bool" where
  "wf_expr (Num v f) = True"
| "wf_expr (Ident x) = (length x < 128)"
| "wf_expr (Unary op e) = (unary_char op \<noteq> None \<and> wf_expr e)"
| "wf_expr (Addr e) = wf_expr e"
| "wf_expr (Deref e) = wf_expr e"
| "wf_expr (Binary op l r) = (binary_token op \<noteq> None \<and> wf_expr l \<and> wf_expr r)"
| "wf_expr (Member e m) = (length m < 128 \<and> wf_expr e)"
| "wf_expr (Arrow e m) = (length m < 128 \<and> wf_expr e)"
| "wf_expr (Index e i) = (wf_expr e \<and> wf_expr i)"

section \<open>More fuel changes nothing\<close>

definition mono_at :: "nat \<Rightarrow> bool" where
  "mono_at n \<longleftrightarrow>
     (\<forall>p ts r. parse_expr n p ts = Some r \<longrightarrow> parse_expr (Suc n) p ts = Some r)
   \<and> (\<forall>p l ts r. parse_rest n p l ts = Some r \<longrightarrow> parse_rest (Suc n) p l ts = Some r)
   \<and> (\<forall>ts r. parse_unary n ts = Some r \<longrightarrow> parse_unary (Suc n) ts = Some r)
   \<and> (\<forall>e ts r. parse_postfix n e ts = Some r \<longrightarrow> parse_postfix (Suc n) e ts = Some r)"

lemma mono_step:
  assumes "mono_at n"
  shows "mono_at (Suc n)"
proof -
  have E: "parse_expr n p ts = Some r \<Longrightarrow> parse_expr (Suc n) p ts = Some r" for p ts r
    using assms unfolding mono_at_def by blast
  have R: "parse_rest n p l ts = Some r \<Longrightarrow> parse_rest (Suc n) p l ts = Some r" for p l ts r
    using assms unfolding mono_at_def by blast
  have U: "parse_unary n ts = Some r \<Longrightarrow> parse_unary (Suc n) ts = Some r" for ts r
    using assms unfolding mono_at_def by blast
  have P: "parse_postfix n e ts = Some r \<Longrightarrow> parse_postfix (Suc n) e ts = Some r" for e ts r
    using assms unfolding mono_at_def by blast
  have 1: "parse_expr (Suc (Suc n)) p ts = Some r" if "parse_expr (Suc n) p ts = Some r" for p ts r
    using that [unfolded parse_expr.simps(2) [of n]]
    by (subst parse_expr.simps(2)) (auto simp del: parse_unary.simps parse_rest.simps dest!: U R split: option.splits)
  have 2: "parse_rest (Suc (Suc n)) p l ts = Some r" if "parse_rest (Suc n) p l ts = Some r" for p l ts r
    using that [unfolded parse_rest.simps(2) [of n]]
    by (subst parse_rest.simps(2)) (auto simp del: parse_expr.simps parse_rest.simps dest!: E R
        split: option.splits list.splits if_splits)
  have 3: "parse_unary (Suc (Suc n)) ts = Some r" if "parse_unary (Suc n) ts = Some r" for ts r
    using that [unfolded parse_unary.simps(2) [of n]]
    by (subst parse_unary.simps(2)) (auto simp del: parse_unary.simps parse_expr.simps parse_postfix.simps dest!: E U P
        split: option.splits list.splits if_splits)
  have 4: "parse_postfix (Suc (Suc n)) e ts = Some r" if "parse_postfix (Suc n) e ts = Some r" for e ts r
    using that [unfolded parse_postfix.simps(2) [of n]]
    by (subst parse_postfix.simps(2)) (auto simp del: parse_expr.simps parse_postfix.simps dest!: E P
        split: option.splits list.splits if_splits)
  from 1 2 3 4 show ?thesis unfolding mono_at_def by blast
qed

lemma mono_at_all: "mono_at n"
  by (induction n) (simp add: mono_at_def, rule mono_step)

lemma parse_more:
  "parse_expr n p ts = Some r \<Longrightarrow> n \<le> m \<Longrightarrow> parse_expr m p ts = Some r"
  "parse_rest n p l ts = Some r \<Longrightarrow> n \<le> m \<Longrightarrow> parse_rest m p l ts = Some r"
  "parse_unary n ts = Some r \<Longrightarrow> n \<le> m \<Longrightarrow> parse_unary m ts = Some r"
  "parse_postfix n e ts = Some r \<Longrightarrow> n \<le> m \<Longrightarrow> parse_postfix m e ts = Some r"
proof -
  have chain: "P n \<Longrightarrow> n \<le> m \<Longrightarrow> P m" if "\<And>k. P k \<Longrightarrow> P (Suc k)" for P :: "nat \<Rightarrow> bool"
    using that by (induction m) (auto simp: le_Suc_eq)
  have m: "mono_at k" for k by (rule mono_at_all)
  show "parse_expr n p ts = Some r \<Longrightarrow> n \<le> m \<Longrightarrow> parse_expr m p ts = Some r"
    using chain [of "\<lambda>k. parse_expr k p ts = Some r"] m unfolding mono_at_def by blast
  show "parse_rest n p l ts = Some r \<Longrightarrow> n \<le> m \<Longrightarrow> parse_rest m p l ts = Some r"
    using chain [of "\<lambda>k. parse_rest k p l ts = Some r"] m unfolding mono_at_def by blast
  show "parse_unary n ts = Some r \<Longrightarrow> n \<le> m \<Longrightarrow> parse_unary m ts = Some r"
    using chain [of "\<lambda>k. parse_unary k ts = Some r"] m unfolding mono_at_def by blast
  show "parse_postfix n e ts = Some r \<Longrightarrow> n \<le> m \<Longrightarrow> parse_postfix m e ts = Some r"
    using chain [of "\<lambda>k. parse_postfix k e ts = Some r"] m unfolding mono_at_def by blast
qed

section \<open>Parsing what was printed\<close>

definition plain :: "token list \<Rightarrow> bool" where
  "plain rest \<longleftrightarrow> rest = [] \<or> member_op (hd rest) = None \<and> hd rest \<noteq> T_Char CHR ''[''"

definition follows :: "nat \<Rightarrow> token list \<Rightarrow> bool" where
  "follows q rest \<longleftrightarrow> plain rest
     \<and> (rest = [] \<or> (\<forall>op b. binary_op (hd rest) = Some (op, b) \<longrightarrow> b \<le> q))"

text \<open>The three contexts in which a printed tree can stand: before the rest of a binary
  expression, under a prefix operator, before postfix operators.\<close>

definition as_expr :: "cdbg_expr \<Rightarrow> nat \<Rightarrow> bool" where
  "as_expr e q \<longleftrightarrow> (\<forall>p rest n r. p \<le> q \<longrightarrow> follows q rest \<longrightarrow> parse_rest n p e rest = Some r \<longrightarrow>
     parse_expr (n + 4 * length (show_expr q e) + 2) p (show_expr q e @ rest) = Some r)"

definition as_operand :: "cdbg_expr \<Rightarrow> bool" where
  "as_operand e \<longleftrightarrow> (\<forall>rest. plain rest \<longrightarrow>
     parse_unary (4 * length (show_expr 11 e) + 1) (show_expr 11 e @ rest) = Some (e, rest))"

definition as_base :: "cdbg_expr \<Rightarrow> bool" where
  "as_base e \<longleftrightarrow> (\<forall>rest n r. parse_postfix n e rest = Some r \<longrightarrow>
     parse_unary (n + 4 * length (show_expr 12 e)) (show_expr 12 e @ rest) = Some r)"

lemma parse_postfix_plain: "plain rest \<Longrightarrow> parse_postfix (Suc n) e rest = Some (e, rest)"
  by (cases rest) (auto simp: plain_def)

lemma parse_rest_stop:
  "rest = [] \<or> binary_op (hd rest) = None \<Longrightarrow> parse_rest (Suc n) p e rest = Some (e, rest)"
  by (cases rest) auto

lemma as_operand_of_base:
  assumes "as_base e" and "show_expr 11 e = show_expr 12 e"
  shows "as_operand e"
  unfolding as_operand_def
proof (intro allI impI)
  fix rest assume "plain rest"
  then have "parse_postfix 1 e rest = Some (e, rest)"
    using parse_postfix_plain [of rest 0 e] by simp
  with assms(1) have "parse_unary (1 + 4 * length (show_expr 12 e)) (show_expr 12 e @ rest) = Some (e, rest)"
    unfolding as_base_def by blast
  then show "parse_unary (4 * length (show_expr 11 e) + 1) (show_expr 11 e @ rest) = Some (e, rest)"
    unfolding assms(2) by (simp only: add.commute)
qed

lemma as_expr_of_operand:
  assumes "as_operand e" and "show_expr q e = show_expr 11 e"
  shows "as_expr e q"
  unfolding as_expr_def
proof (intro allI impI)
  fix p rest n r
  assume "p \<le> q" and f: "follows q rest" and r: "parse_rest n p e rest = Some r"
  let ?k = "n + 4 * length (show_expr q e) + 1"
  have "parse_unary (4 * length (show_expr 11 e) + 1) (show_expr 11 e @ rest) = Some (e, rest)"
    using assms(1) f unfolding as_operand_def follows_def by blast
  then have "parse_unary ?k (show_expr q e @ rest) = Some (e, rest)"
    unfolding assms(2) by (rule parse_more(3)) simp
  moreover have "parse_rest ?k p e rest = Some r" using r by (rule parse_more(2)) simp
  ultimately have "parse_expr (Suc ?k) p (show_expr q e @ rest) = Some r"
    unfolding parse_expr.simps by simp
  then show "parse_expr (n + 4 * length (show_expr q e) + 2) p (show_expr q e @ rest) = Some r"
    by (simp del: parse_expr.simps)
qed

lemma as_base_parens:
  assumes "as_expr e 1" and "show_expr 12 e = T_Char CHR ''('' # show_expr 1 e @ [T_Char CHR '')'']"
  shows "as_base e"
  unfolding as_base_def
proof (intro allI impI)
  fix rest n r
  assume r: "parse_postfix n e rest = Some r"
  let ?k = "n + 4 * length (show_expr 1 e) + 7"
  let ?rest = "T_Char CHR '')'' # rest"
  have "follows 1 ?rest" by (simp add: follows_def plain_def)
  moreover have "parse_rest 1 1 e ?rest = Some (e, ?rest)"
    using parse_rest_stop [of ?rest 0 1 e] by simp
  ultimately have "parse_expr (1 + 4 * length (show_expr 1 e) + 2) 1 (show_expr 1 e @ ?rest) = Some (e, ?rest)"
    using assms(1) unfolding as_expr_def by blast
  then have "parse_expr ?k 1 (show_expr 1 e @ ?rest) = Some (e, ?rest)" by (rule parse_more(1)) simp
  moreover have "parse_postfix ?k e rest = Some r" using r by (rule parse_more(4)) simp
  ultimately have "parse_unary (Suc ?k) (show_expr 12 e @ rest) = Some r"
    unfolding parse_unary.simps by (simp add: assms(2) expect_def)
  moreover have "n + 4 * length (show_expr 12 e) = Suc ?k" by (simp add: assms(2))
  ultimately show "parse_unary (n + 4 * length (show_expr 12 e)) (show_expr 12 e @ rest) = Some r"
    by (simp only:)
qed

lemma binary_op_token:
  "binary_token op = Some (t, q) \<Longrightarrow>
     binary_op t = Some (op, q) \<and> member_op t = None \<and> t \<noteq> T_Char CHR ''['' \<and> 1 \<le> q \<and> q \<le> 10"
  by (cases op) auto

lemma prefix_op_char: "unary_char op = Some c \<Longrightarrow> prefix_op (T_Char c) = Some (Unary op)"
  by (cases op) auto

text \<open>A binary expression without parentheses, in a context no tighter than its own
  precedence.\<close>

lemma as_expr_binary:
  assumes op: "binary_token op = Some (t, q0)" and "q \<le> q0"
    and l: "as_expr l q0" and r: "as_expr r (q0 + 1)"
  shows "as_expr (Binary op l r) q"
  unfolding as_expr_def
proof (intro allI impI)
  fix p rest n res
  assume p: "p \<le> q" and f: "follows q rest" and rest: "parse_rest n p (Binary op l r) rest = Some res"
  let ?L = "show_expr q0 l" and ?R = "show_expr (q0 + 1) r"
  let ?k = "n + 4 * length ?R + 3"
  note t = binary_op_token [OF op]
  have s: "show_expr q (Binary op l r) = ?L @ t # ?R"
    using op assms(2) by (simp add: parens_def)
  have fr: "follows (q0 + 1) rest" "rest = [] \<or> (\<forall>op b. binary_op (hd rest) = Some (op, b) \<longrightarrow> b < q0 + 1)"
    using f assms(2) unfolding follows_def by fastforce+
  have "parse_rest (Suc 0) (q0 + 1) r rest = Some (r, rest)"
    using fr(2) by (cases rest) (auto split: option.split)
  then have "parse_expr (Suc 0 + 4 * length ?R + 2) (q0 + 1) (?R @ rest) = Some (r, rest)"
    using r fr(1) unfolding as_expr_def by blast
  then have e: "parse_expr ?k (q0 + 1) (?R @ rest) = Some (r, rest)" by (rule parse_more(1)) simp
  have "parse_rest ?k p (Binary op l r) rest = Some res" using rest by (rule parse_more(2)) simp
  with e have step: "parse_rest (Suc ?k) p l (t # ?R @ rest) = Some res"
    using t p assms(2) unfolding parse_rest.simps by simp
  have "follows q0 (t # ?R @ rest)" using t by (simp add: follows_def plain_def)
  with l step p assms(2)
  have "parse_expr (Suc ?k + 4 * length ?L + 2) p (?L @ t # ?R @ rest) = Some res"
    unfolding as_expr_def by (meson order.trans)
  moreover have "Suc ?k + 4 * length ?L + 2 = n + 4 * length (show_expr q (Binary op l r)) + 2"
    unfolding s by simp
  ultimately show "parse_expr (n + 4 * length (show_expr q (Binary op l r)) + 2) p
      (show_expr q (Binary op l r) @ rest) = Some res"
    unfolding s by (simp only: append_assoc append_Cons)
qed

lemma as_operand_prefix:
  assumes "prefix_op t = Some make" and "show_expr 11 (make e) = t # show_expr 11 e" and "as_operand e"
  shows "as_operand (make e)"
  unfolding as_operand_def
proof (intro allI impI)
  fix rest assume "plain rest"
  let ?k = "4 * length (show_expr 11 e) + 4"
  have "parse_unary (4 * length (show_expr 11 e) + 1) (show_expr 11 e @ rest) = Some (e, rest)"
    using assms(3) \<open>plain rest\<close> unfolding as_operand_def by blast
  then have "parse_unary ?k (show_expr 11 e @ rest) = Some (e, rest)" by (rule parse_more(3)) simp
  then have "parse_unary (Suc ?k) (show_expr 11 (make e) @ rest) = Some (make e, rest)"
    unfolding parse_unary.simps by (simp add: assms(1,2))
  moreover have "4 * length (show_expr 11 (make e)) + 1 = Suc ?k" by (simp add: assms(2))
  ultimately show "parse_unary (4 * length (show_expr 11 (make e)) + 1) (show_expr 11 (make e) @ rest)
      = Some (make e, rest)"
    by (simp only:)
qed

lemma as_base_leaf:
  assumes "show_expr 12 e = [t]" and "leaf t = Some e" and "prefix_op t = None"
  shows "as_base e"
  unfolding as_base_def
proof (intro allI impI)
  fix rest n r
  assume "parse_postfix n e rest = Some r"
  then have "parse_postfix (n + 3) e rest = Some r" by (rule parse_more(4)) simp
  then have "parse_unary (Suc (n + 3)) (show_expr 12 e @ rest) = Some r"
    unfolding parse_unary.simps by (simp add: assms)
  then show "parse_unary (n + 4 * length (show_expr 12 e)) (show_expr 12 e @ rest) = Some r"
    using assms(1) by (simp add: numeral_eq_Suc del: parse_unary.simps)
qed

lemma as_base_member:
  assumes "as_base e" and "member_op t = Some make" and "length m < 128"
    and s: "show_expr 12 (make e m) = show_expr 12 e @ [t, T_Ident m]"
  shows "as_base (make e m)"
  unfolding as_base_def
proof (intro allI impI)
  fix rest n r
  assume "parse_postfix n (make e m) rest = Some r"
  then have "parse_postfix (n + 7) (make e m) rest = Some r" by (rule parse_more(4)) simp
  then have "parse_postfix (Suc (n + 7)) e (t # T_Ident m # rest) = Some r"
    unfolding parse_postfix.simps by (simp add: assms(2,3) snprintf_s_fits)
  with assms(1) have "parse_unary (Suc (n + 7) + 4 * length (show_expr 12 e))
      (show_expr 12 e @ t # T_Ident m # rest) = Some r"
    unfolding as_base_def by blast
  moreover have "Suc (n + 7) + 4 * length (show_expr 12 e) = n + 4 * length (show_expr 12 (make e m))"
    by (simp add: s)
  ultimately show "parse_unary (n + 4 * length (show_expr 12 (make e m))) (show_expr 12 (make e m) @ rest) = Some r"
    unfolding s by (simp only: append_assoc append_Cons append_Nil)
qed

lemma as_base_index:
  assumes "as_base e" and i: "as_expr i 1"
  shows "as_base (Index e i)"
  unfolding as_base_def
proof (intro allI impI)
  fix rest n r
  assume r: "parse_postfix n (Index e i) rest = Some r"
  let ?I = "show_expr 1 i" and ?rest = "T_Char CHR '']'' # rest"
  let ?k = "n + 4 * length ?I + 7"
  have "follows 1 ?rest" by (simp add: follows_def plain_def)
  moreover have "parse_rest 1 1 i ?rest = Some (i, ?rest)"
    using parse_rest_stop [of ?rest 0 1 i] by simp
  ultimately have "parse_expr (1 + 4 * length ?I + 2) 1 (?I @ ?rest) = Some (i, ?rest)"
    using i unfolding as_expr_def by blast
  then have "parse_expr ?k 1 (?I @ ?rest) = Some (i, ?rest)" by (rule parse_more(1)) simp
  moreover have "parse_postfix ?k (Index e i) rest = Some r" using r by (rule parse_more(4)) simp
  ultimately have "parse_postfix (Suc ?k) e (T_Char CHR ''['' # ?I @ ?rest) = Some r"
    unfolding parse_postfix.simps by (simp add: expect_def)
  with assms(1) have "parse_unary (Suc ?k + 4 * length (show_expr 12 e))
      (show_expr 12 e @ T_Char CHR ''['' # ?I @ ?rest) = Some r"
    unfolding as_base_def by blast
  moreover have "Suc ?k + 4 * length (show_expr 12 e) = n + 4 * length (show_expr 12 (Index e i))"
    by simp
  ultimately show "parse_unary (n + 4 * length (show_expr 12 (Index e i))) (show_expr 12 (Index e i) @ rest) = Some r"
    by (simp only: show_expr.simps append_assoc append_Cons append_Nil)
qed

text \<open>Every well-formed tree, in every context.\<close>

lemma contexts_of_base:
  assumes "as_base e" and "\<And>q. show_expr q e = show_expr 12 e"
  shows "(\<forall>q. as_expr e q) \<and> as_operand e \<and> as_base e"
proof -
  have "as_operand e" using assms(1) by (rule as_operand_of_base) (rule assms(2))
  moreover from this have "as_expr e q" for q
    by (rule as_expr_of_operand) (simp only: assms(2) [of q] assms(2) [of 11])
  ultimately show ?thesis using assms(1) by blast
qed

lemma contexts_of_operand:
  assumes "as_operand e" and "\<And>q. q \<le> 11 \<Longrightarrow> show_expr q e = show_expr 11 e"
    and "show_expr 12 e = parens True (show_expr 11 e)"
  shows "(\<forall>q \<le> 11. as_expr e q) \<and> as_operand e \<and> as_base e"
proof -
  have a: "as_expr e q" if "q \<le> 11" for q
    using assms(1) by (rule as_expr_of_operand) (rule assms(2) [OF that])
  have "as_base e"
  proof (rule as_base_parens)
    show "as_expr e 1" by (rule a) simp
    show "show_expr 12 e = T_Char CHR ''('' # show_expr 1 e @ [T_Char CHR '')'']"
      using assms(3) assms(2) [of 1] by (simp add: parens_def)
  qed
  with a assms(1) show ?thesis by blast
qed

lemma contexts: "wf_expr e \<Longrightarrow> (\<forall>q \<le> 11. as_expr e q) \<and> as_operand e \<and> as_base e"
proof (induction e)
  case (Num v f)
  have "as_base (Num v f)" by (rule as_base_leaf) auto
  then show ?case using contexts_of_base by simp
next
  case (Ident x)
  then have "as_base (Ident x)" by (intro as_base_leaf) (auto simp: snprintf_s_fits)
  then show ?case using contexts_of_base by simp
next
  case (Unary op e)
  then obtain c where c: "unary_char op = Some c" by auto
  from Unary have "as_operand (Unary op e)"
    by (intro as_operand_prefix [OF prefix_op_char [OF c]]) (auto simp: c parens_def)
  then show ?case by (rule contexts_of_operand) (auto simp: parens_def)
next
  case (Binary op l r)
  then obtain t q0 where op: "binary_token op = Some (t, q0)" by auto
  note q0 = binary_op_token [OF op]
  have a: "as_expr (Binary op l r) q" if "q \<le> q0" for q
    using op that by (rule as_expr_binary) (use Binary q0 in auto)
  have p: "show_expr q (Binary op l r) = T_Char CHR ''('' # show_expr 1 (Binary op l r) @ [T_Char CHR '')'']"
    if "q0 < q" for q
    using that q0 by (simp add: op parens_def)
  have base: "as_base (Binary op l r)"
    by (rule as_base_parens [OF a p]) (use q0 in auto)
  have operand: "as_operand (Binary op l r)"
    by (rule as_operand_of_base [OF base]) (use p [of 11] p [of 12] q0 in \<open>simp del: show_expr.simps\<close>)
  have "as_expr (Binary op l r) q" for q
  proof (cases "q \<le> q0")
    case False
    with p [of q] p [of 11] q0 show ?thesis
      by (intro as_expr_of_operand [OF operand]) (simp del: show_expr.simps)
  qed (rule a)
  with operand base show ?case by blast
next
  case (Member e m)
  then have "as_base (Member e m)"
    by (intro as_base_member [where t = "T_Char CHR ''.''" and make = Member and e = e and m = m]) auto
  then show ?case using contexts_of_base [of "Member e m"] by simp
next
  case (Arrow e m)
  then have "as_base (Arrow e m)" 
    by (intro as_base_member [where t = T_Arrow and make = Arrow and e = e and m = m]) auto
  then show ?case using contexts_of_base [of "Arrow e m"] by simp
next
  case (Index e i)
  then have "as_base (Index e i)" by (intro as_base_index) auto
  then show ?case using contexts_of_base [of "Index e i"] by simp
next
  case (Addr e)
  then have "as_operand (Addr e)"
    by (intro as_operand_prefix [where t = "T_Char CHR ''&''" and make = Addr and e = e]) (auto simp: parens_def)
  then show ?case by (rule contexts_of_operand) (auto simp: parens_def)
next
  case (Deref e)
  then have "as_operand (Deref e)"
    by (intro as_operand_prefix [where t = "T_Char CHR ''*''" and make = Deref and e = e]) (auto simp: parens_def)
  then show ?case by (rule contexts_of_operand) (auto simp: parens_def)
qed

text \<open>The parser inverts the printer: the tokens of any well-formed tree, printed with
  only the parentheses that precedence and associativity require, are parsed back to that
  tree (so the fuel is enough, every operator has its precedence and associates to the
  left, prefix operators bind tighter and postfix operators tightest).\<close>

theorem parse_show_expr:
  assumes "wf_expr e"
  shows "parse_tokens (show_expr 1 e) = Some e"
proof -
  have "parse_rest 1 1 e [] = Some (e, [])" by simp
  moreover have "follows 1 []" by (simp add: follows_def plain_def)
  moreover have "as_expr e 1" using contexts [OF assms] by simp
  ultimately have "parse_expr (1 + 4 * length (show_expr 1 e) + 2) 1 (show_expr 1 e @ []) = Some (e, [])"
    unfolding as_expr_def by blast
  then have "parse_expr (parse_fuel (show_expr 1 e)) 1 (show_expr 1 e @ []) = Some (e, [])"
    by (rule parse_more(1)) (simp add: parse_fuel_def)
  then show ?thesis by (simp add: parse_tokens_def)
qed

theorem parse_show_expr_witness:
  "parse_tokens (show_expr 1 (Binary Op_SUB (Binary Op_SUB (Ident ''a'') (Num 1 False))
     (Index (Deref (Ident ''p'')) (Num 2 False))))
   = Some (Binary Op_SUB (Binary Op_SUB (Ident ''a'') (Num 1 False))
     (Index (Deref (Ident ''p'')) (Num 2 False)))"
  by (rule parse_show_expr) simp

end
