(* ===== verification/Text.thy ===== *)
theory Text
  imports CString
begin

text \<open>
  The text helpers of \<^verbatim>\<open>src/debugger.c\<close> that do not touch the debuggee: trimming, number
  and quoted-value parsing, the splitting of an assignment, and the fields of a line of
  \<^verbatim>\<open>dwarfdump\<close> output. Helpers that report \<^verbatim>\<open>-1\<close> return \<open>None\<close>; an out parameter
  is the value under \<open>Some\<close>.
\<close>

section \<open>Trimming and numbers\<close>

definition trim_left :: "string \<Rightarrow> string" where
  "trim_left s = dropWhile isspace s"

definition trim_right :: "string \<Rightarrow> string" where
  "trim_right s = rev (dropWhile isspace (rev s))"

definition trim_space :: "string \<Rightarrow> string" where
  "trim_space text = trim_right (trim_left text)"

fun str_ieq :: "string \<Rightarrow> string \<Rightarrow> bool" where
  "str_ieq (a # as) (b # bs) = (if tolower a \<noteq> tolower b then False else str_ieq as bs)"
| "str_ieq as bs = (as = [] \<and> bs = [])"

definition parse_u64 :: "string \<Rightarrow> u64 option" where
  "parse_u64 text =
     (case strtoull 0 text of
        None \<Rightarrow> None
      | Some (value, end) \<Rightarrow> if end \<noteq> [] then None else Some value)"

section \<open>Assignments\<close>

text \<open>
  The loop of \<^verbatim>\<open>split_assignment\<close> looks for the first \<open>=\<close> that is not part of
  \<^verbatim>\<open><=\<close>, \<^verbatim>\<open>>=\<close>, \<^verbatim>\<open>!=\<close> or followed by another \<open>=\<close>. \<open>before\<close> is the text already
  passed, in reverse.
\<close>

fun find_assign :: "string \<Rightarrow> string \<Rightarrow> (string \<times> string) option" where
  "find_assign before [] = None"
| "find_assign before (c # rest) =
     (if c \<noteq> CHR ''='' then find_assign (c # before) rest
      else if before \<noteq> [] \<and> hd before \<in> set ''<>!'' then find_assign (c # before) rest
      else if rest \<noteq> [] \<and> hd rest = CHR ''='' then find_assign (c # before) rest
      else Some (rev before, rest))"

definition both_sides :: "string \<Rightarrow> string \<Rightarrow> (string \<times> string) option" where
  "both_sides l r =
     (let lhs = trim_space l; rhs = trim_space r
      in if lhs \<noteq> [] \<and> rhs \<noteq> [] then Some (lhs, rhs) else None)"

definition split_assignment :: "string \<Rightarrow> (string \<times> string) option" where
  "split_assignment args0 =
     (let args = trim_space args0
      in if args = [] then None
         else case find_assign [] args of
           Some (l, r) \<Rightarrow> both_sides l r
         | None \<Rightarrow>
             (let p = dropWhile (\<lambda>c. \<not> isspace c) args
              in if p = [] then None
                 else both_sides (takeWhile (\<lambda>c. \<not> isspace c) args) (tl p)))"

section \<open>Fields of dwarfdump lines\<close>

definition quote :: char where "quote = CHR 0x22"

definition parse_quoted_value :: "string \<Rightarrow> nat \<Rightarrow> string option" where
  "parse_quoted_value line out_len =
     (case strchr line quote of
        None \<Rightarrow> None
      | Some start \<Rightarrow>
          (case strchr (tl start) quote of
             None \<Rightarrow> None
           | Some end \<Rightarrow>
               (let len = length start - length end - 1;
                    len = (if len \<ge> out_len then out_len - 1 else len)
                in Some (take len (tl start)))))"

definition parse_hex_value :: "string \<Rightarrow> addr option" where
  "parse_hex_value line =
     (case strstr line ''0x'' of
        None \<Rightarrow> None
      | Some hex \<Rightarrow> map_option fst (strtoull 16 hex))"

datatype var_base = Base_FB | Base_SP | Base_X29

definition parse_fbreg_offset :: "string \<Rightarrow> (int \<times> var_base) option" where
  "parse_fbreg_offset line =
     (let start =
        (case strstr line ''DW_OP_fbreg'' of
           Some p \<Rightarrow> Some (Base_FB, drop (length ''DW_OP_fbreg'') p)
         | None \<Rightarrow>
             (case strstr line ''DW_OP_breg'' of
                None \<Rightarrow> None
              | Some p \<Rightarrow>
                  (case strtoll 10 (drop (length ''DW_OP_breg'') p) of
                     None \<Rightarrow> None
                   | Some (reg, end) \<Rightarrow>
                       if reg = 31 then Some (Base_SP, end)
                       else if reg = 29 then Some (Base_X29, end)
                       else None)))
      in case start of
           None \<Rightarrow> None
         | Some (base, p) \<Rightarrow>
             (case strpbrk p ''+-0123456789'' of
                None \<Rightarrow> None
              | Some p \<Rightarrow>
                  (case strtoll 10 p of
                     None \<Rightarrow> None
                   | Some (value, _) \<Rightarrow> Some (value, base))))"

definition dwarf_line_depth :: "string \<Rightarrow> nat" where
  "dwarf_line_depth line =
     (case strchr line CHR '':'' of
        None \<Rightarrow> 0
      | Some colon \<Rightarrow> length (takeWhile (\<lambda>c. c = CHR '' '') (tl colon)))"

definition dwarf_starts_die :: "string \<Rightarrow> bool" where
  "dwarf_starts_die line \<longleftrightarrow> contains line ''DW_TAG_'' \<or> contains line ''NULL''"

definition parse_member_offset :: "string \<Rightarrow> u64 option" where
  "parse_member_offset line =
     (case strstr line ''DW_AT_data_member_location'' of
        None \<Rightarrow> None
      | Some loc \<Rightarrow>
          (case strchr loc CHR ''('' of
             None \<Rightarrow> None
           | Some open \<Rightarrow> map_option fst (strtoull 16 (tl open))))"

definition parse_addr_location :: "string \<Rightarrow> addr option" where
  "parse_addr_location line =
     (case strstr line ''DW_OP_addr'' of
        None \<Rightarrow> None
      | Some op \<Rightarrow>
          map_option fst
            (strtoull 0 (dropWhile (\<lambda>c. c = CHR '' '') (drop (length ''DW_OP_addr'') op))))"

definition pc_in_range :: "addr \<Rightarrow> addr \<Rightarrow> addr \<Rightarrow> bool" where
  "pc_in_range pc low high =
     (if low = 0 \<or> high = 0 then False
      else let high = (if high < low then high + low else high)
           in low \<le> pc \<and> pc < high)"

section \<open>Lemmas on trimming\<close>

lemma trim_left_head: "trim_left s = c # cs \<Longrightarrow> \<not> isspace c"
  by (simp add: trim_left_def dropWhile_eq_Cons_conv)

lemma trim_right_last: "trim_right s \<noteq> [] \<Longrightarrow> \<not> isspace (last (trim_right s))"
  unfolding trim_right_def by (simp add: last_rev hd_dropWhile)

lemma trim_right_id: "s = [] \<or> \<not> isspace (last s) \<Longrightarrow> trim_right s = s"
proof -
  assume "s = [] \<or> \<not> isspace (last s)"
  then have "dropWhile isspace (rev s) = rev s"
    by (cases "rev s") (auto simp: hd_rev [symmetric])
  then show ?thesis by (simp add: trim_right_def)
qed

lemma trim_left_id: "s = [] \<or> \<not> isspace (hd s) \<Longrightarrow> trim_left s = s"
  by (cases s) (auto simp: trim_left_def)

lemma trim_right_split: "\<exists>ws. s = trim_right s @ ws \<and> (\<forall>c \<in> set ws. isspace c)"
proof -
  have "s = rev (takeWhile isspace (rev s) @ dropWhile isspace (rev s))" by simp
  then have "s = trim_right s @ rev (takeWhile isspace (rev s))"
    by (simp add: trim_right_def del: takeWhile_dropWhile_id)
  moreover have "\<forall>c \<in> set (rev (takeWhile isspace (rev s))). isspace c"
    by (auto dest: set_takeWhileD)
  ultimately show ?thesis by blast
qed

lemma trim_right_hd: "trim_right s \<noteq> [] \<Longrightarrow> hd (trim_right s) = hd s"
  using trim_right_split [of s] by (metis hd_append2)

lemma trim_space_ends:
  "trim_space s = [] \<or> (\<not> isspace (hd (trim_space s)) \<and> \<not> isspace (last (trim_space s)))"
proof (cases "trim_space s = []")
  case False
  then have r: "trim_right (trim_left s) \<noteq> []" by (simp add: trim_space_def)
  then have l: "trim_left s \<noteq> []" by (auto simp: trim_right_def)
  then have "\<not> isspace (hd (trim_left s))"
    by (metis list.collapse trim_left_head)
  with r show ?thesis
    by (simp add: trim_space_def trim_right_hd trim_right_last)
qed simp

lemma trim_space_id:
  "s = [] \<or> (\<not> isspace (hd s) \<and> \<not> isspace (last s)) \<Longrightarrow> trim_space s = s"
  by (auto simp: trim_space_def trim_left_id trim_right_id)

lemma trim_space_idem: "trim_space (trim_space s) = trim_space s"
  by (rule trim_space_id) (rule trim_space_ends)

lemma set_trim_space: "set (trim_space s) \<subseteq> set s"
  by (auto simp: trim_space_def trim_right_def trim_left_def dest!: set_dropWhileD)

section \<open>Lemmas on numbers\<close>

text \<open>The definitions that evaluate text helpers on literals.\<close>

lemmas text_eval =
  scan_number_def skip_sign_def hex_prefix_def starts_with_def isspace_def ccode_def isxdigit_def
  is_digit_of_def digit_val_def isdigit_def islower_def isupper_def isalpha_def isalnum_def
  isprint_def digits_value_def trim_space_def trim_left_def trim_right_def

lemma ccode_char_of: "n < 256 \<Longrightarrow> ccode (char_of n) = n"
  by (simp add: ccode_def of_char_of)

lemma digit_val_digit_char:
  assumes "d < b" and "b \<le> 16"
  shows "digit_val (digit_char d) = Some d"
  using assms
  by (auto simp: digit_char_def digit_val_def isdigit_def islower_def isupper_def ccode_char_of)

lemma is_digit_digit_char: "d < b \<Longrightarrow> b \<le> 16 \<Longrightarrow> is_digit_of b (digit_char d)"
  by (simp add: is_digit_of_def digit_val_digit_char)

lemma digits_of_digits:
  "2 \<le> b \<Longrightarrow> b \<le> 16 \<Longrightarrow> \<forall>c \<in> set (digits_of b n). is_digit_of b c"
proof (induction b n rule: digits_of.induct)
  case (1 b n)
  show ?case
  proof (cases "n < b")
    case True
    with 1 show ?thesis by (subst digits_of.simps) (simp add: is_digit_digit_char)
  next
    case False
    with 1 have "\<forall>c \<in> set (digits_of b (n div b)). is_digit_of b c" by simp
    with False 1 show ?thesis
      by (subst digits_of.simps) (auto simp: is_digit_digit_char)
  qed
qed

lemma digits_value_digits_of: "2 \<le> b \<Longrightarrow> b \<le> 16 \<Longrightarrow> digits_value b (digits_of b n) = n"
proof (induction b n rule: digits_of.induct)
  case (1 b n)
  show ?case
  proof (cases "n < b")
    case True
    with 1 show ?thesis
      by (subst digits_of.simps) (simp add: digits_value_def digit_val_digit_char)
  next
    case False
    with 1 have "digits_value b (digits_of b (n div b)) = n div b" by simp
    with False 1 show ?thesis
      by (subst digits_of.simps) (auto simp: digits_value_def digit_val_digit_char [of _ b])
  qed
qed

lemma digits_of_nonempty [simp]: "digits_of b n \<noteq> []"
  by (subst digits_of.simps) simp

lemma hd_digits_of_nonzero:
  "2 \<le> b \<Longrightarrow> b \<le> 16 \<Longrightarrow> 0 < n \<Longrightarrow> hd (digits_of b n) \<noteq> CHR ''0''"
proof (induction b n rule: digits_of.induct)
  case (1 b n)
  show ?case
  proof (cases "n < b")
    case True
    have "digit_char n \<noteq> CHR ''0''"
      using digit_val_digit_char [of n b] True 1 by (auto simp: digit_val_def isdigit_def ccode_def)
    with True show ?thesis by (subst digits_of.simps) simp
  next
    case False
    with 1 have "0 < n div b" by (simp add: div_greater_zero_iff)
    with False 1 have "hd (digits_of b (n div b)) \<noteq> CHR ''0''" by simp
    with False 1 show ?thesis by (subst digits_of.simps) simp
  qed
qed

lemma is_digit_not_space: "is_digit_of b c \<Longrightarrow> \<not> isspace c \<and> c \<noteq> CHR ''-'' \<and> c \<noteq> CHR ''+''"
  by (auto simp: is_digit_of_def digit_val_def isdigit_def islower_def isupper_def isspace_def
      ccode_def split: if_splits)

lemma run_of_digits:
  "\<forall>c \<in> set ds. P c \<Longrightarrow> takeWhile P ds = ds"
  "\<forall>c \<in> set ds. P c \<Longrightarrow> dropWhile P ds = []"
  by auto

lemma scan_number_digits:
  assumes ds: "ds \<noteq> []" "\<forall>c \<in> set ds. is_digit_of b c" and b: "b \<noteq> 0" "b \<noteq> 16"
  shows "scan_number b ds = Some (False, digits_value b ds, [])"
proof -
  from ds obtain c cs where c: "ds = c # cs" by (cases ds) auto
  with ds have "\<not> isspace c \<and> c \<noteq> CHR ''-'' \<and> c \<noteq> CHR ''+''" by (auto dest: is_digit_not_space)
  with c have "skip_sign (dropWhile isspace ds) = (False, ds)" by (simp add: skip_sign_def)
  then show ?thesis using ds(1) b
    by (simp add: scan_number_def Let_def run_of_digits [OF ds(2)])
qed

lemma scan_number_auto_decimal:
  assumes ds: "ds \<noteq> []" "\<forall>c \<in> set ds. is_digit_of 10 c" and nz: "hd ds \<noteq> CHR ''0''"
  shows "scan_number 0 ds = Some (False, digits_value 10 ds, [])"
proof -
  from ds obtain c cs where c: "ds = c # cs" by (cases ds) auto
  with ds have "\<not> isspace c \<and> c \<noteq> CHR ''-'' \<and> c \<noteq> CHR ''+''" by (auto dest: is_digit_not_space)
  with c have "skip_sign (dropWhile isspace ds) = (False, ds)" by (simp add: skip_sign_def)
  moreover have "\<not> hex_prefix ds" "\<not> starts_with ds ''0''"
    using nz c by (auto simp: hex_prefix_def starts_with_def split: list.splits)
  ultimately show ?thesis using ds(1)
    by (simp add: scan_number_def Let_def run_of_digits [OF ds(2)])
qed

lemma scan_number_hex:
  assumes ds: "ds \<noteq> []" "\<forall>c \<in> set ds. is_digit_of 16 c" and b: "b = 0 \<or> b = 16"
  shows "scan_number b (''0x'' @ ds) = Some (False, digits_value 16 ds, [])"
proof -
  from ds obtain c cs where c: "ds = c # cs" by (cases ds) auto
  have sp: "\<not> isspace CHR ''0''" by (simp add: isspace_def ccode_def)
  have "hex_prefix (''0x'' @ ds)" using c ds by (simp add: hex_prefix_def isxdigit_def)
  moreover have "skip_sign (dropWhile isspace (''0x'' @ ds)) = (False, ''0x'' @ ds)"
    using sp by (simp add: skip_sign_def)
  moreover have drop2: "drop 2 (''0x'' @ ds) = ds" by simp
  ultimately show ?thesis using ds(1) b
    by (simp add: scan_number_def Let_def run_of_digits [OF ds(2)] drop2 append.simps(1) del: append.simps(2))
qed

text \<open>An address or count that the debugger prints is read back by its own number
  parser as the same value, in decimal (\<^verbatim>\<open>%llu\<close>) and in hexadecimal (\<^verbatim>\<open>0x%llx\<close>).\<close>

theorem parse_u64_roundtrip:
  "parse_u64 (fmt_u (unat w)) = Some w \<and> parse_u64 (''0x'' @ fmt_x w) = Some w"
proof
  have lt: "unat w \<le> 2 ^ 64 - 1" using unsigned_less [where ?'a = nat, of w] by simp
  show "parse_u64 (fmt_u (unat w)) = Some w"
  proof (cases "w = 0")
    case True
    have "digits_of 10 0 = ''0''" by (subst digits_of.simps) simp
    moreover have "parse_u64 ''0'' = Some 0"
      by (simp add: parse_u64_def strtoull_def text_eval)
    ultimately show ?thesis using True by (simp add: fmt_u_def)
  next
    case False
    then have "0 < unat w" by (simp add: unat_gt_0)
    then have "scan_number 0 (digits_of 10 (unat w)) = Some (False, unat w, [])"
      by (simp add: scan_number_auto_decimal digits_of_digits hd_digits_of_nonzero
          digits_value_digits_of)
    with lt show ?thesis
      by (simp add: parse_u64_def strtoull_def fmt_u_def)
  qed
  have "scan_number 0 (''0x'' @ fmt_x w) = Some (False, unat w, [])"
    unfolding fmt_x_def
    by (subst scan_number_hex) (simp_all add: digits_of_digits digits_value_digits_of)
  with lt show "parse_u64 (''0x'' @ fmt_x w) = Some w"
    by (simp add: parse_u64_def strtoull_def)
qed

end
