(* ===== verification/ExprText.thy ===== *)
theory ExprText
  imports ExprPrint Text
begin

text \<open>
  Expressions as text: the tokens of a printed tree written out, with a space after each,
  are what the scanner reads, so that the text of a tree is parsed as the tree.
\<close>

section \<open>Tokens as text\<close>

fun token_text :: "token \<Rightarrow> string" where
  "token_text (T_Num v f) = ''0x'' @ fmt_x v"
| "token_text (T_Ident x) = x"
| "token_text T_Arrow = ''->''"
| "token_text T_AndAnd = ''&&''"
| "token_text T_OrOr = ''||''"
| "token_text T_Eq = ''==''"
| "token_text T_Ne = ''!=''"
| "token_text T_Le = ''<=''"
| "token_text T_Ge = ''>=''"
| "token_text T_Shl = ''<<''"
| "token_text T_Shr = ''>>''"
| "token_text (T_Char c) = [c]"

definition tokens_text :: "token list \<Rightarrow> string" where
  "tokens_text ts = concat (map (\<lambda>t. token_text t @ '' '') ts)"

definition expr_text :: "cdbg_expr \<Rightarrow> string" where
  "expr_text e = tokens_text (show_expr 1 e)"

text \<open>The tokens that a text can hold: integers, identifiers that fit their buffer, operator
  characters.\<close>

definition is_ident :: "string \<Rightarrow> bool" where
  "is_ident x \<longleftrightarrow> x \<noteq> [] \<and> is_idstart (hd x) \<and> list_all is_idchar x \<and> length x < 128"

definition operators1 :: string where "operators1 = ''+-*/%&|^~!<>=().[],?:;''"

fun writable_token :: "token \<Rightarrow> bool" where
  "writable_token (T_Num v f) = (\<not> f)"
| "writable_token (T_Ident x) = is_ident x"
| "writable_token (T_Char c) = (c \<in> set operators1)"
| "writable_token _ = True"

section \<open>The scanner reads them back\<close>

lemma space_text: "isspace c \<Longrightarrow> \<not> isxdigit c" "\<not> is_idchar CHR '' ''" "\<not> isxdigit CHR '' ''"
  by (auto simp: is_idchar_def text_eval split: if_splits)

lemma idstart_text:
  "is_idstart c \<Longrightarrow> c \<notin> set '' .0123456789'' \<and> c \<noteq> CHR 0x09 \<and> (of_char c :: nat) < 128"
  by (auto simp: is_idstart_def isalpha_def isupper_def islower_def ccode_def)

lemma hex_digits: "\<forall>c \<in> set (fmt_x w). isxdigit c" "fmt_x w \<noteq> []"
  using digits_of_digits [of 16 "unat w"] by (simp_all add: fmt_x_def isxdigit_def)

lemma strtoull_hex: "strtoull 0 (''0x'' @ fmt_x w) = Some (w, [])"
proof -
  have "unat w \<le> 2 ^ 64 - 1" using unsigned_less [where ?'a = nat, of w] by simp
  moreover have "scan_number 0 (''0x'' @ fmt_x w) = Some (False, unat w, [])"
    unfolding fmt_x_def
    by (subst scan_number_hex) (simp_all add: digits_of_digits digits_value_digits_of)
  ultimately show ?thesis by (simp add: strtoull_def)
qed

lemma lex_one_number:
  "lex_one strtod (''0x'' @ fmt_x v @ '' '' @ rest) = (Some (T_Num v False), length (fmt_x v) + 2)"
proof -
  have n: "takeWhile isxdigit (fmt_x v @ '' '' @ rest) = fmt_x v"
    using hex_digits [of v] space_text(3) by (simp add: takeWhile_append)
  have h: "hex_len (''0x'' @ fmt_x v @ '' '' @ rest) = length (fmt_x v) + 2"
    using n hex_digits(2) [of v] by (simp add: hex_len_def starts_with_def Let_def)
  have "set_number_token strtod (''0x'' @ fmt_x v) = T_Num v False"
    unfolding set_number_token_def strtoull_hex by simp
  moreover have "take (length (fmt_x v) + 2) (''0x'' @ fmt_x v @ '' '' @ rest) = ''0x'' @ fmt_x v"
    by simp
  ultimately show ?thesis
    unfolding lex_one_def h by (simp add: Let_def)
qed

lemma no_number:
  assumes "c \<notin> set ''0123456789.''"
  shows "hex_len (c # s) = 0" "float1_len (c # s) = 0" "float2_len (c # s) = 0"
    "float3_len (c # s) = 0" "digits_len (c # s) = 0"
  using assms
  by (auto simp: hex_len_def float1_len_def float2_len_def float3_len_def digits_len_def starts_with_def Let_def)

lemma no_number_dot:
  "hex_len (''. '' @ s) = 0" "float1_len (''. '' @ s) = 0" "float2_len (''. '' @ s) = 0"
  "float3_len (''. '' @ s) = 0" "digits_len (''. '' @ s) = 0"
  by (auto simp: hex_len_def float1_len_def float2_len_def float3_len_def digits_len_def starts_with_def Let_def)

lemma lex_one_identifier:
  assumes "is_ident x"
  shows "lex_one strtod (x @ '' '' @ rest) = (Some (T_Ident x), length x)"
proof -
  obtain c cs where x: "x = c # cs" using assms by (cases x) (auto simp: is_ident_def)
  have c: "is_idstart c" "\<forall>d \<in> set x. is_idchar d" "length x < 128"
    using assms by (auto simp: is_ident_def x list_all_iff)
  have "takeWhile is_idchar (x @ '' '' @ rest) = x"
    using c(2) space_text(2) by (simp add: takeWhile_append)
  with c idstart_text [OF c(1)] show ?thesis
    by (simp add: x lex_one_def Let_def no_number snprintf_s_fits)
qed

lemma lex_one_operator:
  assumes "c \<in> set operators1"
  shows "lex_one strtod ([c] @ '' '' @ rest) = (Some (T_Char c), 1)"
proof (cases "c = CHR ''.''")
  case True
  then show ?thesis
    using no_number_dot [of rest]
    by (simp add: lex_one_def Let_def is_idstart_def text_eval operators2_def)
next
  case False
  with assms have "c \<notin> set ''0123456789.''" by (auto simp: operators1_def)
  moreover have "\<not> is_idstart c \<and> c \<notin> {CHR '' '', CHR 0x09, CHR 0x0A} \<and> map_of operators2 [c, CHR '' ''] = None"
    using assms by (auto simp: operators1_def is_idstart_def text_eval operators2_def)
  ultimately show ?thesis
    by (simp add: lex_one_def Let_def no_number)
qed

lemma lex_one_token:
  assumes "writable_token t"
  shows "lex_one strtod (token_text t @ '' '' @ rest) = (Some t, length (token_text t))"
proof (cases t)
  case (T_Num v f)
  with assms lex_one_number [of strtod v rest] show ?thesis by simp
next
  case (T_Ident x)
  with assms lex_one_identifier [of x strtod rest] show ?thesis by simp
next
  case (T_Char c)
  with assms lex_one_operator [of c strtod rest] show ?thesis by simp
qed (simp_all add: lex_one_def Let_def no_number operators2_def is_idstart_def text_eval)

lemma token_text_start:
  assumes "writable_token t"
  obtains c s where "token_text t = c # s" "(of_char c :: nat) < 128" "c \<notin> {CHR '' '', CHR 0x09}"
proof (cases t)
  case (T_Ident x)
  with assms that idstart_text [of "hd x"] show ?thesis by (cases x) (auto simp: is_ident_def)
next
  case (T_Char c)
  with assms that show ?thesis by (auto simp: operators1_def)
qed (use that in auto)

lemma lex_space:
  assumes "\<forall>t \<in> set ts. writable_token t"
  shows "lex strtod (CHR '' '' # tokens_text ts) = lex strtod (tokens_text ts)"
proof -
  have "takeWhile (\<lambda>c. c = CHR '' '' \<or> c = CHR 0x09) (tokens_text ts) = []"
  proof (cases ts)
    case (Cons t us)
    with assms obtain c s where "token_text t = c # s" "c \<notin> {CHR '' '', CHR 0x09}"
      by (metis list.set_intros(1) token_text_start)
    with Cons show ?thesis by (simp add: tokens_text_def)
  qed (simp add: tokens_text_def)
  then show ?thesis by (subst lex.simps) (simp add: lex_one_def)
qed

lemma lex_tokens_text: "\<forall>t \<in> set ts. writable_token t \<Longrightarrow> lex strtod (tokens_text ts) = ts"
proof (induction ts)
  case Nil
  then show ?case by (subst lex.simps) (simp add: tokens_text_def)
next
  case (Cons t ts)
  from Cons.prems obtain c s where c: "token_text t = c # s" "(of_char c :: nat) < 128"
    by (metis list.set_intros(1) token_text_start)
  have split: "tokens_text (t # ts) = token_text t @ '' '' @ tokens_text ts"
    by (simp add: tokens_text_def)
  have "lex_one strtod (tokens_text (t # ts)) = (Some t, length (token_text t))"
    unfolding split using lex_one_token Cons.prems by simp
  then have "lex strtod (tokens_text (t # ts)) = t # lex strtod (drop (length (token_text t)) (tokens_text (t # ts)))"
    using c by (subst lex.simps) (simp add: split)
  also have "\<dots> = t # lex strtod (CHR '' '' # tokens_text ts)" by (simp add: split)
  finally show ?case using lex_space [of ts strtod] Cons by simp
qed

section \<open>Printed trees\<close>

text \<open>The trees that have a text: no floating-point literal, names that are identifiers.\<close>

fun written :: "cdbg_expr \<Rightarrow> bool" where
  "written (Num v f) = (\<not> f)"
| "written (Ident x) = is_ident x"
| "written (Unary op e) = (unary_char op \<noteq> None \<and> written e)"
| "written (Addr e) = written e"
| "written (Deref e) = written e"
| "written (Binary op l r) = (binary_token op \<noteq> None \<and> written l \<and> written r)"
| "written (Member e m) = (is_ident m \<and> written e)"
| "written (Arrow e m) = (is_ident m \<and> written e)"
| "written (Index e i) = (written e \<and> written i)"

lemma written_wf: "written e \<Longrightarrow> wf_expr e"
  by (induction e) (auto simp: is_ident_def)

lemma writable_operators:
  "binary_token op = Some (t, q) \<Longrightarrow> writable_token t"
  "unary_char op = Some c \<Longrightarrow> c \<in> set operators1"
  by (cases op; force simp: operators1_def)+

lemma parens_tokens: "set (parens b ts) \<subseteq> {T_Char CHR ''('', T_Char CHR '')''} \<union> set ts"
  by (auto simp: parens_def)

lemma writable_parens:
  "(\<forall>t \<in> set (parens b ts). writable_token t) \<longleftrightarrow> (\<forall>t \<in> set ts. writable_token t)"
  by (auto simp: parens_def operators1_def)

lemma writable_show: "written e \<Longrightarrow> \<forall>t \<in> set (show_expr p e). writable_token t"
proof (induction e arbitrary: p)
  case (Binary op l r)
  then obtain t q where t: "binary_token op = Some (t, q)" by auto
  with Binary have "\<forall>t \<in> set (show_expr q l @ t # show_expr (q + 1) r). writable_token t"
    using writable_operators(1) [OF t] by auto
  with t show ?case by (simp only: show_expr.simps writable_parens Let_def option.sel split)
next
  case (Unary op e)
  then obtain c where c: "unary_char op = Some c" by auto
  with Unary have "\<forall>t \<in> set (T_Char c # show_expr 11 e). writable_token t"
    using writable_operators(2) [OF c] by auto
  with c show ?case by (simp only: show_expr.simps writable_parens option.sel)
qed (auto simp: operators1_def writable_parens)

lemma parse_text:
  assumes "written e"
  shows "cdbg_expr_parse strtod (expr_text e) = Some e"
  using parse_show_expr [OF written_wf [OF assms]] lex_tokens_text [OF writable_show [OF assms]]
  by (simp add: cdbg_expr_parse_def expr_text_def)

text \<open>C16. Printing and scanning are inverse up to the tree: the text of an expression, its
  operators and names written with only the parentheses that precedence and associativity
  require, is scanned and parsed back to that expression.\<close>

theorem parse_expr_text:
  assumes "written e"
  shows "cdbg_expr_parse strtod (expr_text e) = Some e"
  using assms by (rule parse_text)

theorem parse_expr_text_witness:
  "cdbg_expr_parse (\<lambda>_. 0) (expr_text (Binary Op_SHL (Index (Deref (Ident ''argv'')) (Num 0x10 False))
     (Unary Op_BNOT (Binary Op_ADD (Ident ''x'') (Num 1 False)))))
   = Some (Binary Op_SHL (Index (Deref (Ident ''argv'')) (Num 0x10 False))
     (Unary Op_BNOT (Binary Op_ADD (Ident ''x'') (Num 1 False))))"
  by (rule parse_expr_text)
    (simp add: is_ident_def is_idstart_def is_idchar_def text_eval)

end
