(* ===== verification/Cursor.thy ===== *)
theory Cursor
  imports CString
begin

text \<open>
  The byte cursor of \<^verbatim>\<open>src/lineno.c\<close>: a position and an end in a mapped file, the readers of
  fixed-width little-endian integers, of LEB128 numbers and of NUL-terminated strings. A
  file is the list of its bytes and a pointer into it the index; the readers return the
  cursor they leave behind.
\<close>

section \<open>Operations\<close>

record parse_cursor =
  c_pos :: nat
  c_end :: nat

definition cursor_ok :: "parse_cursor \<Rightarrow> nat \<Rightarrow> bool" where
  "cursor_ok c n \<longleftrightarrow> c_end c - c_pos c \<ge> n"

definition advance :: "nat \<Rightarrow> parse_cursor \<Rightarrow> parse_cursor" where
  "advance n c = c\<lparr>c_pos := c_pos c + n\<rparr>"

definition read_u8 :: "u8 list \<Rightarrow> parse_cursor \<Rightarrow> u8 \<times> parse_cursor" where
  "read_u8 d c = (if \<not> cursor_ok c 1 then (0, c) else (d ! c_pos c, advance 1 c))"

definition read_u16 :: "u8 list \<Rightarrow> parse_cursor \<Rightarrow> u16 \<times> parse_cursor" where
  "read_u16 d c =
     (if \<not> cursor_ok c 2 then (0, c)
      else (ucast (d ! c_pos c) OR push_bit 8 (ucast (d ! (c_pos c + 1))), advance 2 c))"

definition read_u32 :: "u8 list \<Rightarrow> parse_cursor \<Rightarrow> u32 \<times> parse_cursor" where
  "read_u32 d c =
     (if \<not> cursor_ok c 4 then (0, c)
      else (ucast (d ! c_pos c) OR push_bit 8 (ucast (d ! (c_pos c + 1)))
            OR push_bit 16 (ucast (d ! (c_pos c + 2))) OR push_bit 24 (ucast (d ! (c_pos c + 3))),
            advance 4 c))"

fun read_u64_loop :: "u8 list \<Rightarrow> nat \<Rightarrow> nat \<Rightarrow> u64 \<Rightarrow> parse_cursor \<Rightarrow> u64 \<times> parse_cursor" where
  "read_u64_loop d 0 i value c = (value, c)"
| "read_u64_loop d (Suc n) i value c =
     (let (b, c) = read_u8 d c
      in read_u64_loop d n (i + 1) (value OR push_bit (8 * i) (ucast b)) c)"

definition read_u64 :: "u8 list \<Rightarrow> parse_cursor \<Rightarrow> u64 \<times> parse_cursor" where
  "read_u64 d c = read_u64_loop d 8 0 0 c"

text \<open>At most ten bytes; the tenth has shift 63.\<close>

fun read_uleb_loop :: "u8 list \<Rightarrow> nat \<Rightarrow> nat \<Rightarrow> u64 \<Rightarrow> parse_cursor \<Rightarrow> u64 \<times> parse_cursor" where
  "read_uleb_loop d 0 shift value c = (value, c)"
| "read_uleb_loop d (Suc n) shift value c =
     (let (byte, c) = read_u8 d c;
          value = value OR push_bit shift (ucast (byte AND 0x7f))
      in if byte AND 0x80 = 0 then (value, c) else read_uleb_loop d n (shift + 7) value c)"

definition read_uleb128 :: "u8 list \<Rightarrow> parse_cursor \<Rightarrow> u64 \<times> parse_cursor" where
  "read_uleb128 d c = read_uleb_loop d 10 0 0 c"

fun read_sleb_loop ::
    "u8 list \<Rightarrow> nat \<Rightarrow> nat \<Rightarrow> u64 \<Rightarrow> u8 \<Rightarrow> parse_cursor \<Rightarrow> (u64 \<times> nat \<times> u8) \<times> parse_cursor" where
  "read_sleb_loop d 0 shift value byte c = ((value, shift, byte), c)"
| "read_sleb_loop d (Suc n) shift value byte c =
     (let (byte, c) = read_u8 d c;
          value = value OR push_bit shift (ucast (byte AND 0x7f));
          shift = shift + 7
      in if byte AND 0x80 = 0 then ((value, shift, byte), c)
         else read_sleb_loop d n shift value byte c)"

text \<open>The result is \<^verbatim>\<open>int64_t\<close>: the word, to be read with \<open>sint\<close>.\<close>

definition read_sleb128 :: "u8 list \<Rightarrow> parse_cursor \<Rightarrow> u64 \<times> parse_cursor" where
  "read_sleb128 d c =
     (let ((value, shift, byte), c) = read_sleb_loop d 10 0 0 0 c
      in (if byte AND 0x40 \<noteq> 0 \<and> shift < 64 then value OR push_bit shift (- 1) else value, c))"

text \<open>The C string that starts at an index of the file.\<close>

definition char_of_byte :: "u8 \<Rightarrow> char" where
  "char_of_byte b = char_of (unat b)"

definition cstr_at :: "u8 list \<Rightarrow> nat \<Rightarrow> string" where
  "cstr_at d i = map char_of_byte (takeWhile (\<lambda>b. b \<noteq> 0) (drop i d))"

function cstr_end :: "u8 list \<Rightarrow> nat \<Rightarrow> nat \<Rightarrow> nat" where
  "cstr_end d i e = (if i < e \<and> d ! i \<noteq> 0 then cstr_end d (i + 1) e else i)"
  by pat_completeness auto
termination by (relation "measure (\<lambda>(d, i, e). e - i)") auto

declare cstr_end.simps [simp del]

definition read_cstr :: "u8 list \<Rightarrow> parse_cursor \<Rightarrow> string \<times> parse_cursor" where
  "read_cstr d c =
     (let i = cstr_end d (c_pos c) (c_end c)
      in (cstr_at d (c_pos c), c\<lparr>c_pos := if i \<ge> c_end c then i else i + 1\<rparr>))"

section \<open>A reader never moves backwards, past the end, or the end itself\<close>

definition steps :: "parse_cursor \<Rightarrow> parse_cursor \<Rightarrow> bool" where
  "steps c c' \<longleftrightarrow> c_end c' = c_end c \<and> c_pos c \<le> c_pos c'
     \<and> (c_pos c \<le> c_end c \<longrightarrow> c_pos c' \<le> c_end c)"

lemma steps_refl [simp]: "steps c c" by (simp add: steps_def)

lemma steps_trans: "steps c c' \<Longrightarrow> steps c' c'' \<Longrightarrow> steps c c''" by (auto simp: steps_def)

lemma steps_advance: "cursor_ok c n \<Longrightarrow> steps c (advance n c)"
  by (cases "n = 0") (auto simp: steps_def cursor_ok_def advance_def)

lemma steps_read_u8 [simp]: "steps c (snd (read_u8 d c))"
  by (simp add: read_u8_def steps_advance)

lemma steps_read_u16 [simp]: "steps c (snd (read_u16 d c))"
  by (simp add: read_u16_def steps_advance)

lemma steps_read_u32 [simp]: "steps c (snd (read_u32 d c))"
  by (simp add: read_u32_def steps_advance)

lemma steps_read_u64_loop: "steps c (snd (read_u64_loop d n i v c))"
  by (induction n arbitrary: i v c)
    (auto simp: split_beta Let_def intro: steps_trans [OF steps_read_u8])

lemma steps_read_u64 [simp]: "steps c (snd (read_u64 d c))"
  by (simp add: read_u64_def steps_read_u64_loop)

lemma steps_read_uleb_loop: "steps c (snd (read_uleb_loop d n i v c))"
  by (induction n arbitrary: i v c)
    (auto simp: split_beta Let_def intro: steps_trans [OF steps_read_u8])

lemma steps_read_uleb128 [simp]: "steps c (snd (read_uleb128 d c))"
  by (simp add: read_uleb128_def steps_read_uleb_loop)

lemma steps_read_sleb_loop: "steps c (snd (read_sleb_loop d n i v b c))"
proof (induction n arbitrary: i v b c)
  case (Suc n)
  show ?case by (simp add: split_beta Let_def steps_trans [OF steps_read_u8 Suc])
qed simp

lemma steps_read_sleb128 [simp]: "steps c (snd (read_sleb128 d c))"
  using steps_read_sleb_loop [of c d 10 0 0 0] by (simp add: read_sleb128_def split_beta Let_def)

lemma cstr_end_bounds: "i \<le> cstr_end d i e \<and> (i \<le> e \<longrightarrow> cstr_end d i e \<le> e)"
proof (induction d i e rule: cstr_end.induct)
  case (1 d i e)
  then show ?case by (subst (1 2) cstr_end.simps) auto
qed

lemma steps_read_cstr [simp]: "steps c (snd (read_cstr d c))"
  using cstr_end_bounds [of "c_pos c" d "c_end c"] by (auto simp: read_cstr_def steps_def Let_def)

lemma read_cstr_progress: "c_pos c < c_end c \<Longrightarrow> c_pos c < c_pos (snd (read_cstr d c))"
  using cstr_end_bounds [of "c_pos c" d "c_end c"] by (auto simp: read_cstr_def Let_def)

lemma read_u8_progress: "c_pos c < c_end c \<Longrightarrow> c_pos (snd (read_u8 d c)) = c_pos c + 1"
  by (simp add: read_u8_def cursor_ok_def advance_def)

section \<open>What is in front of the cursor\<close>

text \<open>\<open>ahead d c bs\<close>: the next bytes, up to the end of the cursor, are \<open>bs\<close>.\<close>

definition ahead :: "u8 list \<Rightarrow> parse_cursor \<Rightarrow> u8 list \<Rightarrow> bool" where
  "ahead d c bs \<longleftrightarrow> c_pos c + length bs \<le> c_end c \<and> c_pos c + length bs \<le> length d
     \<and> take (length bs) (drop (c_pos c) d) = bs"

lemma ahead_append: "ahead d c (xs @ ys) \<longleftrightarrow> ahead d c xs \<and> ahead d (advance (length xs) c) ys"
  by (auto simp: ahead_def advance_def take_add add.commute add.left_commute)

lemma ahead_Cons: "ahead d c (b # bs) \<longleftrightarrow>
    c_pos c < c_end c \<and> c_pos c < length d \<and> d ! c_pos c = b \<and> ahead d (advance 1 c) bs"
proof -
  have "ahead d c [b] \<longleftrightarrow> c_pos c < c_end c \<and> c_pos c < length d \<and> d ! c_pos c = b"
    by (auto simp: ahead_def take_Suc_conv_app_nth hd_drop_conv_nth take_Suc)
  then show ?thesis using ahead_append [of d c "[b]" bs] by simp
qed

lemma advance_advance [simp]: "advance m (advance n c) = advance (n + m) c"
  by (simp add: advance_def add.assoc)

lemma advance_0 [simp]: "advance 0 c = c" by (simp add: advance_def)

lemma read_u8_ahead: "ahead d c (b # bs) \<Longrightarrow> read_u8 d c = (b, advance 1 c)"
  by (auto simp: ahead_Cons read_u8_def cursor_ok_def)

lemma take_drop_nth2: "i + 2 \<le> length d \<Longrightarrow> take 2 (drop i d) = [d ! i, d ! (i + 1)]"
  by (simp add: take_Suc_conv_app_nth numeral_2_eq_2 hd_drop_conv_nth)

section \<open>Encodings, and that the readers invert them\<close>

text \<open>The usual LEB128 encodings: seven bits to a byte, low bits first, the high bit set
  on all but the last.\<close>

fun uleb_enc :: "nat \<Rightarrow> u64 \<Rightarrow> u8 list" where
  "uleb_enc 0 w = []"
| "uleb_enc (Suc n) w =
     (if n = 0 \<or> drop_bit 7 w = 0 then [ucast w AND 0x7f]
      else (ucast w OR 0x80) # uleb_enc n (drop_bit 7 w))"

definition uleb_bytes :: "u64 \<Rightarrow> u8 list" where "uleb_bytes w = uleb_enc 10 w"

fun sleb_enc :: "nat \<Rightarrow> u64 \<Rightarrow> u8 list" where
  "sleb_enc 0 w = []"
| "sleb_enc (Suc n) w =
     (let rest = signed_drop_bit 7 w
      in if n = 0 \<or> rest = 0 \<and> \<not> bit w 6 \<or> rest = - 1 \<and> bit w 6 then [ucast w AND 0x7f]
         else (ucast w OR 0x80) # sleb_enc n rest)"

definition sleb_bytes :: "u64 \<Rightarrow> u8 list" where "sleb_bytes w = sleb_enc 10 w"

lemma bit_7f: "bit (0x7f :: u8) n \<longleftrightarrow> n < 7"
proof -
  have "(0x7f :: u8) = mask 7" by (simp add: mask_eq_exp_minus_1)
  then show ?thesis by (simp only: bit_mask_iff) auto
qed

lemma bit_80: "bit (0x80 :: u8) n \<longleftrightarrow> n = 7"
proof -
  have "(0x80 :: u8) = push_bit 7 1" by simp
  then show ?thesis by (simp only: bit_push_bit_iff) (auto simp: bit_1_iff)
qed

lemma bit_40: "bit (0x40 :: u8) n \<longleftrightarrow> n = 6"
proof -
  have "(0x40 :: u8) = push_bit 6 1" by simp
  then show ?thesis by (simp only: bit_push_bit_iff) (auto simp: bit_1_iff)
qed

lemma group_bits:
  "ucast (((ucast (w :: u64) :: u8) AND 0x7f) AND 0x7f) = take_bit 7 w"
  "ucast ((ucast w :: u8) AND 0x7f) = take_bit 7 w"
  "ucast (((ucast w :: u8) OR 0x80) AND 0x7f) = take_bit 7 w"
  "((ucast w :: u8) AND 0x7f) AND 0x80 = 0"
  "((ucast w :: u8) OR 0x80) AND 0x80 \<noteq> 0"
proof -
  let ?b = "ucast w :: u8"
  have b: "bit ?b n \<longleftrightarrow> n < 8 \<and> bit w n" for n by (rule bit_ucast8)
  show "ucast ((?b AND 0x7f) AND 0x7f) = take_bit 7 w" "ucast (?b AND 0x7f) = take_bit 7 w"
    "ucast ((?b OR 0x80) AND 0x7f) = take_bit 7 w"
    by (rule bit_word_eqI,
        simp only: bit_take_bit_iff bit_ucast_of8 bit_and_iff bit_or_iff b bit_7f bit_80, auto)+
  show "(?b AND 0x7f) AND 0x80 = 0"
    by (rule bit_word_eqI, simp only: bit_and_iff bit_7f bit_80, auto)
  have "bit ((?b OR 0x80) AND 0x80) 7" by (simp only: bit_and_iff bit_or_iff bit_80) simp
  then show "(?b OR 0x80) AND 0x80 \<noteq> 0" by (metis bit_0_eq bot_apply bot_bool_def)
qed

lemma or_push_groups:
  assumes "\<And>i. i + 7 < 64 \<Longrightarrow> bit r i \<longleftrightarrow> bit w (7 + i)"
  shows "v OR push_bit shift (take_bit 7 w) OR push_bit (shift + 7) r = v OR push_bit shift (w :: u64)"
proof (rule bit_word_eqI)
  fix i assume "i < LENGTH(64)"
  moreover have "7 + (i - (shift + 7)) = i - shift" if "shift + 7 \<le> i" using that by simp
  ultimately show "bit (v OR push_bit shift (take_bit 7 w) OR push_bit (shift + 7) r) i
      \<longleftrightarrow> bit (v OR push_bit shift w) i"
    using assms [of "i - (shift + 7)"]
    by (cases "shift + 7 \<le> i") (auto simp: bit_or_iff bit_push_bit_iff bit_take_bit_iff)
qed

lemma read_uleb_enc:
  "ahead d c (uleb_enc n w) \<Longrightarrow> 64 \<le> shift + 7 * n \<Longrightarrow> 0 < n \<Longrightarrow>
   read_uleb_loop d n shift v c = (v OR push_bit shift w, advance (length (uleb_enc n w)) c)"
proof (induction n arbitrary: w shift v c)
  case (Suc n)
  show ?case
  proof (cases "n = 0 \<or> drop_bit 7 w = 0")
    case True
    then have "push_bit shift (take_bit 7 w) = push_bit shift w"
    proof
      assume "n = 0"
      with Suc.prems(2) show ?thesis
        by (intro bit_word_eqI) (auto simp: bit_push_bit_iff bit_take_bit_iff)
    next
      assume "drop_bit 7 w = 0"
      then have "take_bit 7 w = w" using bits_ident [of 7 w] by simp
      then show ?thesis by simp
    qed
    with True Suc.prems read_u8_ahead [of d c "ucast w AND 0x7f" "[]"] show ?thesis
      by (simp add: group_bits)
  next
    case False
    have "v OR push_bit shift (take_bit 7 w) OR push_bit (shift + 7) (drop_bit 7 w)
        = v OR push_bit shift w"
      by (rule or_push_groups) (simp add: bit_drop_bit_eq)
    moreover have "ahead d (advance 1 c) (uleb_enc n (drop_bit 7 w))"
      using Suc.prems(1) False by (simp add: ahead_Cons)
    ultimately show ?thesis
      using False Suc.IH [of "advance 1 c" "drop_bit 7 w" "shift + 7"] Suc.prems
        read_u8_ahead [of d c "ucast w OR 0x80" "uleb_enc n (drop_bit 7 w)"]
      by (simp add: group_bits or.assoc)
  qed
qed simp

lemma read_uleb_bytes:
  "ahead d c (uleb_bytes w) \<Longrightarrow> read_uleb128 d c = (w, advance (length (uleb_bytes w)) c)"
  using read_uleb_enc [of d c 10 w 0 0] by (simp add: uleb_bytes_def read_uleb128_def)

text \<open>\<open>sleb_final\<close> is what \<^verbatim>\<open>read_sleb128\<close> does after its loop.\<close>

definition sleb_final :: "u64 \<times> nat \<times> u8 \<Rightarrow> u64" where
  "sleb_final r = (case r of (value, shift, byte) \<Rightarrow>
     if byte AND 0x40 \<noteq> 0 \<and> shift < 64 then value OR push_bit shift (- 1) else value)"

lemma bit6_iff: "((ucast (w :: u64) :: u8) AND 0x7f) AND 0x40 \<noteq> 0 \<longleftrightarrow> bit w 6"
proof -
  have "bit (((ucast w :: u8) AND 0x7f) AND 0x40) i \<longleftrightarrow> i = 6 \<and> bit w 6" for i
    by (simp only: bit_and_iff bit_7f bit_40 bit_ucast8) auto
  then show ?thesis by (metis bit_0_eq bit_word_eqI bot_apply bot_bool_def)
qed

lemma bit_signed_drop: "i + 7 < 64 \<Longrightarrow> bit (signed_drop_bit 7 (w :: u64)) i \<longleftrightarrow> bit w (7 + i)"
  by (simp add: bit_signed_drop_bit_iff)

lemma read_sleb_enc:
  "ahead d c (sleb_enc n w) \<Longrightarrow> 64 \<le> shift + 7 * n \<Longrightarrow> 0 < n \<Longrightarrow>
   \<exists>r. read_sleb_loop d n shift v b c = (r, advance (length (sleb_enc n w)) c)
     \<and> sleb_final r = v OR push_bit shift w"
proof (induction n arbitrary: w shift v b c)
  case (Suc n)
  let ?rest = "signed_drop_bit 7 w"
  let ?stop = "n = 0 \<or> ?rest = 0 \<and> \<not> bit w 6 \<or> ?rest = - 1 \<and> bit w 6"
  show ?case
  proof (cases ?stop)
    case True
    have grp: "v OR push_bit shift (take_bit 7 w) OR push_bit (shift + 7) ?rest = v OR push_bit shift w"
      by (rule or_push_groups) (simp add: bit_signed_drop)
    have big: "push_bit (shift + 7) x = 0" if "64 \<le> shift + 7" for x :: u64
      using that by (intro bit_word_eqI) (auto simp: bit_push_bit_iff)
    have "sleb_final (v OR push_bit shift (take_bit 7 w), shift + 7, ucast w AND 0x7f)
        = v OR push_bit shift w"
    proof (cases "shift + 7 < 64")
      case less: True
      with True Suc.prems(2) have "?rest = 0 \<and> \<not> bit w 6 \<or> ?rest = - 1 \<and> bit w 6" by auto
      with grp less show ?thesis
        by (auto simp: sleb_final_def bit6_iff or.assoc)
    next
      case False
      with grp big show ?thesis by (simp add: sleb_final_def)
    qed
    moreover have e: "sleb_enc (Suc n) w = [ucast w AND 0x7f]" using True by (simp add: Let_def)
    moreover have "read_u8 d c = (ucast w AND 0x7f, advance 1 c)"
      using Suc.prems(1) unfolding e by (rule read_u8_ahead)
    ultimately show ?thesis by (simp add: group_bits Let_def)
  next
    case False
    have grp: "v OR push_bit shift (take_bit 7 w) OR push_bit (shift + 7) ?rest = v OR push_bit shift w"
      by (rule or_push_groups) (simp add: bit_signed_drop)
    have e: "sleb_enc (Suc n) w = (ucast w OR 0x80) # sleb_enc n ?rest"
      unfolding sleb_enc.simps Let_def by (rule if_not_P [OF False])
    have a: "ahead d (advance 1 c) (sleb_enc n ?rest)"
      using Suc.prems(1) unfolding e ahead_Cons by simp
    have r: "read_u8 d c = (ucast w OR 0x80, advance 1 c)"
      using Suc.prems(1) unfolding e by (rule read_u8_ahead)
    from Suc.IH [of "advance 1 c" ?rest "shift + 7" "v OR push_bit shift (take_bit 7 w)"
          "ucast w OR 0x80"] Suc.prems(2) False a
    obtain x where "read_sleb_loop d n (shift + 7) (v OR push_bit shift (take_bit 7 w))
        (ucast w OR 0x80) (advance 1 c) = (x, advance (1 + length (sleb_enc n ?rest)) c)"
      "sleb_final x = v OR push_bit shift w"
      by (auto simp: grp or.assoc)
    then show ?thesis
      by (simp add: e r group_bits del: sleb_enc.simps)
  qed
qed simp

lemma read_sleb_bytes:
  assumes "ahead d c (sleb_bytes w)"
  shows "read_sleb128 d c = (w, advance (length (sleb_bytes w)) c)"
proof -
  obtain r where r: "read_sleb_loop d 10 0 0 0 c = (r, advance (length (sleb_bytes w)) c)"
    "sleb_final r = w"
    using read_sleb_enc [of d c 10 w 0 0 0] assms by (auto simp: sleb_bytes_def)
  obtain v sh b where "r = (v, sh, b)" by (cases r)
  with r show ?thesis
    by (simp add: read_sleb128_def sleb_final_def)
qed

text \<open>Little-endian integers.\<close>

lemma read_u16_bytes:
  assumes "ahead d c (le_bytes 2 w)"
  shows "read_u16 d c = (w, advance 2 c)"
proof -
  have "ucast (ucast w :: u8) OR push_bit 8 (ucast (ucast (drop_bit 8 w) :: u8)) = (w :: u16)"
    by (rule bit_word_eqI)
      (auto simp: bit_or_iff bit_push_bit_iff bit_ucast_of8 bit_ucast8 bit_drop_bit_eq)
  with assms show ?thesis
    by (auto simp: read_u16_def cursor_ok_def ahead_def numeral_2_eq_2 take_Suc_conv_app_nth
        hd_drop_conv_nth)
qed

lemma read_u32_bytes:
  assumes "ahead d c (le_bytes 4 w)"
  shows "read_u32 d c = (w, advance 4 c)"
proof -
  have "ucast (ucast w :: u8) OR push_bit 8 (ucast (ucast (drop_bit 8 w) :: u8))
      OR push_bit 16 (ucast (ucast (drop_bit 16 w) :: u8))
      OR push_bit 24 (ucast (ucast (drop_bit 24 w) :: u8)) = (w :: u32)"
    using le_bytes_inj [of 4 w] by (simp add: numeral_eq_Suc push_bit_or)
  moreover have "le_bytes 4 w = [ucast w, ucast (drop_bit 8 w), ucast (drop_bit 16 w), ucast (drop_bit 24 w)]"
    by (simp add: numeral_eq_Suc)
  moreover have "d ! c_pos c = ucast w" "d ! (c_pos c + 1) = ucast (drop_bit 8 w)"
    "d ! (c_pos c + 2) = ucast (drop_bit 16 w)" "d ! (c_pos c + 3) = ucast (drop_bit 24 w)"
    "cursor_ok c 4"
    using assms calculation(2) by (auto simp: ahead_Cons advance_def cursor_ok_def add.commute numeral_eq_Suc)
  ultimately show ?thesis by (simp add: read_u32_def)
qed

lemma read_u64_loop_bytes:
  "ahead d c (le_bytes n w) \<Longrightarrow>
   read_u64_loop d n i v c = (v OR push_bit (8 * i) (take_bit (8 * n) (w :: u64)), advance n c)"
proof (induction n arbitrary: i v c w)
  case (Suc n)
  have "v OR push_bit (8 * i) (ucast (ucast w :: u8)) OR push_bit (8 * (i + 1)) (take_bit (8 * n) (drop_bit 8 w))
      = v OR push_bit (8 * i) (take_bit (8 * Suc n) w)"
  proof (rule bit_word_eqI)
    fix j assume "j < LENGTH(64)"
    moreover have "8 + (j - (8 * i + 8)) = j - 8 * i" if "8 * i + 8 \<le> j" using that by simp
    ultimately show "bit (v OR push_bit (8 * i) (ucast (ucast w :: u8))
        OR push_bit (8 * (i + 1)) (take_bit (8 * n) (drop_bit 8 w))) j
      \<longleftrightarrow> bit (v OR push_bit (8 * i) (take_bit (8 * Suc n) w)) j"
      by (cases "8 * i + 8 \<le> j")
        (auto simp: bit_or_iff bit_push_bit_iff bit_take_bit_iff bit_drop_bit_eq bit_ucast_of8 bit_ucast8)
  qed
  moreover have "read_u8 d c = (ucast w, advance 1 c)" "ahead d (advance 1 c) (le_bytes n (drop_bit 8 w))"
    using Suc.prems read_u8_ahead [of d c "ucast w" "le_bytes n (drop_bit 8 w)"]
    by (simp_all add: ahead_Cons)
  ultimately show ?case
    using Suc.IH [of "advance 1 c" "drop_bit 8 w" "i + 1" "v OR push_bit (8 * i) (ucast (ucast w :: u8))"]
    by (simp add: or.assoc)
qed simp

lemma read_u64_bytes: "ahead d c (le_bytes 8 w) \<Longrightarrow> read_u64 d c = (w, advance 8 c)"
  by (simp add: read_u64_def read_u64_loop_bytes take_bit_word_eq_self)

end
