(* ===== verification/LineTable.thy ===== *)
theory LineTable
  imports Cursor
begin

text \<open>
  The DWARF line-table reader of \<^verbatim>\<open>src/lineno.c\<close>: the directory and file tables of a unit
  (versions 4 and 5), the line-number program and the loop over the units of the section.
  Memory allocation does not fail. A failed parse is \<open>Malformed\<close> (the code's \<^verbatim>\<open>-1\<close>);
  \<open>Undefined\<close> marks the two steps that are undefined in C, the division by a
  \<^verbatim>\<open>line_range\<close> of 0 and the index of \<^verbatim>\<open>std_lengths\<close> past its 16 elements.
\<close>

section \<open>The table that is built\<close>

definition CDBG_LINENO_MAX_FILE :: nat where "CDBG_LINENO_MAX_FILE = 512"

record cdbg_line_entry =
  le_address :: addr
  le_line :: u32
  le_column :: u32
  le_file :: string

record cdbg_lineno =
  ln_entries :: "cdbg_line_entry list"
  ln_link_base :: addr
  ln_slide :: addr
  ln_comp_dir :: string
  ln_exe_dir :: string

definition empty_lineno :: cdbg_lineno where
  "empty_lineno = \<lparr>ln_entries = [], ln_link_base = 0, ln_slide = 0, ln_comp_dir = [], ln_exe_dir = []\<rparr>"

datatype dw_error = Malformed | Undefined

type_synonym str_table = "string list"
type_synonym file_table = "(string \<times> u64) list"

record line_state =
  ls_address :: u64
  ls_line :: u64
  ls_file_index :: u64
  ls_column :: u64
  ls_is_stmt :: bool
  ls_end_sequence :: bool

definition str_table_push :: "str_table \<Rightarrow> string \<Rightarrow> str_table" where
  "str_table_push table v = table @ [v]"

definition file_table_push :: "file_table \<Rightarrow> string \<Rightarrow> u64 \<Rightarrow> file_table" where
  "file_table_push table name dir_index = table @ [(name, dir_index)]"

definition build_file_path :: "str_table \<Rightarrow> file_table \<Rightarrow> u64 \<Rightarrow> string option" where
  "build_file_path dirs files file_index =
     (if unat file_index \<ge> length files \<or> file_index = 0 then None
      else let (file, dir_index) = files ! unat file_index;
               dir = (if length dirs > 0 \<and> unat dir_index < length dirs
                      then dirs ! unat dir_index else [])
           in Some (snprintf_s CDBG_LINENO_MAX_FILE
                     (if dir = [] then file else dir @ ''/'' @ file)))"

definition entries_push ::
    "cdbg_lineno \<Rightarrow> line_state \<Rightarrow> str_table \<Rightarrow> file_table \<Rightarrow> cdbg_lineno" where
  "entries_push ln st dirs files =
     (case build_file_path dirs files (ls_file_index st) of
        None \<Rightarrow> ln
      | Some full_path \<Rightarrow>
          ln\<lparr>ln_entries := ln_entries ln
               @ [\<lparr>le_address = ls_address st, le_line = ucast (ls_line st),
                  le_column = ucast (ls_column st),
                  le_file = snprintf_s CDBG_LINENO_MAX_FILE full_path\<rparr>]\<rparr>)"

text \<open>\<^verbatim>\<open>line\<close> is signed.\<close>

definition emit_row :: "cdbg_lineno \<Rightarrow> line_state \<Rightarrow> str_table \<Rightarrow> file_table \<Rightarrow> cdbg_lineno" where
  "emit_row ln st dirs files =
     (if sint (ls_line st) \<le> 0 then ln else entries_push ln st dirs files)"

section \<open>Directory and file tables\<close>

abbreviation DW_LNCT_path :: u64 where "DW_LNCT_path \<equiv> 1"
abbreviation DW_LNCT_directory_index :: u64 where "DW_LNCT_directory_index \<equiv> 2"
abbreviation DW_LNCT_MD5 :: u64 where "DW_LNCT_MD5 \<equiv> 5"
abbreviation DW_FORM_string :: u64 where "DW_FORM_string \<equiv> 0x08"
abbreviation DW_FORM_udata :: u64 where "DW_FORM_udata \<equiv> 0x0f"
abbreviation DW_FORM_data16 :: u64 where "DW_FORM_data16 \<equiv> 0x1e"
abbreviation DW_FORM_line_strp :: u64 where "DW_FORM_line_strp \<equiv> 0x1f"

text \<open>The line-string section is \<open>None\<close> or where it starts in the file and its size.\<close>

definition lookup_line_str :: "u8 list \<Rightarrow> (nat \<times> nat) option \<Rightarrow> u64 \<Rightarrow> string" where
  "lookup_line_str d line_str offset =
     (case line_str of
        None \<Rightarrow> []
      | Some (start, sz) \<Rightarrow> if unat offset \<ge> sz then [] else cstr_at d (start + unat offset))"

fun read_descs :: "u8 list \<Rightarrow> nat \<Rightarrow> parse_cursor \<Rightarrow> (u64 \<times> u64) list \<times> parse_cursor" where
  "read_descs d 0 c = ([], c)"
| "read_descs d (Suc n) c =
     (let (type, c) = read_uleb128 d c;
          (form, c) = read_uleb128 d c;
          (rest, c) = read_descs d n c
      in ((type, form) # rest, c))"

definition read_format_descriptors ::
    "u8 list \<Rightarrow> parse_cursor \<Rightarrow> (u64 \<times> u64) list \<times> parse_cursor" where
  "read_format_descriptors d c =
     (let (count, c) = read_u8 d c in if count = 0 then ([], c) else read_descs d (unat count) c)"

definition read_form_string ::
    "u8 list \<Rightarrow> (nat \<times> nat) option \<Rightarrow> parse_cursor \<Rightarrow> u64 \<Rightarrow> (string \<times> parse_cursor) option" where
  "read_form_string d line_str c form =
     (if form = DW_FORM_line_strp
      then if \<not> cursor_ok c 1 then None
           else let (offset, c) = read_uleb128 d c
                in Some (snprintf_s CDBG_LINENO_MAX_FILE (lookup_line_str d line_str offset), c)
      else if form = DW_FORM_string
      then let (s, c) = read_cstr d c in Some (snprintf_s CDBG_LINENO_MAX_FILE s, c)
      else None)"

definition skip_form_value :: "u8 list \<Rightarrow> parse_cursor \<Rightarrow> u64 \<Rightarrow> parse_cursor option" where
  "skip_form_value d c form =
     (if form = DW_FORM_udata then Some (snd (read_uleb128 d c))
      else if form = DW_FORM_data16
      then if \<not> cursor_ok c 16 then None else Some (advance 16 c)
      else if form = DW_FORM_string then Some (snd (read_cstr d c))
      else if form = DW_FORM_line_strp then Some (snd (read_uleb128 d c))
      else None)"

function zeros_end :: "u8 list \<Rightarrow> nat \<Rightarrow> nat \<Rightarrow> nat" where
  "zeros_end d i e = (if i < e \<and> d ! i = 0 then zeros_end d (i + 1) e else i)"
  by pat_completeness auto
termination by (relation "measure (\<lambda>(d, i, e). e - i)") auto

declare zeros_end.simps [simp del]

definition skip_padding_zeros :: "u8 list \<Rightarrow> parse_cursor \<Rightarrow> parse_cursor" where
  "skip_padding_zeros d c = c\<lparr>c_pos := zeros_end d (c_pos c) (c_end c)\<rparr>"

fun dir_entry ::
    "u8 list \<Rightarrow> (nat \<times> nat) option \<Rightarrow> (u64 \<times> u64) list \<Rightarrow> string \<Rightarrow> parse_cursor
     \<Rightarrow> (string \<times> parse_cursor) option" where
  "dir_entry d line_str [] path c = Some (path, c)"
| "dir_entry d line_str ((type, form) # descs) path c =
     (if type = DW_LNCT_path
      then case read_form_string d line_str c form of
             None \<Rightarrow> None
           | Some (path, c) \<Rightarrow> dir_entry d line_str descs path c
      else case skip_form_value d c form of
             None \<Rightarrow> None
           | Some c \<Rightarrow> dir_entry d line_str descs path c)"

fun dir_entries ::
    "u8 list \<Rightarrow> (nat \<times> nat) option \<Rightarrow> (u64 \<times> u64) list \<Rightarrow> nat \<Rightarrow> str_table \<Rightarrow> parse_cursor
     \<Rightarrow> (str_table \<times> parse_cursor) option" where
  "dir_entries d line_str descs 0 dirs c = Some (dirs, c)"
| "dir_entries d line_str descs (Suc n) dirs c =
     (case dir_entry d line_str descs [] c of
        None \<Rightarrow> None
      | Some (path, c) \<Rightarrow> dir_entries d line_str descs n (str_table_push dirs path) c)"

definition parse_v5_directories ::
    "u8 list \<Rightarrow> (nat \<times> nat) option \<Rightarrow> parse_cursor \<Rightarrow> str_table \<Rightarrow> (str_table \<times> parse_cursor) option" where
  "parse_v5_directories d line_str c dirs =
     (let (descs, c) = read_format_descriptors d c
      in if descs = [] then Some (dirs, c)
         else let (entry_count, c) = read_uleb128 d c
              in case dir_entries d line_str descs (unat entry_count) dirs c of
                   None \<Rightarrow> None
                 | Some (dirs, c) \<Rightarrow> Some (dirs, skip_padding_zeros d c))"

fun file_entry ::
    "u8 list \<Rightarrow> (nat \<times> nat) option \<Rightarrow> (u64 \<times> u64) list \<Rightarrow> string \<Rightarrow> u64 \<Rightarrow> parse_cursor
     \<Rightarrow> ((string \<times> u64) \<times> parse_cursor) option" where
  "file_entry d line_str [] name dir_index c = Some ((name, dir_index), c)"
| "file_entry d line_str ((type, form) # descs) name dir_index c =
     (if type = DW_LNCT_path
      then case read_form_string d line_str c form of
             None \<Rightarrow> None
           | Some (name, c) \<Rightarrow> file_entry d line_str descs name dir_index c
      else if type = DW_LNCT_directory_index \<and> form = DW_FORM_udata
      then let (dir_index, c) = read_uleb128 d c in file_entry d line_str descs name dir_index c
      else if type = DW_LNCT_MD5 \<and> form = DW_FORM_data16
      then if \<not> cursor_ok c 16 then None
           else file_entry d line_str descs name dir_index (advance 16 c)
      else case skip_form_value d c form of
             None \<Rightarrow> None
           | Some c \<Rightarrow> file_entry d line_str descs name dir_index c)"

fun file_entries ::
    "u8 list \<Rightarrow> (nat \<times> nat) option \<Rightarrow> (u64 \<times> u64) list \<Rightarrow> nat \<Rightarrow> file_table \<Rightarrow> parse_cursor
     \<Rightarrow> (file_table \<times> parse_cursor) option" where
  "file_entries d line_str descs 0 files c = Some (files, c)"
| "file_entries d line_str descs (Suc n) files c =
     (case file_entry d line_str descs [] 0 c of
        None \<Rightarrow> None
      | Some ((name, dir_index), c) \<Rightarrow>
          file_entries d line_str descs n (file_table_push files name dir_index) c)"

definition parse_v5_file_names ::
    "u8 list \<Rightarrow> (nat \<times> nat) option \<Rightarrow> parse_cursor \<Rightarrow> file_table \<Rightarrow> (file_table \<times> parse_cursor) option" where
  "parse_v5_file_names d line_str c files =
     (let (descs, c) = read_format_descriptors d c
      in if descs = [] then Some (files, c)
         else let (entry_count, c) = read_uleb128 d c
              in file_entries d line_str descs (unat entry_count) files c)"

function parse_file_names_v4 ::
    "u8 list \<Rightarrow> parse_cursor \<Rightarrow> file_table \<Rightarrow> (file_table \<times> parse_cursor) option" where
  "parse_file_names_v4 d c files =
     (if c_pos c < c_end c
      then let (name, c1) = read_cstr d c
           in if name = [] then Some (files, c1)
              else let (dir_index, c2) = read_uleb128 d c1
                   in if \<not> cursor_ok c2 16 then None
                      else parse_file_names_v4 d (advance 16 c2) (file_table_push files name dir_index)
      else Some (files, c))"
  by pat_completeness auto
termination
proof (relation "measure (\<lambda>(d, c, files). c_end c - c_pos c)", goal_cases)
  case (2 d c files x name c1 y dir_index c2)
  have "steps c c1" "steps c1 c2" "c_pos c < c_pos c1"
    using 2 steps_read_cstr [of c d] steps_read_uleb128 [of c1 d] read_cstr_progress [of c d]
    by (simp_all add: prod_eq_iff)
  with 2(1) show ?case by (auto simp: steps_def advance_def)
qed simp

declare parse_file_names_v4.simps [simp del]

function parse_dirs_v4 :: "u8 list \<Rightarrow> parse_cursor \<Rightarrow> str_table \<Rightarrow> str_table \<times> parse_cursor" where
  "parse_dirs_v4 d c dirs =
     (if c_pos c < c_end c
      then let (dir, c1) = read_cstr d c
           in if dir = [] then (dirs, c1) else parse_dirs_v4 d c1 (str_table_push dirs dir)
      else (dirs, c))"
  by pat_completeness auto
termination
proof (relation "measure (\<lambda>(d, c, dirs). c_end c - c_pos c)", goal_cases)
  case (2 d c dirs x dir c1)
  have "steps c c1" "c_pos c < c_pos c1"
    using 2 steps_read_cstr [of c d] read_cstr_progress [of c d] by (simp_all add: prod_eq_iff)
  with 2(1) show ?case by (auto simp: steps_def)
qed simp

declare parse_dirs_v4.simps [simp del]

section \<open>The line-number program\<close>

record line_header =
  lh_opcode_base :: u8
  lh_line_base :: u8
  lh_line_range :: u8
  lh_min_inst_length :: u8
  lh_default_is_stmt :: u8
  lh_address_size :: u8
  lh_std_lengths :: "u8 list"

definition initial_state :: "line_header \<Rightarrow> line_state" where
  "initial_state h =
     \<lparr>ls_address = 0, ls_line = 1, ls_file_index = 1, ls_column = 0,
      ls_is_stmt = (lh_default_is_stmt h \<noteq> 0), ls_end_sequence = False\<rparr>"

type_synonym line_config = "parse_cursor \<times> line_state \<times> cdbg_lineno"

text \<open>Opcode 0: an extended operation of \<open>ext_len\<close> bytes, which the cursor is moved past
  whatever was read of it.\<close>

definition extended_op ::
    "u8 list \<Rightarrow> line_header \<Rightarrow> str_table \<Rightarrow> file_table \<Rightarrow> line_config \<Rightarrow> dw_error + line_config" where
  "extended_op d h dirs files = (\<lambda>(c, st, ln).
     let (ext_len, c) = read_uleb128 d c;
         ext_end = c_pos c + unat ext_len
     in if ext_end > c_end c then Inl Malformed
        else let (sub, c) = read_u8 d c
             in if sub = 1
                then Inr (c\<lparr>c_pos := ext_end\<rparr>, initial_state h,
                          emit_row ln (st\<lparr>ls_end_sequence := True\<rparr>) dirs files)
                else if sub = 2
                then let address =
                       (if lh_address_size h = 8 then fst (read_u64 d c)
                        else if lh_address_size h = 4 then ucast (fst (read_u32 d c))
                        else ls_address st)
                     in Inr (c\<lparr>c_pos := ext_end\<rparr>, st\<lparr>ls_address := address\<rparr>, ln)
                else Inr (c\<lparr>c_pos := ext_end\<rparr>, st, ln))"

definition standard_op ::
    "u8 list \<Rightarrow> line_header \<Rightarrow> str_table \<Rightarrow> file_table \<Rightarrow> u8 \<Rightarrow> line_config \<Rightarrow> dw_error + line_config" where
  "standard_op d h dirs files opcode = (\<lambda>(c, st, ln).
     if opcode = 1 then Inr (c, st, emit_row ln st dirs files)
     else if opcode = 2
     then let (delta, c) = read_uleb128 d c
          in Inr (c, st\<lparr>ls_address := ls_address st + delta * ucast (lh_min_inst_length h)\<rparr>, ln)
     else if opcode = 3
     then let (delta, c) = read_sleb128 d c in Inr (c, st\<lparr>ls_line := ls_line st + delta\<rparr>, ln)
     else if opcode = 4
     then let (i, c) = read_uleb128 d c in Inr (c, st\<lparr>ls_file_index := i\<rparr>, ln)
     else if opcode = 5
     then let (col, c) = read_uleb128 d c in Inr (c, st\<lparr>ls_column := col\<rparr>, ln)
     else if opcode = 8
     then if lh_line_range h = 0 then Inl Undefined
          else Inr (c, st\<lparr>ls_address := ls_address st
                 + ucast (255 - lh_opcode_base h) div ucast (lh_line_range h)
                   * ucast (lh_min_inst_length h)\<rparr>, ln)
     else if opcode = 9
     then let (delta, c) = read_u16 d c
          in Inr (c, st\<lparr>ls_address := ls_address st + ucast delta\<rparr>, ln)
     else if unat opcode \<ge> length (lh_std_lengths h) then Inl Undefined
     else Inr (advance (unat (lh_std_lengths h ! unat opcode)) c, st, ln))"

definition special_op ::
    "line_header \<Rightarrow> str_table \<Rightarrow> file_table \<Rightarrow> u8 \<Rightarrow> line_config \<Rightarrow> dw_error + line_config" where
  "special_op h dirs files opcode = (\<lambda>(c, st, ln).
     if lh_line_range h = 0 then Inl Undefined
     else let adjusted = opcode - lh_opcode_base h;
              operation_advance = adjusted div lh_line_range h;
              line_increment = lh_line_base h + adjusted mod lh_line_range h;
              st = st\<lparr>ls_line := ls_line st + scast line_increment,
                      ls_address := ls_address st
                        + ucast operation_advance * ucast (lh_min_inst_length h)\<rparr>
          in Inr (c, st, emit_row ln st dirs files))"

definition line_op ::
    "u8 list \<Rightarrow> line_header \<Rightarrow> str_table \<Rightarrow> file_table \<Rightarrow> line_config \<Rightarrow> dw_error + line_config" where
  "line_op d h dirs files = (\<lambda>(c, st, ln).
     let (opcode, c) = read_u8 d c
     in if opcode = 0 then extended_op d h dirs files (c, st, ln)
        else if opcode < lh_opcode_base h then standard_op d h dirs files opcode (c, st, ln)
        else special_op h dirs files opcode (c, st, ln))"

text \<open>Every operation moves the cursor forward and leaves its end alone, which is why the
  loop ends on every input.\<close>

lemma extended_op_forward:
  assumes "extended_op d h dirs files (c, st, ln) = Inr (c', st', ln')"
  shows "c_end c' = c_end c \<and> c_pos c \<le> c_pos c'"
  using assms steps_read_uleb128 [of c d] steps_read_u8 [of "snd (read_uleb128 d c)" d]
  by (auto simp: extended_op_def Let_def steps_def split: prod.splits if_splits)

lemma standard_op_forward:
  assumes "standard_op d h dirs files opcode (c, st, ln) = Inr (c', st', ln')"
  shows "c_end c' = c_end c \<and> c_pos c \<le> c_pos c'"
  using assms steps_read_uleb128 [of c d] steps_read_sleb128 [of c d] steps_read_u16 [of c d]
  by (auto simp: standard_op_def Let_def steps_def advance_def split: prod.splits if_splits)

lemma line_op_forward:
  assumes "line_op d h dirs files (c, st, ln) = Inr (c', st', ln')" and "c_pos c < c_end c"
  shows "c_end c' = c_end c \<and> c_pos c < c_pos c'"
proof -
  obtain op c1 where r: "read_u8 d c = (op, c1)" by (metis prod.exhaust)
  have c1: "c_pos c1 = c_pos c + 1" "c_end c1 = c_end c"
    using r assms(2) read_u8_progress [of c d] steps_read_u8 [of c d] by (auto simp: steps_def)
  have "special_op h dirs files op (c1, st, ln) = Inr (c', st', ln') \<Longrightarrow> c' = c1"
    by (auto simp: special_op_def Let_def split: if_splits)
  with assms(1) r c1 extended_op_forward [of d h dirs files c1 st ln c' st' ln']
    standard_op_forward [of d h dirs files op c1 st ln c' st' ln']
  show ?thesis by (auto simp: line_op_def split: if_splits)
qed

function line_program ::
    "u8 list \<Rightarrow> line_header \<Rightarrow> str_table \<Rightarrow> file_table \<Rightarrow> line_config \<Rightarrow> dw_error + cdbg_lineno" where
  "line_program d h dirs files (c, st, ln) =
     (if c_pos c < c_end c
      then case line_op d h dirs files (c, st, ln) of
             Inl e \<Rightarrow> Inl e
           | Inr (c', st', ln') \<Rightarrow> line_program d h dirs files (c', st', ln')
      else Inr ln)"
  by pat_completeness auto
termination
  by (relation "measure (\<lambda>(d, h, dirs, files, c, st, ln). c_end c - c_pos c)")
    (auto dest!: line_op_forward)

declare line_program.simps [simp del]

definition parse_line_program ::
    "u8 list \<Rightarrow> parse_cursor \<Rightarrow> line_header \<Rightarrow> str_table \<Rightarrow> file_table \<Rightarrow> cdbg_lineno
     \<Rightarrow> dw_error + cdbg_lineno" where
  "parse_line_program d unit_cursor h dirs files ln =
     line_program d h dirs files (unit_cursor, initial_state h, ln)"

section \<open>The units of the section\<close>

fun read_std_lengths :: "u8 list \<Rightarrow> nat \<Rightarrow> parse_cursor \<Rightarrow> u8 list \<times> parse_cursor" where
  "read_std_lengths d 0 c = ([], c)"
| "read_std_lengths d (Suc n) c =
     (let (l, c) = read_u8 d c; (rest, c) = read_std_lengths d n c in (l # rest, c))"

text \<open>The header up to the tables: 16 lengths, of which the first and those from the opcode
  base on are 0.\<close>

definition read_header :: "u8 list \<Rightarrow> u16 \<Rightarrow> u8 \<Rightarrow> parse_cursor \<Rightarrow> line_header \<times> parse_cursor" where
  "read_header d version address_size c =
     (let (min_inst_length, c) = read_u8 d c;
          c = (if version = 5 then snd (read_u8 d c) else c);
          (default_is_stmt, c) = read_u8 d c;
          (line_base, c) = read_u8 d c;
          (line_range, c) = read_u8 d c;
          (opcode_base, c) = read_u8 d c;
          n = min (unat opcode_base - 1) 15;
          (lengths, c) = read_std_lengths d n c
      in (\<lparr>lh_opcode_base = opcode_base, lh_line_base = line_base, lh_line_range = line_range,
           lh_min_inst_length = min_inst_length, lh_default_is_stmt = default_is_stmt,
           lh_address_size = address_size,
           lh_std_lengths = 0 # lengths @ replicate (15 - n) 0\<rparr>, c))"

text \<open>The tables of a unit, the compilation directory they may give, and where the program
  starts.\<close>

definition read_tables ::
    "u8 list \<Rightarrow> (nat \<times> nat) option \<Rightarrow> u16 \<Rightarrow> parse_cursor \<Rightarrow> cdbg_lineno
     \<Rightarrow> (str_table \<times> file_table \<times> cdbg_lineno \<times> nat) option" where
  "read_tables d line_str version prologue ln =
     (let files = file_table_push [] [] 0
      in if version = 5
         then case parse_v5_directories d line_str prologue [] of
                None \<Rightarrow> None
              | Some (dirs, c) \<Rightarrow>
                  (case parse_v5_file_names d line_str c files of
                     None \<Rightarrow> None
                   | Some (files, c) \<Rightarrow>
                       Some (dirs, files,
                             (if dirs \<noteq> [] \<and> ln_comp_dir ln = []
                              then ln\<lparr>ln_comp_dir := snprintf_s CDBG_LINENO_MAX_FILE (hd dirs)\<rparr> else ln),
                             c_end prologue - 1))
         else let (dirs, c) = parse_dirs_v4 d prologue (str_table_push [] [])
              in case parse_file_names_v4 d c files of
                   None \<Rightarrow> None
                 | Some (files, c) \<Rightarrow>
                     Some (dirs, files,
                           (if ln_comp_dir ln = []
                            then case filter (\<lambda>dir. dir \<noteq> []) dirs of
                                   [] \<Rightarrow> ln
                                 | dir # _ \<Rightarrow>
                                     ln\<lparr>ln_comp_dir := snprintf_s CDBG_LINENO_MAX_FILE dir\<rparr>
                            else ln),
                           c_pos c))"

text \<open>One unit; \<open>unit_cursor\<close> spans it. A unit of another version is skipped.\<close>

definition parse_unit ::
    "u8 list \<Rightarrow> (nat \<times> nat) option \<Rightarrow> parse_cursor \<Rightarrow> cdbg_lineno \<Rightarrow> dw_error + cdbg_lineno" where
  "parse_unit d line_str unit_cursor ln =
     (let (version, c) = read_u16 d unit_cursor
      in if version \<noteq> 5 \<and> version \<noteq> 4 then Inr ln
         else let (address_size, c) =
                    (if version = 5
                     then let (a, c) = read_u8 d c; (_, c) = read_u8 d c in (a, c) else (8, c));
                  (prologue_length, c) = read_u32 d c;
                  prologue_end = c_pos c + unat prologue_length
              in if prologue_end > c_end c then Inl Malformed
                 else let (h, prologue) = read_header d version address_size (c\<lparr>c_end := prologue_end\<rparr>)
                      in case read_tables d line_str version prologue ln of
                           None \<Rightarrow> Inl Malformed
                         | Some (dirs, files, ln, start) \<Rightarrow>
                             parse_line_program d (c\<lparr>c_pos := start\<rparr>) h dirs files ln)"

text \<open>
  The loop over the units may run for ever: when fewer than four bytes are left,
  \<^verbatim>\<open>read_u32\<close> returns 0 without moving, the unit is empty, its version reads as 0 and the
  cursor is set to where it was. \<open>None\<close> is a parse that does not return.
\<close>

partial_function (option) parse_line_table ::
    "u8 list \<Rightarrow> (nat \<times> nat) option \<Rightarrow> parse_cursor \<Rightarrow> cdbg_lineno
     \<Rightarrow> (dw_error + cdbg_lineno) option" where
  "parse_line_table d line_str c ln =
     (if c_pos c < c_end c
      then let (unit_length, c1) = read_u32 d c
           in if unit_length = 0xffffffff then Some (Inl Malformed)
              else let unit_end = c_pos c1 + unat unit_length
                   in if unit_end > c_end c1 then Some (Inl Malformed)
                      else case parse_unit d line_str (c1\<lparr>c_end := unit_end\<rparr>) ln of
                             Inl e \<Rightarrow> Some (Inl e)
                           | Inr ln \<Rightarrow> parse_line_table d line_str (c1\<lparr>c_pos := unit_end\<rparr>) ln
      else Some (Inr ln))"

declare parse_line_table.simps [code]

text \<open>One to three bytes at the end of the section are never got past.\<close>

lemma parse_unit_empty:
  assumes "c_pos c = c_end c"
  shows "parse_unit d line_str c ln = Inr ln"
  using assms by (simp add: parse_unit_def read_u16_def cursor_ok_def)

lemma parse_line_table_short:
  assumes "parse_line_table d line_str c ln = Some r"
  shows "\<not> (c_pos c < c_end c \<and> c_end c < c_pos c + 4)"
proof (rule parse_line_table.raw_induct [OF _ assms])
  fix f d line_str c ln r
  assume IH: "\<And>d line_str c ln r. f d line_str c ln = Some r \<Longrightarrow> \<not> (c_pos c < c_end c \<and> c_end c < c_pos c + 4)"
    and step: "(if c_pos c < c_end c
      then let (unit_length, c1) = read_u32 d c
           in if unit_length = 0xffffffff then Some (Inl Malformed)
              else let unit_end = c_pos c1 + unat unit_length
                   in if unit_end > c_end c1 then Some (Inl Malformed)
                      else case parse_unit d line_str (c1\<lparr>c_end := unit_end\<rparr>) ln of
                             Inl e \<Rightarrow> Some (Inl e)
                           | Inr ln \<Rightarrow> f d line_str (c1\<lparr>c_pos := unit_end\<rparr>) ln
      else Some (Inr ln)) = Some r"
  show "\<not> (c_pos c < c_end c \<and> c_end c < c_pos c + 4)"
  proof
    assume short: "c_pos c < c_end c \<and> c_end c < c_pos c + 4"
    then have "read_u32 d c = (0, c)" by (auto simp: read_u32_def cursor_ok_def)
    with short step parse_unit_empty [of "c\<lparr>c_end := c_pos c\<rparr>" d line_str ln]
    have "f d line_str c ln = Some r" by simp
    with IH short show False by blast
  qed
qed

text \<open>A section that is exactly a sequence of units, each its length and its bytes, is read
  unit by unit.\<close>

definition unit_bytes :: "u8 list \<Rightarrow> u8 list" where
  "unit_bytes bs = le_bytes 4 (of_nat (length bs) :: u32) @ bs"

fun parse_units ::
    "u8 list \<Rightarrow> (nat \<times> nat) option \<Rightarrow> nat \<Rightarrow> u8 list list \<Rightarrow> cdbg_lineno \<Rightarrow> dw_error + cdbg_lineno" where
  "parse_units d line_str pos [] ln = Inr ln"
| "parse_units d line_str pos (bs # us) ln =
     (case parse_unit d line_str \<lparr>c_pos = pos + 4, c_end = pos + 4 + length bs\<rparr> ln of
        Inl e \<Rightarrow> Inl e
      | Inr ln \<Rightarrow> parse_units d line_str (pos + 4 + length bs) us ln)"

lemma cursor_eqI: "c_pos c = p \<Longrightarrow> c_end c = e \<Longrightarrow> c = \<lparr>c_pos = p, c_end = e\<rparr>"
  by (cases c) simp

lemma parse_line_table_tiled:
  assumes "ahead d c (concat (map unit_bytes us))"
    and "c_end c = c_pos c + length (concat (map unit_bytes us))"
    and "\<forall>bs \<in> set us. length bs < 2 ^ 32 - 1"
  shows "parse_line_table d line_str c ln = Some (parse_units d line_str (c_pos c) us ln)"
  using assms
proof (induction us arbitrary: c ln)
  case Nil
  then show ?case by (subst parse_line_table.simps) simp
next
  case (Cons bs us)
  define n where "n = (of_nat (length bs) :: u32)"
  have n: "unat n = length bs" "n \<noteq> 0xffffffff"
    using Cons.prems(3) by (auto simp: n_def unat_of_nat take_bit_eq_mod word_unat_eq_iff)
  have a: "ahead d c (le_bytes 4 n)" "ahead d (advance (4 + length bs) c) (concat (map unit_bytes us))"
    using Cons.prems(1)
    by (simp_all add: unit_bytes_def [of bs] ahead_append n_def add.commute)
  have rd: "read_u32 d c = (n, advance 4 c)" by (rule read_u32_bytes [OF a(1)])
  have e: "c_end c = c_pos c + 4 + length bs + length (concat (map unit_bytes us))"
    using Cons.prems(2) by (simp add: unit_bytes_def [of bs])
  let ?c = "(advance 4 c)\<lparr>c_pos := c_pos c + 4 + length bs\<rparr>"
  have c: "?c = advance (4 + length bs) c" by (simp add: advance_def add.assoc)
  have IH: "parse_line_table d line_str ?c ln' =
      Some (parse_units d line_str (c_pos c + 4 + length bs) us ln')" for ln'
    using Cons.IH [of "advance (4 + length bs) c" ln'] a(2) e Cons.prems(3)
    unfolding c by (simp add: advance_def add.assoc)
  have u: "c\<lparr>c_pos := c_pos c + 4, c_end := c_pos c + 4 + length bs\<rparr> =
      \<lparr>c_pos = c_pos c + 4, c_end = c_pos c + 4 + length bs\<rparr>"
    by (rule cursor_eqI) simp_all
  show ?case
    using e n IH
    by (subst parse_line_table.simps)
      (auto simp: rd u advance_def Let_def split: sum.split)
qed

end
