(* ===== verification/LineSpec.thy ===== *)
theory LineSpec
  imports LineTable
begin

text \<open>
  The line-number state machine as the DWARF standard gives it, over decoded instructions
  and their standard encoding, and the refinement: the byte-level loop of \<open>LineTable\<close>
  run on the encoding of a program adds to the table exactly the rows the machine emits.
\<close>

section \<open>Instructions\<close>

datatype line_instr =
  I_Copy
| I_Advance_pc u64
| I_Advance_line u64
| I_Set_file u64
| I_Set_column u64
| I_Negate_stmt
| I_Basic_block
| I_Const_add_pc
| I_Fixed_advance_pc u16
| I_Special u8
| I_Set_address u64
| I_End_sequence

fun encode :: "line_instr \<Rightarrow> u8 list" where
  "encode I_Copy = [1]"
| "encode (I_Advance_pc n) = 2 # uleb_bytes n"
| "encode (I_Advance_line n) = 3 # sleb_bytes n"
| "encode (I_Set_file n) = 4 # uleb_bytes n"
| "encode (I_Set_column n) = 5 # uleb_bytes n"
| "encode I_Negate_stmt = [6]"
| "encode I_Basic_block = [7]"
| "encode I_Const_add_pc = [8]"
| "encode (I_Fixed_advance_pc n) = 9 # le_bytes 2 n"
| "encode (I_Special op) = [op]"
| "encode (I_Set_address a) = [0, 9, 2] @ le_bytes 8 a"
| "encode I_End_sequence = [0, 1, 1]"

text \<open>
  The registers as the standard describes them: addresses modulo \<open>2 ^ 64\<close>, the line an
  integer. A special opcode advances the address by the quotient and the line by the base
  plus the remainder of the adjusted opcode.
\<close>

record line_regs =
  m_address :: u64
  m_line :: int
  m_file :: u64
  m_column :: u64

definition machine_start :: line_regs where
  "machine_start = \<lparr>m_address = 0, m_line = 1, m_file = 1, m_column = 0\<rparr>"

text \<open>One instruction: the new registers and whether a row is emitted from the old or new
  ones.\<close>

fun execute :: "line_header \<Rightarrow> line_instr \<Rightarrow> line_regs \<Rightarrow> line_regs \<times> line_regs option" where
  "execute h I_Copy m = (m, Some m)"
| "execute h (I_Advance_pc n) m =
     (m\<lparr>m_address := m_address m + n * ucast (lh_min_inst_length h)\<rparr>, None)"
| "execute h (I_Advance_line n) m = (m\<lparr>m_line := m_line m + sint n\<rparr>, None)"
| "execute h (I_Set_file n) m = (m\<lparr>m_file := n\<rparr>, None)"
| "execute h (I_Set_column n) m = (m\<lparr>m_column := n\<rparr>, None)"
| "execute h I_Negate_stmt m = (m, None)"
| "execute h I_Basic_block m = (m, None)"
| "execute h I_Const_add_pc m =
     (m\<lparr>m_address := m_address m + of_nat ((255 - unat (lh_opcode_base h)) div unat (lh_line_range h))
          * ucast (lh_min_inst_length h)\<rparr>, None)"
| "execute h (I_Fixed_advance_pc n) m = (m\<lparr>m_address := m_address m + ucast n\<rparr>, None)"
| "execute h (I_Special op) m =
     (let adjusted = unat op - unat (lh_opcode_base h);
          m = m\<lparr>m_address := m_address m + of_nat (adjusted div unat (lh_line_range h))
                   * ucast (lh_min_inst_length h),
                m_line := m_line m + sint (lh_line_base h)
                   + int (adjusted mod unat (lh_line_range h))\<rparr>
      in (m, Some m))"
| "execute h (I_Set_address a) m = (m\<lparr>m_address := a\<rparr>, None)"
| "execute h I_End_sequence m = (machine_start, Some m)"

fun rows :: "line_header \<Rightarrow> line_instr list \<Rightarrow> line_regs \<Rightarrow> line_regs list" where
  "rows h [] m = []"
| "rows h (i # is) m =
     (case execute h i m of
        (m', None) \<Rightarrow> rows h is m'
      | (m', Some r) \<Rightarrow> r # rows h is m')"

text \<open>How a row becomes a table entry: a row with no positive line or no such file is
  dropped.\<close>

definition row_entry :: "str_table \<Rightarrow> file_table \<Rightarrow> line_regs \<Rightarrow> cdbg_line_entry list" where
  "row_entry dirs files m =
     (if m_line m \<le> 0 then []
      else case build_file_path dirs files (m_file m) of
             None \<Rightarrow> []
           | Some path \<Rightarrow>
               [\<lparr>le_address = m_address m, le_line = of_int (m_line m),
                 le_column = ucast (m_column m), le_file = path\<rparr>])"

text \<open>The headers and programs the encoding is for.\<close>

definition standard_header :: "line_header \<Rightarrow> bool" where
  "standard_header h \<longleftrightarrow> 10 \<le> lh_opcode_base h \<and> lh_line_range h \<noteq> 0 \<and> lh_address_size h = 8
     \<and> sint (lh_line_base h) + int (unat (lh_line_range h)) \<le> 128
     \<and> length (lh_std_lengths h) = 16 \<and> lh_std_lengths h ! 6 = 0 \<and> lh_std_lengths h ! 7 = 0"

fun encodable :: "line_header \<Rightarrow> line_instr \<Rightarrow> bool" where
  "encodable h (I_Special op) = (lh_opcode_base h \<le> op)"
| "encodable h _ = True"

text \<open>Lines stay within the code's signed 64 bits.\<close>

fun lines_fit :: "line_header \<Rightarrow> line_instr list \<Rightarrow> line_regs \<Rightarrow> bool" where
  "lines_fit h [] m = True"
| "lines_fit h (i # is) m =
     (let m' = fst (execute h i m)
      in - (2 ^ 63) \<le> m_line m' \<and> m_line m' < 2 ^ 63 \<and> lines_fit h is m')"

section \<open>The refinement\<close>

definition refines :: "line_state \<Rightarrow> line_regs \<Rightarrow> bool" where
  "refines st m \<longleftrightarrow> ls_address st = m_address m \<and> ls_line st = of_int (m_line m)
     \<and> ls_file_index st = m_file m \<and> ls_column st = m_column m
     \<and> - (2 ^ 63) \<le> m_line m \<and> m_line m < 2 ^ 63"

lemma refines_start: "refines (initial_state h) machine_start"
  by (simp add: refines_def initial_state_def machine_start_def)

lemma sint_of_int64: "- (2 ^ 63) \<le> i \<Longrightarrow> i < 2 ^ 63 \<Longrightarrow> sint (of_int i :: u64) = i"
  by (simp add: signed_of_int signed_take_bit_int_eq_self)

lemma snprintf_s_idem: "snprintf_s n (snprintf_s n s) = snprintf_s n s"
  by (simp add: snprintf_s_def)

lemma build_file_path_fits:
  "build_file_path dirs files i = Some p \<Longrightarrow> snprintf_s CDBG_LINENO_MAX_FILE p = p"
  by (auto simp: build_file_path_def snprintf_s_idem Let_def split_beta split: if_splits)

lemma emit_row_refines:
  assumes "refines st m"
  shows "emit_row ln st dirs files = ln\<lparr>ln_entries := ln_entries ln @ row_entry dirs files m\<rparr>"
proof -
  have "ucast (of_int (m_line m) :: u64) = (of_int (m_line m) :: u32)"
    by (rule bit_word_eqI) (simp add: bit_ucast_iff bit_of_int_iff)
  with assms show ?thesis
    by (auto simp: emit_row_def entries_push_def row_entry_def refines_def sint_of_int64
        build_file_path_fits split: option.splits)
qed

definition out_rows :: "str_table \<Rightarrow> file_table \<Rightarrow> line_regs option \<Rightarrow> cdbg_line_entry list" where
  "out_rows dirs files r = (case r of None \<Rightarrow> [] | Some m \<Rightarrow> row_entry dirs files m)"

definition simulates ::
    "u8 list \<Rightarrow> line_header \<Rightarrow> str_table \<Rightarrow> file_table \<Rightarrow> line_instr \<Rightarrow> line_config \<Rightarrow> line_regs \<Rightarrow> bool" where
  "simulates d h dirs files i cfg m = (case cfg of (c, st, ln) \<Rightarrow>
     \<exists>st'. line_op d h dirs files (c, st, ln) =
         Inr (advance (length (encode i)) c, st',
              ln\<lparr>ln_entries := ln_entries ln @ out_rows dirs files (snd (execute h i m))\<rparr>)
       \<and> refines st' (fst (execute h i m)))"

lemma standard_small:
  assumes "standard_header h" and "unat (op :: u8) < 10" and "op \<noteq> 0"
  shows "op < lh_opcode_base h"
  using assms by (auto simp: standard_header_def word_less_nat_alt word_le_nat_alt)

lemma refines_line:
  assumes "refines st m" and "- (2 ^ 63) \<le> m_line m + i" and "m_line m + i < 2 ^ 63"
  shows "ls_line st + of_int i = (of_int (m_line m + i) :: u64)"
  using assms by (simp add: refines_def)

lemma simulate_leb:
  assumes "standard_header h" and "refines st m" and "ahead d c (op # uleb_bytes n)"
    and "op = 2 \<and> i = I_Advance_pc n \<or> op = 4 \<and> i = I_Set_file n \<or> op = 5 \<and> i = I_Set_column n"
  shows "simulates d h dirs files i (c, st, ln) m"
proof -
  have r: "read_u8 d c = (op, advance 1 c)" using assms(3) by (rule read_u8_ahead)
  have u: "read_uleb128 d (advance 1 c) = (n, advance (length (uleb_bytes n)) (advance 1 c))"
    using assms(3) unfolding ahead_Cons by (blast intro: read_uleb_bytes)
  have "op < lh_opcode_base h" "op \<noteq> 0" using assms(4) standard_small [OF assms(1)] by auto
  then have op: "line_op d h dirs files (c, st, ln) = standard_op d h dirs files op (advance 1 c, st, ln)"
    by (simp add: line_op_def r)
  show ?thesis
    unfolding simulates_def prod.case op
    using assms(4,2)
    by (elim disjE conjE)
      (simp_all add: standard_op_def u [simplified] out_rows_def refines_def)
qed

lemma simulate_sleb:
  assumes "standard_header h" and "refines st m" and "ahead d c (encode (I_Advance_line n))"
    and "- (2 ^ 63) \<le> m_line m + sint n" "m_line m + sint n < 2 ^ 63"
  shows "simulates d h dirs files (I_Advance_line n) (c, st, ln) m"
proof -
  have r: "read_u8 d c = (3, advance 1 c)" using assms(3) by (simp add: read_u8_ahead)
  have "read_sleb128 d (advance 1 c) = (n, advance (length (sleb_bytes n)) (advance 1 c))"
    using assms(3) unfolding encode.simps ahead_Cons by (blast intro: read_sleb_bytes)
  moreover have "3 < lh_opcode_base h" using standard_small [OF assms(1)] by auto
  ultimately have op: "line_op d h dirs files (c, st, ln) =
      Inr (advance (length (sleb_bytes n)) (advance 1 c), st\<lparr>ls_line := ls_line st + n\<rparr>, ln)"
    by (simp add: line_op_def standard_op_def r)
  have "ls_line st + n = of_int (m_line m + sint n)" using assms(2) by (simp add: refines_def)
  then have "refines (st\<lparr>ls_line := ls_line st + n\<rparr>) (m\<lparr>m_line := m_line m + sint n\<rparr>)"
    using assms(2,4,5) by (simp add: refines_def)
  then show ?thesis
    unfolding simulates_def prod.case op by (simp add: out_rows_def)
qed

lemma unat_le_255: "unat (w :: u8) \<le> 255"
  using unsigned_less [where ?'a = nat, of w] by simp

lemma ucast_div: "ucast (a :: u8) div ucast (b :: u8) = (of_nat (unat a div unat b) :: u64)"
proof -
  have "unat a div unat b < 2 ^ 64"
    using order.trans [OF div_le_dividend [of "unat a" "unat b"] unat_le_255 [of a]] by simp
  moreover have "unat (ucast w :: u64) = unat w" for w :: u8
    by (simp add: unsigned_ucast_eq take_bit_nat_eq_self_iff unat_le_255 [THEN le_less_trans])
  ultimately show ?thesis
    by (simp add: word_unat_eq_iff unat_div unat_of_nat take_bit_nat_eq_self)
qed

lemma simulate_simple:
  assumes h: "standard_header h" and "refines st m" and "ahead d c (encode i)"
    and "i = I_Copy \<or> i = I_Negate_stmt \<or> i = I_Basic_block \<or> i = I_Const_add_pc"
  shows "simulates d h dirs files i (c, st, ln) m"
proof -
  have lt: "(1 :: u8) < lh_opcode_base h" "6 < lh_opcode_base h" "7 < lh_opcode_base h"
    "8 < lh_opcode_base h"
    using standard_small [OF h] by auto
  have u: "unat (255 - lh_opcode_base h) = 255 - unat (lh_opcode_base h)"
    by (simp add: unat_sub word_le_nat_alt unat_le_255)
  from assms(4) show ?thesis
  proof (elim disjE)
    assume i: "i = I_Copy"
    then have "read_u8 d c = (1, advance 1 c)" using assms(3) by (simp add: read_u8_ahead)
    with i lt assms(2) show ?thesis
      by (simp add: simulates_def line_op_def standard_op_def out_rows_def emit_row_refines)
  next
    assume i: "i = I_Negate_stmt"
    then have "read_u8 d c = (6, advance 1 c)" using assms(3) by (simp add: read_u8_ahead)
    with i lt assms(2) h show ?thesis
      by (simp add: simulates_def line_op_def standard_op_def out_rows_def standard_header_def)
  next
    assume i: "i = I_Basic_block"
    then have "read_u8 d c = (7, advance 1 c)" using assms(3) by (simp add: read_u8_ahead)
    with i lt assms(2) h show ?thesis
      by (simp add: simulates_def line_op_def standard_op_def out_rows_def standard_header_def)
  next
    assume i: "i = I_Const_add_pc"
    then have "read_u8 d c = (8, advance 1 c)" using assms(3) by (simp add: read_u8_ahead)
    with i lt assms(2) h show ?thesis
      by (simp add: simulates_def line_op_def standard_op_def out_rows_def standard_header_def
          refines_def ucast_div u)
  qed
qed

lemma simulate_fixed:
  assumes "standard_header h" and "refines st m" and "ahead d c (encode (I_Fixed_advance_pc n))"
  shows "simulates d h dirs files (I_Fixed_advance_pc n) (c, st, ln) m"
proof -
  have r: "read_u8 d c = (9, advance 1 c)" using assms(3) by (simp add: read_u8_ahead)
  have u: "read_u16 d (advance 1 c) = (n, advance 2 (advance 1 c))"
    using assms(3) unfolding encode.simps ahead_Cons by (blast intro: read_u16_bytes)
  have "9 < lh_opcode_base h" using standard_small [OF assms(1)] by auto
  then have op: "line_op d h dirs files (c, st, ln) = standard_op d h dirs files 9 (advance 1 c, st, ln)"
    by (simp add: line_op_def r)
  from assms(2) show ?thesis
    unfolding simulates_def prod.case op
    by (simp add: standard_op_def u [simplified] out_rows_def refines_def numeral_3_eq_3)
qed

lemma line_increment:
  assumes "standard_header h"
  shows "scast (lh_line_base h + (x :: u8) mod lh_line_range h) =
    (of_int (sint (lh_line_base h) + int (unat x mod unat (lh_line_range h))) :: u64)"
proof -
  let ?b = "sint (lh_line_base h)" and ?m = "unat x mod unat (lh_line_range h)"
  have pos: "0 < unat (lh_line_range h)" using assms by (simp add: standard_header_def unat_gt_0)
  then have m: "int ?m < int (unat (lh_line_range h))"
    by (simp only: of_nat_less_iff mod_less_divisor)
  have b: "- 128 \<le> ?b" using sint_ge [of "lh_line_base h"] by simp
  have range: "- 128 \<le> ?b + int ?m" "?b + int ?m < 128"
    using b m assms by (simp_all only: standard_header_def) linarith+
  have "lh_line_base h + x mod lh_line_range h = of_int (?b + int ?m)"
    by (simp add: unat_mod [symmetric])
  moreover have "sint (of_int (?b + int ?m) :: u8) = ?b + int ?m"
    using range by (simp only: signed_of_int) (simp add: signed_take_bit_int_eq_self)
  ultimately show ?thesis by (metis of_int_sint scast_eq)
qed

lemma simulate_special:
  assumes h: "standard_header h" and "refines st m" and "ahead d c (encode (I_Special op))"
    and op: "lh_opcode_base h \<le> op"
    and fit: "- (2 ^ 63) \<le> m_line (fst (execute h (I_Special op) m))"
      "m_line (fst (execute h (I_Special op) m)) < 2 ^ 63"
  shows "simulates d h dirs files (I_Special op) (c, st, ln) m"
proof -
  have r: "read_u8 d c = (op, advance 1 c)" using assms(3) by (simp add: read_u8_ahead)
  have range: "lh_line_range h \<noteq> 0" and "\<not> op < lh_opcode_base h" "op \<noteq> 0"
    using h op by (auto simp: standard_header_def)
  then have lop: "line_op d h dirs files (c, st, ln) = special_op h dirs files op (advance 1 c, st, ln)"
    by (simp add: line_op_def r)
  define a where "a = op - lh_opcode_base h"
  have a: "unat a = unat op - unat (lh_opcode_base h)" using op by (simp add: a_def unat_sub)
  define m' where "m' = fst (execute h (I_Special op) m)"
  define st' where "st' = st\<lparr>ls_line := ls_line st + scast (lh_line_base h + a mod lh_line_range h),
      ls_address := ls_address st + ucast (a div lh_line_range h) * ucast (lh_min_inst_length h)\<rparr>"
  have "ucast (a div lh_line_range h) = (of_nat (unat a div unat (lh_line_range h)) :: u64)"
    by (simp add: unat_div [symmetric])
  then have "refines st' m'"
    using fit assms(2)
    by (simp add: refines_def m'_def st'_def line_increment [OF h] a Let_def add.assoc)
  moreover have "special_op h dirs files op (advance 1 c, st, ln) =
      Inr (advance 1 c, st', emit_row ln st' dirs files)"
    using range by (simp add: special_op_def st'_def a_def [symmetric] Let_def)
  moreover have "execute h (I_Special op) m = (m', Some m')" by (simp add: m'_def Let_def)
  ultimately show ?thesis
    unfolding simulates_def prod.case lop
    by (simp add: out_rows_def emit_row_refines del: execute.simps)
qed

lemma read_uleb_small:
  assumes "ahead d c (b # bs)" and "b = 1 \<or> b = 9"
  shows "read_uleb128 d c = (ucast b, advance 1 c)"
proof -
  have ten: "10 = Suc 9" by simp
  have "uleb_bytes (ucast b) = [b]"
    unfolding uleb_bytes_def ten uleb_enc.simps using assms(2) by auto
  moreover have "ahead d c [b]" using assms(1) by (simp add: ahead_Cons) (simp add: ahead_def)
  ultimately show ?thesis using read_uleb_bytes [of d c "ucast b"] by simp
qed

lemma simulate_extended:
  assumes h: "standard_header h" and m: "refines st m" and a: "ahead d c (encode i)"
    and i: "i = I_Set_address n \<or> i = I_End_sequence"
  shows "simulates d h dirs files i (c, st, ln) m"
proof -
  obtain len sub bs where e: "encode i = 0 # len # sub # bs"
    and len: "unat len = Suc (length bs)" "len = 1 \<or> len = 9"
    and sub: "i = I_Set_address n \<and> sub = 2 \<and> bs = le_bytes 8 n \<or> i = I_End_sequence \<and> sub = 1 \<and> bs = []"
    using i that [of 9 2 "le_bytes 8 n"] that [of 1 1 "[]"] by auto
  have a1: "ahead d (advance 1 c) (len # sub # bs)" and a2: "ahead d (advance 2 c) (sub # bs)"
    and a3: "ahead d (advance 3 c) bs"
    using a unfolding e ahead_Cons by (simp_all add: numeral_eq_Suc)
  have r: "read_u8 d c = (0, advance 1 c)" using a unfolding e by (rule read_u8_ahead)
  have u: "read_uleb128 d (advance 1 c) = (ucast len, advance 2 c)"
    using read_uleb_small [OF a1 len(2)] by (simp add: numeral_2_eq_2)
  have s: "read_u8 d (advance 2 c) = (sub, advance 3 c)"
    using read_u8_ahead [OF a2] by (simp add: numeral_eq_Suc)
  have room: "c_pos c + 2 + unat (ucast len :: u64) = c_pos c + length (encode i)"
    using len by (auto simp: e)
  have fits: "c_pos c + length (encode i) \<le> c_end c" using a by (simp add: ahead_def)
  have pos: "c_pos (advance 2 c) = c_pos c + 2" "c_end (advance 2 c) = c_end c"
    "(advance 3 c)\<lparr>c_pos := c_pos c + length (encode i)\<rparr> = advance (length (encode i)) c"
    by (simp_all add: advance_def)
  have op: "line_op d h dirs files (c, st, ln) = extended_op d h dirs files (advance 1 c, st, ln)"
    by (simp add: line_op_def r)
  from sub show ?thesis
  proof (elim disjE conjE)
    assume i: "i = I_Set_address n" and "sub = 2" "bs = le_bytes 8 n"
    with a3 have "read_u64 d (advance 3 c) = (n, advance 8 (advance 3 c))" by (simp add: read_u64_bytes)
    with i \<open>sub = 2\<close> fits h m show ?thesis
      unfolding simulates_def prod.case op extended_op_def u Let_def pos room s
      by (simp add: out_rows_def refines_def standard_header_def pos)
  next
    assume i: "i = I_End_sequence" and "sub = 1" "bs = []"
    have "refines (st\<lparr>ls_end_sequence := True\<rparr>) m" using m by (simp add: refines_def)
    with i \<open>sub = 1\<close> fits show ?thesis
      unfolding simulates_def prod.case op extended_op_def u Let_def pos room s
      by (simp add: out_rows_def emit_row_refines refines_start pos del: One_nat_def)
  qed
qed

lemma simulate:
  assumes "standard_header h" and "refines st m" and "ahead d c (encode i)" and "encodable h i"
    and "- (2 ^ 63) \<le> m_line (fst (execute h i m))" "m_line (fst (execute h i m)) < 2 ^ 63"
  shows "simulates d h dirs files i (c, st, ln) m"
  using assms
  by (cases i)
    (simp_all add: simulate_simple simulate_leb simulate_sleb simulate_fixed simulate_special
      simulate_extended del: encode.simps(12))

text \<open>The loop, by induction on the program.\<close>

lemma line_program_refines:
  assumes "standard_header h" and "refines st m"
    and "ahead d c (concat (map encode is))" and "c_end c = c_pos c + length (concat (map encode is))"
    and "\<forall>i \<in> set is. encodable h i" and "lines_fit h is m"
  shows "line_program d h dirs files (c, st, ln) =
    Inr (ln\<lparr>ln_entries := ln_entries ln @ concat (map (row_entry dirs files) (rows h is m))\<rparr>)"
  using assms(2-)
proof (induction "is" arbitrary: c st ln m)
  case Nil
  then show ?case by (simp add: line_program.simps)
next
  case (Cons i "is")
  have len: "0 < length (encode i)" by (cases i) auto
  have "simulates d h dirs files i (c, st, ln) m"
    using Cons.prems by (intro simulate assms(1)) (auto simp: ahead_append Let_def)
  then obtain st' where
    op: "line_op d h dirs files (c, st, ln) = Inr (advance (length (encode i)) c, st',
      ln\<lparr>ln_entries := ln_entries ln @ out_rows dirs files (snd (execute h i m))\<rparr>)"
    and st': "refines st' (fst (execute h i m))"
    by (auto simp: simulates_def)
  have IH: "line_program d h dirs files (advance (length (encode i)) c, st', ln') =
      Inr (ln'\<lparr>ln_entries := ln_entries ln'
        @ concat (map (row_entry dirs files) (rows h is (fst (execute h i m))))\<rparr>)" for ln'
    using Cons.prems st' by (intro Cons.IH) (auto simp: ahead_append advance_def Let_def)
  show ?case
    using Cons.prems(3) len
    by (subst line_program.simps)
      (simp add: op IH out_rows_def split: prod.split option.split)
qed

text \<open>The header most compilers write.\<close>

definition header0 :: line_header where
  "header0 = \<lparr>lh_opcode_base = 13, lh_line_base = - 5, lh_line_range = 14, lh_min_inst_length = 4,
     lh_default_is_stmt = 1, lh_address_size = 8,
     lh_std_lengths = [0, 1, 1, 1, 1, 0, 0, 0, 1, 0, 0, 1, 0, 0, 0, 0]\<rparr>"

end
