(* ===== verification/Kernel.thy ===== *)
theory Kernel
  imports Text
begin

text \<open>
  The interface to macOS: every ptrace, Mach and process call the debugger makes, as a
  field of a record \<open>kernel\<close>. The kernel and the debuggee are not under \<^verbatim>\<open>src/\<close>, so
  their state is an opaque world \<open>'w\<close> and the record is a parameter of every definition
  that makes a call: a call takes the world and returns its results and the next world, so
  anything may change at any call. \<open>sys\<close> is the debugger's side: the world, the ledger of
  Mach send rights it holds, and what it has written to its two output streams.
\<close>

section \<open>Kernel objects\<close>

type_synonym port = u32
type_synonym kern_return = int

abbreviation KERN_SUCCESS :: kern_return where "KERN_SUCCESS \<equiv> 0"
abbreviation MACH_PORT_NULL :: port where "MACH_PORT_NULL \<equiv> 0"

text \<open>\<^verbatim>\<open>arm_thread_state64_t\<close>, \<^verbatim>\<open>arm_neon_state64_t\<close>, \<^verbatim>\<open>arm_debug_state64_t\<close> and
  \<^verbatim>\<open>arm_exception_state64_t\<close>; a register array is a function of the index.\<close>

record gpr_state =
  r_x :: "nat \<Rightarrow> u64"
  r_fp :: u64
  r_lr :: u64
  r_sp :: u64
  r_pc :: u64
  r_cpsr :: u32

record neon_state =
  n_v :: "nat \<Rightarrow> u128"
  n_fpsr :: u32
  n_fpcr :: u32

record debug_state =
  d_bvr :: "nat \<Rightarrow> u64"
  d_bcr :: "nat \<Rightarrow> u64"
  d_wvr :: "nat \<Rightarrow> u64"
  d_wcr :: "nat \<Rightarrow> u64"

record exc_state =
  e_far :: u64
  e_esr :: u32

record region =
  region_addr :: addr
  region_size :: u64
  region_prot :: u32

datatype wait_result = Wait_Status u32 | Wait_EINTR | Wait_Error

datatype kill_result = Kill_Ok | Kill_ESRCH | Kill_Error

text \<open>The two threads of control of \<^verbatim>\<open>fork\<close> are the calls of the child, given as a list,
  and the result in the parent.\<close>

datatype child_call =
  Child_Setpgid
| Child_Trace_Me
| Child_Setenv string string
| Child_Execv "string list"

record 'w kernel =
  k_task_for_pid :: "pid \<Rightarrow> 'w \<Rightarrow> (kern_return \<times> port) \<times> 'w"
  k_mach_vm_read :: "port \<Rightarrow> addr \<Rightarrow> nat \<Rightarrow> 'w \<Rightarrow> (kern_return \<times> u8 list) \<times> 'w"
  k_mach_vm_write :: "port \<Rightarrow> addr \<Rightarrow> u8 list \<Rightarrow> 'w \<Rightarrow> kern_return \<times> 'w"
  k_mach_vm_protect :: "port \<Rightarrow> addr \<Rightarrow> u64 \<Rightarrow> u32 \<Rightarrow> 'w \<Rightarrow> kern_return \<times> 'w"
  k_pagesize :: "'w \<Rightarrow> int"
  k_vm_region :: "port \<Rightarrow> addr \<Rightarrow> 'w \<Rightarrow> region option \<times> 'w"
  k_pt_read_d :: "pid \<Rightarrow> addr \<Rightarrow> 'w \<Rightarrow> (u64 \<times> bool) \<times> 'w"
  k_pt_write_d :: "pid \<Rightarrow> addr \<Rightarrow> u8 \<Rightarrow> 'w \<Rightarrow> bool \<times> 'w"
  k_pt_step :: "pid \<Rightarrow> 'w \<Rightarrow> bool \<times> 'w"
  k_pt_continue :: "pid \<Rightarrow> 'w \<Rightarrow> bool \<times> 'w"
  k_pt_detach :: "pid \<Rightarrow> 'w \<Rightarrow> bool \<times> 'w"
  k_kill_sigkill :: "pid \<Rightarrow> 'w \<Rightarrow> kill_result \<times> 'w"
  k_waitpid :: "pid \<Rightarrow> 'w \<Rightarrow> wait_result \<times> 'w"
  k_fork :: "child_call list \<Rightarrow> 'w \<Rightarrow> pid option \<times> 'w"
  k_task_threads :: "port \<Rightarrow> 'w \<Rightarrow> (kern_return \<times> port list) \<times> 'w"
  k_thread_id :: "port \<Rightarrow> 'w \<Rightarrow> (kern_return \<times> tid) \<times> 'w"
  k_get_gpr :: "port \<Rightarrow> 'w \<Rightarrow> (kern_return \<times> gpr_state) \<times> 'w"
  k_get_neon :: "port \<Rightarrow> 'w \<Rightarrow> (kern_return \<times> neon_state) \<times> 'w"
  k_get_debug :: "port \<Rightarrow> 'w \<Rightarrow> (kern_return \<times> debug_state) \<times> 'w"
  k_get_exc :: "port \<Rightarrow> 'w \<Rightarrow> (kern_return \<times> exc_state) \<times> 'w"
  k_set_gpr :: "port \<Rightarrow> gpr_state \<Rightarrow> 'w \<Rightarrow> kern_return \<times> 'w"
  k_set_neon :: "port \<Rightarrow> neon_state \<Rightarrow> 'w \<Rightarrow> kern_return \<times> 'w"
  k_set_debug :: "port \<Rightarrow> debug_state \<Rightarrow> 'w \<Rightarrow> kern_return \<times> 'w"
  k_thread_suspend :: "port \<Rightarrow> 'w \<Rightarrow> kern_return \<times> 'w"
  k_thread_resume :: "port \<Rightarrow> 'w \<Rightarrow> kern_return \<times> 'w"
  k_access :: "string \<Rightarrow> nat \<Rightarrow> 'w \<Rightarrow> bool"
  k_read_file :: "string \<Rightarrow> 'w \<Rightarrow> u8 list option"
  k_popen :: "string \<Rightarrow> 'w \<Rightarrow> (string \<times> int) option"

text \<open>
  \<^verbatim>\<open>ptrace(PT_READ_D)\<close> returns the word and whether \<open>errno\<close> was set; the other ptrace
  requests whether they succeeded. \<open>k_popen\<close> is what a command prints and the status
  \<^verbatim>\<open>pclose\<close> returns, \<open>None\<close> when \<^verbatim>\<open>popen\<close> fails. \<open>k_read_file\<close> is a mapped file.
\<close>

section \<open>The debugger's side\<close>

datatype log_item =
  Out string                 \<comment> \<open>written to standard output\<close>
| Err string                 \<comment> \<open>written to standard error\<close>
| Perror string              \<comment> \<open>\<^verbatim>\<open>perror\<close> with this prefix\<close>
| Mach_Err string kern_return \<comment> \<open>a message with \<^verbatim>\<open>mach_error_string(kr)\<close> and \<^verbatim>\<open>kr\<close>\<close>

record 'w sys =
  world :: 'w
  rights :: "port multiset"
  io :: "log_item list"

definition emit :: "log_item \<Rightarrow> 'w sys \<Rightarrow> 'w sys" where
  "emit x y = y\<lparr>io := io y @ [x]\<rparr>"

text \<open>A call that leaves the ledger and the output alone.\<close>

definition syscall :: "('w \<Rightarrow> 'r \<times> 'w) \<Rightarrow> 'w sys \<Rightarrow> 'r \<times> 'w sys" where
  "syscall f y = (let (r, w) = f (world y) in (r, y\<lparr>world := w\<rparr>))"

text \<open>Calls that give the debugger a send right record it; \<^verbatim>\<open>mach_port_deallocate\<close>
  gives one back. The null port names no right.\<close>

definition live :: "port list \<Rightarrow> port multiset" where
  "live ps = filter_mset (\<lambda>p. p \<noteq> MACH_PORT_NULL) (mset ps)"

definition acquire :: "port \<Rightarrow> 'w sys \<Rightarrow> 'w sys" where
  "acquire p y = y\<lparr>rights := live [p] + rights y\<rparr>"

definition mach_port_deallocate :: "port \<Rightarrow> 'w sys \<Rightarrow> 'w sys" where
  "mach_port_deallocate p y = y\<lparr>rights := rights y - live [p]\<rparr>"

definition sys_task_for_pid :: "'w kernel \<Rightarrow> pid \<Rightarrow> 'w sys \<Rightarrow> (kern_return \<times> port) \<times> 'w sys" where
  "sys_task_for_pid K p y =
     (let ((kr, task), y) = syscall (k_task_for_pid K p) y
      in ((kr, task), if kr = KERN_SUCCESS then acquire task y else y))"

definition sys_task_threads :: "'w kernel \<Rightarrow> port \<Rightarrow> 'w sys \<Rightarrow> (kern_return \<times> port list) \<times> 'w sys" where
  "sys_task_threads K task y =
     (let ((kr, ts), y) = syscall (k_task_threads K task) y
      in ((kr, ts), if kr = KERN_SUCCESS then fold acquire ts y else y))"

section \<open>Lemmas\<close>

lemma syscall_simps [simp]:
  "rights (snd (syscall f y)) = rights y"
  "io (snd (syscall f y)) = io y"
  "world (snd (syscall f y)) = snd (f (world y))"
  "fst (syscall f y) = fst (f (world y))"
  by (simp_all add: syscall_def split: prod.splits)

lemma emit_simps [simp]:
  "rights (emit x y) = rights y" "world (emit x y) = world y" "io (emit x y) = io y @ [x]"
  by (simp_all add: emit_def)

lemma acquire_simps [simp]:
  "rights (acquire p y) = live [p] + rights y" "world (acquire p y) = world y"
  "io (acquire p y) = io y"
  by (simp_all add: acquire_def)

lemma deallocate_simps [simp]:
  "rights (mach_port_deallocate p y) = rights y - live [p]"
  "world (mach_port_deallocate p y) = world y"
  "io (mach_port_deallocate p y) = io y"
  by (simp_all add: mach_port_deallocate_def)

lemma live_simps [simp]:
  "live [] = {#}"
  "NO_MATCH [] ps \<Longrightarrow> live (p # ps) = live [p] + live ps"
  "live [MACH_PORT_NULL] = {#}"
  by (simp_all add: live_def)

lemma live_single: "p \<noteq> MACH_PORT_NULL \<Longrightarrow> live [p] = {#p#}"
  by (simp add: live_def)

lemma fold_acquire_simps [simp]:
  "rights (fold acquire ps y) = live ps + rights y"
  "world (fold acquire ps y) = world y" "io (fold acquire ps y) = io y"
  by (induction ps arbitrary: y) auto

lemma fold_deallocate_simps [simp]:
  "rights (fold mach_port_deallocate ps y) = rights y - live ps"
  "world (fold mach_port_deallocate ps y) = world y"
  "io (fold mach_port_deallocate ps y) = io y"
  by (induction ps arbitrary: y) (auto simp: diff_diff_add_mset)

end
