(* ===== verification/Memory.thy ===== *)
theory Memory
  imports Kernel
begin

text \<open>
  \<^verbatim>\<open>src/memory.c\<close>: reading and writing the debuggee's memory through its Mach task port
  (with a page made writable when the first write fails), and byte by byte through
  ptrace when the task port cannot be had or the Mach call fails. A result of \<^verbatim>\<open>0\<close> is
  \<open>Some\<close> bytes or \<open>True\<close>, a result of \<^verbatim>\<open>-1\<close> is \<open>None\<close> or \<open>False\<close>.
\<close>

section \<open>Operations\<close>

abbreviation VM_PROT_READ :: u32 where "VM_PROT_READ \<equiv> 1"
abbreviation VM_PROT_WRITE :: u32 where "VM_PROT_WRITE \<equiv> 2"
abbreviation VM_PROT_EXECUTE :: u32 where "VM_PROT_EXECUTE \<equiv> 4"
abbreviation VM_PROT_COPY :: u32 where "VM_PROT_COPY \<equiv> 0x10"

definition task_for_traced_pid :: "'w kernel \<Rightarrow> pid \<Rightarrow> 'w sys \<Rightarrow> port \<times> 'w sys" where
  "task_for_traced_pid K pid y =
     (let ((kr, task), y) = sys_task_for_pid K pid y
      in if kr \<noteq> KERN_SUCCESS then (MACH_PORT_NULL, y) else (task, y))"

fun mem_read_ptrace :: "'w kernel \<Rightarrow> pid \<Rightarrow> addr \<Rightarrow> nat \<Rightarrow> 'w sys \<Rightarrow> u8 list option \<times> 'w sys" where
  "mem_read_ptrace K pid addr 0 y = (Some [], y)"
| "mem_read_ptrace K pid addr (Suc len) y =
     (let ((word, err), y) = syscall (k_pt_read_d K pid addr) y
      in if word = - 1 \<and> err then (None, y)
         else let (rest, y) = mem_read_ptrace K pid (addr + 1) len y
              in (map_option (\<lambda>bs. ucast word # bs) rest, y))"

fun mem_write_ptrace :: "'w kernel \<Rightarrow> pid \<Rightarrow> addr \<Rightarrow> u8 list \<Rightarrow> 'w sys \<Rightarrow> bool \<times> 'w sys" where
  "mem_write_ptrace K pid addr [] y = (True, y)"
| "mem_write_ptrace K pid addr (b # bs) y =
     (let (ok, y) = syscall (k_pt_write_d K pid addr b) y
      in if \<not> ok then (False, y) else mem_write_ptrace K pid (addr + 1) bs y)"

definition mem_write_mach :: "'w kernel \<Rightarrow> port \<Rightarrow> addr \<Rightarrow> u8 list \<Rightarrow> 'w sys \<Rightarrow> bool \<times> 'w sys" where
  "mem_write_mach K task addr buf y =
     (let (kr, y) = syscall (k_mach_vm_write K task addr buf) y
      in if kr = KERN_SUCCESS then (True, y)
         else let page_size = k_pagesize K (world y)
              in if page_size \<le> 0 then (False, y)
                 else let page = addr AND NOT (of_int page_size - 1);
                          (kr, y) = syscall (k_mach_vm_protect K task page (of_int page_size)
                                      (VM_PROT_READ OR VM_PROT_WRITE OR VM_PROT_COPY)) y
                      in if kr \<noteq> KERN_SUCCESS then (False, y)
                         else let (kr, y) = syscall (k_mach_vm_write K task addr buf) y;
                                  (_, y) = syscall (k_mach_vm_protect K task page (of_int page_size)
                                             (VM_PROT_READ OR VM_PROT_EXECUTE)) y
                              in (kr = KERN_SUCCESS, y))"

definition mem_read_fallback ::
    "'w kernel \<Rightarrow> pid \<Rightarrow> addr \<Rightarrow> nat \<Rightarrow> 'w sys \<Rightarrow> u8 list option \<times> 'w sys" where
  "mem_read_fallback K pid addr len y =
     (let (r, y) = mem_read_ptrace K pid addr len y
      in case r of
           None \<Rightarrow> (None, emit (Perror ''cdbg_mem_read'') y)
         | Some bs \<Rightarrow> (Some bs, y))"

definition cdbg_mem_read ::
    "'w kernel \<Rightarrow> pid \<Rightarrow> addr \<Rightarrow> nat \<Rightarrow> 'w sys \<Rightarrow> u8 list option \<times> 'w sys" where
  "cdbg_mem_read K pid addr len y =
     (let (task, y) = task_for_traced_pid K pid y
      in if task \<noteq> MACH_PORT_NULL
         then let ((kr, data), y) = syscall (k_mach_vm_read K task addr len) y;
                  y = mach_port_deallocate task y
              in if kr = KERN_SUCCESS \<and> length data = len then (Some data, y)
                 else mem_read_fallback K pid addr len y
         else mem_read_fallback K pid addr len y)"

definition mem_write_fallback ::
    "'w kernel \<Rightarrow> pid \<Rightarrow> addr \<Rightarrow> u8 list \<Rightarrow> 'w sys \<Rightarrow> bool \<times> 'w sys" where
  "mem_write_fallback K pid addr buf y =
     (let (ok, y) = mem_write_ptrace K pid addr buf y
      in if ok then (True, y) else (False, emit (Perror ''cdbg_mem_write'') y))"

definition cdbg_mem_write ::
    "'w kernel \<Rightarrow> pid \<Rightarrow> addr \<Rightarrow> u8 list \<Rightarrow> 'w sys \<Rightarrow> bool \<times> 'w sys" where
  "cdbg_mem_write K pid addr buf y =
     (let (task, y) = task_for_traced_pid K pid y
      in if task \<noteq> MACH_PORT_NULL
         then let (ok, y) = mem_write_mach K task addr buf y;
                  y = mach_port_deallocate task y
              in if ok then (True, y) else mem_write_fallback K pid addr buf y
         else mem_write_fallback K pid addr buf y)"

definition cdbg_mem_read_u64 :: "'w kernel \<Rightarrow> pid \<Rightarrow> addr \<Rightarrow> 'w sys \<Rightarrow> u64 option \<times> 'w sys" where
  "cdbg_mem_read_u64 K pid addr y =
     (let (r, y) = cdbg_mem_read K pid addr 8 y in (map_option le_word r, y))"

definition cdbg_mem_write_u64 :: "'w kernel \<Rightarrow> pid \<Rightarrow> addr \<Rightarrow> u64 \<Rightarrow> 'w sys \<Rightarrow> bool \<times> 'w sys" where
  "cdbg_mem_write_u64 K pid addr value y = cdbg_mem_write K pid addr (le_bytes 8 value) y"

section \<open>No send right is leaked\<close>

lemma rights_mem_read_ptrace [simp]: "rights (snd (mem_read_ptrace K pid a n y)) = rights y"
  by (induction n arbitrary: a y)
    (simp_all add: Let_def split_beta)

lemma rights_mem_write_ptrace [simp]: "rights (snd (mem_write_ptrace K pid a bs y)) = rights y"
  by (induction bs arbitrary: a y)
    (simp_all add: Let_def split_beta)

lemma rights_mem_write_mach [simp]: "rights (snd (mem_write_mach K t a bs y)) = rights y"
  by (simp add: mem_write_mach_def Let_def split_beta)

lemma rights_task_for_traced_pid:
  "rights (snd (task_for_traced_pid K pid y)) =
     live [fst (task_for_traced_pid K pid y)] + rights y"
  by (simp add: task_for_traced_pid_def sys_task_for_pid_def Let_def split_beta)

lemma rights_mem_read_fallback [simp]:
  "rights (snd (mem_read_fallback K pid a n y)) = rights y"
  using rights_mem_read_ptrace [of K pid a n y]
  by (simp add: mem_read_fallback_def split_beta split: option.splits)

lemma rights_mem_write_fallback [simp]:
  "rights (snd (mem_write_fallback K pid a bs y)) = rights y"
  by (simp add: mem_write_fallback_def split_beta)

lemma rights_mem_read [simp]: "rights (snd (cdbg_mem_read K pid a n y)) = rights y"
  by (simp add: cdbg_mem_read_def split_beta Let_def rights_task_for_traced_pid)

lemma rights_mem_write [simp]: "rights (snd (cdbg_mem_write K pid a bs y)) = rights y"
  by (simp add: cdbg_mem_write_def split_beta Let_def rights_task_for_traced_pid)

lemma rights_mem_read_u64 [simp]: "rights (snd (cdbg_mem_read_u64 K pid a y)) = rights y"
  by (simp add: cdbg_mem_read_u64_def split_beta)

section \<open>Memory as a function of the address\<close>

fun bytes_at :: "(addr \<Rightarrow> u8) \<Rightarrow> addr \<Rightarrow> nat \<Rightarrow> u8 list" where
  "bytes_at m a 0 = []"
| "bytes_at m a (Suc n) = m a # bytes_at m (a + 1) n"

fun put_bytes :: "addr \<Rightarrow> u8 list \<Rightarrow> (addr \<Rightarrow> u8) \<Rightarrow> (addr \<Rightarrow> u8)" where
  "put_bytes a [] m = m"
| "put_bytes a (b # bs) m = put_bytes (a + 1) bs (m(a := b))"

lemma length_bytes_at [simp]: "length (bytes_at m a n) = n"
  by (induction n arbitrary: a) auto

lemma nth_bytes_at: "i < n \<Longrightarrow> bytes_at m a n ! i = m (a + of_nat i)"
proof (induction n arbitrary: a i)
  case (Suc n)
  then show ?case by (cases i) (auto simp: algebra_simps)
qed simp

lemma put_bytes_apply:
  "length bs \<le> 2 ^ 64 \<Longrightarrow>
     put_bytes a bs m x = (if unat (x - a) < length bs then bs ! unat (x - a) else m x)"
proof (induction bs arbitrary: a m)
  case (Cons b bs)
  have lt: "unat (x - (a + 1)) < 2 ^ 64"
    using unsigned_less [where ?'a = nat, of "x - (a + 1)"] by simp
  show ?case
  proof (cases "x = a")
    case True
    have "unat (- 1 :: u64) = 2 ^ 64 - 1" by (simp add: unsigned_minus_1_eq_mask mask_eq_exp_minus_1)
    with Cons True show ?thesis by (auto simp: diff_diff_eq [symmetric])
  next
    case False
    then have "x - a \<noteq> 0" by simp
    then have "unat (x - (a + 1)) = unat (x - a) - 1" "0 < unat (x - a)"
      using unat_minus_one [of "x - a"] by (simp_all add: diff_diff_eq unat_gt_0)
    with Cons False show ?thesis by (auto simp: nth_Cons')
  qed
qed simp

lemma put_bytes_append:
  "put_bytes a (bs @ cs) m = put_bytes (a + of_nat (length bs)) cs (put_bytes a bs m)"
  by (induction bs arbitrary: a m) (auto simp: algebra_simps)

lemma bytes_at_put_bytes:
  assumes "length bs \<le> 2 ^ 64"
  shows "bytes_at (put_bytes a bs m) a (length bs) = bs"
proof (rule nth_equalityI)
  fix i assume i: "i < length (bytes_at (put_bytes a bs m) a (length bs))"
  then have "unat (of_nat i :: u64) = i"
    using assms by (simp add: unat_of_nat take_bit_nat_eq_self)
  with i assms show "bytes_at (put_bytes a bs m) a (length bs) ! i = bs ! i"
    by (simp add: nth_bytes_at put_bytes_apply)
qed simp

text \<open>Writing back what was read undoes any write of the same bytes.\<close>

lemma put_bytes_restore:
  assumes "length bs = n" and "n \<le> 2 ^ 64"
  shows "put_bytes a (bytes_at m a n) (put_bytes a bs m) = m"
proof
  fix x
  show "put_bytes a (bytes_at m a n) (put_bytes a bs m) x = m x"
    using assms by (auto simp: put_bytes_apply nth_bytes_at)
qed

section \<open>The interface to the other components\<close>

text \<open>
  What the clients of \<^verbatim>\<open>memory.c\<close> (breakpoints, scalar values, frame records) rely on:
  a successful read is a snapshot, a read changes nothing, a successful write is a write of
  exactly those bytes, a failed one has written at most a prefix.
\<close>

locale memory_iface =
  fixes rd :: "addr \<Rightarrow> nat \<Rightarrow> 's \<Rightarrow> u8 list option \<times> 's"
    and wr :: "addr \<Rightarrow> u8 list \<Rightarrow> 's \<Rightarrow> bool \<times> 's"
    and view :: "'s \<Rightarrow> addr \<Rightarrow> u8"
  assumes rd_view: "view (snd (rd a n s)) = view s"
    and rd_bytes: "fst (rd a n s) = Some bs \<Longrightarrow> bs = bytes_at (view s) a n"
    and wr_ok: "fst (wr a bs s) \<Longrightarrow> view (snd (wr a bs s)) = put_bytes a bs (view s)"
    and wr_fail: "\<not> fst (wr a bs s) \<Longrightarrow> \<exists>k. view (snd (wr a bs s)) = put_bytes a (take k bs) (view s)"
begin

lemma rd_length: "fst (rd a n s) = Some bs \<Longrightarrow> length bs = n"
  by (auto dest: rd_bytes)

lemma rd_after_wr:
  assumes "fst (wr a bs s)" and "fst (rd a (length bs) (snd (wr a bs s))) = Some cs"
    and "length bs \<le> 2 ^ 64"
  shows "cs = bs"
  using assms by (auto dest!: rd_bytes simp: wr_ok bytes_at_put_bytes)

lemma wr_back:
  assumes "fst (rd a n s) = Some old" and "fst (wr a bs s1)" and "view s1 = view s"
    and "view s2 = view (snd (wr a bs s1))" and "fst (wr a old s2)"
    and "length bs = n" "n \<le> 2 ^ 64"
  shows "view (snd (wr a old s2)) = view s"
proof -
  have "old = bytes_at (view s) a n" using assms(1) by (rule rd_bytes)
  moreover have "view s2 = put_bytes a bs (view s)" using assms by (simp add: wr_ok)
  ultimately show ?thesis using assms by (simp add: wr_ok put_bytes_restore)
qed

end

section \<open>What the kernel promises about a traced process's memory\<close>

text \<open>
  The documented behaviour of the Mach and ptrace calls on a stopped process: a call that
  reports success has read or written exactly the bytes it was asked to, no other call
  touches the memory, and a failed call has no effect. \<open>task_ports\<close> are the task ports of
  the process.
\<close>

locale traced_memory =
  fixes K :: "'w kernel"
    and pid :: pid
    and task_ports :: "port set"
    and mem :: "'w \<Rightarrow> addr \<Rightarrow> u8"
  assumes task_for_pid: "k_task_for_pid K pid w = ((kr, t), w') \<Longrightarrow>
      mem w' = mem w \<and> (kr = KERN_SUCCESS \<and> t \<noteq> MACH_PORT_NULL \<longrightarrow> t \<in> task_ports)"
    and vm_read: "t \<in> task_ports \<Longrightarrow> k_mach_vm_read K t a n w = ((kr, bs), w') \<Longrightarrow>
      mem w' = mem w \<and> (kr = KERN_SUCCESS \<and> length bs = n \<longrightarrow> bs = bytes_at (mem w) a n)"
    and vm_write: "t \<in> task_ports \<Longrightarrow> k_mach_vm_write K t a bs w = (kr, w') \<Longrightarrow>
      mem w' = (if kr = KERN_SUCCESS then put_bytes a bs (mem w) else mem w)"
    and vm_protect: "k_mach_vm_protect K t a len prot w = (kr, w') \<Longrightarrow> mem w' = mem w"
    and pt_read: "k_pt_read_d K pid a w = ((word, err), w') \<Longrightarrow>
      mem w' = mem w \<and> (\<not> (word = - 1 \<and> err) \<longrightarrow> ucast word = mem w a)"
    and pt_write: "k_pt_write_d K pid a b w = (ok, w') \<Longrightarrow>
      mem w' = (if ok then (mem w)(a := b) else mem w)"
begin

lemma mem_read_ptrace_spec:
  "mem (world (snd (mem_read_ptrace K pid a n y))) = mem (world y)
   \<and> (\<forall>bs. fst (mem_read_ptrace K pid a n y) = Some bs \<longrightarrow> bs = bytes_at (mem (world y)) a n)"
proof (induction n arbitrary: a y)
  case (Suc n)
  obtain word err w' where k: "k_pt_read_d K pid a (world y) = ((word, err), w')"
    by (metis prod.exhaust)
  note law = pt_read [OF k]
  show ?case
    using Suc [of "a + 1" "y\<lparr>world := w'\<rparr>"] law
    by (auto simp: syscall_def k split_beta Let_def)
qed simp

lemma mem_write_ptrace_spec:
  "\<exists>k. mem (world (snd (mem_write_ptrace K pid a bs y))) = put_bytes a (take k bs) (mem (world y))
     \<and> (fst (mem_write_ptrace K pid a bs y) \<longrightarrow> k = length bs)"
proof (induction bs arbitrary: a y)
  case (Cons b bs)
  obtain ok w' where k: "k_pt_write_d K pid a b (world y) = (ok, w')"
    by (metis prod.exhaust)
  note law = pt_write [OF k]
  show ?case
  proof (cases ok)
    case True
    obtain j where "mem (world (snd (mem_write_ptrace K pid (a + 1) bs (y\<lparr>world := w'\<rparr>))))
          = put_bytes (a + 1) (take j bs) (mem w')
        \<and> (fst (mem_write_ptrace K pid (a + 1) bs (y\<lparr>world := w'\<rparr>)) \<longrightarrow> j = length bs)"
      using Cons [of "a + 1" "y\<lparr>world := w'\<rparr>"] by auto
    with True law show ?thesis
      by (intro exI [of _ "Suc j"]) (simp add: syscall_def k split_beta Let_def)
  next
    case False
    with law show ?thesis
      by (intro exI [of _ 0]) (auto simp: syscall_def k split_beta Let_def)
  qed
qed simp

lemma mem_world_vm_write:
  assumes "t \<in> task_ports"
  shows "mem (snd (k_mach_vm_write K t a bs w)) =
    (if fst (k_mach_vm_write K t a bs w) = KERN_SUCCESS then put_bytes a bs (mem w) else mem w)"
  using vm_write [OF assms, of a bs w] by (metis prod.collapse)

lemma mem_world_protect: "mem (snd (k_mach_vm_protect K t a len prot w)) = mem w"
  by (metis vm_protect prod.collapse)

lemma mem_write_mach_spec:
  assumes "t \<in> task_ports"
  shows "mem (world (snd (mem_write_mach K t a bs y))) =
    (if fst (mem_write_mach K t a bs y) then put_bytes a bs (mem (world y)) else mem (world y))"
  by (simp add: mem_write_mach_def Let_def split_beta mem_world_vm_write [OF assms]
      mem_world_protect)

lemma task_for_traced_pid_spec:
  "mem (world (snd (task_for_traced_pid K pid y))) = mem (world y)
   \<and> (fst (task_for_traced_pid K pid y) \<noteq> MACH_PORT_NULL
        \<longrightarrow> fst (task_for_traced_pid K pid y) \<in> task_ports)"
proof -
  obtain kr t w' where k: "k_task_for_pid K pid (world y) = ((kr, t), w')"
    by (metis prod.exhaust)
  show ?thesis
    using task_for_pid [OF k]
    by (auto simp: task_for_traced_pid_def sys_task_for_pid_def syscall_def k Let_def)
qed

lemma mem_read_spec:
  "mem (world (snd (cdbg_mem_read K pid a n y))) = mem (world y)
   \<and> (\<forall>bs. fst (cdbg_mem_read K pid a n y) = Some bs \<longrightarrow> bs = bytes_at (mem (world y)) a n)"
proof -
  obtain t y1 where t: "task_for_traced_pid K pid y = (t, y1)" by (metis prod.exhaust)
  have m1: "mem (world y1) = mem (world y)" and tp: "t \<noteq> MACH_PORT_NULL \<longrightarrow> t \<in> task_ports"
    using task_for_traced_pid_spec [of y] t by auto
  have fb: "mem (world (snd (mem_read_fallback K pid a n z))) = mem (world z)
      \<and> (\<forall>bs. fst (mem_read_fallback K pid a n z) = Some bs \<longrightarrow> bs = bytes_at (mem (world z)) a n)"
    for z
    using mem_read_ptrace_spec [of a n z]
    by (auto simp: mem_read_fallback_def split_beta split: option.splits)
  obtain kr bs w' where k: "k_mach_vm_read K t a n (world y1) = ((kr, bs), w')"
    by (metis prod.exhaust)
  show ?thesis
  proof (cases "t = MACH_PORT_NULL")
    case True
    with fb [of y1] m1 t show ?thesis by (simp add: cdbg_mem_read_def)
  next
    case False
    with tp have "t \<in> task_ports" by simp
    note law = vm_read [OF this k]
    show ?thesis
      using False t m1 k law fb [of "mach_port_deallocate t (y1\<lparr>world := w'\<rparr>)"]
      by (auto simp: cdbg_mem_read_def syscall_def Let_def)
  qed
qed

lemma mem_write_spec:
  "(fst (cdbg_mem_write K pid a bs y) \<longrightarrow>
      mem (world (snd (cdbg_mem_write K pid a bs y))) = put_bytes a bs (mem (world y)))
   \<and> (\<exists>k. mem (world (snd (cdbg_mem_write K pid a bs y))) = put_bytes a (take k bs) (mem (world y)))"
proof -
  obtain t y1 where t: "task_for_traced_pid K pid y = (t, y1)" by (metis prod.exhaust)
  have m1: "mem (world y1) = mem (world y)" and tp: "t \<noteq> MACH_PORT_NULL \<longrightarrow> t \<in> task_ports"
    using task_for_traced_pid_spec [of y] t by auto
  have fb: "(fst (mem_write_fallback K pid a bs z) \<longrightarrow>
        mem (world (snd (mem_write_fallback K pid a bs z))) = put_bytes a bs (mem (world z)))
      \<and> (\<exists>k. mem (world (snd (mem_write_fallback K pid a bs z))) = put_bytes a (take k bs) (mem (world z)))"
    for z
    using mem_write_ptrace_spec [of a bs z]
    by (auto simp: mem_write_fallback_def split_beta)
  show ?thesis
  proof (cases "t = MACH_PORT_NULL")
    case True
    with fb [of y1] m1 t show ?thesis by (simp add: cdbg_mem_write_def)
  next
    case False
    with tp have "t \<in> task_ports" by simp
    note spec = mem_write_mach_spec [OF this, of a bs y1]
    show ?thesis
    proof (cases "fst (mem_write_mach K t a bs y1)")
      case True
      with False t m1 spec show ?thesis
        by (auto simp: cdbg_mem_write_def split_beta intro: exI [of _ "length bs"])
    next
      case fail: False
      with False t m1 spec fb [of "mach_port_deallocate t (snd (mem_write_mach K t a bs y1))"]
      show ?thesis by (simp add: cdbg_mem_write_def split_beta)
    qed
  qed
qed

end

text \<open>The component's operations satisfy the interface whenever the kernel keeps its
  promises.\<close>

sublocale traced_memory \<subseteq> mi: memory_iface
  "cdbg_mem_read K pid" "cdbg_mem_write K pid" "\<lambda>y. mem (world y)"
proof unfold_locales
  fix a n s
  show "mem (world (snd (cdbg_mem_read K pid a n s))) = mem (world s)"
    using mem_read_spec by blast
next
  fix a n s bs
  show "fst (cdbg_mem_read K pid a n s) = Some bs \<Longrightarrow> bs = bytes_at (mem (world s)) a n"
    using mem_read_spec by blast
next
  fix a bs s
  show "fst (cdbg_mem_write K pid a bs s) \<Longrightarrow>
      mem (world (snd (cdbg_mem_write K pid a bs s))) = put_bytes a bs (mem (world s))"
    using mem_write_spec by blast
next
  fix a bs s
  show "\<exists>k. mem (world (snd (cdbg_mem_write K pid a bs s))) = put_bytes a (take k bs) (mem (world s))"
    using mem_write_spec by blast
qed

end
