(* ===== verification/Threads.thy ===== *)
theory Threads
  imports Memory
begin

text \<open>
  \<^verbatim>\<open>src/threads.c\<close>: enumeration of the traced task's threads, resolution of a thread id
  to a send right, and freezing or thawing every thread but one. The loops over the array of
  thread ports are recursions over the list; the ledger of \<^verbatim>\<open>Kernel\<close> records which ports
  are given back.
\<close>

section \<open>Operations\<close>

definition CDBG_MAX_THREADS :: nat where "CDBG_MAX_THREADS = 256"

record cdbg_thread_entry =
  te_tid :: tid
  te_pc :: addr

text \<open>\<^verbatim>\<open>threads.c\<close> has its own \<^verbatim>\<open>task_for_traced_pid\<close>, which reports a failure.\<close>

definition threads_task_for_pid :: "'w kernel \<Rightarrow> pid \<Rightarrow> 'w sys \<Rightarrow> port \<times> 'w sys" where
  "threads_task_for_pid K pid y =
     (let ((kr, task), y) = sys_task_for_pid K pid y
      in if kr \<noteq> KERN_SUCCESS then (MACH_PORT_NULL, emit (Mach_Err ''task_for_pid failed'' kr) y)
         else (task, y))"

definition thread_id_for_port :: "'w kernel \<Rightarrow> port \<Rightarrow> 'w sys \<Rightarrow> tid option \<times> 'w sys" where
  "thread_id_for_port K thread y =
     (let ((kr, tid), y) = syscall (k_thread_id K thread) y
      in if kr \<noteq> KERN_SUCCESS then (None, y) else (Some tid, y))"

definition enumerate_threads :: "'w kernel \<Rightarrow> pid \<Rightarrow> 'w sys \<Rightarrow> port list option \<times> 'w sys" where
  "enumerate_threads K pid y =
     (let (task, y) = threads_task_for_pid K pid y
      in if task = MACH_PORT_NULL then (None, y)
         else let ((kr, threads), y) = sys_task_threads K task y;
                  y = mach_port_deallocate task y
              in if kr \<noteq> KERN_SUCCESS then (None, emit (Mach_Err ''task_threads failed'' kr) y)
                 else (Some threads, y))"

definition deallocate_threads :: "port list \<Rightarrow> 'w sys \<Rightarrow> 'w sys" where
  "deallocate_threads threads y = fold mach_port_deallocate threads y"

fun threads_list_loop ::
    "'w kernel \<Rightarrow> port list \<Rightarrow> nat \<Rightarrow> 'w sys \<Rightarrow> cdbg_thread_entry list \<times> 'w sys" where
  "threads_list_loop K [] room y = ([], y)"
| "threads_list_loop K (t # ts) 0 y = ([], y)"
| "threads_list_loop K (t # ts) (Suc room) y =
     (let (id, y) = thread_id_for_port K t y
      in case id of
           None \<Rightarrow> threads_list_loop K ts (Suc room) y
         | Some tid \<Rightarrow>
             (let ((kr, native), y) = syscall (k_get_gpr K t) y;
                  pc = (if kr = KERN_SUCCESS then r_pc native else 0);
                  (rest, y) = threads_list_loop K ts room y
              in (\<lparr>te_tid = tid, te_pc = pc\<rparr> # rest, y)))"

definition cdbg_threads_list ::
    "'w kernel \<Rightarrow> pid \<Rightarrow> nat \<Rightarrow> 'w sys \<Rightarrow> cdbg_thread_entry list option \<times> 'w sys" where
  "cdbg_threads_list K pid max_count y =
     (let (threads, y) = enumerate_threads K pid y
      in case threads of
           None \<Rightarrow> (None, y)
         | Some ts \<Rightarrow>
             (let (out, y) = threads_list_loop K ts max_count y
              in (Some out, deallocate_threads ts y)))"

fun resolve_port_loop :: "'w kernel \<Rightarrow> tid \<Rightarrow> port list \<Rightarrow> port \<Rightarrow> 'w sys \<Rightarrow> port \<times> 'w sys" where
  "resolve_port_loop K tid [] found y = (found, y)"
| "resolve_port_loop K tid (t # ts) found y =
     (if found = MACH_PORT_NULL
      then let (id, y) = thread_id_for_port K t y
           in if id = Some tid then resolve_port_loop K tid ts t y
              else resolve_port_loop K tid ts found (mach_port_deallocate t y)
      else resolve_port_loop K tid ts found (mach_port_deallocate t y))"

definition cdbg_threads_resolve_port ::
    "'w kernel \<Rightarrow> pid \<Rightarrow> tid \<Rightarrow> 'w sys \<Rightarrow> port option \<times> 'w sys" where
  "cdbg_threads_resolve_port K pid tid y =
     (let (threads, y) = enumerate_threads K pid y
      in case threads of
           None \<Rightarrow> (None, y)
         | Some [] \<Rightarrow> (None, deallocate_threads [] y)
         | Some (t # ts) \<Rightarrow>
             if tid = 0 then (Some t, fold mach_port_deallocate ts y)
             else let (found, y) = resolve_port_loop K tid (t # ts) MACH_PORT_NULL y
                  in if found = MACH_PORT_NULL then (None, y) else (Some found, y))"

fun suspend_or_resume_loop ::
    "'w kernel \<Rightarrow> bool \<Rightarrow> tid \<Rightarrow> port list \<Rightarrow> bool \<Rightarrow> 'w sys \<Rightarrow> bool \<times> 'w sys" where
  "suspend_or_resume_loop K suspend keep [] ok y = (ok, y)"
| "suspend_or_resume_loop K suspend keep (t # ts) ok y =
     (let (id, y) = thread_id_for_port K t y
      in if id = Some keep then suspend_or_resume_loop K suspend keep ts ok y
         else let (kr, y) = syscall (if suspend then k_thread_suspend K t else k_thread_resume K t) y
              in suspend_or_resume_loop K suspend keep ts (ok \<and> kr = KERN_SUCCESS) y)"

definition keep_thread :: "'w kernel \<Rightarrow> tid \<Rightarrow> port list \<Rightarrow> 'w sys \<Rightarrow> tid \<times> 'w sys" where
  "keep_thread K keep_tid threads y =
     (case threads of
        [] \<Rightarrow> (keep_tid, y)
      | t # _ \<Rightarrow>
          if keep_tid = 0
          then let (id, y) = thread_id_for_port K t y
               in (case id of None \<Rightarrow> keep_tid | Some primary_tid \<Rightarrow> primary_tid, y)
          else (keep_tid, y))"

definition suspend_or_resume_others ::
    "'w kernel \<Rightarrow> pid \<Rightarrow> tid \<Rightarrow> bool \<Rightarrow> 'w sys \<Rightarrow> bool \<times> 'w sys" where
  "suspend_or_resume_others K pid keep_tid suspend y =
     (let (threads, y) = enumerate_threads K pid y
      in case threads of
           None \<Rightarrow> (False, y)
         | Some ts \<Rightarrow>
             (let (keep, y) = keep_thread K keep_tid ts y;
                  (ok, y) = suspend_or_resume_loop K suspend keep ts True y
              in (ok, deallocate_threads ts y)))"

definition cdbg_threads_suspend_others :: "'w kernel \<Rightarrow> pid \<Rightarrow> tid \<Rightarrow> 'w sys \<Rightarrow> bool \<times> 'w sys" where
  "cdbg_threads_suspend_others K pid keep_tid y = suspend_or_resume_others K pid keep_tid True y"

definition cdbg_threads_resume_others :: "'w kernel \<Rightarrow> pid \<Rightarrow> tid \<Rightarrow> 'w sys \<Rightarrow> bool \<times> 'w sys" where
  "cdbg_threads_resume_others K pid keep_tid y = suspend_or_resume_others K pid keep_tid False y"

section \<open>Send rights\<close>

lemma rights_thread_id [simp]: "rights (snd (thread_id_for_port K t y)) = rights y"
  by (simp add: thread_id_for_port_def split_beta Let_def)

lemma rights_enumerate_threads:
  "rights (snd (enumerate_threads K pid y)) =
     (case fst (enumerate_threads K pid y) of None \<Rightarrow> {#} | Some ts \<Rightarrow> live ts) + rights y"
  by (simp add: enumerate_threads_def threads_task_for_pid_def sys_task_for_pid_def
      sys_task_threads_def Let_def split_beta)

lemma rights_deallocate_threads [simp]:
  "rights (deallocate_threads ts y) = rights y - live ts"
  by (simp add: deallocate_threads_def)

lemma rights_threads_list_loop [simp]:
  "rights (snd (threads_list_loop K ts room y)) = rights y"
proof (induction ts arbitrary: room y)
  case (Cons t ts)
  then show ?case by (cases room) (simp_all add: Let_def split_beta split: option.splits)
qed simp

text \<open>The loop keeps at most one of the rights it is given and gives back the others.\<close>

lemma live_Cons: "live (t # ts) = live [t] + live ts"
  by (simp add: live_def)

lemma rights_resolve_port_loop:
  "rights y = live [found] + live ts + R \<Longrightarrow>
   rights (snd (resolve_port_loop K tid ts found y)) =
     live [fst (resolve_port_loop K tid ts found y)] + R"
proof (induction K tid ts found y rule: resolve_port_loop.induct)
  case (1 K tid found y)
  then show ?case by simp
next
  case (2 K tid t ts found y)
  define id where "id = fst (thread_id_for_port K t y)"
  define y1 where "y1 = snd (thread_id_for_port K t y)"
  have y: "thread_id_for_port K t y = (id, y1)" "rights y1 = rights y"
    by (simp_all add: id_def y1_def)
  from "2.prems" have r: "rights y = live [t] + (live [found] + live ts + R)"
    by (simp add: live_Cons [of t ts] ac_simps)
  show ?case
  proof (cases "found = MACH_PORT_NULL")
    case True
    show ?thesis
    proof (cases "id = Some tid")
      case hit: True
      then show ?thesis
        using "2.IH"(1) [OF True y(1) [symmetric] refl hit] True r by (simp add: y)
    next
      case miss: False
      then show ?thesis
        using "2.IH"(2) [OF True y(1) [symmetric] refl miss] True r by (simp add: y)
    qed
  next
    case False
    then show ?thesis using "2.IH"(3) [OF False] r by simp
  qed
qed

lemma rights_suspend_or_resume_loop [simp]:
  "rights (snd (suspend_or_resume_loop K b keep ts ok y)) = rights y"
  by (induction ts arbitrary: ok y) (simp_all add: Let_def split_beta)

lemma rights_keep_thread [simp]: "rights (snd (keep_thread K keep ts y)) = rights y"
  by (simp add: keep_thread_def split_beta Let_def split: list.splits)

lemma rights_suspend_or_resume [simp]:
  "rights (snd (suspend_or_resume_others K pid keep b y)) = rights y"
  using rights_enumerate_threads [of K pid y]
  by (simp add: suspend_or_resume_others_def Let_def split_beta split: option.splits)

lemma rights_threads_list [simp]: "rights (snd (cdbg_threads_list K pid n y)) = rights y"
  using rights_enumerate_threads [of K pid y]
  by (simp add: cdbg_threads_list_def Let_def split_beta split: option.splits)

lemma rights_suspend_others [simp]:
  "rights (snd (cdbg_threads_suspend_others K pid keep y)) = rights y"
  "rights (snd (cdbg_threads_resume_others K pid keep y)) = rights y"
  by (simp_all add: cdbg_threads_suspend_others_def cdbg_threads_resume_others_def)

lemma rights_resolve_port:
  "rights (snd (cdbg_threads_resolve_port K pid tid y)) =
     (case fst (cdbg_threads_resolve_port K pid tid y) of None \<Rightarrow> {#} | Some p \<Rightarrow> live [p]) + rights y"
proof -
  obtain r y1 where e: "enumerate_threads K pid y = (r, y1)" by (metis prod.exhaust)
  note r = rights_enumerate_threads [of K pid y, unfolded e, simplified]
  show ?thesis
  proof (cases r)
    case (Some ts)
    then show ?thesis
    proof (cases ts)
      case Nil
      with Some e r show ?thesis by (simp add: cdbg_threads_resolve_port_def)
    next
      case (Cons t us)
      have "rights y1 = live [MACH_PORT_NULL] + live ts + rights y" using r Some by simp
      from rights_resolve_port_loop [OF this, of K tid] show ?thesis
        using Some Cons e r by (simp add: cdbg_threads_resolve_port_def live_Cons [of t us] split_beta Let_def)
    qed
  qed (simp add: cdbg_threads_resolve_port_def e r)
qed

section \<open>A task whose threads can be listed\<close>

text \<open>
  A stopped task as \<^verbatim>\<open>task_threads\<close> shows it: the list of its threads in a fixed order,
  each with an identifier of its own that is not 0. Queries change nothing.
\<close>

locale stopped_task =
  fixes K :: "'w kernel"
    and pid :: pid
    and task :: port
    and ts :: "port list"
    and ident :: "port \<Rightarrow> tid"
  assumes task_for_pid: "k_task_for_pid K pid w = ((KERN_SUCCESS, task), w)"
    and task_threads: "k_task_threads K task w = ((KERN_SUCCESS, ts), w)"
    and thread_id: "t \<in> set ts \<Longrightarrow> k_thread_id K t w = ((KERN_SUCCESS, ident t), w)"
    and ports: "task \<noteq> MACH_PORT_NULL" "MACH_PORT_NULL \<notin> set ts" "ts \<noteq> []"
    and ident: "inj_on ident (set ts)" "t \<in> set ts \<Longrightarrow> ident t \<noteq> 0"
begin

lemma enumerate: "enumerate_threads K pid y = (Some ts, y\<lparr>rights := live ts + rights y\<rparr>)"
  by (intro prod_eqI sys.equality)
    (simp_all add: enumerate_threads_def threads_task_for_pid_def sys_task_for_pid_def
      sys_task_threads_def syscall_def task_for_pid task_threads ports)

lemma thread_id_for: "t \<in> set ts \<Longrightarrow> thread_id_for_port K t y = (Some (ident t), y)"
  by (simp add: thread_id_for_port_def syscall_def thread_id)

lemma resolve_loop_found:
  "found \<noteq> MACH_PORT_NULL \<Longrightarrow> fst (resolve_port_loop K tid us found y) = found
   \<and> world (snd (resolve_port_loop K tid us found y)) = world y
   \<and> io (snd (resolve_port_loop K tid us found y)) = io y"
  by (induction us arbitrary: y) simp_all

lemma resolve_loop:
  "set us \<subseteq> set ts \<Longrightarrow>
     fst (resolve_port_loop K tid us MACH_PORT_NULL y) =
       (case filter (\<lambda>t. ident t = tid) us of [] \<Rightarrow> MACH_PORT_NULL | t # _ \<Rightarrow> t)
   \<and> world (snd (resolve_port_loop K tid us MACH_PORT_NULL y)) = world y
   \<and> io (snd (resolve_port_loop K tid us MACH_PORT_NULL y)) = io y"
proof (induction us arbitrary: y)
  case (Cons u us)
  then have "u \<noteq> MACH_PORT_NULL" using ports by auto
  with Cons show ?case by (simp add: thread_id_for resolve_loop_found)
qed simp

lemma filter_ident: "t \<in> set us \<Longrightarrow> set us \<subseteq> set ts \<Longrightarrow>
    \<exists>r. filter (\<lambda>u. ident u = ident t) us = t # r"
proof (induction us)
  case (Cons u us)
  then show ?case using inj_onD [OF ident(1), of u t] by (cases "u = t") auto
qed simp

lemma resolve:
  assumes "t \<in> set ts" and "tid = ident t \<or> tid = 0 \<and> t = hd ts"
  shows "cdbg_threads_resolve_port K pid tid y = (Some t, y\<lparr>rights := live [t] + rights y\<rparr>)"
proof -
  have t: "t \<noteq> MACH_PORT_NULL" using assms ports by auto
  obtain u us where ts: "ts = u # us" using ports by (cases ts) auto
  let ?r = "cdbg_threads_resolve_port K pid tid y"
  have r: "fst ?r = Some t \<and> world (snd ?r) = world y \<and> io (snd ?r) = io y"
  proof (cases "tid = 0")
    case True
    with assms ident have "t = u" by (auto simp: ts)
    with True show ?thesis by (simp add: cdbg_threads_resolve_port_def enumerate ts)
  next
    case False
    with assms have tid: "tid = ident t" by auto
    obtain r where "filter (\<lambda>u. ident u = tid) ts = t # r"
      using filter_ident [OF assms(1)] tid by blast
    with resolve_loop [of ts tid "y\<lparr>rights := live ts + rights y\<rparr>"] t False show ?thesis
      by (simp add: cdbg_threads_resolve_port_def enumerate split_beta Let_def ts
          del: resolve_port_loop.simps)
  qed
  show ?thesis
    using r rights_resolve_port [of K pid tid y]
    by (intro prod_eqI sys.equality) simp_all
qed

lemma resolve_unknown:
  assumes "tid \<noteq> 0" and "tid \<notin> ident ` set ts"
  shows "cdbg_threads_resolve_port K pid tid y = (None, y)"
proof -
  obtain u us where ts: "ts = u # us" using ports by (cases ts) auto
  let ?r = "cdbg_threads_resolve_port K pid tid y"
  have "filter (\<lambda>u. ident u = tid) ts = []" using assms(2) by (auto simp: filter_empty_conv)
  with resolve_loop [of ts tid "y\<lparr>rights := live ts + rights y\<rparr>"] assms(1)
  have r: "fst ?r = None \<and> world (snd ?r) = world y \<and> io (snd ?r) = io y"
    by (simp add: cdbg_threads_resolve_port_def enumerate split_beta Let_def ts
        del: resolve_port_loop.simps)
  then show ?thesis
    using rights_resolve_port [of K pid tid y]
    by (intro prod_eqI sys.equality) simp_all
qed

end

section \<open>Suspending and resuming\<close>

text \<open>\<open>susp\<close> is the suspend count of a thread.\<close>

locale suspendable_task = stopped_task K pid task ts ident
  for K :: "'w kernel" and pid task ts ident +
  fixes susp :: "'w \<Rightarrow> port \<Rightarrow> int"
  assumes suspend: "t \<in> set ts \<Longrightarrow> k_thread_suspend K t w = (kr, w') \<Longrightarrow>
      kr = KERN_SUCCESS \<and> susp w' = (susp w)(t := susp w t + 1)"
    and resume: "t \<in> set ts \<Longrightarrow> k_thread_resume K t w = (kr, w') \<Longrightarrow>
      kr = KERN_SUCCESS \<and> susp w' = (susp w)(t := susp w t - 1)"
begin

lemma susp_loop:
  assumes "distinct us" and "set us \<subseteq> set ts"
  shows "fst (suspend_or_resume_loop K b keep us ok y) = ok
   \<and> susp (world (snd (suspend_or_resume_loop K b keep us ok y))) =
       (\<lambda>t. if t \<in> set us \<and> ident t \<noteq> keep then susp (world y) t + (if b then 1 else - 1)
            else susp (world y) t)"
  using assms
proof (induction us arbitrary: y ok)
  case (Cons u us)
  define op where "op = (if b then k_thread_suspend K u else k_thread_resume K u)"
  obtain kr w' where k: "op (world y) = (kr, w')" by (metis prod.exhaust)
  have u: "u \<in> set ts" using Cons by simp
  have law: "kr = KERN_SUCCESS"
    "susp w' = (susp (world y))(u := susp (world y) u + (if b then 1 else - 1))"
    using suspend [OF u, of "world y" kr w'] resume [OF u, of "world y" kr w'] k
    by (cases b; simp add: op_def)+
  show ?case
    using Cons.IH [of ok "y\<lparr>world := w'\<rparr>"] Cons.IH [of ok y] Cons.prems k law
    unfolding suspend_or_resume_loop.simps op_def [symmetric]
    by (auto simp: thread_id_for syscall_def op_def [symmetric])
qed auto

lemma susp_others:
  assumes "distinct ts"
  shows "fst (suspend_or_resume_others K pid keep b y)
    \<and> susp (world (snd (suspend_or_resume_others K pid keep b y))) =
       (\<lambda>t. if t \<in> set ts \<and> ident t \<noteq> (if keep = 0 then ident (hd ts) else keep)
            then susp (world y) t + (if b then 1 else - 1) else susp (world y) t)"
proof -
  obtain u us where ts: "ts = u # us" using ports by (cases ts) auto
  have "keep_thread K keep ts y' = (if keep = 0 then ident (hd ts) else keep, y')" for y'
    using thread_id_for [of u] by (simp add: keep_thread_def ts)
  with susp_loop [OF assms subset_refl, of b "if keep = 0 then ident (hd ts) else keep" True
      "y\<lparr>rights := live ts + rights y\<rparr>"]
  show ?thesis
    by (simp add: suspend_or_resume_others_def enumerate split_beta Let_def deallocate_threads_def
        del: suspend_or_resume_loop.simps cong: if_cong)
qed

end

end
