(* ===== verification/Regs.thy ===== *)
theory Regs
  imports Threads
begin

text \<open>
  \<^verbatim>\<open>src/regs.c\<close>: the register files of a thread (general purpose, floating point, debug
  and exception state), the walk up the chain of frame records, and registers by name.
  A function that fills a caller's buffer returns the buffer's new contents; when the
  second of two calls fails the buffer keeps what the first one wrote, as in the code.
\<close>

section \<open>Operations\<close>

record cdbg_regs =
  native :: gpr_state
  neon :: neon_state

definition cdbg_regs_get ::
    "'w kernel \<Rightarrow> pid \<Rightarrow> tid \<Rightarrow> cdbg_regs \<Rightarrow> 'w sys \<Rightarrow> (bool \<times> cdbg_regs) \<times> 'w sys" where
  "cdbg_regs_get K pid tid regs y =
     (let (port, y) = cdbg_threads_resolve_port K pid tid y
      in case port of
           None \<Rightarrow> ((False, regs), y)
         | Some thread \<Rightarrow>
             (let ((kr, g), y) = syscall (k_get_gpr K thread) y
              in if kr \<noteq> KERN_SUCCESS
                 then ((False, regs), mach_port_deallocate thread
                                        (emit (Mach_Err ''thread_get_state failed'' kr) y))
                 else let regs = regs\<lparr>native := g\<rparr>;
                          ((kr, v), y) = syscall (k_get_neon K thread) y;
                          y = mach_port_deallocate thread y
                      in if kr \<noteq> KERN_SUCCESS
                         then ((False, regs), emit (Mach_Err ''thread_get_state (fp) failed'' kr) y)
                         else ((True, regs\<lparr>neon := v\<rparr>), y)))"

text \<open>The shape that the other accessors share: resolve the thread, make one call, give the
  right back, report a failure.\<close>

definition with_thread ::
    "'w kernel \<Rightarrow> pid \<Rightarrow> tid \<Rightarrow> string \<Rightarrow> (port \<Rightarrow> 'w \<Rightarrow> (kern_return \<times> 'r) \<times> 'w)
     \<Rightarrow> 'w sys \<Rightarrow> 'r option \<times> 'w sys" where
  "with_thread K pid tid msg call y =
     (let (port, y) = cdbg_threads_resolve_port K pid tid y
      in case port of
           None \<Rightarrow> (None, y)
         | Some thread \<Rightarrow>
             (let ((kr, r), y) = syscall (call thread) y;
                  y = mach_port_deallocate thread y
              in if kr \<noteq> KERN_SUCCESS then (None, emit (Mach_Err msg kr) y) else (Some r, y)))"

definition cdbg_regs_set :: "'w kernel \<Rightarrow> pid \<Rightarrow> tid \<Rightarrow> cdbg_regs \<Rightarrow> 'w sys \<Rightarrow> bool \<times> 'w sys" where
  "cdbg_regs_set K pid tid regs y =
     (let (r, y) = with_thread K pid tid ''thread_set_state failed''
                     (\<lambda>t w. let (kr, w) = k_set_gpr K t (native regs) w in ((kr, ()), w)) y
      in (r \<noteq> None, y))"

definition cdbg_regs_get_debug_state ::
    "'w kernel \<Rightarrow> pid \<Rightarrow> tid \<Rightarrow> 'w sys \<Rightarrow> debug_state option \<times> 'w sys" where
  "cdbg_regs_get_debug_state K pid tid y =
     with_thread K pid tid ''thread_get_state (debug) failed'' (k_get_debug K) y"

definition cdbg_regs_set_debug_state ::
    "'w kernel \<Rightarrow> pid \<Rightarrow> tid \<Rightarrow> debug_state \<Rightarrow> 'w sys \<Rightarrow> bool \<times> 'w sys" where
  "cdbg_regs_set_debug_state K pid tid state y =
     (let (r, y) = with_thread K pid tid ''thread_set_state (debug) failed''
                     (\<lambda>t w. let (kr, w) = k_set_debug K t state w in ((kr, ()), w)) y
      in (r \<noteq> None, y))"

definition cdbg_regs_get_exception_state ::
    "'w kernel \<Rightarrow> pid \<Rightarrow> tid \<Rightarrow> 'w sys \<Rightarrow> (u64 \<times> u32) option \<times> 'w sys" where
  "cdbg_regs_get_exception_state K pid tid y =
     (let (r, y) = with_thread K pid tid ''thread_get_state (exception) failed'' (k_get_exc K) y
      in (map_option (\<lambda>e. (e_far e, e_esr e)) r, y))"

definition cdbg_regs_pc :: "cdbg_regs \<Rightarrow> addr" where
  "cdbg_regs_pc regs = r_pc (native regs)"

definition cdbg_regs_set_pc :: "cdbg_regs \<Rightarrow> addr \<Rightarrow> cdbg_regs" where
  "cdbg_regs_set_pc regs pc = regs\<lparr>native := (native regs)\<lparr>r_pc := pc\<rparr>\<rparr>"

definition cdbg_regs_fp :: "cdbg_regs \<Rightarrow> addr" where
  "cdbg_regs_fp regs = r_fp (native regs)"

definition ret_addr_valid :: "u64 \<Rightarrow> bool" where
  "ret_addr_valid a \<longleftrightarrow> a \<ge> 0x1000"

text \<open>\<^verbatim>\<open>cdbg_regs_set_pc\<close> always returns 0, so the branches that test it are dead.\<close>

definition unwind_from_stack_top ::
    "'w kernel \<Rightarrow> pid \<Rightarrow> cdbg_regs \<Rightarrow> addr \<Rightarrow> 'w sys \<Rightarrow> (bool \<times> cdbg_regs) \<times> 'w sys" where
  "unwind_from_stack_top K pid regs sp y =
     (let ret_addr = r_lr (native regs)
      in if \<not> ret_addr_valid ret_addr then ((False, regs), y)
         else let regs = cdbg_regs_set_pc regs ret_addr;
                  fp = cdbg_regs_fp regs;
                  (regs, y) =
                    (if fp \<noteq> 0
                     then let (r, y) = cdbg_mem_read_u64 K pid fp y
                          in case r of
                               None \<Rightarrow> (regs, y)
                             | Some saved_fp \<Rightarrow>
                                 (if saved_fp > fp
                                  then regs\<lparr>native := (native regs)\<lparr>r_fp := saved_fp\<rparr>\<rparr> else regs, y)
                     else (regs, y))
              in ((True, regs\<lparr>native := (native regs)\<lparr>r_sp := sp + 16\<rparr>\<rparr>), y))"

definition cdbg_regs_frame_up ::
    "'w kernel \<Rightarrow> pid \<Rightarrow> cdbg_regs \<Rightarrow> 'w sys \<Rightarrow> (bool \<times> cdbg_regs) \<times> 'w sys" where
  "cdbg_regs_frame_up K pid regs y =
     (let fp = cdbg_regs_fp regs;
          sp = r_sp (native regs)
      in if fp \<noteq> 0
         then let (saved, y) = cdbg_mem_read_u64 K pid fp y
              in case saved of
                   None \<Rightarrow> unwind_from_stack_top K pid regs sp y
                 | Some saved_fp \<Rightarrow>
                     (let (ret, y) = cdbg_mem_read_u64 K pid (fp + 8) y
                      in case ret of
                           None \<Rightarrow> unwind_from_stack_top K pid regs sp y
                         | Some ret_addr \<Rightarrow>
                             if saved_fp > fp \<and> ret_addr_valid ret_addr
                             then ((True, regs\<lparr>native := (native regs)
                                      \<lparr>r_pc := ret_addr, r_fp := saved_fp, r_sp := fp + 16\<rparr>\<rparr>), y)
                             else unwind_from_stack_top K pid regs sp y)
         else unwind_from_stack_top K pid regs sp y)"

text \<open>The printed form of the registers; \<open>fmt_g\<close> is \<^verbatim>\<open>printf\<close>'s \<^verbatim>\<open>%g\<close> on the double
  with the given bits.\<close>

definition reg_pair :: "cdbg_regs \<Rightarrow> nat \<Rightarrow> string" where
  "reg_pair regs i =
     ''x'' @ pad_right 2 (fmt_u i) @ '' = '' @ fmt_0x16 (r_x (native regs) i)
     @ ''  x'' @ pad_right 2 (fmt_u (i + 1)) @ '' = '' @ fmt_0x16 (r_x (native regs) (i + 1)) @ nl"

definition neon_line :: "(u64 \<Rightarrow> string) \<Rightarrow> cdbg_regs \<Rightarrow> nat \<Rightarrow> string" where
  "neon_line fmt_g regs i =
     (let lo = ucast (n_v (neon regs) i) :: u64;
          hi = ucast (drop_bit 64 (n_v (neon regs) i)) :: u64
      in ''v'' @ pad_right 2 (fmt_u i) @ '' = '' @ fmt_0x16 hi @ pad_left 16 CHR ''0'' (fmt_x lo)
         @ ''  (f64: '' @ fmt_g lo @ '')'' @ nl)"

definition cdbg_regs_print :: "(u64 \<Rightarrow> string) \<Rightarrow> cdbg_regs \<Rightarrow> 'w sys \<Rightarrow> 'w sys" where
  "cdbg_regs_print fmt_g regs y =
     (let g = native regs; n = neon regs;
          y = emit (Out (''--- General-Purpose Registers ---'' @ nl)) y;
          y = fold (\<lambda>i. emit (Out (reg_pair regs (2 * i)))) [0..<14] y;
          y = emit (Out (''x28 = '' @ fmt_0x16 (r_x g 28) @ nl)) y;
          y = emit (Out (''fp  = '' @ fmt_0x16 (r_fp g) @ ''  lr  = '' @ fmt_0x16 (r_lr g) @ nl)) y;
          y = emit (Out (''sp  = '' @ fmt_0x16 (r_sp g) @ ''  pc  = '' @ fmt_0x16 (r_pc g) @ nl)) y;
          y = emit (Out (''cpsr = '' @ fmt_0x8 (r_cpsr g) @ nl)) y;
          y = emit (Out (nl @ ''--- Floating-Point / NEON Registers ---'' @ nl)) y;
          y = emit (Out (''fpsr = '' @ fmt_0x8 (n_fpsr n) @ ''  fpcr = '' @ fmt_0x8 (n_fpcr n) @ nl)) y
      in fold (\<lambda>i. emit (Out (neon_line fmt_g regs i))) [0..<32] y)"

definition cdbg_regs_set_fp :: "'w kernel \<Rightarrow> pid \<Rightarrow> tid \<Rightarrow> cdbg_regs \<Rightarrow> 'w sys \<Rightarrow> bool \<times> 'w sys" where
  "cdbg_regs_set_fp K pid tid regs y =
     (let (r, y) = with_thread K pid tid ''thread_set_state (fp) failed''
                     (\<lambda>t w. let (kr, w) = k_set_neon K t (neon regs) w in ((kr, ()), w)) y
      in (r \<noteq> None, y))"

text \<open>\<^verbatim>\<open>strtol(name + 1, &endp, 10)\<close> followed by the test that all was read and the bound;
  a name of the letter alone reads as index 0.\<close>

definition reg_index :: "string \<Rightarrow> int \<Rightarrow> nat option" where
  "reg_index digits bound =
     (let (idx, endp) = (case strtoll 10 digits of None \<Rightarrow> (0, digits) | Some r \<Rightarrow> r)
      in if endp = [] \<and> 0 \<le> idx \<and> idx \<le> bound then Some (nat idx) else None)"

definition set_gpr_field :: "cdbg_regs \<Rightarrow> string \<Rightarrow> u64 \<Rightarrow> cdbg_regs option" where
  "set_gpr_field regs name value =
     (let g = native regs
      in if name = ''pc'' then Some (regs\<lparr>native := g\<lparr>r_pc := value\<rparr>\<rparr>)
         else if name = ''sp'' then Some (regs\<lparr>native := g\<lparr>r_sp := value\<rparr>\<rparr>)
         else if name = ''fp'' \<or> name = ''x29'' then Some (regs\<lparr>native := g\<lparr>r_fp := value\<rparr>\<rparr>)
         else if name = ''lr'' \<or> name = ''x30'' then Some (regs\<lparr>native := g\<lparr>r_lr := value\<rparr>\<rparr>)
         else if name = ''cpsr'' then Some (regs\<lparr>native := g\<lparr>r_cpsr := ucast value\<rparr>\<rparr>)
         else case name of
                [] \<Rightarrow> None
              | c # cs \<Rightarrow>
                  if c = CHR ''x''
                  then map_option (\<lambda>idx. regs\<lparr>native := g\<lparr>r_x := (r_x g)(idx := value)\<rparr>\<rparr>)
                         (reg_index cs 28)
                  else None)"

definition set_fp_field :: "cdbg_regs \<Rightarrow> string \<Rightarrow> u64 \<Rightarrow> cdbg_regs option" where
  "set_fp_field regs name value =
     (let n = neon regs
      in if name = ''fpsr'' then Some (regs\<lparr>neon := n\<lparr>n_fpsr := ucast value\<rparr>\<rparr>)
         else if name = ''fpcr'' then Some (regs\<lparr>neon := n\<lparr>n_fpcr := ucast value\<rparr>\<rparr>)
         else case name of
                [] \<Rightarrow> None
              | c # cs \<Rightarrow>
                  if c = CHR ''v''
                  then map_option (\<lambda>idx. regs\<lparr>neon := n\<lparr>n_v := (n_v n)(idx := ucast value)\<rparr>\<rparr>)
                         (reg_index cs 31)
                  else None)"

definition cdbg_regs_get_by_name :: "cdbg_regs \<Rightarrow> string \<Rightarrow> u64 option" where
  "cdbg_regs_get_by_name regs name =
     (let g = native regs; n = neon regs
      in if name = ''pc'' then Some (r_pc g)
         else if name = ''sp'' then Some (r_sp g)
         else if name = ''fp'' \<or> name = ''x29'' then Some (r_fp g)
         else if name = ''lr'' \<or> name = ''x30'' then Some (r_lr g)
         else if name = ''cpsr'' then Some (ucast (r_cpsr g))
         else if name = ''fpsr'' then Some (ucast (n_fpsr n))
         else if name = ''fpcr'' then Some (ucast (n_fpcr n))
         else case name of
                [] \<Rightarrow> None
              | c # cs \<Rightarrow>
                  if c = CHR ''x'' then map_option (r_x g) (reg_index cs 28)
                  else if c = CHR ''v'' then map_option (\<lambda>idx. ucast (n_v n idx)) (reg_index cs 31)
                  else None)"

definition cdbg_regs_set_by_name ::
    "'w kernel \<Rightarrow> pid \<Rightarrow> tid \<Rightarrow> cdbg_regs \<Rightarrow> string \<Rightarrow> u64 \<Rightarrow> 'w sys
     \<Rightarrow> (bool \<times> cdbg_regs) \<times> 'w sys" where
  "cdbg_regs_set_by_name K pid tid regs name value y =
     (case set_gpr_field regs name value of
        Some regs \<Rightarrow> (let (ok, y) = cdbg_regs_set K pid tid regs y in ((ok, regs), y))
      | None \<Rightarrow>
          (case set_fp_field regs name value of
             Some regs \<Rightarrow> (let (ok, y) = cdbg_regs_set_fp K pid tid regs y in ((ok, regs), y))
           | None \<Rightarrow> ((False, regs), y)))"

section \<open>Send rights\<close>

lemma rights_with_thread [simp]: "rights (snd (with_thread K pid tid msg call y)) = rights y"
  using rights_resolve_port [of K pid tid y]
  by (simp add: with_thread_def Let_def split_beta split: option.splits)

lemma rights_regs_get [simp]: "rights (snd (cdbg_regs_get K pid tid regs y)) = rights y"
  using rights_resolve_port [of K pid tid y]
  by (simp add: cdbg_regs_get_def Let_def split_beta split: option.splits)

lemma rights_regs [simp]:
  "rights (snd (cdbg_regs_set K pid tid regs y)) = rights y"
  "rights (snd (cdbg_regs_set_fp K pid tid regs y)) = rights y"
  "rights (snd (cdbg_regs_get_debug_state K pid tid y)) = rights y"
  "rights (snd (cdbg_regs_set_debug_state K pid tid ds y)) = rights y"
  "rights (snd (cdbg_regs_get_exception_state K pid tid y)) = rights y"
  by (simp_all add: cdbg_regs_set_def cdbg_regs_set_fp_def cdbg_regs_get_debug_state_def
      cdbg_regs_set_debug_state_def cdbg_regs_get_exception_state_def Let_def split_beta)

lemma rights_set_by_name [simp]:
  "rights (snd (cdbg_regs_set_by_name K pid tid regs name v y)) = rights y"
  by (simp add: cdbg_regs_set_by_name_def split_beta split: option.splits)

lemma rights_unwind [simp]: "rights (snd (unwind_from_stack_top K pid regs sp y)) = rights y"
  by (simp add: unwind_from_stack_top_def Let_def split_beta split: option.splits)

lemma rights_frame_up [simp]: "rights (snd (cdbg_regs_frame_up K pid regs y)) = rights y"
  by (simp add: cdbg_regs_frame_up_def Let_def split_beta split: option.splits)

end
