(* ===== verification/RegSpec.thy ===== *)
theory RegSpec
  imports Memory Regs
begin

text \<open>
  What \<^verbatim>\<open>src/regs.c\<close> promises: access by name is access to a register file, a write by name
  changes that register only, and unwinding goes strictly outwards and reads the frame
  record in memory.
\<close>

section \<open>The register file\<close>

datatype reg =
  Reg_pc | Reg_sp | Reg_fp | Reg_lr | Reg_cpsr | Reg_fpsr | Reg_fpcr | Reg_x nat | Reg_v nat

definition reg_of_name :: "string \<Rightarrow> reg option" where
  "reg_of_name name =
     (if name = ''pc'' then Some Reg_pc
      else if name = ''sp'' then Some Reg_sp
      else if name = ''fp'' \<or> name = ''x29'' then Some Reg_fp
      else if name = ''lr'' \<or> name = ''x30'' then Some Reg_lr
      else if name = ''cpsr'' then Some Reg_cpsr
      else if name = ''fpsr'' then Some Reg_fpsr
      else if name = ''fpcr'' then Some Reg_fpcr
      else case name of
             [] \<Rightarrow> None
           | c # cs \<Rightarrow>
               if c = CHR ''x'' then map_option Reg_x (reg_index cs 28)
               else if c = CHR ''v'' then map_option Reg_v (reg_index cs 31)
               else None)"

fun reg_value :: "cdbg_regs \<Rightarrow> reg \<Rightarrow> u64" where
  "reg_value r Reg_pc = r_pc (native r)"
| "reg_value r Reg_sp = r_sp (native r)"
| "reg_value r Reg_fp = r_fp (native r)"
| "reg_value r Reg_lr = r_lr (native r)"
| "reg_value r Reg_cpsr = ucast (r_cpsr (native r))"
| "reg_value r Reg_fpsr = ucast (n_fpsr (neon r))"
| "reg_value r Reg_fpcr = ucast (n_fpcr (neon r))"
| "reg_value r (Reg_x i) = r_x (native r) i"
| "reg_value r (Reg_v i) = ucast (n_v (neon r) i)"

text \<open>What of a value a register keeps: the status registers have 32 bits.\<close>

fun reg_fit :: "reg \<Rightarrow> u64 \<Rightarrow> u64" where
  "reg_fit Reg_cpsr v = take_bit 32 v"
| "reg_fit Reg_fpsr v = take_bit 32 v"
| "reg_fit Reg_fpcr v = take_bit 32 v"
| "reg_fit _ v = v"

lemma ucast_u32_u64: "ucast (ucast (v :: u64) :: u32) = take_bit 32 v"
  by (rule bit_word_eqI) (auto simp: bit_ucast_iff bit_take_bit_iff dest: bit_imp_le_length)

lemma ucast_u128_u64: "ucast (ucast (v :: u64) :: u128) = v"
  by (rule bit_word_eqI) (auto simp: bit_ucast_iff dest: bit_imp_le_length)

lemma get_by_name_file: "cdbg_regs_get_by_name r name = map_option (reg_value r) (reg_of_name name)"
  by (simp add: cdbg_regs_get_by_name_def reg_of_name_def Let_def option.map_comp comp_def
      split: list.split)

fun reg_store :: "reg \<Rightarrow> u64 \<Rightarrow> cdbg_regs \<Rightarrow> cdbg_regs" where
  "reg_store Reg_pc v r = r\<lparr>native := (native r)\<lparr>r_pc := v\<rparr>\<rparr>"
| "reg_store Reg_sp v r = r\<lparr>native := (native r)\<lparr>r_sp := v\<rparr>\<rparr>"
| "reg_store Reg_fp v r = r\<lparr>native := (native r)\<lparr>r_fp := v\<rparr>\<rparr>"
| "reg_store Reg_lr v r = r\<lparr>native := (native r)\<lparr>r_lr := v\<rparr>\<rparr>"
| "reg_store Reg_cpsr v r = r\<lparr>native := (native r)\<lparr>r_cpsr := ucast v\<rparr>\<rparr>"
| "reg_store Reg_fpsr v r = r\<lparr>neon := (neon r)\<lparr>n_fpsr := ucast v\<rparr>\<rparr>"
| "reg_store Reg_fpcr v r = r\<lparr>neon := (neon r)\<lparr>n_fpcr := ucast v\<rparr>\<rparr>"
| "reg_store (Reg_x i) v r = r\<lparr>native := (native r)\<lparr>r_x := (r_x (native r))(i := v)\<rparr>\<rparr>"
| "reg_store (Reg_v i) v r = r\<lparr>neon := (neon r)\<lparr>n_v := (n_v (neon r))(i := ucast v)\<rparr>\<rparr>"

fun is_gpr :: "reg \<Rightarrow> bool" where
  "is_gpr Reg_fpsr = False"
| "is_gpr Reg_fpcr = False"
| "is_gpr (Reg_v i) = False"
| "is_gpr _ = True"

lemma reg_store_value: "reg_value (reg_store g v r) g' = (if g' = g then reg_fit g v else reg_value r g')"
  by (cases g; cases g') (auto simp: ucast_u32_u64 ucast_u128_u64)

abbreviation fixed_names :: "string set" where
  "fixed_names \<equiv>
     {''pc'', ''sp'', ''fp'', ''x29'', ''lr'', ''x30'', ''cpsr'', ''fpsr'', ''fpcr''}"

lemma set_fields_file:
  "set_gpr_field r name v =
     (case reg_of_name name of None \<Rightarrow> None | Some g \<Rightarrow> if is_gpr g then Some (reg_store g v r) else None)
   \<and> set_fp_field r name v =
     (case reg_of_name name of None \<Rightarrow> None | Some g \<Rightarrow> if is_gpr g then None else Some (reg_store g v r))"
proof (cases "name \<in> fixed_names")
  case True
  then show ?thesis
    by (elim insertE emptyE) (simp_all add: set_gpr_field_def set_fp_field_def reg_of_name_def)
next
  case False
  then show ?thesis
    by (simp add: set_gpr_field_def set_fp_field_def reg_of_name_def Let_def split: list.split option.split)
qed

lemma set_by_name_file:
  assumes "fst (cdbg_regs_set_by_name K pid tid r name v y) = (ok, r')"
  shows "case reg_of_name name of
      None \<Rightarrow> \<not> ok \<and> r' = r
    | Some g \<Rightarrow> \<forall>g'. reg_value r' g' = (if g' = g then reg_fit g v else reg_value r g')"
  using assms set_fields_file [of r name v]
  by (auto simp: cdbg_regs_set_by_name_def split_beta reg_store_value
      split: option.split if_splits)

section \<open>Unwinding\<close>

lemma frame_up_outwards:
  assumes "fst (cdbg_regs_frame_up K pid r y) = (True, r')"
  shows "ret_addr_valid (cdbg_regs_pc r') \<and> cdbg_regs_fp r \<le> cdbg_regs_fp r'
    \<and> (cdbg_regs_fp r' = cdbg_regs_fp r \<longrightarrow> cdbg_regs_pc r' = r_lr (native r))"
  using assms
  by (auto simp: cdbg_regs_frame_up_def unwind_from_stack_top_def Let_def split_beta
      cdbg_regs_pc_def cdbg_regs_set_pc_def cdbg_regs_fp_def
      split: option.splits if_splits)

text \<open>The frame record at \<open>fp\<close>: the caller's \<open>fp\<close> and the return address.\<close>

definition frame_record :: "(addr \<Rightarrow> u8) \<Rightarrow> addr \<Rightarrow> u64 \<times> u64" where
  "frame_record m fp = (le_word (bytes_at m fp 8), le_word (bytes_at m (fp + 8) 8))"

context traced_memory
begin

lemma read_u64_spec:
  assumes "cdbg_mem_read_u64 K pid a y = (r, y')"
  shows "mem (world y') = mem (world y)
    \<and> (\<forall>v. r = Some v \<longrightarrow> v = le_word (bytes_at (mem (world y)) a 8))"
proof -
  have "cdbg_mem_read K pid a 8 y = (fst (cdbg_mem_read K pid a 8 y), y')"
    using assms by (auto simp: cdbg_mem_read_u64_def split_beta)
  then show ?thesis
    using assms mi.rd_view [of a 8 y] mi.rd_bytes [of a 8 y]
    by (auto simp: cdbg_mem_read_u64_def split_beta)
qed

lemma frame_up_record:
  assumes "fst (cdbg_regs_frame_up K pid r y) = (True, r')"
    and "cdbg_regs_fp r \<noteq> 0" and "frame_record (mem (world y)) (cdbg_regs_fp r) = (saved, ret)"
    and "cdbg_regs_fp r < saved" "ret_addr_valid ret"
    and "fst (cdbg_mem_read_u64 K pid (cdbg_regs_fp r) y) \<noteq> None"
    and "\<And>y'. fst (cdbg_mem_read_u64 K pid (cdbg_regs_fp r + 8) y') \<noteq> None"
  shows "r' = r\<lparr>native := (native r)\<lparr>r_pc := ret, r_fp := saved, r_sp := cdbg_regs_fp r + 16\<rparr>\<rparr>"
proof -
  let ?fp = "cdbg_regs_fp r"
  obtain r1 y1 where 1: "cdbg_mem_read_u64 K pid ?fp y = (r1, y1)" by (metis prod.exhaust)
  obtain r2 y2 where 2: "cdbg_mem_read_u64 K pid (?fp + 8) y1 = (r2, y2)" by (metis prod.exhaust)
  have "r1 = Some saved" "r2 = Some ret"
    using read_u64_spec [OF 1] read_u64_spec [OF 2] assms(3) assms(6) assms(7) [of y1] 1 2
    by (auto simp: frame_record_def)
  with 1 2 assms show ?thesis by (simp add: cdbg_regs_frame_up_def)
qed

end

end
