(* ===== verification/Breakpoint.thy ===== *)
theory Breakpoint
  imports Memory
begin

text \<open>
  \<^verbatim>\<open>src/breakpoint.c\<close>: planting a \<^verbatim>\<open>BRK #0\<close> over the instruction at an address and
  putting the instruction back. The functions that fill the caller's \<^verbatim>\<open>cdbg_breakpoint_t\<close>
  return its new contents beside their result.
\<close>

section \<open>Operations\<close>

definition CDBG_TRAP_INST :: u32 where "CDBG_TRAP_INST = 0xd4200000"

record cdbg_breakpoint =
  bp_addr :: addr
  bp_saved_inst :: u32
  bp_enabled :: bool

definition cdbg_bp_enable ::
    "'w kernel \<Rightarrow> cdbg_breakpoint \<Rightarrow> pid \<Rightarrow> addr \<Rightarrow> 'w sys \<Rightarrow> (bool \<times> cdbg_breakpoint) \<times> 'w sys" where
  "cdbg_bp_enable K bp pid addr y =
     (let (inst, y) = cdbg_mem_read K pid addr 4 y
      in case inst of
           None \<Rightarrow> ((False, bp), y)
         | Some bytes \<Rightarrow>
             (let bp = bp\<lparr>bp_addr := addr, bp_saved_inst := le_word bytes, bp_enabled := True\<rparr>;
                  (ok, y) = cdbg_mem_write K pid addr (le_bytes 4 CDBG_TRAP_INST) y
              in if \<not> ok then ((False, bp\<lparr>bp_enabled := False\<rparr>), y) else ((True, bp), y)))"

definition cdbg_bp_disable ::
    "'w kernel \<Rightarrow> cdbg_breakpoint \<Rightarrow> pid \<Rightarrow> 'w sys \<Rightarrow> (bool \<times> cdbg_breakpoint) \<times> 'w sys" where
  "cdbg_bp_disable K bp pid y =
     (if \<not> bp_enabled bp then ((True, bp), y)
      else let (ok, y) = cdbg_mem_write K pid (bp_addr bp) (le_bytes 4 (bp_saved_inst bp)) y
           in if \<not> ok then ((False, bp), y) else ((True, bp\<lparr>bp_enabled := False\<rparr>), y))"

definition cdbg_bp_matches_pc :: "addr \<Rightarrow> cdbg_breakpoint \<Rightarrow> bool" where
  "cdbg_bp_matches_pc pc bp = (if \<not> bp_enabled bp then False else bp_addr bp = pc)"

fun cdbg_bp_is_trap :: "addr \<Rightarrow> cdbg_breakpoint list \<Rightarrow> bool" where
  "cdbg_bp_is_trap pc [] = False"
| "cdbg_bp_is_trap pc (bp # bps) = (if cdbg_bp_matches_pc pc bp then True else cdbg_bp_is_trap pc bps)"

section \<open>Lemmas\<close>

lemma rights_bp [simp]:
  "rights (snd (cdbg_bp_enable K bp pid a y)) = rights y"
  "rights (snd (cdbg_bp_disable K bp pid y)) = rights y"
  by (simp_all add: cdbg_bp_enable_def cdbg_bp_disable_def Let_def split_beta split: option.splits)

lemma bp_enable_flag:
  "fst (cdbg_bp_enable K bp pid a y) = (ok, bp') \<Longrightarrow>
     (ok \<longrightarrow> bp_enabled bp' \<and> bp_addr bp' = a) \<and> (\<not> ok \<longrightarrow> bp' = bp \<or> \<not> bp_enabled bp')"
  by (auto simp: cdbg_bp_enable_def Let_def split_beta split: option.splits if_splits)

lemma bp_disable_flag:
  "fst (cdbg_bp_disable K bp pid y) = (ok, bp') \<Longrightarrow>
     bp_addr bp' = bp_addr bp \<and> bp_saved_inst bp' = bp_saved_inst bp
     \<and> (ok \<longrightarrow> \<not> bp_enabled bp') \<and> (\<not> ok \<longrightarrow> bp' = bp)"
  by (auto simp: cdbg_bp_disable_def split_beta split: if_splits)

section \<open>Against the memory interface\<close>

text \<open>What is in memory while a breakpoint is planted: the trap, over the saved instruction.\<close>

definition planted :: "cdbg_breakpoint \<Rightarrow> (addr \<Rightarrow> u8) \<Rightarrow> (addr \<Rightarrow> u8) \<Rightarrow> bool" where
  "planted bp orig m \<longleftrightarrow> bp_enabled bp
     \<and> le_bytes 4 (bp_saved_inst bp) = bytes_at orig (bp_addr bp) 4
     \<and> m = put_bytes (bp_addr bp) (le_bytes 4 CDBG_TRAP_INST) orig"

text \<open>A breakpoint that is enabled on memory \<open>orig\<close> is planted over it, and disabling a
  planted one restores \<open>orig\<close>.\<close>

context traced_memory
begin

lemma bp_enable_spec:
  assumes "fst (cdbg_bp_enable K bp pid a y) = (True, bp')"
  shows "planted bp' (mem (world y)) (mem (world (snd (cdbg_bp_enable K bp pid a y))))
    \<and> bp_addr bp' = a"
proof -
  obtain r y1 where rd: "cdbg_mem_read K pid a 4 y = (r, y1)" by (metis prod.exhaust)
  obtain ok y2 where wr: "cdbg_mem_write K pid a (le_bytes 4 CDBG_TRAP_INST) y1 = (ok, y2)"
    by (metis prod.exhaust)
  from assms rd wr obtain bs where r: "r = Some bs" and ok
    and bp': "bp' = bp\<lparr>bp_addr := a, bp_saved_inst := le_word bs, bp_enabled := True\<rparr>"
    and y': "snd (cdbg_bp_enable K bp pid a y) = y2"
    by (cases ok) (auto simp: cdbg_bp_enable_def Let_def split: option.splits)
  have m1: "mem (world y1) = mem (world y)" using mi.rd_view [of a 4 y] rd by simp
  have bs: "bs = bytes_at (mem (world y)) a 4" using mi.rd_bytes [of a 4 y] rd r by simp
  then have len: "length bs = 4" by simp
  have "mem (world y2) = put_bytes a (le_bytes 4 CDBG_TRAP_INST) (mem (world y))"
    using mi.wr_ok [of a "le_bytes 4 CDBG_TRAP_INST" y1] wr \<open>ok\<close> m1 by simp
  with bs le_bytes_le_word [where ?'a = 32, of bs] len show ?thesis
    by (simp add: planted_def bp' y')
qed

lemma bp_disable_spec:
  assumes "planted bp orig (mem (world y))" and "fst (fst (cdbg_bp_disable K bp pid y))"
  shows "mem (world (snd (cdbg_bp_disable K bp pid y))) = orig"
proof -
  obtain ok y1 where
    wr: "cdbg_mem_write K pid (bp_addr bp) (le_bytes 4 (bp_saved_inst bp)) y = (ok, y1)"
    by (metis prod.exhaust)
  with assms have "ok" "snd (cdbg_bp_disable K bp pid y) = y1"
    by (cases ok; simp add: cdbg_bp_disable_def planted_def)+
  moreover have "mem (world y1) = put_bytes (bp_addr bp) (bytes_at orig (bp_addr bp) 4) (mem (world y))"
    using mi.wr_ok [of "bp_addr bp" "le_bytes 4 (bp_saved_inst bp)" y] wr \<open>ok\<close> assms(1)
    by (simp add: planted_def)
  ultimately show ?thesis
    using assms(1) put_bytes_restore [of "le_bytes 4 CDBG_TRAP_INST" 4 "bp_addr bp" orig]
    by (simp add: planted_def)
qed

end

lemma is_trap_iff: "cdbg_bp_is_trap pc bps \<longleftrightarrow> (\<exists>bp \<in> set bps. bp_enabled bp \<and> bp_addr bp = pc)"
  by (induction bps) (auto simp: cdbg_bp_matches_pc_def)

end
