(* ===== verification/Watchpoint.thy ===== *)
theory Watchpoint
  imports Regs
begin

text \<open>
  \<^verbatim>\<open>src/watchpoint.c\<close>: programming a hardware watchpoint register pair of a thread,
  clearing its enable bit, and the two decoders used when a watchpoint exception arrives.
\<close>

section \<open>Operations\<close>

definition CDBG_MAX_WATCHPOINTS :: nat where "CDBG_MAX_WATCHPOINTS = 4"
definition CDBG_WATCH_EXPR_LEN :: nat where "CDBG_WATCH_EXPR_LEN = 128"

datatype cdbg_watch_kind = Watch_Read | Watch_Write | Watch_Access

fun kind_bits :: "cdbg_watch_kind \<Rightarrow> u32" where
  "kind_bits Watch_Read = 1"
| "kind_bits Watch_Write = 2"
| "kind_bits Watch_Access = 3"

record cdbg_watchpoint =
  wp_addr :: addr
  wp_size :: u64
  wp_kind :: cdbg_watch_kind
  wp_enabled :: bool
  wp_slot :: int
  wp_expr :: string
  wp_last_value :: u64
  wp_has_last_value :: bool

abbreviation WCR_ENABLE :: u64 where "WCR_ENABLE \<equiv> 1"
abbreviation WCR_PAC_EL0 :: u64 where "WCR_PAC_EL0 \<equiv> push_bit 1 2"
abbreviation WCR_LSC_LOAD :: u64 where "WCR_LSC_LOAD \<equiv> push_bit 3 1"
abbreviation WCR_LSC_STORE :: u64 where "WCR_LSC_STORE \<equiv> push_bit 3 2"
abbreviation WCR_BAS_SHIFT :: nat where "WCR_BAS_SHIFT \<equiv> 5"

definition watch_wcr :: "addr \<Rightarrow> u64 \<Rightarrow> cdbg_watch_kind \<Rightarrow> u64" where
  "watch_wcr addr sz kind =
     (let offset = addr AND 7;
          bas = push_bit (unat offset) (push_bit (unat sz) 1 - 1);
          wcr = WCR_ENABLE OR WCR_PAC_EL0 OR push_bit WCR_BAS_SHIFT bas;
          wcr = (if kind_bits kind AND 1 \<noteq> 0 then wcr OR WCR_LSC_LOAD else wcr);
          wcr = (if kind_bits kind AND 2 \<noteq> 0 then wcr OR WCR_LSC_STORE else wcr)
      in wcr)"

definition cdbg_watch_arm ::
    "'w kernel \<Rightarrow> pid \<Rightarrow> tid \<Rightarrow> int \<Rightarrow> addr \<Rightarrow> u64 \<Rightarrow> cdbg_watch_kind \<Rightarrow> 'w sys \<Rightarrow> bool \<times> 'w sys" where
  "cdbg_watch_arm K pid tid slot addr sz kind y =
     (if slot < 0 \<or> slot \<ge> int CDBG_MAX_WATCHPOINTS then (False, y)
      else if sz = 0 \<or> sz > 8 then (False, y)
      else if (addr AND 7) + sz > 8 then (False, y)
      else let (state, y) = cdbg_regs_get_debug_state K pid tid y
           in case state of
                None \<Rightarrow> (False, y)
              | Some st \<Rightarrow>
                  (let wcr = watch_wcr addr sz kind;
                       st = st\<lparr>d_wvr := (d_wvr st)(nat slot := addr AND NOT 7),
                               d_wcr := (d_wcr st)(nat slot := wcr)\<rparr>;
                       (ok, y) = cdbg_regs_set_debug_state K pid tid st y
                   in if \<not> ok then (False, y)
                      else let (verify, y) = cdbg_regs_get_debug_state K pid tid y
                           in case verify of
                                None \<Rightarrow> (False, y)
                              | Some v \<Rightarrow> (d_wcr v (nat slot) = wcr, y)))"

definition cdbg_watch_disarm :: "'w kernel \<Rightarrow> pid \<Rightarrow> tid \<Rightarrow> int \<Rightarrow> 'w sys \<Rightarrow> bool \<times> 'w sys" where
  "cdbg_watch_disarm K pid tid slot y =
     (if slot < 0 \<or> slot \<ge> int CDBG_MAX_WATCHPOINTS then (False, y)
      else let (state, y) = cdbg_regs_get_debug_state K pid tid y
           in case state of
                None \<Rightarrow> (False, y)
              | Some st \<Rightarrow>
                  cdbg_regs_set_debug_state K pid tid
                    (st\<lparr>d_wcr := (d_wcr st)(nat slot := d_wcr st (nat slot) AND NOT WCR_ENABLE)\<rparr>) y)"

definition cdbg_watch_addr_hit :: "cdbg_watchpoint \<Rightarrow> addr \<Rightarrow> bool" where
  "cdbg_watch_addr_hit wp fault_addr =
     (if \<not> wp_enabled wp then False
      else fault_addr \<ge> wp_addr wp \<and> fault_addr < wp_addr wp + wp_size wp)"

text \<open>\<open>Some is_write\<close> for a watchpoint exception.\<close>

definition cdbg_watch_is_watchpoint_esr :: "u32 \<Rightarrow> bool option" where
  "cdbg_watch_is_watchpoint_esr esr =
     (let ec = drop_bit 26 esr AND 0x3f
      in if ec \<noteq> 0x34 \<and> ec \<noteq> 0x35 then None
         else Some (esr AND push_bit 6 1 \<noteq> 0))"

lemma rights_watch [simp]:
  "rights (snd (cdbg_watch_arm K pid tid slot a sz k y)) = rights y"
  "rights (snd (cdbg_watch_disarm K pid tid slot y)) = rights y"
  by (simp_all add: cdbg_watch_arm_def cdbg_watch_disarm_def Let_def split_beta split: option.splits)

section \<open>What the hardware watches\<close>

text \<open>
  The architecture's rule for a watchpoint register pair: an access to byte \<open>b\<close> triggers
  pair \<open>i\<close> when the pair is enabled, \<open>b\<close> is in the doubleword of \<^verbatim>\<open>WVR\<close>, the
  byte-select bit of \<open>b\<close> is set and the load/store control has the kind of the access.
\<close>

definition hw_triggers :: "debug_state \<Rightarrow> nat \<Rightarrow> addr \<Rightarrow> bool \<Rightarrow> bool" where
  "hw_triggers st i b is_write \<longleftrightarrow>
     bit (d_wcr st i) 0 \<and> b AND NOT 7 = d_wvr st i \<and> bit (d_wcr st i) (5 + unat (b AND 7))
     \<and> bit (d_wcr st i) (if is_write then 4 else 3)"

definition kind_matches :: "cdbg_watch_kind \<Rightarrow> bool \<Rightarrow> bool" where
  "kind_matches kind is_write \<longleftrightarrow>
     kind = Watch_Access \<or> kind = (if is_write then Watch_Write else Watch_Read)"

lemma unat_and7: "unat (b AND 7 :: u64) = unat b mod 8"
proof -
  have "b AND 7 = take_bit 3 b"
    using take_bit_eq_mask [of 3 b] by (simp add: mask_eq_exp_minus_1)
  then show ?thesis by (simp only: unsigned_take_bit_eq) (simp add: take_bit_eq_mod)
qed

lemma unat_and_not7: "unat (b AND NOT 7 :: u64) = 8 * (unat b div 8)"
proof -
  have "(b AND NOT 7) AND (b AND 7) = 0" by (rule bit_word_eqI) (auto simp: bit_simps)
  then have "(b AND NOT 7) + (b AND 7) = (b AND NOT 7) OR (b AND 7)"
    by (rule disjunctive_add_eq_or)
  also have "\<dots> = b" by (rule bit_word_eqI) (auto simp: bit_simps)
  finally have "b AND NOT 7 = b - (b AND 7)" by (simp add: algebra_simps)
  then show ?thesis
    by (simp add: unat_sub word_le_nat_alt unat_and7 minus_mod_eq_mult_div)
qed

text \<open>\<^verbatim>\<open>enable\<close>, \<^verbatim>\<open>EL0\<close>, the load/store control and exactly the selected bytes.\<close>

lemma bit_watch_wcr:
  assumes "1 \<le> sz" and "sz \<le> 8" and "(a AND 7) + sz \<le> 8"
  shows "bit (watch_wcr a sz kind) i \<longleftrightarrow>
    i = 0 \<or> i = 2 \<or> i = 3 \<and> kind \<noteq> Watch_Write \<or> i = 4 \<and> kind \<noteq> Watch_Read
    \<or> 5 + unat (a AND 7) \<le> i \<and> i < 5 + unat (a AND 7) + unat sz"
proof -
  have pow: "bit (push_bit m (1 :: u64)) i \<longleftrightarrow> i = m" if "m < 64" for m
    using that by (auto simp: bit_exp_iff)
  have one: "bit (1 :: u64) i \<longleftrightarrow> i = 0" by (simp add: bit_1_iff)
  have pac: "bit WCR_PAC_EL0 i \<longleftrightarrow> i = 2" using pow [of 2] by simp
  have load: "bit WCR_LSC_LOAD i \<longleftrightarrow> i = 3" using pow [of 3] by simp
  have store: "bit WCR_LSC_STORE i \<longleftrightarrow> i = 4" using pow [of 4] by simp
  have m: "push_bit (unat sz) 1 - 1 = (mask (unat sz) :: u64)" by (simp add: mask_eq_exp_minus_1)
  have "unat (a AND 7) < 8" by (simp add: unat_and7)
  moreover have "unat ((a AND 7) + sz) = unat (a AND 7) + unat sz"
    using assms(2) \<open>unat (a AND 7) < 8\<close> by (simp add: unat_word_ariths word_le_nat_alt)
  ultimately have le: "unat (a AND 7) + unat sz \<le> 8"
    using assms(3) by (simp add: word_le_nat_alt)
  have bas: "bit (push_bit 5 (push_bit (unat (a AND 7)) (push_bit (unat sz) 1 - 1) :: u64)) i
      \<longleftrightarrow> 5 + unat (a AND 7) \<le> i \<and> i < 5 + unat (a AND 7) + unat sz"
    unfolding m using le by (auto simp: bit_push_bit_iff bit_mask_iff)
  have kr: "kind_bits kind AND 1 \<noteq> 0 \<longleftrightarrow> kind \<noteq> Watch_Write"
    and kw: "kind_bits kind AND 2 \<noteq> 0 \<longleftrightarrow> kind \<noteq> Watch_Read"
    by (cases kind; simp)+
  show ?thesis
    unfolding watch_wcr_def Let_def kr kw
    by (cases "kind = Watch_Write"; cases "kind = Watch_Read";
        simp only: if_True if_False simp_thms bit_or_iff one pac load store bas) blast+
qed

text \<open>A register pair programmed for \<open>[a, a + sz)\<close> triggers exactly on the accesses of its
  kind to those bytes.\<close>

lemma watch_wcr_triggers:
  assumes ok: "1 \<le> sz" "sz \<le> 8" "(a AND 7) + sz \<le> 8"
    and st: "d_wcr st i = watch_wcr a sz kind" "d_wvr st i = a AND NOT 7"
  shows "hw_triggers st i b is_write \<longleftrightarrow>
    unat a \<le> unat b \<and> unat b < unat a + unat sz \<and> kind_matches kind is_write"
proof -
  have u: "unat ((a AND 7) + sz) = unat (a AND 7) + unat sz"
    using ok(2) unat_and7 [of a] by (simp add: unat_word_ariths word_le_nat_alt)
  have sz: "1 \<le> unat sz" "unat (a AND 7) + unat sz \<le> 8"
    using ok u by (simp_all add: word_le_nat_alt)
  have same: "b AND NOT 7 = a AND NOT 7 \<longleftrightarrow> unat b div 8 = unat a div 8"
    by (simp only: word_unat_eq_iff unat_and_not7) simp
  have k: "bit (watch_wcr a sz kind) (5 + unat (b AND 7)) \<longleftrightarrow>
      unat a mod 8 \<le> unat b mod 8 \<and> unat b mod 8 < unat a mod 8 + unat sz"
    by (simp add: bit_watch_wcr [OF ok] unat_and7)
  have kind: "bit (watch_wcr a sz kind) (if is_write then 4 else 3) \<longleftrightarrow> kind_matches kind is_write"
    using sz by (cases kind) (auto simp: bit_watch_wcr [OF ok] kind_matches_def)
  have "bit (watch_wcr a sz kind) 0" by (simp add: bit_watch_wcr [OF ok])
  moreover have "unat b div 8 = unat a div 8 \<and> unat a mod 8 \<le> unat b mod 8
      \<and> unat b mod 8 < unat a mod 8 + unat sz \<longleftrightarrow> unat a \<le> unat b \<and> unat b < unat a + unat sz"
    (is "?l \<longleftrightarrow> ?r")
  proof
    assume ?l
    moreover have "unat a = 8 * (unat a div 8) + unat a mod 8" "unat b = 8 * (unat b div 8) + unat b mod 8"
      by simp_all
    ultimately show ?r by linarith
  next
    assume ?r
    moreover have a: "unat a = 8 * (unat a div 8) + unat a mod 8" "unat b = 8 * (unat b div 8) + unat b mod 8"
      by simp_all
    ultimately have "unat b div 8 = unat a div 8" using sz(2) unfolding unat_and7 by linarith
    with \<open>?r\<close> a show ?l by linarith
  qed
  ultimately show ?thesis
    unfolding hw_triggers_def st same k kind by blast
qed

section \<open>Against the debug registers of a thread\<close>

text \<open>
  \<open>dbgs w t\<close> is the debug state of thread \<open>t\<close>. A successful \<^verbatim>\<open>thread_set_state\<close> stores
  what it is given; the control registers of pairs the hardware does not implement read
  as zero.
\<close>

definition implemented :: "nat \<Rightarrow> debug_state \<Rightarrow> debug_state" where
  "implemented n st = st\<lparr>d_wcr := \<lambda>i. if i < n then d_wcr st i else 0\<rparr>"

locale debuggable_task = stopped_task K pid task ts ident
  for K :: "'w kernel" and pid task ts ident +
  fixes dbgs :: "'w \<Rightarrow> port \<Rightarrow> debug_state"
    and nslots :: nat
  assumes get_debug: "t \<in> set ts \<Longrightarrow> k_get_debug K t w = ((kr, st), w') \<Longrightarrow>
      dbgs w' = dbgs w \<and> (kr = KERN_SUCCESS \<longrightarrow> st = dbgs w t)"
    and set_debug: "t \<in> set ts \<Longrightarrow> k_set_debug K t st w = (kr, w') \<Longrightarrow>
      dbgs w' = (if kr = KERN_SUCCESS then (dbgs w)(t := implemented nslots st) else dbgs w)"
begin

lemma get_debug_state:
  assumes "t \<in> set ts" and "tid = ident t \<or> tid = 0 \<and> t = hd ts"
    and "cdbg_regs_get_debug_state K pid tid y = (r, y')"
  shows "dbgs (world y') = dbgs (world y) \<and> (\<forall>st. r = Some st \<longrightarrow> st = dbgs (world y) t)"
proof -
  obtain kr st w' where k: "k_get_debug K t (world y) = ((kr, st), w')" by (metis prod.exhaust)
  from get_debug [OF assms(1) k] assms(3) show ?thesis
    by (auto simp: cdbg_regs_get_debug_state_def with_thread_def resolve [OF assms(1,2)]
        syscall_def k Let_def split: if_splits)
qed

lemma set_debug_state:
  assumes "t \<in> set ts" and "tid = ident t \<or> tid = 0 \<and> t = hd ts"
    and "cdbg_regs_set_debug_state K pid tid st y = (ok, y')"
  shows "dbgs (world y') =
    (if ok then (dbgs (world y))(t := implemented nslots st) else dbgs (world y))"
proof -
  obtain kr w' where k: "k_set_debug K t st (world y) = (kr, w')" by (metis prod.exhaust)
  from set_debug [OF assms(1) k] assms(3) show ?thesis
    by (auto simp: cdbg_regs_set_debug_state_def with_thread_def resolve [OF assms(1,2)]
        syscall_def k Let_def split: if_splits)
qed

lemma watch_arm_spec:
  assumes "t \<in> set ts" and "tid = ident t \<or> tid = 0 \<and> t = hd ts"
    and "cdbg_watch_arm K pid tid slot a sz kind y = (True, y')"
  shows "0 \<le> slot \<and> nat slot < CDBG_MAX_WATCHPOINTS \<and> nat slot < nslots
    \<and> 1 \<le> sz \<and> sz \<le> 8 \<and> (a AND 7) + sz \<le> 8
    \<and> dbgs (world y') = (dbgs (world y))(t := implemented nslots ((dbgs (world y) t)
        \<lparr>d_wvr := (d_wvr (dbgs (world y) t))(nat slot := a AND NOT 7),
         d_wcr := (d_wcr (dbgs (world y) t))(nat slot := watch_wcr a sz kind)\<rparr>))"
proof -
  obtain r1 y1 where 1: "cdbg_regs_get_debug_state K pid tid y = (r1, y1)" by (metis prod.exhaust)
  from assms(3) 1 obtain st where r1: "r1 = Some st"
    and n: "\<not> (slot < 0 \<or> slot \<ge> int CDBG_MAX_WATCHPOINTS)" "\<not> (sz = 0 \<or> sz > 8)"
      "\<not> (a AND 7) + sz > 8"
    by (auto simp: cdbg_watch_arm_def split: if_splits option.splits)
  let ?st = "st\<lparr>d_wvr := (d_wvr st)(nat slot := a AND NOT 7),
      d_wcr := (d_wcr st)(nat slot := watch_wcr a sz kind)\<rparr>"
  obtain ok y2 where 2: "cdbg_regs_set_debug_state K pid tid ?st y1 = (ok, y2)"
    by (metis prod.exhaust)
  obtain r3 y3 where 3: "cdbg_regs_get_debug_state K pid tid y2 = (r3, y3)" by (metis prod.exhaust)
  from assms(3) have "ok" and v0: "(case r3 of None \<Rightarrow> (False, y3)
      | Some v \<Rightarrow> (d_wcr v (nat slot) = watch_wcr a sz kind, y3)) = (True, y')"
    unfolding cdbg_watch_arm_def if_not_P [OF n(1)] if_not_P [OF n(2)] if_not_P [OF n(3)] 1 r1
      Let_def prod.case option.case 2 3
    by (cases ok; simp)+
  then obtain v where v: "r3 = Some v" "y3 = y'" "d_wcr v (nat slot) = watch_wcr a sz kind"
    by (auto split: option.splits)
  note g1 = get_debug_state [OF assms(1,2) 1] and g2 = set_debug_state [OF assms(1,2) 2]
    and g3 = get_debug_state [OF assms(1,2) 3]
  have s: "0 \<le> slot" "nat slot < CDBG_MAX_WATCHPOINTS" "sz \<le> 8" "(a AND 7) + sz \<le> 8"
    using n by auto
  have sz: "1 \<le> sz" using n(2) by (simp add: word_le_nat_alt unat_gt_0 Suc_leI)
  have "bit (watch_wcr a sz kind) 0" using sz s by (simp add: bit_watch_wcr)
  with v g2 g3 \<open>ok\<close> have "nat slot < nslots"
    by (auto simp: implemented_def split: if_splits)
  with s sz g1 g2 g3 r1 v(2) \<open>ok\<close> show ?thesis by simp
qed

lemma watch_disarm_spec:
  assumes "t \<in> set ts" and "tid = ident t \<or> tid = 0 \<and> t = hd ts"
    and "cdbg_watch_disarm K pid tid slot y = (True, y')"
  shows "0 \<le> slot \<and> nat slot < CDBG_MAX_WATCHPOINTS
    \<and> dbgs (world y') = (dbgs (world y))(t := implemented nslots ((dbgs (world y) t)
        \<lparr>d_wcr := (d_wcr (dbgs (world y) t))
           (nat slot := d_wcr (dbgs (world y) t) (nat slot) AND NOT WCR_ENABLE)\<rparr>))"
proof -
  obtain r1 y1 where 1: "cdbg_regs_get_debug_state K pid tid y = (r1, y1)" by (metis prod.exhaust)
  from assms(3) 1 obtain st where r1: "r1 = Some st"
    and s: "0 \<le> slot" "nat slot < CDBG_MAX_WATCHPOINTS"
    and 2: "cdbg_regs_set_debug_state K pid tid
      (st\<lparr>d_wcr := (d_wcr st)(nat slot := d_wcr st (nat slot) AND NOT WCR_ENABLE)\<rparr>) y1 = (True, y')"
    by (auto simp: cdbg_watch_disarm_def split: if_splits option.splits)
  from get_debug_state [OF assms(1,2) 1] set_debug_state [OF assms(1,2) 2] r1 s
  show ?thesis by simp
qed

end

end
