(* ===== verification/Language.thy ===== *)
theory Language
  imports Text
begin

text \<open>
  The source-language setting (\<^verbatim>\<open>src/debugger.c\<close>: \<^verbatim>\<open>k_language_aliases\<close>,
  \<^verbatim>\<open>cdbg_language_*\<close>): parsing of a language name, the canonical name, the language in
  force and whether expressions are evaluated for it.
\<close>

datatype cdbg_language =
  Lang_AUTO | Lang_C | Lang_CXX | Lang_OBJC | Lang_FORTRAN | Lang_PASCAL | Lang_ADA
| Lang_MODULA2 | Lang_JAVA | Lang_GO | Lang_RUST | Lang_ASSEMBLY

definition k_language_aliases :: "(string \<times> cdbg_language) list" where
  "k_language_aliases =
     [(''auto'', Lang_AUTO), (''c'', Lang_C), (''c++'', Lang_CXX), (''cpp'', Lang_CXX),
      (''cxx'', Lang_CXX), (''objective-c'', Lang_OBJC), (''objc'', Lang_OBJC),
      (''fortran'', Lang_FORTRAN), (''pascal'', Lang_PASCAL), (''ada'', Lang_ADA),
      (''modula-2'', Lang_MODULA2), (''modula2'', Lang_MODULA2), (''java'', Lang_JAVA),
      (''go'', Lang_GO), (''rust'', Lang_RUST), (''assembly'', Lang_ASSEMBLY),
      (''asm'', Lang_ASSEMBLY)]"

definition cdbg_language_parse :: "string \<Rightarrow> cdbg_language option" where
  "cdbg_language_parse name =
     (if name = [] then None
      else map_option snd (find (\<lambda>(alias, _). str_ieq name alias) k_language_aliases))"

fun cdbg_language_name :: "cdbg_language \<Rightarrow> string" where
  "cdbg_language_name Lang_AUTO = ''auto''"
| "cdbg_language_name Lang_C = ''c''"
| "cdbg_language_name Lang_CXX = ''c++''"
| "cdbg_language_name Lang_OBJC = ''objective-c''"
| "cdbg_language_name Lang_FORTRAN = ''fortran''"
| "cdbg_language_name Lang_PASCAL = ''pascal''"
| "cdbg_language_name Lang_ADA = ''ada''"
| "cdbg_language_name Lang_MODULA2 = ''modula-2''"
| "cdbg_language_name Lang_JAVA = ''java''"
| "cdbg_language_name Lang_GO = ''go''"
| "cdbg_language_name Lang_RUST = ''rust''"
| "cdbg_language_name Lang_ASSEMBLY = ''assembly''"

definition cdbg_language_effective :: "cdbg_language \<Rightarrow> cdbg_language" where
  "cdbg_language_effective lang = (if lang = Lang_AUTO then Lang_C else lang)"

fun cdbg_language_supports_expr :: "cdbg_language \<Rightarrow> bool" where
  "cdbg_language_supports_expr Lang_AUTO = True"
| "cdbg_language_supports_expr Lang_C = True"
| "cdbg_language_supports_expr Lang_CXX = True"
| "cdbg_language_supports_expr Lang_OBJC = True"
| "cdbg_language_supports_expr _ = False"

section \<open>Lemmas\<close>

lemma str_ieq_map: "str_ieq as bs \<longleftrightarrow> map tolower as = map tolower bs"
  by (induction as bs rule: str_ieq.induct) auto

lemma str_ieq_refl [simp]: "str_ieq s s"
  by (simp add: str_ieq_map)

lemma tolower_idem: "tolower (tolower c) = tolower c"
proof (cases "isupper c")
  case True
  then have "ccode (tolower c) = ccode c + 32"
    by (simp add: tolower_def isupper_def ccode_char_of)
  then have "\<not> isupper (tolower c)" using True by (simp add: isupper_def)
  then show ?thesis by (simp add: tolower_def)
qed (simp add: tolower_def)

lemma str_ieq_tolower: "str_ieq (map tolower s) t = str_ieq s t"
  by (simp add: str_ieq_map tolower_idem comp_def)

lemma language_parse_tolower:
  "cdbg_language_parse (map tolower s) = cdbg_language_parse s"
  by (simp add: cdbg_language_parse_def str_ieq_tolower)

lemmas language_eval =
  cdbg_language_parse_def k_language_aliases_def str_ieq_map tolower_def isupper_def ccode_def

text \<open>Every language is recovered from its canonical name however the letters are
  capitalised, and the language in force (which is never \<open>auto\<close>) evaluates expressions
  exactly for C, C++ and Objective-C.\<close>

theorem language_parse_name:
  "(str_ieq s (cdbg_language_name l) \<longrightarrow> cdbg_language_parse s = Some l)
   \<and> cdbg_language_effective l \<noteq> Lang_AUTO
   \<and> (cdbg_language_supports_expr (cdbg_language_effective l)
        \<longleftrightarrow> l \<in> {Lang_AUTO, Lang_C, Lang_CXX, Lang_OBJC})"
proof (intro conjI impI)
  assume "str_ieq s (cdbg_language_name l)"
  then have eq: "map tolower s = map tolower (cdbg_language_name l)"
    by (simp add: str_ieq_map)
  have "cdbg_language_parse (map tolower (cdbg_language_name l)) = Some l"
    by (cases l) (simp_all add: language_eval)
  then show "cdbg_language_parse s = Some l"
    by (simp add: eq [symmetric] language_parse_tolower)
next
  show "cdbg_language_effective l \<noteq> Lang_AUTO"
    by (simp add: cdbg_language_effective_def)
next
  show "cdbg_language_supports_expr (cdbg_language_effective l)
        \<longleftrightarrow> l \<in> {Lang_AUTO, Lang_C, Lang_CXX, Lang_OBJC}"
    by (cases l) (simp_all add: cdbg_language_effective_def)
qed

theorem language_parse_name_witness:
  "str_ieq ''Objective-C'' (cdbg_language_name Lang_OBJC)
   \<and> cdbg_language_parse ''Objective-C'' = Some Lang_OBJC"
proof -
  have "str_ieq ''Objective-C'' (cdbg_language_name Lang_OBJC)" by code_simp
  then show ?thesis using language_parse_name [of "''Objective-C''" Lang_OBJC] by blast
qed

end
