(* ===== verification/Scan.thy ===== *)
theory Scan
  imports CString
begin

text \<open>
  Two loops that recur in the program: reading a stream with \<^verbatim>\<open>fgets\<close>, and the scan of a
  table for the best entry, which keeps a candidate and replaces it by an admissible entry
  that is strictly better. The contract of the scan is stated once, for any order on keys.
\<close>

section \<open>fgets\<close>

text \<open>One call with a buffer of \<open>n\<close> bytes on what is left of the stream: at most \<open>n - 1\<close>
  characters, up to and with the first newline.\<close>

fun upto_newline :: "string \<Rightarrow> string" where
  "upto_newline [] = []"
| "upto_newline (c # cs) = (if c = CHR 0x0A then [c] else c # upto_newline cs)"

definition fgets :: "nat \<Rightarrow> string \<Rightarrow> string" where
  "fgets n s = take (n - 1) (upto_newline s)"

function fgets_all :: "nat \<Rightarrow> string \<Rightarrow> string list" where
  "fgets_all n s =
     (if s = [] \<or> n < 2 then []
      else fgets n s # fgets_all n (drop (length (fgets n s)) s))"
  by pat_completeness auto
termination
proof (relation "measure (\<lambda>(n, s). length s)", goal_cases)
  case (2 n s)
  then obtain c cs where "s = c # cs" by (cases s) auto
  with 2 have "0 < length (fgets n s)" by (simp add: fgets_def)
  with 2 show ?case by simp
qed simp

declare fgets_all.simps [simp del]

lemma prefix_upto_newline: "\<exists>r. upto_newline s @ r = s"
  by (induction s) auto

lemma fgets_prefix: "fgets n s @ drop (length (fgets n s)) s = s"
proof -
  obtain r where "upto_newline s @ r = s" using prefix_upto_newline by blast
  then have "fgets n s = take (length (fgets n s)) s"
    unfolding fgets_def by (metis append_eq_conv_conj length_take min.commute take_take)
  then show ?thesis by (metis append_take_drop_id)
qed

text \<open>The lines read are the whole stream.\<close>

lemma concat_fgets_all: "2 \<le> n \<Longrightarrow> concat (fgets_all n s) = s"
proof (induction n s rule: fgets_all.induct)
  case (1 n s)
  then show ?case
    by (cases "s = []") (simp_all add: fgets_all.simps [of n] fgets_prefix)
qed

lemma length_fgets_all: "l \<in> set (fgets_all n s) \<Longrightarrow> length l < n"
proof (induction n s rule: fgets_all.induct)
  case (1 n s)
  then show ?case
    by (subst (asm) (2) fgets_all.simps) (auto simp: fgets_def split: if_splits)
qed

section \<open>The scan for the best entry\<close>

fun best_of :: "('a \<Rightarrow> bool) \<Rightarrow> ('a \<Rightarrow> 'a \<Rightarrow> bool) \<Rightarrow> 'a option \<Rightarrow> 'a list \<Rightarrow> 'a option" where
  "best_of ok better best [] = best"
| "best_of ok better best (e # es) =
     best_of ok better
       (if ok e then (case best of None \<Rightarrow> Some e | Some b \<Rightarrow> if better e b then Some e else best)
        else best) es"

locale ordered_scan =
  fixes better :: "'a \<Rightarrow> 'a \<Rightarrow> bool"
    and key :: "'a \<Rightarrow> int"
  assumes better_key: "better a b \<longleftrightarrow> key a < key b"
begin

lemma best_of_Some:
  "best_of ok better (Some b) xs = Some e \<Longrightarrow>
     key e \<le> key b \<and> (e = b \<or> e \<in> set xs \<and> ok e) \<and> (\<forall>x \<in> set xs. ok x \<longrightarrow> key e \<le> key x)"
proof (induction xs arbitrary: b)
  case (Cons x xs)
  show ?case
  proof (cases "ok x \<and> better x b")
    case True
    with Cons.prems have "best_of ok better (Some x) xs = Some e" by simp
    from Cons.IH [OF this] True show ?thesis by (auto simp: better_key)
  next
    case False
    with Cons.prems have "best_of ok better (Some b) xs = Some e" by (auto split: if_splits)
    from Cons.IH [OF this] False show ?thesis by (auto simp: better_key)
  qed
qed simp

lemma best_of_not_None: "best_of ok better (Some b) xs \<noteq> None"
  by (induction xs arbitrary: b) auto

lemma best_of_None: "best_of ok better None xs = None \<longleftrightarrow> (\<forall>x \<in> set xs. \<not> ok x)"
  using best_of_not_None by (induction xs) auto

text \<open>The result is an admissible entry of least key, and there is one unless no entry is
  admissible.\<close>

lemma best_is_least:
  "best_of ok better None xs = Some e \<Longrightarrow>
     e \<in> set xs \<and> ok e \<and> (\<forall>x \<in> set xs. ok x \<longrightarrow> key e \<le> key x)"
proof (induction xs)
  case (Cons x xs)
  then show ?case
    by (cases "ok x") (use best_of_Some [of ok x xs e] in auto)
qed simp

lemma best_exists: "x \<in> set xs \<Longrightarrow> ok x \<Longrightarrow> \<exists>e. best_of ok better None xs = Some e"
  using best_of_None [of ok xs] by auto

end

end
