(* ===== verification/MachO.thy ===== *)
theory MachO
  imports Memory Cursor Scan
begin

text \<open>
  What \<^verbatim>\<open>src/lineno.c\<close> and \<^verbatim>\<open>src/syms.c\<close> do alike: mapping a file, finding the text
  segment, a section or the symbol table in a Mach-O image, the path of the dSYM companion,
  and the scan of the task's regions that yields the slide. A structure overlaid on the
  file is read field by field at its offset in the Mach-O ABI; bytes past the end of the
  file read as absent.
\<close>

section \<open>Paths\<close>

definition PATH_MAX :: nat where "PATH_MAX = 1024"

definition strip_slashes :: "string \<Rightarrow> string" where
  "strip_slashes s = rev (dropWhile (\<lambda>c. c = CHR ''/'') (rev s))"

text \<open>\<^verbatim>\<open>basename\<close> and \<^verbatim>\<open>dirname\<close> of the C library.\<close>

definition basename :: "string \<Rightarrow> string" where
  "basename s =
     (let t = strip_slashes s
      in if s = [] then ''.'' else if t = [] then ''/''
         else case strrchr t CHR ''/'' of None \<Rightarrow> t | Some r \<Rightarrow> tl r)"

definition dirname :: "string \<Rightarrow> string" where
  "dirname s =
     (let t = strip_slashes s
      in if s = [] then ''.'' else if t = [] then ''/''
         else case strrchr t CHR ''/'' of
                None \<Rightarrow> ''.''
              | Some r \<Rightarrow>
                  (let dir = strip_slashes (take (length t - length r) t)
                   in if dir = [] then ''/'' else dir))"

definition dsym_dwarf_path :: "'w kernel \<Rightarrow> string \<Rightarrow> 'w \<Rightarrow> string option" where
  "dsym_dwarf_path K executable_path w =
     (if length executable_path \<ge> PATH_MAX then None
      else let out = executable_path @ ''.dSYM/Contents/Resources/DWARF/'' @ basename executable_path
           in if length out \<ge> PATH_MAX then None
              else if k_access K out 4 w then Some out else None)"

text \<open>A missing or unreadable file is reported, an empty one is not.\<close>

definition map_file :: "'w kernel \<Rightarrow> string \<Rightarrow> 'w sys \<Rightarrow> u8 list option \<times> 'w sys" where
  "map_file K path y =
     (case k_read_file K path (world y) of
        None \<Rightarrow> (None, emit (Perror path) y)
      | Some d \<Rightarrow> (if d = [] then None else Some d, y))"

section \<open>Mach-O\<close>

definition u32_at :: "u8 list \<Rightarrow> nat \<Rightarrow> u32" where
  "u32_at d i = le_word (take 4 (drop i d))"

definition u64_at :: "u8 list \<Rightarrow> nat \<Rightarrow> u64" where
  "u64_at d i = le_word (take 8 (drop i d))"

definition MH_MAGIC_64 :: u32 where "MH_MAGIC_64 = 0xfeedfacf"
definition LC_SEGMENT_64 :: u32 where "LC_SEGMENT_64 = 0x19"
definition LC_SYMTAB :: u32 where "LC_SYMTAB = 2"

text \<open>The load commands: after a 32-byte header, each of the size it gives.\<close>

fun text_vmaddr_loop :: "u8 list \<Rightarrow> nat \<Rightarrow> nat \<Rightarrow> addr" where
  "text_vmaddr_loop d 0 i = 0"
| "text_vmaddr_loop d (Suc n) i =
     (if i + 8 > length d then 0
      else if u32_at d i = LC_SEGMENT_64 \<and> cstr_at d (i + 8) = ''__TEXT'' then u64_at d (i + 24)
      else text_vmaddr_loop d n (i + unat (u32_at d (i + 4))))"

definition macho_text_vmaddr :: "u8 list \<Rightarrow> addr" where
  "macho_text_vmaddr d =
     (if length d < 32 \<or> u32_at d 0 \<noteq> MH_MAGIC_64 then 0
      else text_vmaddr_loop d (unat (u32_at d 16)) 32)"

definition sect_name_eq :: "string \<Rightarrow> string \<Rightarrow> bool" where
  "sect_name_eq a b \<longleftrightarrow> take 16 a = take 16 b"

fun find_section_in :: "u8 list \<Rightarrow> string \<Rightarrow> string \<Rightarrow> nat \<Rightarrow> nat \<Rightarrow> (u32 \<times> u32) option" where
  "find_section_in d segname sectname 0 i = None"
| "find_section_in d segname sectname (Suc n) i =
     (if sect_name_eq (cstr_at d (i + 16)) segname \<and> sect_name_eq (cstr_at d i) sectname
      then Some (u32_at d (i + 48), ucast (u64_at d (i + 40)))
      else find_section_in d segname sectname n (i + 80))"

fun find_section_loop :: "u8 list \<Rightarrow> string \<Rightarrow> string \<Rightarrow> nat \<Rightarrow> nat \<Rightarrow> (u32 \<times> u32) option" where
  "find_section_loop d segname sectname 0 i = None"
| "find_section_loop d segname sectname (Suc n) i =
     (if i + 8 > length d then None
      else let next = i + unat (u32_at d (i + 4))
           in if u32_at d i = LC_SEGMENT_64
              then case find_section_in d segname sectname (unat (u32_at d (i + 64))) (i + 72) of
                     Some r \<Rightarrow> Some r
                   | None \<Rightarrow> find_section_loop d segname sectname n next
              else find_section_loop d segname sectname n next)"

text \<open>Offset and size of a section.\<close>

definition macho_find_section :: "u8 list \<Rightarrow> string \<Rightarrow> string \<Rightarrow> (u32 \<times> u32) option" where
  "macho_find_section d segname sectname =
     (if length d < 32 \<or> u32_at d 0 \<noteq> MH_MAGIC_64 then None
      else find_section_loop d segname sectname (unat (u32_at d 16)) 32)"

section \<open>The slide of the main image\<close>

text \<open>\<^verbatim>\<open>mach_vm_region_recurse\<close> until a region that may be read and executed; the loop ends
  when the call fails.\<close>

partial_function (option) region_loop ::
    "'w kernel \<Rightarrow> port \<Rightarrow> addr \<Rightarrow> 'w sys \<Rightarrow> (addr option \<times> 'w sys) option" where
  "region_loop K task addr y =
     (let (r, y) = syscall (k_vm_region K task addr) y
      in case r of
           None \<Rightarrow> Some (None, y)
         | Some rg \<Rightarrow>
             if region_prot rg AND VM_PROT_EXECUTE \<noteq> 0 \<and> region_prot rg AND VM_PROT_READ \<noteq> 0
             then Some (Some (region_addr rg), y)
             else region_loop K task (region_addr rg + region_size rg) y)"

declare region_loop.simps [code]

definition update_slide :: "'w kernel \<Rightarrow> pid \<Rightarrow> addr \<Rightarrow> 'w sys \<Rightarrow> (addr option \<times> 'w sys) option" where
  "update_slide K pid link_base y =
     (let ((kr, task), y) = sys_task_for_pid K pid y
      in if kr \<noteq> KERN_SUCCESS then Some (None, y)
         else do { (r, y) \<leftarrow> region_loop K task 0 y;
                   Some (map_option (\<lambda>a. a - link_base) r, mach_port_deallocate task y) })"

lemma region_loop_rights:
  assumes "region_loop K task a y = Some p"
  shows "rights (snd p) = rights y \<and> io (snd p) = io y"
proof (rule region_loop.raw_induct [OF _ assms])
  fix f :: "'a kernel \<Rightarrow> port \<Rightarrow> addr \<Rightarrow> 'a sys \<Rightarrow> (addr option \<times> 'a sys) option"
  fix K task a y p
  assume IH: "\<And>K task a y p. f K task a y = Some p \<Longrightarrow> rights (snd p) = rights y \<and> io (snd p) = io y"
    and step: "(let (r, y) = syscall (k_vm_region K task a) y
      in case r of
           None \<Rightarrow> Some (None, y)
         | Some rg \<Rightarrow>
             if region_prot rg AND VM_PROT_EXECUTE \<noteq> 0 \<and> region_prot rg AND VM_PROT_READ \<noteq> 0
             then Some (Some (region_addr rg), y)
             else f K task (region_addr rg + region_size rg) y) = Some p"
  then show "rights (snd p) = rights y \<and> io (snd p) = io y"
    by (auto simp: split_beta split: option.splits if_splits dest!: IH)
qed

lemma update_slide_rights:
  assumes "update_slide K pid base y = Some (r, y')"
  shows "rights y' = rights y \<and> io y' = io y"
  using assms
  by (auto simp: update_slide_def sys_task_for_pid_def Let_def split_beta bind_eq_Some_conv
      split: if_splits dest: region_loop_rights)

text \<open>
  A task with finitely many regions, in order and apart: the call at an address returns
  the first region that ends above it.
\<close>

definition region_end :: "region \<Rightarrow> nat" where
  "region_end r = unat (region_addr r) + unat (region_size r)"

definition rx :: "region \<Rightarrow> bool" where
  "rx r \<longleftrightarrow> region_prot r AND VM_PROT_EXECUTE \<noteq> 0 \<and> region_prot r AND VM_PROT_READ \<noteq> 0"

lemma find_append_None: "find P xs = None \<Longrightarrow> find P (xs @ ys) = find P ys"
  by (induction xs) (auto split: if_splits)

locale region_map =
  fixes K :: "'w kernel"
    and pid :: pid
    and task :: port
    and regions :: "region list"
  assumes task_for_pid: "k_task_for_pid K pid w = ((KERN_SUCCESS, task), w)"
    and vm_region: "k_vm_region K task a w = (find (\<lambda>r. unat a < region_end r) regions, w)"
    and apart: "sorted_wrt (\<lambda>r s. region_end r \<le> unat (region_addr s)) regions"
    and sizes: "r \<in> set regions \<Longrightarrow> 0 < unat (region_size r) \<and> region_end r < 2 ^ 64"
begin

lemma syscall_region:
  "syscall (k_vm_region K task a) y = (find (\<lambda>r. unat a < region_end r) regions, y)"
  by (simp add: syscall_def vm_region)

lemma region_loop_suffix:
  "regions = pre @ suf \<Longrightarrow> \<forall>r \<in> set pre. region_end r \<le> unat a \<Longrightarrow>
   \<forall>r \<in> set suf. unat a \<le> unat (region_addr r) \<Longrightarrow>
   region_loop K task a y = Some (map_option region_addr (find rx suf), y)"
proof (induction suf arbitrary: pre a)
  case Nil
  have "find (\<lambda>r. unat a < region_end r) regions = None"
    using Nil by (auto simp: find_None_iff)
  then show ?case by (subst region_loop.simps) (simp add: syscall_region)
next
  case (Cons r suf)
  have r: "r \<in> set regions" using Cons.prems(1) by simp
  have "find (\<lambda>r. unat a < region_end r) pre = None"
    using Cons.prems(2) by (auto simp: find_None_iff)
  then have find: "find (\<lambda>r. unat a < region_end r) regions = Some r"
    using Cons.prems(1,3) sizes [OF r] by (simp add: find_append_None region_end_def)
  have e: "unat (region_addr r + region_size r) = region_end r"
    using sizes [OF r] by (simp add: region_end_def unat_word_ariths)
  have "region_loop K task (region_addr r + region_size r) y
      = Some (map_option region_addr (find rx suf), y)"
  proof (rule Cons.IH [of "pre @ [r]"])
    show "\<forall>s \<in> set (pre @ [r]). region_end s \<le> unat (region_addr r + region_size r)"
      using apart Cons.prems(1) e by (auto simp: sorted_wrt_append region_end_def)
    show "\<forall>s \<in> set suf. unat (region_addr r + region_size r) \<le> unat (region_addr s)"
      using apart Cons.prems(1) e by (auto simp: sorted_wrt_append)
  qed (simp add: Cons.prems(1))
  then show ?case
    by (subst region_loop.simps) (simp add: syscall_region find rx_def)
qed

lemma region_loop_first_rx:
  "region_loop K task 0 y = Some (map_option region_addr (find rx regions), y)"
  by (rule region_loop_suffix [of "[]"]) auto

lemma update_slide_spec:
  "update_slide K pid base y =
     Some (map_option (\<lambda>r. region_addr r - base) (find rx regions), y)"
  by (simp add: update_slide_def sys_task_for_pid_def syscall_def task_for_pid
      region_loop_first_rx option.map_comp comp_def acquire_def mach_port_deallocate_def)

end

end
