(* ===== verification/Lineno.thy ===== *)
theory Lineno
  imports MachO LineTable
begin

text \<open>
  The rest of \<^verbatim>\<open>src/lineno.c\<close>: loading a line table (from the output of \<^verbatim>\<open>dwarfdump\<close>, or
  with the reader of \<open>LineTable\<close> when that fails), relocating it, the lookups by address
  and by line that stepping and breakpoints use, and the source listings.
\<close>

section \<open>Loading\<close>

definition lineno_push :: "cdbg_lineno \<Rightarrow> addr \<Rightarrow> u32 \<Rightarrow> u32 \<Rightarrow> string \<Rightarrow> cdbg_lineno" where
  "lineno_push ln address line column file =
     ln\<lparr>ln_entries := ln_entries ln
          @ [\<lparr>le_address = address, le_line = line, le_column = column,
             le_file = snprintf_s CDBG_LINENO_MAX_FILE file\<rparr>]\<rparr>"

text \<open>The text up to the next double quote, cut to the buffer; \<open>None\<close> when there is no
  quote.\<close>

definition up_to_quote :: "string \<Rightarrow> string option" where
  "up_to_quote r =
     (case strchr r CHR 0x22 of
        None \<Rightarrow> None
      | Some e \<Rightarrow> Some (snprintf_s CDBG_LINENO_MAX_FILE (take (length r - length e) r)))"

text \<open>\<^verbatim>\<open>sscanf(line_buf, "0x%llx %u %u", ...) == 3\<close> on a line that starts with \<open>0x\<close>.\<close>

definition scan_row :: "string \<Rightarrow> (u64 \<times> u32 \<times> u32) option" where
  "scan_row line =
     (if \<not> starts_with line ''0x'' then None
      else case strtoull 16 (drop 2 line) of
             None \<Rightarrow> None
           | Some (address, r) \<Rightarrow>
               (case strtoull 10 r of
                  None \<Rightarrow> None
                | Some (line_no, r) \<Rightarrow>
                    (case strtoull 10 r of
                       None \<Rightarrow> None
                     | Some (column, _) \<Rightarrow> Some (address, ucast line_no, ucast column))))"

definition dump_full_path :: "string \<Rightarrow> string \<Rightarrow> string" where
  "dump_full_path current_dir current_file =
     snprintf_s CDBG_LINENO_MAX_FILE
       (if current_file = [] then ''<unknown>''
        else if strchr current_file CHR ''/'' \<noteq> None \<or> current_dir = [] then current_file
        else current_dir @ ''/'' @ current_file)"

fun dump_loop :: "string list \<Rightarrow> string \<Rightarrow> string \<Rightarrow> cdbg_lineno \<Rightarrow> string \<times> cdbg_lineno" where
  "dump_loop [] current_dir current_file ln = (current_dir, ln)"
| "dump_loop (line # lines) current_dir current_file ln =
     (case strstr line ''include_directories'' of
        Some dir_marker \<Rightarrow>
          (case Option.bind (strchr dir_marker CHR 0x22) (\<lambda>q. up_to_quote (tl q)) of
             Some dir \<Rightarrow> dump_loop lines dir current_file ln
           | None \<Rightarrow> dump_loop lines current_dir current_file ln)
      | None \<Rightarrow>
          (case strstr line (''name: '' @ [CHR 0x22]) of
             Some name_marker \<Rightarrow>
               (case up_to_quote (drop 7 name_marker) of
                  Some file \<Rightarrow> dump_loop lines current_dir file ln
                | None \<Rightarrow> dump_loop lines current_dir current_file ln)
           | None \<Rightarrow>
               (case scan_row line of
                  None \<Rightarrow> dump_loop lines current_dir current_file ln
                | Some (address, line_no, column) \<Rightarrow>
                    dump_loop lines current_dir current_file
                      (lineno_push ln address line_no column
                         (dump_full_path current_dir current_file)))))"

definition lineno_load_from_dwarfdump ::
    "'w kernel \<Rightarrow> cdbg_lineno \<Rightarrow> string \<Rightarrow> 'w \<Rightarrow> bool \<times> cdbg_lineno" where
  "lineno_load_from_dwarfdump K ln debug_obj w =
     (let cmd = ''dwarfdump --debug-line '' @ [CHR 0x27] @ debug_obj @ [CHR 0x27] @ '' 2>/dev/null''
      in if length cmd \<ge> PATH_MAX + 64 then (False, ln)
         else case k_popen K cmd w of
                None \<Rightarrow> (False, ln)
              | Some (out, status) \<Rightarrow>
                  (let (dir, ln) = dump_loop (fgets_all 512 out) [] [] ln;
                       ln = (if dir \<noteq> [] then ln\<lparr>ln_comp_dir := dir\<rparr> else ln)
                   in (status = 0 \<and> ln_entries ln \<noteq> [], ln)))"

definition cdbg_lineno_free :: "cdbg_lineno \<Rightarrow> cdbg_lineno" where
  "cdbg_lineno_free ln = empty_lineno"

text \<open>The fallback: the \<^verbatim>\<open>__debug_line\<close> section of the debug object.\<close>

definition lineno_load_section ::
    "'w kernel \<Rightarrow> cdbg_lineno \<Rightarrow> string \<Rightarrow> string \<Rightarrow> 'w sys
     \<Rightarrow> ((bool \<times> cdbg_lineno) \<times> 'w sys) option" where
  "lineno_load_section K ln executable_path debug_obj y =
     (let (dwarf, y) = map_file K debug_obj y
      in case dwarf of
           None \<Rightarrow> Some ((False, ln), emit (Err (''No debug info found for '' @ executable_path @ nl)) y)
         | Some d \<Rightarrow>
             (case macho_find_section d ''__DWARF'' ''__debug_line'' of
                None \<Rightarrow> Some ((False, ln), emit (Err (''Missing __debug_line section'' @ nl)) y)
              | Some (line_offset, line_size) \<Rightarrow>
                  (let (str_offset, str_size) =
                         (case macho_find_section d ''__DWARF'' ''__debug_line_str'' of
                            None \<Rightarrow> (0, 0) | Some r \<Rightarrow> r)
                   in if unat line_offset + unat line_size > length d then Some ((False, ln), y)
                      else let line_str =
                             (if str_size > 0 \<and> unat str_offset + unat str_size \<le> length d
                              then Some (unat str_offset, unat str_size) else None)
                           in case parse_line_table d line_str
                                     \<lparr>c_pos = unat line_offset, c_end = unat line_offset + unat line_size\<rparr> ln of
                                None \<Rightarrow> None
                              | Some (Inr ln') \<Rightarrow>
                                  if ln_entries ln' = []
                                  then Some ((False, cdbg_lineno_free ln'),
                                             emit (Err (''Failed to parse line number table'' @ nl)) y)
                                  else Some ((True, ln'), y)
                              | Some (Inl e) \<Rightarrow>
                                  Some ((False, cdbg_lineno_free ln),
                                        emit (Err (''Failed to parse line number table'' @ nl)) y))))"

definition cdbg_lineno_load ::
    "'w kernel \<Rightarrow> string \<Rightarrow> 'w sys \<Rightarrow> ((bool \<times> cdbg_lineno) \<times> 'w sys) option" where
  "cdbg_lineno_load K executable_path y =
     (let exe_dir = snprintf_s CDBG_LINENO_MAX_FILE
                      (dirname (snprintf_s CDBG_LINENO_MAX_FILE executable_path));
          ln = empty_lineno\<lparr>ln_exe_dir := exe_dir\<rparr>;
          (exe, y) = map_file K executable_path y
      in case exe of
           None \<Rightarrow> Some ((False, ln), y)
         | Some d \<Rightarrow>
             (let ln = ln\<lparr>ln_link_base := macho_text_vmaddr d\<rparr>;
                  debug_obj = (case dsym_dwarf_path K executable_path (world y) of
                                 None \<Rightarrow> executable_path | Some p \<Rightarrow> p);
                  (ok, loaded) = lineno_load_from_dwarfdump K ln debug_obj (world y)
              in if ok then Some ((True, loaded), y)
                 else let ln = (cdbg_lineno_free loaded)\<lparr>ln_exe_dir := exe_dir\<rparr>;
                          (exe, y) = map_file K executable_path y
                      in case exe of
                           None \<Rightarrow> Some ((False, ln), y)
                         | Some d \<Rightarrow>
                             lineno_load_section K (ln\<lparr>ln_link_base := macho_text_vmaddr d\<rparr>)
                               executable_path debug_obj y))"

definition cdbg_lineno_update_slide ::
    "'w kernel \<Rightarrow> cdbg_lineno \<Rightarrow> pid \<Rightarrow> 'w sys \<Rightarrow> ((bool \<times> cdbg_lineno) \<times> 'w sys) option" where
  "cdbg_lineno_update_slide K ln pid y =
     do { (r, y) \<leftarrow> update_slide K pid (ln_link_base ln) y;
          Some (case r of None \<Rightarrow> (False, ln) | Some s \<Rightarrow> (True, ln\<lparr>ln_slide := s\<rparr>), y) }"

section \<open>Lookups\<close>

definition cdbg_lineno_runtime_addr :: "cdbg_lineno \<Rightarrow> addr \<Rightarrow> addr" where
  "cdbg_lineno_runtime_addr ln link_addr = link_addr + ln_slide ln"

definition cdbg_lineno_lookup_pc :: "cdbg_lineno \<Rightarrow> addr \<Rightarrow> cdbg_line_entry option" where
  "cdbg_lineno_lookup_pc ln runtime_pc =
     best_of (\<lambda>e. cdbg_lineno_runtime_addr ln (le_address e) \<le> runtime_pc)
       (\<lambda>e b. cdbg_lineno_runtime_addr ln (le_address e) > cdbg_lineno_runtime_addr ln (le_address b))
       None (ln_entries ln)"

definition file_matches :: "string \<Rightarrow> string option \<Rightarrow> bool" where
  "file_matches entry_file file_filter =
     (case file_filter of
        None \<Rightarrow> True
      | Some f \<Rightarrow>
          if f = [] then True
          else let base = (case strrchr entry_file CHR ''/'' of None \<Rightarrow> entry_file | Some r \<Rightarrow> tl r)
               in contains entry_file f \<or> base = f)"

definition cdbg_lineno_lookup_line :: "cdbg_lineno \<Rightarrow> string option \<Rightarrow> u32 \<Rightarrow> cdbg_line_entry option" where
  "cdbg_lineno_lookup_line ln file_filter line =
     best_of (\<lambda>e. le_line e = line \<and> file_matches (le_file e) file_filter)
       (\<lambda>e b. le_address e < le_address b) None (ln_entries ln)"

text \<open>\<^verbatim>\<open>match\<close> is the entry kept so far and its file the only one seen.\<close>

fun lookup_unique_loop :: "u32 \<Rightarrow> cdbg_line_entry list \<Rightarrow> cdbg_line_entry option \<Rightarrow> cdbg_line_entry option" where
  "lookup_unique_loop line [] found = found"
| "lookup_unique_loop line (e # es) found =
     (if le_line e \<noteq> line then lookup_unique_loop line es found
      else case found of
             None \<Rightarrow> lookup_unique_loop line es (Some e)
           | Some m \<Rightarrow>
               if le_file m \<noteq> le_file e then None
               else lookup_unique_loop line es (Some (if le_address e < le_address m then e else m)))"

definition cdbg_lineno_lookup_line_unique :: "cdbg_lineno \<Rightarrow> u32 \<Rightarrow> cdbg_line_entry option" where
  "cdbg_lineno_lookup_line_unique ln line = lookup_unique_loop line (ln_entries ln) None"

text \<open>An entry covers at most 128 bytes, and less when another entry follows it.\<close>

fun max_pc_loop :: "cdbg_lineno \<Rightarrow> addr \<Rightarrow> cdbg_line_entry list \<Rightarrow> addr \<Rightarrow> addr" where
  "max_pc_loop ln entry_runtime [] max_pc = max_pc"
| "max_pc_loop ln entry_runtime (e # es) max_pc =
     (let a = cdbg_lineno_runtime_addr ln (le_address e)
      in max_pc_loop ln entry_runtime es
           (if a > entry_runtime \<and> a < max_pc then a - 1 else max_pc))"

definition lineno_entry_at_pc :: "cdbg_lineno \<Rightarrow> addr \<Rightarrow> cdbg_line_entry option" where
  "lineno_entry_at_pc ln runtime_pc =
     (case cdbg_lineno_lookup_pc ln runtime_pc of
        None \<Rightarrow> None
      | Some entry \<Rightarrow>
          if le_line entry = 0 then None
          else let entry_runtime = cdbg_lineno_runtime_addr ln (le_address entry);
                   max_pc = max_pc_loop ln entry_runtime (ln_entries ln) (entry_runtime + 128)
               in if runtime_pc > max_pc then None else Some entry)"

definition cdbg_lineno_line_at_pc :: "cdbg_lineno \<Rightarrow> addr \<Rightarrow> nat \<Rightarrow> (string \<times> u32) option" where
  "cdbg_lineno_line_at_pc ln runtime_pc file_len =
     map_option (\<lambda>e. (snprintf_s file_len (le_file e), le_line e)) (lineno_entry_at_pc ln runtime_pc)"

definition cdbg_lineno_lookup_next_line_after_pc ::
    "cdbg_lineno \<Rightarrow> addr \<Rightarrow> cdbg_line_entry option" where
  "cdbg_lineno_lookup_next_line_after_pc ln runtime_pc =
     (case cdbg_lineno_lookup_pc ln runtime_pc of
        None \<Rightarrow> None
      | Some current \<Rightarrow>
          best_of (\<lambda>e. \<not> cdbg_lineno_runtime_addr ln (le_address e) \<le> runtime_pc
                     \<and> le_file e = le_file current \<and> le_line e \<noteq> le_line current)
            (\<lambda>e b. le_address e < le_address b) None (ln_entries ln))"

section \<open>Listings\<close>

text \<open>\<^verbatim>\<open>lineno_open_source\<close> yields the text of the first of the candidate paths that can be
  opened.\<close>

definition bytes_text :: "u8 list \<Rightarrow> string" where
  "bytes_text d = map char_of_byte d"

definition lineno_open_source :: "'w kernel \<Rightarrow> cdbg_lineno \<Rightarrow> string \<Rightarrow> 'w \<Rightarrow> string option" where
  "lineno_open_source K ln path w =
     (let relative = (path = [] \<or> hd path \<noteq> CHR ''/'');
          under = (\<lambda>dir. snprintf_s CDBG_LINENO_MAX_FILE (dir @ ''/'' @ path));
          base = (case strrchr path CHR ''/'' of None \<Rightarrow> path | Some r \<Rightarrow> tl r)
      in map_option bytes_text
           (case k_read_file K path w of
              Some d \<Rightarrow> Some d
            | None \<Rightarrow>
                (case (if relative \<and> ln_comp_dir ln \<noteq> []
                       then k_read_file K (under (ln_comp_dir ln)) w else None) of
                   Some d \<Rightarrow> Some d
                 | None \<Rightarrow>
                     (case (if relative \<and> ln_exe_dir ln \<noteq> []
                            then k_read_file K (under (ln_exe_dir ln)) w else None) of
                        Some d \<Rightarrow> Some d
                      | None \<Rightarrow> k_read_file K base w))))"

definition strip_eol :: "string \<Rightarrow> string" where
  "strip_eol s = rev (dropWhile (\<lambda>c. c = CHR 0x0A \<or> c = CHR 0x0D) (rev s))"

text \<open>The lines from \<open>start\<close> to \<open>end\<close>, numbered, with the target marked; the result is
  whether the target was among them.\<close>

fun print_window_loop ::
    "string list \<Rightarrow> u32 \<Rightarrow> u32 \<Rightarrow> u32 \<Rightarrow> u32 \<Rightarrow> bool \<Rightarrow> 'w sys \<Rightarrow> bool \<times> 'w sys" where
  "print_window_loop [] line_no start end_line target printed y = (printed, y)"
| "print_window_loop (buf # bufs) line_no start end_line target printed y =
     (let line_no = line_no + 1
      in if line_no < start then print_window_loop bufs line_no start end_line target printed y
         else if line_no > end_line then (printed, y)
         else let marker = (if line_no = target then ''>'' else '' '');
                  text = strip_eol (takeWhile (\<lambda>c. c \<noteq> CHR 0x00) buf)
              in print_window_loop bufs line_no start end_line target
                   (printed \<or> line_no = target)
                   (emit (Out (marker @ pad_left 4 CHR '' '' (fmt_u (unat line_no)) @ '' | '' @ text @ nl)) y))"

definition lineno_print_source_window ::
    "'w kernel \<Rightarrow> cdbg_lineno \<Rightarrow> string \<Rightarrow> u32 \<Rightarrow> u32 \<Rightarrow> 'w sys \<Rightarrow> bool \<times> 'w sys" where
  "lineno_print_source_window K ln file target total_lines y =
     (case lineno_open_source K ln file (world y) of
        None \<Rightarrow> (False, emit (Err (''Cannot read source: '' @ file @ nl)) y)
      | Some text \<Rightarrow>
          (let before = total_lines div 2;
               start = (if target > before then target - before else 1);
               end_line = start + total_lines - 1;
               y = emit (Out (nl @ file @ '':'' @ fmt_u (unat target) @ nl)) y;
               (printed, y) = print_window_loop (fgets_all 4096 text) 0 start end_line target False y
           in (printed, emit (Out nl) y)))"

definition cdbg_lineno_print_source_at_pc ::
    "'w kernel \<Rightarrow> cdbg_lineno \<Rightarrow> addr \<Rightarrow> 'w sys \<Rightarrow> bool \<times> 'w sys" where
  "cdbg_lineno_print_source_at_pc K ln runtime_pc y =
     (case lineno_entry_at_pc ln runtime_pc of
        None \<Rightarrow> (False, y)
      | Some entry \<Rightarrow> lineno_print_source_window K ln (le_file entry) (le_line entry) 7 y)"

text \<open>The one file that the filter selects: \<open>Inl ambiguous\<close> when there are none or two.\<close>

fun matched_file_loop :: "string option \<Rightarrow> cdbg_line_entry list \<Rightarrow> string option \<Rightarrow> bool + string" where
  "matched_file_loop file_filter [] matched = (case matched of None \<Rightarrow> Inl False | Some f \<Rightarrow> Inr f)"
| "matched_file_loop file_filter (e # es) matched =
     (if \<not> file_matches (le_file e) file_filter then matched_file_loop file_filter es matched
      else case matched of
             None \<Rightarrow> matched_file_loop file_filter es (Some (le_file e))
           | Some f \<Rightarrow> if f \<noteq> le_file e then Inl True else matched_file_loop file_filter es matched)"

definition cdbg_lineno_print_source_at_line ::
    "'w kernel \<Rightarrow> cdbg_lineno \<Rightarrow> string option \<Rightarrow> u32 \<Rightarrow> 'w sys \<Rightarrow> bool \<times> 'w sys" where
  "cdbg_lineno_print_source_at_line K ln file_filter line y =
     (let no_filter = (file_filter = None \<or> file_filter = Some []);
          filter_text = (case file_filter of None \<Rightarrow> [] | Some f \<Rightarrow> f)
      in if ln_entries ln = []
         then (False, emit (Err (''No line number information loaded'' @ nl)) y)
         else case matched_file_loop file_filter (ln_entries ln) None of
                Inl True \<Rightarrow>
                  (False, emit (Err
                     (if no_filter
                      then ''Line '' @ fmt_u (unat line) @ '' is ambiguous; use file:line'' @ nl
                      else ''File filter is ambiguous: '' @ filter_text @ nl)) y)
              | Inl False \<Rightarrow>
                  (False, emit (Err
                     (if no_filter
                      then ''No source file for line '' @ fmt_u (unat line) @ nl
                      else ''No source file matches: '' @ filter_text @ nl)) y)
              | Inr matched_file \<Rightarrow> lineno_print_source_window K ln matched_file line 10 y)"

definition list_header :: "string \<Rightarrow> log_item list" where
  "list_header file =
     [Out (''File: '' @ file @ nl),
      Out (pad_left 6 CHR '' '' ''Line'' @ ''  '' @ pad_right 18 ''Address'' @ ''  Column'' @ nl),
      Out (pad_left 6 CHR '' '' ''----'' @ ''  '' @ pad_right 18 ''-------'' @ ''  ------'' @ nl)]"

fun print_list_loop ::
    "cdbg_lineno \<Rightarrow> string option \<Rightarrow> cdbg_line_entry list \<Rightarrow> string \<Rightarrow> u32 option \<Rightarrow> 'w sys \<Rightarrow> 'w sys" where
  "print_list_loop ln file_filter [] current_file last_line y = y"
| "print_list_loop ln file_filter (e # es) current_file last_line y =
     (if \<not> file_matches (le_file e) file_filter
      then print_list_loop ln file_filter es current_file last_line y
      else let (current_file, last_line, y) =
                 (if current_file \<noteq> le_file e
                  then (le_file e, None,
                        fold emit (list_header (le_file e))
                          (if current_file \<noteq> [] then emit (Out nl) y else y))
                  else (current_file, last_line, y))
           in if last_line = Some (le_line e)
              then print_list_loop ln file_filter es current_file last_line y
              else print_list_loop ln file_filter es current_file (Some (le_line e))
                     (emit (Out (pad_left 6 CHR '' '' (fmt_u (unat (le_line e))) @ ''  ''
                        @ fmt_0x16 (cdbg_lineno_runtime_addr ln (le_address e))
                        @ ''  '' @ fmt_u (unat (le_column e)) @ nl)) y))"

definition cdbg_lineno_print_list :: "cdbg_lineno \<Rightarrow> string option \<Rightarrow> 'w sys \<Rightarrow> 'w sys" where
  "cdbg_lineno_print_list ln file_filter y =
     (if ln_entries ln = [] then emit (Out (''No line number information loaded.'' @ nl)) y
      else print_list_loop ln file_filter (ln_entries ln) [] None y)"

section \<open>What the lookups find\<close>

interpretation pc_scan: ordered_scan
  "\<lambda>e b. cdbg_lineno_runtime_addr ln (le_address e) > cdbg_lineno_runtime_addr ln (le_address b)"
  "\<lambda>e. - uint (cdbg_lineno_runtime_addr ln (le_address e))" for ln
  by unfold_locales (simp add: word_less_def)

interpretation line_scan: ordered_scan
  "\<lambda>e b. le_address e < le_address b" "\<lambda>e. uint (le_address e)"
  by unfold_locales (simp add: word_less_def)

lemma lookup_pc_Some:
  assumes "cdbg_lineno_lookup_pc ln pc = Some e"
  shows "e \<in> set (ln_entries ln)"
    and "cdbg_lineno_runtime_addr ln (le_address e) \<le> pc"
    and "x \<in> set (ln_entries ln) \<Longrightarrow> cdbg_lineno_runtime_addr ln (le_address x) \<le> pc \<Longrightarrow>
      cdbg_lineno_runtime_addr ln (le_address x) \<le> cdbg_lineno_runtime_addr ln (le_address e)"
  using pc_scan.best_is_least [OF assms [unfolded cdbg_lineno_lookup_pc_def]]
  by (auto simp: word_le_def)

lemma lookup_pc_None:
  "cdbg_lineno_lookup_pc ln pc = None \<longleftrightarrow>
     (\<forall>x \<in> set (ln_entries ln). pc < cdbg_lineno_runtime_addr ln (le_address x))"
  by (auto simp: cdbg_lineno_lookup_pc_def pc_scan.best_of_None not_le)

lemma lookup_unique_loop_Some:
  "lookup_unique_loop line es found = Some e \<Longrightarrow> (\<forall>m. found = Some m \<longrightarrow> le_line m = line) \<Longrightarrow>
     (found = Some e \<or> e \<in> set es) \<and> le_line e = line
     \<and> (\<forall>x. (found = Some x \<or> x \<in> set es \<and> le_line x = line) \<longrightarrow>
          le_file x = le_file e \<and> le_address e \<le> le_address x)"
proof (induction es arbitrary: found)
  case (Cons x es)
  show ?case
  proof (cases "le_line x = line")
    case False
    with Cons show ?thesis by auto
  next
    case True
    show ?thesis
    proof (cases found)
      case None
      with True Cons.prems have "lookup_unique_loop line es (Some x) = Some e" by simp
      from Cons.IH [OF this] True None show ?thesis by auto
    next
      case (Some m)
      define k where "k = (if le_address x < le_address m then x else m)"
      from Some True Cons.prems(1) have f: "le_file m = le_file x"
        and r: "lookup_unique_loop line es (Some k) = Some e"
        by (simp_all add: k_def split: if_splits)
      have kl: "le_line k = line" and k: "k = x \<or> k = m"
        and le: "le_address k \<le> le_address x" "le_address k \<le> le_address m"
        using True Some Cons.prems(2) by (auto simp: k_def)
      with Cons.IH [OF r] have IH: "k = e \<or> e \<in> set es" "le_line e = line"
        "le_file k = le_file e" "le_address e \<le> le_address k"
        "\<And>z. z \<in> set es \<Longrightarrow> le_line z = line \<Longrightarrow> le_file z = le_file e \<and> le_address e \<le> le_address z"
        by auto
      have "le_file x = le_file e" "le_file m = le_file e" using k f IH(3) by auto
      moreover have "le_address e \<le> le_address x" "le_address e \<le> le_address m"
        using le IH(4) by (auto intro: order.trans)
      ultimately show ?thesis using IH k Some by auto
    qed
  qed
qed auto

text \<open>Cutting the range at the next entry never matters: the scan by address has already
  chosen the last entry that starts at or below the address.\<close>

lemma unat_pred: "a < (x :: u64) \<Longrightarrow> unat (x - 1) = unat x - 1"
  by (rule trans [OF unat_sub]) (auto simp: word_le_nat_alt word_less_nat_alt)

lemma max_pc_loop_le: "max_pc_loop ln a es m \<le> m"
proof (induction es arbitrary: m)
  case (Cons x es)
  let ?x = "cdbg_lineno_runtime_addr ln (le_address x)"
  have "?x - 1 \<le> m" if "a < ?x" "?x < m"
    using that by (simp add: word_le_nat_alt word_less_nat_alt unat_pred [OF that(1)])
  then show ?case using Cons order.trans by (fastforce simp: Let_def)
qed simp

lemma max_pc_loop_ge:
  "\<forall>x \<in> set es. a < cdbg_lineno_runtime_addr ln (le_address x) \<longrightarrow>
      pc < cdbg_lineno_runtime_addr ln (le_address x) \<Longrightarrow> pc \<le> m \<Longrightarrow>
   pc \<le> max_pc_loop ln a es m"
proof (induction es arbitrary: m)
  case (Cons x es)
  let ?x = "cdbg_lineno_runtime_addr ln (le_address x)"
  have "pc \<le> ?x - 1" if "a < ?x"
    using Cons.prems(1) that unat_pred [OF that]
    by (simp add: word_le_nat_alt word_less_nat_alt) linarith
  then show ?case using Cons by (auto simp: Let_def)
qed simp

lemma lineno_entry_at_pc_eq:
  "lineno_entry_at_pc ln pc = Some e \<longleftrightarrow>
     cdbg_lineno_lookup_pc ln pc = Some e \<and> le_line e \<noteq> 0
     \<and> pc \<le> cdbg_lineno_runtime_addr ln (le_address e) + 128"
proof (cases "cdbg_lineno_lookup_pc ln pc")
  case None
  then show ?thesis by (simp add: lineno_entry_at_pc_def)
next
  case (Some e')
  let ?a = "cdbg_lineno_runtime_addr ln (le_address e')"
  have "\<forall>x \<in> set (ln_entries ln). ?a < cdbg_lineno_runtime_addr ln (le_address x) \<longrightarrow>
      pc < cdbg_lineno_runtime_addr ln (le_address x)"
    using lookup_pc_Some(3) [OF Some] by (auto simp: not_le [symmetric])
  note ge = max_pc_loop_ge [OF this]
  have "pc \<le> max_pc_loop ln ?a (ln_entries ln) (?a + 128) \<longleftrightarrow> pc \<le> ?a + 128"
    using ge [of "?a + 128"] max_pc_loop_le [of ln ?a "ln_entries ln" "?a + 128"] by (meson order.trans)
  with Some show ?thesis
    by (auto simp: lineno_entry_at_pc_def Let_def not_less not_le)
qed

text \<open>Two entries of one file.\<close>

definition entry0 :: cdbg_line_entry where
  "entry0 = \<lparr>le_address = 0x100000f00, le_line = 3, le_column = 0, le_file = ''a.c''\<rparr>"

definition entry1 :: cdbg_line_entry where
  "entry1 = \<lparr>le_address = 0x100000f10, le_line = 4, le_column = 5, le_file = ''a.c''\<rparr>"

end
