(* ===== verification/Syms.thy ===== *)
theory Syms
  imports MachO
begin

text \<open>
  \<^verbatim>\<open>src/syms.c\<close>: the symbol table, read from the output of \<^verbatim>\<open>nm\<close> or from the Mach-O
  symbol table of the executable or its dSYM companion, its relocation, the lookup by name
  and the listing. The file has its own copies of the file helpers of \<^verbatim>\<open>lineno.c\<close>; its
  \<^verbatim>\<open>map_file\<close> reports nothing.
\<close>

section \<open>Operations\<close>

definition CDBG_SYM_MAX_NAME :: nat where "CDBG_SYM_MAX_NAME = 256"

record cdbg_sym_entry =
  se_address :: addr
  se_type :: char
  se_name :: string

record cdbg_syms =
  sy_entries :: "cdbg_sym_entry list"
  sy_link_base :: addr
  sy_slide :: addr

definition empty_syms :: cdbg_syms where
  "empty_syms = \<lparr>sy_entries = [], sy_link_base = 0, sy_slide = 0\<rparr>"

definition syms_map_file :: "'w kernel \<Rightarrow> string \<Rightarrow> 'w \<Rightarrow> u8 list option" where
  "syms_map_file K path w =
     (case k_read_file K path w of None \<Rightarrow> None | Some d \<Rightarrow> if d = [] then None else Some d)"

definition dsym_object_path :: "'w kernel \<Rightarrow> string \<Rightarrow> 'w \<Rightarrow> string option" where
  "dsym_object_path K executable_path w =
     (if length executable_path \<ge> PATH_MAX then None
      else let out = executable_path @ ''.dSYM/Contents/Resources/DWARF/'' @ basename executable_path
           in if length out \<ge> PATH_MAX then None
              else if k_access K out 4 w then Some out else None)"

definition syms_text_vmaddr :: "u8 list \<Rightarrow> addr" where
  "syms_text_vmaddr d =
     (if length d < 32 \<or> u32_at d 0 \<noteq> MH_MAGIC_64 then 0
      else text_vmaddr_loop d (unat (u32_at d 16)) 32)"

definition nlist_type_char :: "u8 \<Rightarrow> char" where
  "nlist_type_char type =
     (let base = type AND 0x0e; ext = type AND 1 \<noteq> 0
      in if base = 0 then (if ext then CHR ''U'' else CHR ''u'')
         else if base = 2 then (if ext then CHR ''A'' else CHR ''a'')
         else if base = 0xe then (if ext then CHR ''T'' else CHR ''t'')
         else if base = 0xc then CHR ''Z''
         else if base = 0xa then CHR ''I''
         else CHR ''?'')"

definition sym_name_interesting :: "string \<Rightarrow> char \<Rightarrow> bool" where
  "sym_name_interesting name type =
     (if name = [] then False
      else if type = CHR ''?'' \<or> type = CHR ''-'' then False
      else if hd name = CHR ''.'' \<or> hd name = CHR ''L'' then False
      else isprint (hd name))"

definition syms_push :: "cdbg_syms \<Rightarrow> addr \<Rightarrow> char \<Rightarrow> string \<Rightarrow> cdbg_syms" where
  "syms_push syms address type name =
     (if \<not> sym_name_interesting name type then syms
      else syms\<lparr>sy_entries := sy_entries syms
             @ [\<lparr>se_address = address, se_type = type, se_name = snprintf_s CDBG_SYM_MAX_NAME name\<rparr>]\<rparr>)"

text \<open>The last symbol-table command wins.\<close>

fun find_symtab :: "u8 list \<Rightarrow> nat \<Rightarrow> nat \<Rightarrow> nat option \<Rightarrow> nat option" where
  "find_symtab d 0 i found = found"
| "find_symtab d (Suc n) i found =
     (if i + 8 > length d then found
      else find_symtab d n (i + unat (u32_at d (i + 4)))
             (if u32_at d i = LC_SYMTAB then Some i else found))"

fun push_symbols :: "u8 list \<Rightarrow> nat \<Rightarrow> u32 \<Rightarrow> nat \<Rightarrow> nat \<Rightarrow> cdbg_syms \<Rightarrow> cdbg_syms" where
  "push_symbols d stroff strsize 0 i syms = syms"
| "push_symbols d stroff strsize (Suc n) i syms =
     (let strx = u32_at d i;
          type = d ! (i + 4);
          syms = (if type AND 0xe0 \<noteq> 0 \<or> strx \<ge> strsize then syms
                  else syms_push syms (u64_at d (i + 8)) (nlist_type_char type)
                         (cstr_at d (stroff + unat strx)))
      in push_symbols d stroff strsize n (i + 16) syms)"

definition syms_load_macho :: "cdbg_syms \<Rightarrow> u8 list \<Rightarrow> bool \<times> cdbg_syms" where
  "syms_load_macho syms d =
     (if length d < 32 \<or> u32_at d 0 \<noteq> MH_MAGIC_64 then (False, syms)
      else case find_symtab d (unat (u32_at d 16)) 32 None of
             None \<Rightarrow> (False, syms)
           | Some i \<Rightarrow>
               (let symoff = unat (u32_at d (i + 8)); nsyms = unat (u32_at d (i + 12));
                    stroff = unat (u32_at d (i + 16)); strsize = u32_at d (i + 20)
                in if nsyms = 0 then (False, syms)
                   else if symoff + nsyms * 16 > length d then (False, syms)
                   else if stroff + unat strsize > length d then (False, syms)
                   else let syms = push_symbols d stroff strsize nsyms symoff syms
                        in (sy_entries syms \<noteq> [], syms)))"

text \<open>The two \<^verbatim>\<open>sscanf\<close> formats of a line of \<^verbatim>\<open>nm\<close>: an address, a letter and a name, or
  a letter and a name.\<close>

definition scan_char_name :: "string \<Rightarrow> (char \<times> string) option" where
  "scan_char_name s =
     (case s of
        [] \<Rightarrow> None
      | type # r \<Rightarrow>
          (let name = take 255 (takeWhile (\<lambda>c. \<not> isspace c) (dropWhile isspace r))
           in if name = [] then None else Some (type, name)))"

definition nm_line :: "cdbg_syms \<Rightarrow> string \<Rightarrow> cdbg_syms" where
  "nm_line syms line =
     (let p = dropWhile (\<lambda>c. c = CHR '' '' \<or> c = CHR 0x09) line
      in if p = [] \<or> hd p = CHR 0x0A then syms
         else case Option.bind (strtoull 16 p)
                     (\<lambda>(a, r). map_option (\<lambda>tn. (a, tn)) (scan_char_name (dropWhile isspace r))) of
                Some (address, type, name) \<Rightarrow> syms_push syms address type name
              | None \<Rightarrow>
                  (case scan_char_name p of
                     Some (type, name) \<Rightarrow> syms_push syms 0 type name
                   | None \<Rightarrow> syms))"

definition syms_load_from_nm :: "'w kernel \<Rightarrow> cdbg_syms \<Rightarrow> string \<Rightarrow> 'w \<Rightarrow> bool \<times> cdbg_syms" where
  "syms_load_from_nm K syms path w =
     (let cmd = ''nm -n '' @ [CHR 0x27] @ path @ [CHR 0x27] @ '' 2>/dev/null''
      in if length cmd \<ge> PATH_MAX + 32 then (False, syms)
         else case k_popen K cmd w of
                None \<Rightarrow> (False, syms)
              | Some (out, status) \<Rightarrow>
                  (let syms = foldl nm_line syms (fgets_all 512 out)
                   in (status = 0 \<and> sy_entries syms \<noteq> [], syms)))"

definition cdbg_syms_free :: "cdbg_syms \<Rightarrow> cdbg_syms" where
  "cdbg_syms_free syms = empty_syms"

fun nm_objects :: "'w kernel \<Rightarrow> cdbg_syms \<Rightarrow> string list \<Rightarrow> 'w \<Rightarrow> bool \<times> cdbg_syms" where
  "nm_objects K syms [] w = (False, syms)"
| "nm_objects K syms (obj # objs) w =
     (case syms_load_from_nm K syms obj w of
        (True, syms) \<Rightarrow> (True, syms)
      | (False, syms) \<Rightarrow> nm_objects K syms objs w)"

definition cdbg_syms_load :: "'w kernel \<Rightarrow> string \<Rightarrow> 'w \<Rightarrow> bool \<times> cdbg_syms" where
  "cdbg_syms_load K executable_path w =
     (let syms = (case syms_map_file K executable_path w of
                    None \<Rightarrow> empty_syms
                  | Some d \<Rightarrow> empty_syms\<lparr>sy_link_base := syms_text_vmaddr d\<rparr>);
          dsym = dsym_object_path K executable_path w;
          objects = executable_path # (case dsym of None \<Rightarrow> [] | Some p \<Rightarrow> [p])
      in case nm_objects K syms objects w of
           (True, syms) \<Rightarrow> (True, syms)
         | (False, syms) \<Rightarrow>
             (let syms = cdbg_syms_free syms
              in case syms_map_file K executable_path w of
                   None \<Rightarrow> (False, syms)
                 | Some d \<Rightarrow>
                     (let syms = syms\<lparr>sy_link_base := syms_text_vmaddr d\<rparr>;
                          (ok, syms) = syms_load_macho syms d
                      in if ok then (True, syms)
                         else case Option.bind dsym (\<lambda>p. syms_map_file K p w) of
                                None \<Rightarrow> (False, syms)
                              | Some d \<Rightarrow>
                                  syms_load_macho
                                    (if sy_link_base syms = 0
                                     then syms\<lparr>sy_link_base := syms_text_vmaddr d\<rparr> else syms) d)))"

definition cdbg_syms_update_slide ::
    "'w kernel \<Rightarrow> cdbg_syms \<Rightarrow> pid \<Rightarrow> 'w sys \<Rightarrow> ((bool \<times> cdbg_syms) \<times> 'w sys) option" where
  "cdbg_syms_update_slide K syms pid y =
     do { (r, y) \<leftarrow> update_slide K pid (sy_link_base syms) y;
          Some (case r of None \<Rightarrow> (False, syms) | Some s \<Rightarrow> (True, syms\<lparr>sy_slide := s\<rparr>), y) }"

definition cdbg_syms_runtime_addr :: "cdbg_syms \<Rightarrow> addr \<Rightarrow> addr" where
  "cdbg_syms_runtime_addr syms link_addr = link_addr + sy_slide syms"

definition cdbg_syms_lookup_name :: "cdbg_syms \<Rightarrow> string \<Rightarrow> cdbg_sym_entry option" where
  "cdbg_syms_lookup_name syms name =
     (let lookup = (if name \<noteq> [] \<and> hd name = CHR ''_'' then name
                    else snprintf_s CDBG_SYM_MAX_NAME (CHR ''_'' # name))
      in find (\<lambda>e. se_name e = lookup) (sy_entries syms))"

definition sym_matches :: "string \<Rightarrow> string option \<Rightarrow> bool" where
  "sym_matches name name_filter =
     (case name_filter of
        None \<Rightarrow> True
      | Some f \<Rightarrow>
          if f = [] then True
          else if contains name f then True
          else name \<noteq> [] \<and> hd name = CHR ''_'' \<and> contains (tl name) f)"

definition print_sym :: "cdbg_syms \<Rightarrow> cdbg_sym_entry \<Rightarrow> string" where
  "print_sym syms e =
     (if se_address e = 0 then replicate 18 CHR '' ''
      else fmt_0x16 (cdbg_syms_runtime_addr syms (se_address e)))
     @ ''  '' @ pad_right 4 [se_type e] @ ''  '' @ se_name e @ nl"

definition cdbg_syms_print_list :: "cdbg_syms \<Rightarrow> string option \<Rightarrow> 'w sys \<Rightarrow> 'w sys" where
  "cdbg_syms_print_list syms name_filter y =
     (if sy_entries syms = [] then emit (Out (''No symbol information loaded.'' @ nl)) y
      else let y = emit (Out (pad_left 18 CHR '' '' ''Address'' @ ''  Type  Name'' @ nl)) y;
               y = emit (Out (pad_left 18 CHR '' '' ''-------'' @ ''  ----  ----'' @ nl)) y
           in fold (\<lambda>e. emit (Out (print_sym syms e)))
                (filter (\<lambda>e. sym_matches (se_name e) name_filter) (sy_entries syms)) y)"

section \<open>Lemmas\<close>

text \<open>The second half of \<open>sym_matches\<close> never decides: a match in the tail of a name is a
  match in the name.\<close>

lemma sym_matches_contains:
  "sym_matches name (Some f) \<longleftrightarrow> f = [] \<or> contains name f"
proof -
  have "sublist f (tl name) \<Longrightarrow> sublist f name"
    by (cases name) (auto simp: sublist_Cons_right)
  then show ?thesis by (auto simp: sym_matches_def strstr_sublist simp del: not_None_eq)
qed

text \<open>Every name kept fits its buffer, is printable at its first character and is not a
  local label.\<close>

definition good_sym :: "cdbg_sym_entry \<Rightarrow> bool" where
  "good_sym e \<longleftrightarrow> se_name e \<noteq> [] \<and> length (se_name e) < CDBG_SYM_MAX_NAME
     \<and> hd (se_name e) \<noteq> CHR ''.'' \<and> hd (se_name e) \<noteq> CHR ''L'' \<and> isprint (hd (se_name e))
     \<and> se_type e \<noteq> CHR ''?'' \<and> se_type e \<noteq> CHR ''-''"

definition good_syms :: "cdbg_syms \<Rightarrow> bool" where
  "good_syms syms \<longleftrightarrow> (\<forall>e \<in> set (sy_entries syms). good_sym e)"

lemma good_syms_push:
  assumes "good_syms syms"
  shows "good_syms (syms_push syms a t name)"
proof (cases "sym_name_interesting name t")
  case True
  then have "good_sym \<lparr>se_address = a, se_type = t, se_name = snprintf_s CDBG_SYM_MAX_NAME name\<rparr>"
    by (cases name)
      (auto simp: sym_name_interesting_def good_sym_def snprintf_s_def CDBG_SYM_MAX_NAME_def
        split: if_splits)
  with assms True show ?thesis by (simp add: good_syms_def syms_push_def)
qed (simp add: assms syms_push_def)

lemma good_push_symbols: "good_syms syms \<Longrightarrow> good_syms (push_symbols d so ss n i syms)"
  by (induction n arbitrary: i syms) (simp_all add: Let_def good_syms_push)

lemma good_load_macho: "good_syms syms \<Longrightarrow> good_syms (snd (syms_load_macho syms d))"
  by (simp add: syms_load_macho_def Let_def good_push_symbols split: option.split)

lemma good_nm_line: "good_syms syms \<Longrightarrow> good_syms (nm_line syms l)"
  by (simp add: nm_line_def Let_def good_syms_push split: option.split prod.split)

lemma good_nm: "good_syms syms \<Longrightarrow> good_syms (snd (syms_load_from_nm K syms path w))"
proof -
  have "good_syms syms \<Longrightarrow> good_syms (foldl nm_line syms ls)" for ls
    by (induction ls arbitrary: syms) (simp_all add: good_nm_line)
  then show "good_syms syms \<Longrightarrow> ?thesis"
    by (simp add: syms_load_from_nm_def Let_def split: option.split)
qed

lemma good_nm_objects: "good_syms syms \<Longrightarrow> good_syms (snd (nm_objects K syms objs w))"
proof (induction objs arbitrary: syms)
  case (Cons obj objs)
  then show ?case
    using good_nm [OF Cons.prems, of K obj w] by (auto split: prod.split bool.split)
qed simp

lemma good_syms_link_base [simp]: "good_syms (s\<lparr>sy_link_base := b\<rparr>) = good_syms s"
  by (simp add: good_syms_def)

lemma good_empty [simp]: "good_syms empty_syms" "good_syms (cdbg_syms_free s)"
  by (simp_all add: good_syms_def empty_syms_def cdbg_syms_free_def)

lemma good_attempt:
  assumes "good_syms (snd r)" and "\<And>s. good_syms s \<Longrightarrow> good_syms (snd (F s))"
  shows "good_syms (snd (case r of (True, s) \<Rightarrow> (True, s) | (False, s) \<Rightarrow> F s))"
  using assms by (cases r) (auto split: bool.split)

lemma good_attempt_if:
  assumes "good_syms (snd r)" and "\<And>s. good_syms s \<Longrightarrow> good_syms (snd (F s))"
  shows "good_syms (snd (case r of (ok, s) \<Rightarrow> if ok then (True, s) else F s))"
  using assms by (cases r) auto

lemma good_syms_load: "good_syms (snd (cdbg_syms_load K path w))"
proof -
  have start: "good_syms (case syms_map_file K path w of None \<Rightarrow> empty_syms
      | Some d \<Rightarrow> empty_syms\<lparr>sy_link_base := syms_text_vmaddr d\<rparr>)"
    by (simp split: option.split)
  show ?thesis
    unfolding cdbg_syms_load_def Let_def
    by (rule good_attempt [OF good_nm_objects [OF start]])
      (auto intro!: good_attempt_if good_load_macho split: option.split)
qed

end
