(* ===== verification/Debugger.thy ===== *)
theory Debugger
  imports Breakpoint Watchpoint Language Lineno Syms
begin

text \<open>
  The state of the debugger (\<^verbatim>\<open>cdbg_t\<close> of \<^verbatim>\<open>include/debugger.h\<close>), \<^verbatim>\<open>src/process.c\<close>, and
  the small operations of \<^verbatim>\<open>src/debugger.c\<close> the others are built from: initialisation,
  run target, symbols, registers and the display of a stop. The two tables are lists whose
  length is the code's count: an element past the count is never read before it is written.
  An operation that may wait for ever returns an option (\<open>None\<close>: it does not return).
\<close>

section \<open>State\<close>

definition CDBG_MAX_BREAKPOINTS :: nat where "CDBG_MAX_BREAKPOINTS = 64"
definition CDBG_MAX_PATH :: nat where "CDBG_MAX_PATH = 1024"
definition CDBG_MAX_RUN_ARGS :: nat where "CDBG_MAX_RUN_ARGS = 64"

datatype cdbg_state = State_IDLE | State_RUNNING | State_STOPPED

record 'w cdbg =
  pid :: pid
  state :: cdbg_state
  wait_status :: u32
  current_tid :: tid
  regs :: cdbg_regs
  breakpoints :: "cdbg_breakpoint list"
  watchpoints :: "cdbg_watchpoint list"
  lineno :: cdbg_lineno
  syms :: cdbg_syms
  executable_path :: string
  debug_info_path :: string
  run_argv :: "string list"
  run_argc :: nat
  print_pretty :: bool
  malloc_stack_logging :: bool
  language :: cdbg_language
  dsys :: "'w sys"

type_synonym ('r, 'w) op = "'w cdbg \<Rightarrow> ('r \<times> 'w cdbg) option"

text \<open>The system side of the state, the output, and the embedding of operations that
  always return.\<close>

definition on_sys :: "('w sys \<Rightarrow> 'r \<times> 'w sys) \<Rightarrow> 'w cdbg \<Rightarrow> 'r \<times> 'w cdbg" where
  "on_sys f s = (let (r, y) = f (dsys s) in (r, s\<lparr>dsys := y\<rparr>))"

definition say :: "log_item \<Rightarrow> 'w cdbg \<Rightarrow> 'w cdbg" where
  "say x s = s\<lparr>dsys := emit x (dsys s)\<rparr>"

definition on_psys :: "('w sys \<Rightarrow> ('r \<times> 'w sys) option) \<Rightarrow> ('r, 'w) op" where
  "on_psys f s = do { (r, y) \<leftarrow> f (dsys s); Some (r, s\<lparr>dsys := y\<rparr>) }"

abbreviation out :: "string \<Rightarrow> 'w cdbg \<Rightarrow> 'w cdbg" where "out t \<equiv> say (Out t)"
abbreviation err :: "string \<Rightarrow> 'w cdbg \<Rightarrow> 'w cdbg" where "err t \<equiv> say (Err t)"

lemma on_sys_frame [simp]:
  "pid (snd (on_sys f s)) = pid s" "state (snd (on_sys f s)) = state s"
  "wait_status (snd (on_sys f s)) = wait_status s" "current_tid (snd (on_sys f s)) = current_tid s"
  "regs (snd (on_sys f s)) = regs s" "breakpoints (snd (on_sys f s)) = breakpoints s"
  "watchpoints (snd (on_sys f s)) = watchpoints s" "lineno (snd (on_sys f s)) = lineno s"
  "syms (snd (on_sys f s)) = syms s" "run_argv (snd (on_sys f s)) = run_argv s"
  "run_argc (snd (on_sys f s)) = run_argc s"
  "executable_path (snd (on_sys f s)) = executable_path s"
  "debug_info_path (snd (on_sys f s)) = debug_info_path s"
  "print_pretty (snd (on_sys f s)) = print_pretty s" "language (snd (on_sys f s)) = language s"
  "malloc_stack_logging (snd (on_sys f s)) = malloc_stack_logging s"
  "fst (on_sys f s) = fst (f (dsys s))" "dsys (snd (on_sys f s)) = snd (f (dsys s))"
  by (simp_all add: on_sys_def split_beta)

lemma say_frame [simp]:
  "pid (say x s) = pid s" "state (say x s) = state s" "wait_status (say x s) = wait_status s"
  "current_tid (say x s) = current_tid s" "regs (say x s) = regs s"
  "breakpoints (say x s) = breakpoints s" "watchpoints (say x s) = watchpoints s"
  "lineno (say x s) = lineno s" "syms (say x s) = syms s" "run_argv (say x s) = run_argv s"
  "run_argc (say x s) = run_argc s" "executable_path (say x s) = executable_path s"
  "debug_info_path (say x s) = debug_info_path s"
  "print_pretty (say x s) = print_pretty s" "language (say x s) = language s"
  "malloc_stack_logging (say x s) = malloc_stack_logging s"
  "dsys (say x s) = emit x (dsys s)"
  by (simp_all add: say_def)

section \<open>process.c\<close>

text \<open>\<^verbatim>\<open>snprintf\<close> into a buffer of \<open>out_len\<close> bytes fails when the text does not fit.\<close>

definition cdbg_resolve_program :: "'w kernel \<Rightarrow> string \<Rightarrow> nat \<Rightarrow> 'w \<Rightarrow> string option" where
  "cdbg_resolve_program K name out_len w =
     (if out_len = 0 then None
      else let fit = (\<lambda>s. if length s \<ge> out_len then None else Some s);
               cwd_path = ''./'' @ name
           in if strchr name CHR ''/'' \<noteq> None then fit name
              else if length cwd_path \<ge> PATH_MAX then None
              else if k_access K cwd_path 1 w then fit cwd_path
              else fit name)"

definition child_program :: "string list \<Rightarrow> bool \<Rightarrow> child_call list" where
  "child_program argv msl =
     [Child_Setpgid, Child_Trace_Me]
     @ (if msl then [Child_Setenv ''MallocStackLogging'' ''1''] else [])
     @ [Child_Execv argv]"

definition cdbg_process_spawn ::
    "'w kernel \<Rightarrow> string list \<Rightarrow> bool \<Rightarrow> 'w sys \<Rightarrow> pid option \<times> 'w sys" where
  "cdbg_process_spawn K argv msl y =
     (if argv = [] then (None, y)
      else let (child, y) = syscall (k_fork K (child_program argv msl)) y
           in case child of
                None \<Rightarrow> (None, emit (Perror ''fork'') y)
              | Some p \<Rightarrow> (Some p, y))"

partial_function (option) process_wait ::
    "'w kernel \<Rightarrow> pid \<Rightarrow> 'w sys \<Rightarrow> (u32 option \<times> 'w sys) option" where
  "process_wait K p y =
     (let (ret, y) = syscall (k_waitpid K p) y
      in case ret of
           Wait_EINTR \<Rightarrow> process_wait K p y
         | Wait_Error \<Rightarrow> Some (None, emit (Perror ''waitpid'') y)
         | Wait_Status status \<Rightarrow> Some (Some status, y))"

declare process_wait.simps [code]

text \<open>The macros of \<^verbatim>\<open>sys/wait.h\<close>.\<close>

definition WIFEXITED :: "u32 \<Rightarrow> bool" where "WIFEXITED w \<longleftrightarrow> w AND 0x7f = 0"
definition WIFSIGNALED :: "u32 \<Rightarrow> bool" where "WIFSIGNALED w \<longleftrightarrow> w AND 0x7f \<noteq> 0x7f \<and> w AND 0x7f \<noteq> 0"
definition WEXITSTATUS :: "u32 \<Rightarrow> u32" where "WEXITSTATUS w = drop_bit 8 w AND 0xff"
definition WTERMSIG :: "u32 \<Rightarrow> u32" where "WTERMSIG w = w AND 0x7f"

section \<open>Initialisation and symbols\<close>

definition zero_gpr :: gpr_state where
  "zero_gpr = \<lparr>r_x = \<lambda>_. 0, r_fp = 0, r_lr = 0, r_sp = 0, r_pc = 0, r_cpsr = 0\<rparr>"

definition zero_regs :: cdbg_regs where
  "zero_regs = \<lparr>native = zero_gpr, neon = \<lparr>n_v = \<lambda>_. 0, n_fpsr = 0, n_fpcr = 0\<rparr>\<rparr>"

definition cdbg_init :: "'w sys \<Rightarrow> 'w cdbg" where
  "cdbg_init y =
     \<lparr>pid = 0, state = State_IDLE, wait_status = 0, current_tid = 0, regs = zero_regs,
      breakpoints = [], watchpoints = [], lineno = empty_lineno, syms = empty_syms,
      executable_path = [], debug_info_path = [], run_argv = [], run_argc = 0, print_pretty = True,
      malloc_stack_logging = False, language = Lang_AUTO, dsys = y\<rparr>"

definition cdbg_language_check_expr :: "'w cdbg \<Rightarrow> bool \<times> 'w cdbg" where
  "cdbg_language_check_expr s =
     (let lang = cdbg_language_effective (language s)
      in if \<not> cdbg_language_supports_expr lang
         then (False, err (''Expressions are not supported for language '' @ [CHR 0x22]
                           @ cdbg_language_name lang @ [CHR 0x22] @ nl) s)
         else (True, s))"

text \<open>The arguments are cut to the size of their buffers. When there are more than 64 the
  call is refused after the first 64 have replaced the old ones, under the old count.\<close>

definition cdbg_set_run_target :: "string list \<Rightarrow> 'w cdbg \<Rightarrow> bool \<times> 'w cdbg" where
  "cdbg_set_run_target argv s =
     (if argv = [] then (False, s)
      else if length argv > CDBG_MAX_RUN_ARGS
      then (False, err (''Too many run arguments'' @ nl)
              (s\<lparr>run_argv := map (snprintf_s CDBG_MAX_PATH) (take CDBG_MAX_RUN_ARGS argv)\<rparr>))
      else (True, s\<lparr>run_argv := map (snprintf_s CDBG_MAX_PATH) argv, run_argc := length argv\<rparr>))"

definition debugger_dsym_path :: "'w kernel \<Rightarrow> string \<Rightarrow> nat \<Rightarrow> 'w \<Rightarrow> string option" where
  "debugger_dsym_path K path out_len w =
     (if length path \<ge> PATH_MAX then None
      else let out = path @ ''.dSYM/Contents/Resources/DWARF/'' @ basename path
           in if length out \<ge> out_len then None
              else if k_access K out 4 w then Some out else None)"

definition update_slides :: "'w kernel \<Rightarrow> bool \<Rightarrow> bool \<Rightarrow> (unit, 'w) op" where
  "update_slides K do_lineno do_syms s =
     do { s \<leftarrow> (if do_lineno
               then do { ((ok, ln), y) \<leftarrow> cdbg_lineno_update_slide K (lineno s) (pid s) (dsys s);
                         Some (s\<lparr>lineno := ln, dsys := y\<rparr>) }
               else Some s);
          s \<leftarrow> (if do_syms
               then do { ((ok, sy), y) \<leftarrow> cdbg_syms_update_slide K (syms s) (pid s) (dsys s);
                         Some (s\<lparr>syms := sy, dsys := y\<rparr>) }
               else Some s);
          Some ((), s) }"

definition cdbg_load_symbols :: "'w kernel \<Rightarrow> string \<Rightarrow> (bool, 'w) op" where
  "cdbg_load_symbols K path s =
     (let s = s\<lparr>lineno := cdbg_lineno_free (lineno s), syms := cdbg_syms_free (syms s),
                executable_path := snprintf_s CDBG_MAX_PATH path,
                debug_info_path :=
                  (case debugger_dsym_path K path CDBG_MAX_PATH (world (dsys s)) of
                     None \<Rightarrow> snprintf_s CDBG_MAX_PATH path | Some p \<Rightarrow> p)\<rparr>
      in do { ((lineno_ok, ln), y) \<leftarrow> cdbg_lineno_load K path (dsys s);
              let (syms_ok, sy) = cdbg_syms_load K path (world y);
              let s = s\<lparr>lineno := ln, syms := sy, dsys := y\<rparr>;
              (_, s) \<leftarrow> (if pid s > 0 then update_slides K lineno_ok syms_ok s else Some ((), s));
              Some (lineno_ok \<or> syms_ok, s) })"

definition cdbg_spawn :: "'w kernel \<Rightarrow> string list \<Rightarrow> (bool, 'w) op" where
  "cdbg_spawn K argv s =
     (let (child, s) = on_sys (cdbg_process_spawn K argv (malloc_stack_logging s)) s
      in case child of
           None \<Rightarrow> Some (False, s)
         | Some p \<Rightarrow>
             do { (_, s) \<leftarrow> update_slides K (ln_entries (lineno s) \<noteq> []) (sy_entries (syms s) \<noteq> [])
                             (s\<lparr>pid := p, state := State_RUNNING\<rparr>);
                  Some (True, s) })"

end
