(* ===== verification/Display.thy ===== *)
theory Display
  imports Debugger
begin

text \<open>
  How \<^verbatim>\<open>src/debugger.c\<close> shows where the debuggee is: disassembly (from \<^verbatim>\<open>otool\<close>, or the
  raw words when that has nothing), the header of a stop, the source line.
\<close>

section \<open>Disassembly\<close>

definition hex_addr :: "u64 \<Rightarrow> string" where "hex_addr a = ''0x'' @ fmt_x a"

definition parse_otool_instruction :: "string \<Rightarrow> (addr \<times> string) option" where
  "parse_otool_instruction line =
     (let p = dropWhile isspace line
      in if p = [] \<or> \<not> isxdigit (hd p) then None
         else case strtoull 16 p of
                None \<Rightarrow> None
              | Some (v, end) \<Rightarrow>
                  if end = [] \<or> \<not> isspace (hd end) then None
                  else Some (v, strip_eol (dropWhile isspace end)))"

text \<open>The instructions of the executable, in the order \<^verbatim>\<open>otool\<close> prints them.\<close>

definition load_otool_disassembly :: "'w kernel \<Rightarrow> 'w cdbg \<Rightarrow> (addr \<times> string) list option" where
  "load_otool_disassembly K s =
     (let cmd = ''otool -tvV '' @ [CHR 0x27] @ executable_path s @ [CHR 0x27] @ '' 2>/dev/null''
      in if executable_path s = [] \<or> length cmd \<ge> CDBG_MAX_PATH + 64 then None
         else case k_popen K cmd (world (dsys s)) of
                None \<Rightarrow> None
              | Some (output, _) \<Rightarrow>
                  (let entries = map (\<lambda>(a, t). (a, snprintf_s 512 t))
                         (List.map_filter parse_otool_instruction (fgets_all 1024 output))
                   in if entries = [] then None else Some entries))"

definition disasm_title :: "string \<Rightarrow> addr \<Rightarrow> string" where
  "disasm_title label pc =
     nl @ ''Disassembly at '' @ (if label \<noteq> [] then label @ '' ('' @ hex_addr pc @ '')'' else hex_addr pc)
     @ '':'' @ nl"

definition otool_line :: "addr \<Rightarrow> addr \<Rightarrow> addr \<times> string \<Rightarrow> string" where
  "otool_line slide runtime_pc e =
     (let runtime_addr = fst e + slide
      in (if runtime_addr = runtime_pc then ''=>'' else ''  '') @ '' '' @ fmt_0x16 runtime_addr
         @ '': '' @ snd e @ nl)"

definition print_otool_disassembly_range ::
    "'w kernel \<Rightarrow> addr \<Rightarrow> nat \<Rightarrow> string \<Rightarrow> 'w cdbg \<Rightarrow> bool \<times> 'w cdbg" where
  "print_otool_disassembly_range K runtime_pc insn_count label s =
     (case load_otool_disassembly K s of
        None \<Rightarrow> (False, s)
      | Some entries \<Rightarrow>
          (let slide = (if ln_slide (lineno s) \<noteq> 0 then ln_slide (lineno s) else sy_slide (syms s));
               link_pc = runtime_pc - slide;
               n = length (takeWhile (\<lambda>e. fst e \<le> link_pc) entries)
           in if n = 0 \<or> link_pc - fst (entries ! (n - 1)) > 32 then (False, s)
              else (True, out nl
                     (fold (\<lambda>e. out (otool_line slide runtime_pc e))
                        (take insn_count (drop (n - 1) entries))
                        (out (disasm_title label runtime_pc) s)))))"

text \<open>Four bytes at a time, the last ones singly; \<open>offset\<close> counts from \<open>pc\<close>.\<close>

fun memory_lines :: "nat \<Rightarrow> addr \<Rightarrow> nat \<Rightarrow> u8 list \<Rightarrow> string list" where
  "memory_lines 0 pc offset bs = []"
| "memory_lines (Suc n) pc offset bs =
     (if bs = [] then []
      else let (text, used) =
             (if length bs \<ge> 4 then (''.inst '' @ fmt_0x8 (le_word (take 4 bs)), 4)
              else (''.byte 0x'' @ fmt_02x (hd bs), 1))
           in ((if offset = 0 then ''=>'' else ''  '') @ '' '' @ fmt_0x16 (pc + of_nat offset) @ '': ''
               @ pad_right 24 text @ '' ;'' @ concat (map (\<lambda>b. '' '' @ fmt_02x b) (take used bs)) @ nl)
              # memory_lines n pc (offset + used) (drop used bs))"

definition print_memory_disassembly_range ::
    "'w kernel \<Rightarrow> addr \<Rightarrow> nat \<Rightarrow> string \<Rightarrow> 'w cdbg \<Rightarrow> 'w cdbg" where
  "print_memory_disassembly_range K pc insn_count label s =
     (let (r, s) = on_sys (cdbg_mem_read K (pid s) pc 256) s
      in case r of
           None \<Rightarrow> s
         | Some bytes \<Rightarrow>
             out nl (fold out (memory_lines insn_count pc 0 bytes) (out (disasm_title label pc) s)))"

definition print_disassembly_range ::
    "'w kernel \<Rightarrow> addr \<Rightarrow> nat \<Rightarrow> string \<Rightarrow> 'w cdbg \<Rightarrow> 'w cdbg" where
  "print_disassembly_range K pc insn_count label s =
     (let (ok, s) = print_otool_disassembly_range K pc insn_count label s
      in if ok then s else print_memory_disassembly_range K pc insn_count label s)"

definition print_disassembly_at_pc :: "'w kernel \<Rightarrow> addr \<Rightarrow> 'w cdbg \<Rightarrow> 'w cdbg" where
  "print_disassembly_at_pc K pc s =
     (let (ok, s) = print_otool_disassembly_range K pc 1 [] s
      in if ok then s else print_memory_disassembly_range K pc 1 [] s)"

section \<open>The header and the place of a stop\<close>

definition resolve_display_tid :: "'w kernel \<Rightarrow> 'w cdbg \<Rightarrow> tid \<times> 'w cdbg" where
  "resolve_display_tid K s =
     (if current_tid s \<noteq> 0 then (current_tid s, s)
      else let (r, s) = on_sys (cdbg_threads_list K (pid s) 1) s
           in case r of
                Some (primary # _) \<Rightarrow> (te_tid primary, s)
              | _ \<Rightarrow> (0, s))"

definition print_stop_header :: "'w kernel \<Rightarrow> 'w cdbg \<Rightarrow> 'w cdbg" where
  "print_stop_header K s =
     (let (tid, s) = resolve_display_tid K s
      in if tid \<noteq> 0
         then out (''[PID: '' @ fmt_d (pid s) @ ''  TID: '' @ fmt_u (unat tid) @ '']'' @ nl) s
         else out (''[PID: '' @ fmt_d (pid s) @ '']'' @ nl) s)"

definition print_stop_location :: "'w kernel \<Rightarrow> addr \<Rightarrow> 'w cdbg \<Rightarrow> 'w cdbg" where
  "print_stop_location K pc s =
     (let (ok, s) = on_sys (cdbg_lineno_print_source_at_pc K (lineno s) pc) s
      in if ok then s else print_disassembly_at_pc K pc s)"

definition cdbg_refresh_regs :: "'w kernel \<Rightarrow> 'w cdbg \<Rightarrow> bool \<times> 'w cdbg" where
  "cdbg_refresh_regs K s =
     (let ((ok, r), s) = on_sys (cdbg_regs_get K (pid s) (current_tid s) (regs s)) s
      in (ok, s\<lparr>regs := r\<rparr>))"

definition cdbg_print_regs :: "(u64 \<Rightarrow> string) \<Rightarrow> 'w cdbg \<Rightarrow> 'w cdbg" where
  "cdbg_print_regs fmt_g s = s\<lparr>dsys := cdbg_regs_print fmt_g (regs s) (dsys s)\<rparr>"

definition cdbg_print_stop_context :: "'w kernel \<Rightarrow> 'w cdbg \<Rightarrow> 'w cdbg" where
  "cdbg_print_stop_context K s =
     (let (ok, s) = cdbg_refresh_regs K s
      in if \<not> ok then s else print_stop_location K (cdbg_regs_pc (regs s)) s)"

section \<open>Frames\<close>

text \<open>What the display operations leave alone: everything but the system side. \<open>quiet f\<close>
  says that an operation changes only \<open>dsys\<close>.\<close>

definition same_but_sys :: "'w cdbg \<Rightarrow> 'w cdbg \<Rightarrow> bool" where
  "same_but_sys s s' \<longleftrightarrow> (\<exists>y. s' = s\<lparr>dsys := y\<rparr>)"

lemma same_but_sys_refl [simp, intro]: "same_but_sys s s"
  unfolding same_but_sys_def by (rule exI [of _ "dsys s"]) simp

lemma same_but_sys_trans: "same_but_sys s t \<Longrightarrow> same_but_sys t u \<Longrightarrow> same_but_sys s u"
  by (auto simp: same_but_sys_def)

lemma same_say [simp, intro]: "same_but_sys s t \<Longrightarrow> same_but_sys s (say x t)"
  by (auto simp: same_but_sys_def say_def)

lemma same_on_sys [simp, intro]: "same_but_sys s t \<Longrightarrow> same_but_sys s (snd (on_sys f t))"
  by (auto simp: same_but_sys_def on_sys_def split_beta)

lemma same_fold_say [simp, intro]:
  "same_but_sys s t \<Longrightarrow> same_but_sys s (fold (\<lambda>e. say (g e)) es t)"
  by (induction es arbitrary: t) auto

lemma same_display [simp, intro]:
  "same_but_sys s t \<Longrightarrow> same_but_sys s (snd (print_otool_disassembly_range K pc n label t))"
  "same_but_sys s t \<Longrightarrow> same_but_sys s (print_memory_disassembly_range K pc n label t)"
  "same_but_sys s t \<Longrightarrow> same_but_sys s (print_disassembly_at_pc K pc t)"
  "same_but_sys s t \<Longrightarrow> same_but_sys s (print_disassembly_range K pc n label t)"
proof -
  show 1: "same_but_sys s t \<Longrightarrow> same_but_sys s (snd (print_otool_disassembly_range K pc n label t))"
    for n label
    by (simp add: print_otool_disassembly_range_def Let_def split: option.split)
  show 2: "same_but_sys s t \<Longrightarrow> same_but_sys s (print_memory_disassembly_range K pc n label t)"
    for t n label
    by (simp add: print_memory_disassembly_range_def Let_def split_beta split: option.split)
  show "same_but_sys s t \<Longrightarrow> same_but_sys s (print_disassembly_at_pc K pc t)"
    "same_but_sys s t \<Longrightarrow> same_but_sys s (print_disassembly_range K pc n label t)"
    using 1 2 by (simp_all add: print_disassembly_at_pc_def print_disassembly_range_def split_beta)
qed

lemma same_stop_header [simp, intro]: "same_but_sys s t \<Longrightarrow> same_but_sys s (print_stop_header K t)"
  by (auto simp: print_stop_header_def resolve_display_tid_def split_beta Let_def
      split: option.splits list.splits)

lemma same_stop_location [simp, intro]:
  "same_but_sys s t \<Longrightarrow> same_but_sys s (print_stop_location K pc t)"
  by (simp add: print_stop_location_def split_beta)

lemma refresh_regs_frame:
  "\<exists>r y. snd (cdbg_refresh_regs K s) = s\<lparr>dsys := y, regs := r\<rparr>"
  by (auto simp: cdbg_refresh_regs_def on_sys_def split_beta)

end
