(* ===== verification/Control.thy ===== *)
theory Control
  imports Display
begin

text \<open>
  Running the debuggee (\<^verbatim>\<open>src/debugger.c\<close>): waiting, continuing and stepping, planting
  again the breakpoints that were lifted to step over them, stepping over calls, what is done
  at a breakpoint or watchpoint hit, and the two stepping loops. A C result of 0 or \<^verbatim>\<open>-1\<close> is
  a \<open>bool\<close>, except where the code has a third value.
\<close>

section \<open>Waiting\<close>

text \<open>Plant every breakpoint that is not planted, except at the current pc; on a failure the
  ones after it are left alone.\<close>

fun reenable_loop ::
    "'w kernel \<Rightarrow> pid \<Rightarrow> addr \<Rightarrow> cdbg_breakpoint list \<Rightarrow> 'w sys
     \<Rightarrow> (bool \<times> cdbg_breakpoint list) \<times> 'w sys" where
  "reenable_loop K p pc [] y = ((True, []), y)"
| "reenable_loop K p pc (bp # bps) y =
     (if \<not> bp_enabled bp \<and> bp_addr bp \<noteq> pc
      then let ((ok, bp), y) = cdbg_bp_enable K bp p (bp_addr bp) y
           in if \<not> ok then ((False, bp # bps), y)
              else let ((ok, bps), y) = reenable_loop K p pc bps y in ((ok, bp # bps), y)
      else let ((ok, bps), y) = reenable_loop K p pc bps y in ((ok, bp # bps), y))"

definition reenable_breakpoints_after_step :: "'w kernel \<Rightarrow> 'w cdbg \<Rightarrow> bool \<times> 'w cdbg" where
  "reenable_breakpoints_after_step K s =
     (if breakpoints s = [] \<or> state s \<noteq> State_STOPPED then (True, s)
      else let (ok, s) = cdbg_refresh_regs K s
           in if \<not> ok then (False, s)
              else let ((ok, bps), y) =
                     reenable_loop K (pid s) (cdbg_regs_pc (regs s)) (breakpoints s) (dsys s)
                   in (ok, s\<lparr>breakpoints := bps, dsys := y\<rparr>))"

definition cdbg_process_wait :: "'w kernel \<Rightarrow> (bool, 'w) op" where
  "cdbg_process_wait K s =
     do { (r, y) \<leftarrow> process_wait K (pid s) (dsys s);
          Some (case r of
                  None \<Rightarrow> (False, s\<lparr>dsys := y\<rparr>)
                | Some status \<Rightarrow> (True, s\<lparr>wait_status := status, dsys := y\<rparr>)) }"

text \<open>\<^verbatim>\<open>cdbg_wait\<close>: 0 for a stop, 1 when the process is gone, \<^verbatim>\<open>-1\<close> for an error.\<close>

definition cdbg_wait :: "'w kernel \<Rightarrow> (int, 'w) op" where
  "cdbg_wait K s =
     do { (ok, s) \<leftarrow> cdbg_process_wait K s;
          Some (if \<not> ok then (- 1, s)
                else if WIFEXITED (wait_status s) \<or> WIFSIGNALED (wait_status s)
                then (1, s\<lparr>state := State_IDLE\<rparr>)
                else let (ok, s) = reenable_breakpoints_after_step K (s\<lparr>state := State_STOPPED\<rparr>)
                     in (if ok then 0 else - 1, s)) }"

section \<open>Continuing and single steps\<close>

definition disabled_breakpoint_at_pc :: "addr \<Rightarrow> 'w cdbg \<Rightarrow> cdbg_breakpoint option" where
  "disabled_breakpoint_at_pc pc s =
     find (\<lambda>bp. \<not> bp_enabled bp \<and> bp_addr bp = pc) (breakpoints s)"

definition cdbg_single_step :: "'w kernel \<Rightarrow> 'w cdbg \<Rightarrow> bool \<times> 'w cdbg" where
  "cdbg_single_step K s =
     (let (ok, s) = on_sys (syscall (k_pt_step K (pid s))) s
      in if \<not> ok then (False, say (Perror ''ptrace(PT_STEP)'') s)
         else (True, s\<lparr>state := State_RUNNING\<rparr>))"

fun state_number :: "cdbg_state \<Rightarrow> nat" where
  "state_number State_IDLE = 0" | "state_number State_RUNNING = 1" | "state_number State_STOPPED = 2"

definition step_over_disabled_breakpoint :: "'w kernel \<Rightarrow> (int, 'w) op" where
  "step_over_disabled_breakpoint K s =
     (if state s \<noteq> State_STOPPED \<or> breakpoints s = [] then Some (0, s)
      else let (ok, s) = cdbg_refresh_regs K s
           in if \<not> ok then Some (- 1, s)
              else let pc = cdbg_regs_pc (regs s);
                       s = err (''[debug] step_over: pc='' @ hex_addr pc @ '', state=''
                                @ fmt_u (state_number (state s)) @ nl) s
                   in if disabled_breakpoint_at_pc pc s = None
                      then Some (0, err (''[debug] step_over: no disabled bp at pc'' @ nl) s)
                      else let (ok, s) = cdbg_single_step K
                                 (err (''[debug] step_over: doing single step'' @ nl) s)
                           in if \<not> ok then Some (- 1, s)
                              else do { (rc, s) \<leftarrow> cdbg_wait K s;
                                        Some (rc, err (''[debug] step_over: after step pc=''
                                          @ hex_addr (cdbg_regs_pc (regs s)) @ '' rc='' @ fmt_d rc
                                          @ '' state='' @ fmt_u (state_number (state s)) @ nl) s) })"

definition cdbg_continue :: "'w kernel \<Rightarrow> (int, 'w) op" where
  "cdbg_continue K s =
     do { (step_rc, s) \<leftarrow> step_over_disabled_breakpoint K s;
          Some (if step_rc \<noteq> 0 then (step_rc, s)
                else let s = err (''[debug] cdbg_continue: state='' @ fmt_u (state_number (state s)) @ nl) s
                     in if state s = State_IDLE then (0, s)
                        else let (_, s) = on_sys (cdbg_threads_resume_others K (pid s) (current_tid s)) s;
                                 s = err (''[debug] cdbg_continue: calling PT_CONTINUE'' @ nl) s;
                                 (ok, s) = on_sys (syscall (k_pt_continue K (pid s))) s
                             in if \<not> ok then (- 1, say (Perror ''ptrace(PT_CONTINUE)'') s)
                                else (0, s\<lparr>state := State_RUNNING\<rparr>)) }"

section \<open>Hits\<close>

definition handle_breakpoint_hit :: "'w kernel \<Rightarrow> nat \<Rightarrow> 'w cdbg \<Rightarrow> bool \<times> 'w cdbg" where
  "handle_breakpoint_hit K index s =
     (let ((ok, bp), s) = on_sys (cdbg_bp_disable K (breakpoints s ! index) (pid s)) s;
          s = s\<lparr>breakpoints := (breakpoints s)[index := bp]\<rparr>
      in if \<not> ok then (False, s)
         else let (ok, s) = cdbg_refresh_regs K s
              in if \<not> ok then (False, s)
                 else let (ok, s) =
                        (if bp_addr bp > 0
                         then let s = s\<lparr>regs := cdbg_regs_set_pc (regs s) (bp_addr bp)\<rparr>
                              in on_sys (cdbg_regs_set K (pid s) (current_tid s) (regs s)) s
                         else (True, s))
                      in if \<not> ok then (False, s)
                         else (True, print_stop_location K (bp_addr bp)
                                 (out (''Breakpoint hit at '' @ hex_addr (bp_addr bp) @ nl) s)))"

definition disable_all :: "'w cdbg \<Rightarrow> 'w cdbg" where
  "disable_all s =
     s\<lparr>breakpoints := map (\<lambda>bp. bp\<lparr>bp_enabled := False\<rparr>) (breakpoints s),
       watchpoints := map (\<lambda>wp. wp\<lparr>wp_enabled := False\<rparr>) (watchpoints s)\<rparr>"

definition report_process_exit :: "'w cdbg \<Rightarrow> 'w cdbg" where
  "report_process_exit s =
     (if state s \<noteq> State_IDLE then s
      else let s = out (''Process '' @ fmt_d (pid s)
                 @ (if WIFEXITED (wait_status s)
                    then '' exited with code '' @ fmt_u (unat (WEXITSTATUS (wait_status s)))
                    else if WIFSIGNALED (wait_status s)
                    then '' terminated by signal '' @ fmt_u (unat (WTERMSIG (wait_status s)))
                    else '' exited'') @ nl) s
           in (disable_all s)\<lparr>pid := 0\<rparr>)"

fun index_of :: "('a \<Rightarrow> bool) \<Rightarrow> 'a list \<Rightarrow> nat option" where
  "index_of P [] = None"
| "index_of P (x # xs) = (if P x then Some 0 else map_option Suc (index_of P xs))"

definition find_watchpoint_hit :: "addr \<Rightarrow> 'w cdbg \<Rightarrow> nat option" where
  "find_watchpoint_hit fault_addr s = index_of (\<lambda>wp. cdbg_watch_addr_hit wp fault_addr) (watchpoints s)"

text \<open>The slot is disarmed again on the threads that were armed before a failure.\<close>

definition disarm_each :: "'w kernel \<Rightarrow> pid \<Rightarrow> int \<Rightarrow> cdbg_thread_entry list \<Rightarrow> 'w sys \<Rightarrow> 'w sys" where
  "disarm_each K p slot ts y = fold (\<lambda>t y. snd (cdbg_watch_disarm K p (te_tid t) slot y)) ts y"

fun arm_loop ::
    "'w kernel \<Rightarrow> pid \<Rightarrow> cdbg_watchpoint \<Rightarrow> cdbg_thread_entry list \<Rightarrow> cdbg_thread_entry list
     \<Rightarrow> 'w sys \<Rightarrow> bool \<times> 'w sys" where
  "arm_loop K p wp before [] y = (True, y)"
| "arm_loop K p wp before (t # ts) y =
     (let (ok, y) = cdbg_watch_arm K p (te_tid t) (wp_slot wp) (wp_addr wp) (wp_size wp) (wp_kind wp) y
      in if \<not> ok then (False, disarm_each K p (wp_slot wp) before y)
         else arm_loop K p wp (before @ [t]) ts y)"

definition arm_watchpoint_all_threads ::
    "'w kernel \<Rightarrow> pid \<Rightarrow> cdbg_watchpoint \<Rightarrow> 'w sys \<Rightarrow> bool \<times> 'w sys" where
  "arm_watchpoint_all_threads K p wp y =
     (let (r, y) = cdbg_threads_list K p CDBG_MAX_THREADS y
      in case r of
           None \<Rightarrow> (False, y)
         | Some threads \<Rightarrow> arm_loop K p wp [] threads y)"

definition disarm_watchpoint_all_threads ::
    "'w kernel \<Rightarrow> pid \<Rightarrow> cdbg_watchpoint \<Rightarrow> 'w sys \<Rightarrow> 'w sys" where
  "disarm_watchpoint_all_threads K p wp y =
     (let (r, y) = cdbg_threads_list K p CDBG_MAX_THREADS y
      in case r of
           None \<Rightarrow> y
         | Some threads \<Rightarrow> disarm_each K p (wp_slot wp) threads y)"

fun rearm_loop :: "'w kernel \<Rightarrow> pid \<Rightarrow> cdbg_watchpoint list \<Rightarrow> 'w sys \<Rightarrow> bool \<times> 'w sys" where
  "rearm_loop K p [] y = (True, y)"
| "rearm_loop K p (wp # wps) y =
     (if wp_enabled wp
      then let (ok, y) = arm_watchpoint_all_threads K p wp y
           in if \<not> ok then (False, y) else rearm_loop K p wps y
      else rearm_loop K p wps y)"

definition step_past_all_watchpoints :: "'w kernel \<Rightarrow> (bool, 'w) op" where
  "step_past_all_watchpoints K s =
     (let s = s\<lparr>dsys := fold (disarm_watchpoint_all_threads K (pid s))
                           (filter wp_enabled (watchpoints s)) (dsys s)\<rparr>;
          (ok, s) = cdbg_single_step K s
      in if \<not> ok then Some (False, s)
         else do { (rc, s) \<leftarrow> cdbg_wait K s;
                   Some (if rc \<noteq> 0 then (state s = State_IDLE, s)
                         else if state s \<noteq> State_STOPPED then (True, s)
                         else on_sys (rearm_loop K (pid s) (watchpoints s)) s) })"

definition watch_label :: "cdbg_watch_kind \<Rightarrow> bool \<Rightarrow> string" where
  "watch_label kind is_write =
     (if is_write then ''Hardware watchpoint''
      else if kind = Watch_Read then ''Hardware read watchpoint''
      else ''Hardware access (read/write) watchpoint'')"

definition handle_watchpoint_hit :: "'w kernel \<Rightarrow> nat \<Rightarrow> bool \<Rightarrow> (bool, 'w) op" where
  "handle_watchpoint_hit K index is_write s =
     (let wp = watchpoints s ! index;
          s = out (nl @ watch_label (wp_kind wp) is_write @ '' '' @ fmt_u index @ '': '' @ wp_expr wp
                   @ nl @ nl) s;
          s = (if is_write \<and> wp_has_last_value wp
               then out (''Old value = '' @ fmt_u (unat (wp_last_value wp)) @ nl) s else s)
      in do { (ok, s) \<leftarrow> step_past_all_watchpoints K s;
              Some (if \<not> ok then (False, s)
                    else if state s \<noteq> State_STOPPED then (True, report_process_exit s)
                    else let (r, s) = on_sys (cdbg_mem_read K (pid s) (wp_addr wp) (unat (wp_size wp))) s;
                             s = (case r of
                                    None \<Rightarrow> s
                                  | Some bytes \<Rightarrow>
                                      (let value = le_word bytes;
                                           s = out ((if is_write then ''New value = '' else ''Value = '')
                                                    @ fmt_u (unat value) @ nl) s
                                       in s\<lparr>watchpoints := (watchpoints s)[index :=
                                             (watchpoints s ! index)\<lparr>wp_last_value := value,
                                                                    wp_has_last_value := True\<rparr>]\<rparr>))
                         in (True, print_stop_location K (cdbg_regs_pc (regs s)) s)) })"

definition handle_unresolved_watchpoint_hit :: "'w kernel \<Rightarrow> u64 \<Rightarrow> (bool, 'w) op" where
  "handle_unresolved_watchpoint_hit K far s =
     (let s = out (nl @ ''Hardware watchpoint triggered near '' @ hex_addr far
                @ '' (could not attribute to a specific watchpoint)'' @ nl @ nl) s
      in do { (ok, s) \<leftarrow> step_past_all_watchpoints K s;
              Some (if \<not> ok then (False, s)
                    else if state s \<noteq> State_STOPPED then (True, report_process_exit s)
                    else (True, print_stop_location K (cdbg_regs_pc (regs s)) s)) })"

definition try_report_watchpoint_hit :: "'w kernel \<Rightarrow> (bool, 'w) op" where
  "try_report_watchpoint_hit K s =
     (if watchpoints s = [] then Some (False, s)
      else let (r, s) = on_sys (cdbg_regs_get_exception_state K (pid s) (current_tid s)) s
           in case r of
                None \<Rightarrow> Some (False, s)
              | Some (far, esr) \<Rightarrow>
                  (case cdbg_watch_is_watchpoint_esr esr of
                     None \<Rightarrow> Some (False, s)
                   | Some is_write \<Rightarrow>
                       do { (_, s) \<leftarrow> (case find_watchpoint_hit far s of
                                        Some index \<Rightarrow> handle_watchpoint_hit K index is_write s
                                      | None \<Rightarrow> handle_unresolved_watchpoint_hit K far s);
                            Some (True, s) }))"

text \<open>The first thread whose pc is at a planted breakpoint, or whose exception state is that
  of a watchpoint; 0 for none.\<close>

definition find_breakpoint_hit_thread :: "'w kernel \<Rightarrow> 'w cdbg \<Rightarrow> tid \<times> 'w cdbg" where
  "find_breakpoint_hit_thread K s =
     (if breakpoints s = [] then (0, s)
      else let (r, s) = on_sys (cdbg_threads_list K (pid s) CDBG_MAX_THREADS) s
           in case r of
                None \<Rightarrow> (0, s)
              | Some threads \<Rightarrow>
                  (case find (\<lambda>t. cdbg_bp_is_trap (te_pc t) (breakpoints s)) threads of
                     None \<Rightarrow> (0, s) | Some t \<Rightarrow> (te_tid t, s)))"

fun watch_thread_loop :: "'w kernel \<Rightarrow> pid \<Rightarrow> cdbg_thread_entry list \<Rightarrow> 'w sys \<Rightarrow> tid \<times> 'w sys" where
  "watch_thread_loop K p [] y = (0, y)"
| "watch_thread_loop K p (t # ts) y =
     (let (r, y) = cdbg_regs_get_exception_state K p (te_tid t) y
      in case r of
           Some (far, esr) \<Rightarrow>
             if cdbg_watch_is_watchpoint_esr esr \<noteq> None then (te_tid t, y)
             else watch_thread_loop K p ts y
         | None \<Rightarrow> watch_thread_loop K p ts y)"

definition find_watchpoint_hit_thread :: "'w kernel \<Rightarrow> 'w cdbg \<Rightarrow> tid \<times> 'w cdbg" where
  "find_watchpoint_hit_thread K s =
     (if watchpoints s = [] then (0, s)
      else let (r, s) = on_sys (cdbg_threads_list K (pid s) CDBG_MAX_THREADS) s
           in case r of
                None \<Rightarrow> (0, s)
              | Some threads \<Rightarrow> on_sys (watch_thread_loop K (pid s) threads) s)"

definition report_stop :: "'w kernel \<Rightarrow> (bool, 'w) op" where
  "report_stop K s =
     (let (hit_tid, s) = find_breakpoint_hit_thread K s;
          (hit_tid, s) = (if hit_tid = 0 then find_watchpoint_hit_thread K s else (hit_tid, s));
          s = (if hit_tid \<noteq> 0 then s\<lparr>current_tid := hit_tid\<rparr> else s);
          (_, s) = on_sys (cdbg_threads_suspend_others K (pid s) (current_tid s)) s;
          (ok, s) = cdbg_refresh_regs K s
      in if \<not> ok then Some (False, s)
         else let s = print_stop_header K s;
                  pc = cdbg_regs_pc (regs s)
              in case index_of (cdbg_bp_matches_pc pc) (breakpoints s) of
                   Some i \<Rightarrow> Some (handle_breakpoint_hit K i s)
                 | None \<Rightarrow>
                     do { (reported, s) \<leftarrow> try_report_watchpoint_hit K s;
                          Some (if reported then (True, s)
                                else (True, print_stop_location K pc
                                        (out (''Stopped (pc='' @ hex_addr pc @ '')'' @ nl) s))) })"

section \<open>Stepping over calls\<close>

definition call_return_address :: "'w kernel \<Rightarrow> addr \<Rightarrow> 'w cdbg \<Rightarrow> addr option \<times> 'w cdbg" where
  "call_return_address K pc s =
     (let (r, s) = on_sys (cdbg_mem_read K (pid s) pc 4) s
      in case r of
           None \<Rightarrow> (None, s)
         | Some bytes \<Rightarrow>
             (if (le_word bytes :: u32) AND 0xfc000000 = 0x94000000 then Some (pc + 4) else None, s))"

definition zero_bp :: cdbg_breakpoint where
  "zero_bp = \<lparr>bp_addr = 0, bp_saved_inst = 0, bp_enabled = False\<rparr>"

text \<open>\<open>drop_bp\<close> is the discarded call of \<^verbatim>\<open>cdbg_bp_disable\<close> on the temporary breakpoint.\<close>

definition drop_bp :: "'w kernel \<Rightarrow> cdbg_breakpoint \<Rightarrow> 'w cdbg \<Rightarrow> 'w cdbg" where
  "drop_bp K bp s = snd (on_sys (cdbg_bp_disable K bp (pid s)) s)"

definition finish_temp_breakpoint :: "'w kernel \<Rightarrow> cdbg_breakpoint \<Rightarrow> (bool, 'w) op" where
  "finish_temp_breakpoint K temp_bp s =
     (let (ok, s) = cdbg_refresh_regs K s
      in if \<not> ok then Some (False, drop_bp K temp_bp s)
         else if \<not> cdbg_bp_matches_pc (cdbg_regs_pc (regs s)) temp_bp
         then report_stop K (drop_bp K temp_bp s)
         else let ((ok, _), s) = on_sys (cdbg_bp_disable K temp_bp (pid s)) s in Some (ok, s))"

definition step_over_call :: "'w kernel \<Rightarrow> addr \<Rightarrow> (bool, 'w) op" where
  "step_over_call K return_addr s =
     (let ((ok, temp_bp), s) = on_sys (cdbg_bp_enable K zero_bp (pid s) return_addr) s
      in if \<not> ok then Some (False, s)
         else do { (rc, s) \<leftarrow> cdbg_continue K s;
                   if rc \<noteq> 0 then Some (False, drop_bp K temp_bp s)
                   else if state s = State_IDLE then Some (True, drop_bp K temp_bp s)
                   else do { (rc, s) \<leftarrow> cdbg_wait K s;
                             if rc \<noteq> 0
                             then Some (state s = State_IDLE, drop_bp K temp_bp s)
                             else if state s \<noteq> State_STOPPED then Some (True, drop_bp K temp_bp s)
                             else finish_temp_breakpoint K temp_bp s } })"

section \<open>The stepping loops\<close>

definition CDBG_MAX_STEP_ITERATIONS :: nat where "CDBG_MAX_STEP_ITERATIONS = 100000"

abbreviation line_at :: "'w cdbg \<Rightarrow> addr \<Rightarrow> (string \<times> u32) option" where
  "line_at s pc \<equiv> cdbg_lineno_line_at_pc (lineno s) pc CDBG_LINENO_MAX_FILE"

text \<open>One instruction: \<open>Inl r\<close> when the loop is to return \<open>r\<close>, \<open>Inr ()\<close> to go on.\<close>

definition one_step :: "'w kernel \<Rightarrow> (bool + unit, 'w) op" where
  "one_step K s =
     (let (ok, s) = cdbg_single_step K s
      in if \<not> ok then Some (Inl False, s)
         else do { (rc, s) \<leftarrow> cdbg_wait K s;
                   Some (if rc \<noteq> 0 then (Inl (state s = State_IDLE), s)
                         else if state s \<noteq> State_STOPPED then (Inl True, s)
                         else (Inr (), s)) })"

text \<open>What is decided after each step: a breakpoint or watchpoint hit ends the loop, a new
  line ends it, code without line information does not. \<open>Inr pc\<close> goes on at \<open>pc\<close>.\<close>

definition after_step :: "'w kernel \<Rightarrow> string \<times> u32 \<Rightarrow> (bool + addr, 'w) op" where
  "after_step K start s =
     (let (ok, s) = cdbg_refresh_regs K s
      in if \<not> ok then Some (Inl False, s)
         else let pc = cdbg_regs_pc (regs s)
              in if cdbg_bp_is_trap pc (breakpoints s)
                 then do { (ok, s) \<leftarrow> report_stop K s; Some (Inl ok, s) }
                 else do { (reported, s) \<leftarrow> try_report_watchpoint_hit K s;
                           Some (if reported then (Inl True, s)
                                 else case line_at s pc of
                                        None \<Rightarrow> (Inr pc, s)
                                      | Some cur \<Rightarrow>
                                          if cur \<noteq> start
                                          then (Inl True, print_stop_location K pc
                                                  (out (''Stopped (pc='' @ hex_addr pc @ '')'' @ nl)
                                                    (print_stop_header K s)))
                                          else (Inr pc, s)) })"

fun step_loop :: "'w kernel \<Rightarrow> string \<times> u32 \<Rightarrow> nat \<Rightarrow> (bool, 'w) op" where
  "step_loop K start 0 s = Some (False, err (''Step limit exceeded'' @ nl) s)"
| "step_loop K start (Suc n) s =
     do { (r, s) \<leftarrow> one_step K s;
          case r of
            Inl b \<Rightarrow> Some (b, s)
          | Inr _ \<Rightarrow>
              do { (r, s) \<leftarrow> after_step K start s;
                   case r of Inl b \<Rightarrow> Some (b, s) | Inr _ \<Rightarrow> step_loop K start n s } }"

fun next_loop :: "'w kernel \<Rightarrow> string \<times> u32 \<Rightarrow> nat \<Rightarrow> addr \<Rightarrow> (bool, 'w) op" where
  "next_loop K start 0 pc s = Some (False, err (''Step limit exceeded'' @ nl) s)"
| "next_loop K start (Suc n) pc s =
     (let (call, s) = call_return_address K pc s
      in do { (r, s) \<leftarrow> (case call of
                         Some return_addr \<Rightarrow>
                           do { (ok, s) \<leftarrow> step_over_call K return_addr s;
                                Some (if \<not> ok then (Inl False, s)
                                      else if state s \<noteq> State_STOPPED then (Inl True, s)
                                      else (Inr (), s)) }
                       | None \<Rightarrow> one_step K s);
              case r of
                Inl b \<Rightarrow> Some (b, s)
              | Inr _ \<Rightarrow>
                  do { (r, s) \<leftarrow> after_step K start s;
                       case r of Inl b \<Rightarrow> Some (b, s) | Inr pc \<Rightarrow> next_loop K start n pc s } })"

text \<open>Where the pc has no line: one instruction and the report of the stop.\<close>

definition step_without_line :: "'w kernel \<Rightarrow> (bool, 'w) op" where
  "step_without_line K s =
     (let (ok, s) = cdbg_single_step K s
      in if \<not> ok then Some (False, s)
         else do { (rc, s) \<leftarrow> cdbg_wait K s;
                   if rc \<noteq> 0 then Some (state s = State_IDLE, s)
                   else if state s = State_STOPPED
                   then do { (_, s) \<leftarrow> report_stop K s; Some (True, s) }
                   else Some (True, s) })"

definition cdbg_step_next_line :: "'w kernel \<Rightarrow> (bool, 'w) op" where
  "cdbg_step_next_line K s =
     (let (ok, s) = cdbg_refresh_regs K s
      in if \<not> ok then Some (False, s)
         else case line_at s (cdbg_regs_pc (regs s)) of
                None \<Rightarrow> step_without_line K s
              | Some start \<Rightarrow> step_loop K start CDBG_MAX_STEP_ITERATIONS s)"

definition cdbg_next_source_line :: "'w kernel \<Rightarrow> (bool, 'w) op" where
  "cdbg_next_source_line K s =
     (let (ok, s) = cdbg_refresh_regs K s
      in if \<not> ok then Some (False, s)
         else let pc = cdbg_regs_pc (regs s)
              in case line_at s pc of
                   None \<Rightarrow> step_without_line K s
                 | Some start \<Rightarrow> next_loop K start CDBG_MAX_STEP_ITERATIONS pc s)"

definition cdbg_frame_up :: "'w kernel \<Rightarrow> 'w cdbg \<Rightarrow> bool \<times> 'w cdbg" where
  "cdbg_frame_up K s =
     (let (ok, s) = cdbg_refresh_regs K s
      in if \<not> ok then (False, s)
         else let ((ok, r), s) = on_sys (cdbg_regs_frame_up K (pid s) (regs s)) s;
                  s = s\<lparr>regs := r\<rparr>
              in if \<not> ok then (False, err (''Cannot unwind to caller frame'' @ nl) s)
                 else let (ok, s) = on_sys (cdbg_regs_set K (pid s) (current_tid s) (regs s)) s
                      in if \<not> ok then (False, s)
                         else let pc = cdbg_regs_pc (regs s)
                              in (True, print_stop_location K pc
                                   (out (''Now at caller frame (pc='' @ hex_addr pc @ '')'' @ nl) s)))"

end
