(* ===== verification/Run.thy ===== *)
theory Run
  imports Control
begin

text \<open>
  Starting and ending the debuggee (\<^verbatim>\<open>cdbg_run\<close> and its parts in \<^verbatim>\<open>src/debugger.c\<close>):
  the stop at the first line of \<^verbatim>\<open>main\<close>, killing what runs, and the whole of a run.
\<close>

section \<open>The entry stop\<close>

text \<open>Where to stop: the second line of \<^verbatim>\<open>main\<close>, else the first entry from its address on,
  else its address; with a label.\<close>

definition resolve_entry_stop_addr :: "'w cdbg \<Rightarrow> (addr \<times> string) option" where
  "resolve_entry_stop_addr s =
     (case cdbg_syms_lookup_name (syms s) ''main'' of
        None \<Rightarrow> None
      | Some symb \<Rightarrow>
          if se_address symb = 0 \<or> se_type symb = CHR ''U'' \<or> se_type symb = CHR ''u'' then None
          else let a = cdbg_syms_runtime_addr (syms s) (se_address symb);
                   ln = lineno s;
                   first = (case cdbg_lineno_lookup_next_line_after_pc ln a of
                              Some e \<Rightarrow> Some e
                            | None \<Rightarrow>
                                best_of (\<lambda>e. \<not> cdbg_lineno_runtime_addr ln (le_address e) < a)
                                  (\<lambda>e b. le_address e < le_address b) None (ln_entries ln))
               in case first of
                    Some e \<Rightarrow>
                      Some (cdbg_lineno_runtime_addr ln (le_address e),
                            snprintf_s 256 (le_file e @ '':'' @ fmt_u (unat (le_line e))))
                  | None \<Rightarrow>
                      (let name = se_name symb
                       in Some (a, snprintf_s 256
                            (if name \<noteq> [] \<and> hd name = CHR ''_'' \<and> tl name \<noteq> [] then tl name else name))))"

definition print_run_banner :: "'w cdbg \<Rightarrow> 'w cdbg" where
  "print_run_banner s =
     out (''Attached to pid '' @ fmt_d (pid s) @ nl)
       (out (''Starting program: '' @ hd (run_argv s)
             @ concat (map (\<lambda>a. '' '' @ a) (take (run_argc s - 1) (tl (run_argv s)))) @ nl) s)"

text \<open>The result is \<^verbatim>\<open>-1\<close>, 0, or 1 when the entry breakpoint was reached and reported.\<close>

definition run_to_entry_stop :: "'w kernel \<Rightarrow> (int, 'w) op" where
  "run_to_entry_stop K s =
     (if state s \<noteq> State_STOPPED then Some (0, s)
      else case resolve_entry_stop_addr s of
             None \<Rightarrow> Some (0, s)
           | Some (entry_addr, label) \<Rightarrow>
               (let ((ok, temp_bp), s) = on_sys (cdbg_bp_enable K zero_bp (pid s) entry_addr) s
                in if \<not> ok then Some (- 1, s)
                   else do { (rc, s) \<leftarrow> cdbg_continue K s;
                             if rc \<noteq> 0 then Some (- 1, drop_bp K temp_bp s)
                             else do { (rc, s) \<leftarrow> cdbg_wait K s;
                                       Some (if rc \<noteq> 0 then (- 1, drop_bp K temp_bp s)
                                             else if state s \<noteq> State_STOPPED then (0, drop_bp K temp_bp s)
                                             else let (ok, s) = cdbg_refresh_regs K s
                                                  in if \<not> ok then (- 1, drop_bp K temp_bp s)
                                                     else if cdbg_bp_matches_pc (cdbg_regs_pc (regs s)) temp_bp
                                                     then let s = drop_bp K temp_bp s;
                                                              (ok, s) =
                                                                (if entry_addr > 0
                                                                 then let s = s\<lparr>regs := cdbg_regs_set_pc (regs s) entry_addr\<rparr>
                                                                      in on_sys (cdbg_regs_set K (pid s) (current_tid s) (regs s)) s
                                                                 else (True, s))
                                                          in if \<not> ok then (- 1, s)
                                                             else (1, print_stop_location K entry_addr
                                                                     (out (''Stopped at '' @ label @ nl)
                                                                       (print_stop_header K s)))
                                                     else (0, drop_bp K temp_bp s)) } }))"

section \<open>Ending and starting\<close>

definition stop_debuggee :: "'w kernel \<Rightarrow> (bool, 'w) op" where
  "stop_debuggee K s =
     (if pid s \<le> 0 then Some (True, s\<lparr>state := State_IDLE\<rparr>)
      else do { (ok, s) \<leftarrow>
                  (if state s \<noteq> State_IDLE
                   then let (_, s) = on_sys (syscall (k_pt_detach K (pid s))) s;
                            (r, s) = on_sys (syscall (k_kill_sigkill K (pid s))) s
                        in if r = Kill_Error then Some (False, say (Perror ''kill(SIGKILL)'') s)
                           else cdbg_process_wait K s
                   else Some (True, s));
                Some (if \<not> ok then (False, s)
                      else (True, disable_all (s\<lparr>pid := 0, state := State_IDLE\<rparr>))) })"

definition cdbg_run :: "'w kernel \<Rightarrow> string list option \<Rightarrow> (bool, 'w) op" where
  "cdbg_run K argv s =
     (let (ok, s) = (case argv of None \<Rightarrow> (True, s) | Some a \<Rightarrow> cdbg_set_run_target a s)
      in if \<not> ok then Some (False, s)
         else if run_argc s = 0 \<or> run_argv s = []
         then Some (False, err (''No executable specified. Usage: run <program> [args...]'' @ nl) s)
         else do {
           (ok, s) \<leftarrow> stop_debuggee K s;
           if \<not> ok then Some (False, s)
           else do {
             let s = s\<lparr>breakpoints := [], watchpoints := [], regs := zero_regs, wait_status := 0\<rparr>;
             let program = hd (run_argv s);
             (loaded, s) \<leftarrow> cdbg_load_symbols K program s;
             let s = (if loaded then s
                      else err (''Warning: could not load debug info for '' @ program @ nl) s);
             (ok, s) \<leftarrow> cdbg_spawn K (run_argv s) s;
             if \<not> ok then Some (False, s)
             else do {
               (wait_rc, s) \<leftarrow> cdbg_wait K s;
               if wait_rc \<noteq> 0
               then Some (False, if state s = State_IDLE then report_process_exit s else s)
               else do {
                 (_, s) \<leftarrow> update_slides K (ln_entries (lineno s) \<noteq> []) (sy_entries (syms s) \<noteq> []) s;
                 (entry_rc, s) \<leftarrow> run_to_entry_stop K (print_run_banner s);
                 Some (if entry_rc < 0
                       then (False, if state s = State_IDLE then report_process_exit s else s)
                       else (True, if entry_rc = 0 \<and> state s = State_STOPPED
                                   then cdbg_print_stop_context K s else s)) } } } })"

end
