(* ===== verification/Steady.thy ===== *)
theory Steady
  imports Run
begin

text \<open>
  What every operation that runs the debuggee leaves alone, and that it returns. \<open>steady s0\<close>
  collects what a command of the debugger may rely on across a run: the Mach rights held,
  the places of the breakpoints and watchpoints, the loaded line and symbol tables, and the
  settings. One proof per operation serves partial correctness (any kernel) and total
  correctness (a kernel whose \<^verbatim>\<open>waitpid\<close> is not interrupted for ever).
\<close>

section \<open>The relation\<close>

definition wp_config :: "cdbg_watchpoint \<Rightarrow> addr \<times> u64 \<times> cdbg_watch_kind \<times> int \<times> string" where
  "wp_config wp = (wp_addr wp, wp_size wp, wp_kind wp, wp_slot wp, wp_expr wp)"

text \<open>The same watchpoint later: its configuration is kept, and it is not enabled anew.\<close>

definition wp_later :: "cdbg_watchpoint \<Rightarrow> cdbg_watchpoint \<Rightarrow> bool" where
  "wp_later wp wp' \<longleftrightarrow> wp_config wp' = wp_config wp \<and> (wp_enabled wp' \<longrightarrow> wp_enabled wp)"

lemma wp_later_refl [simp]: "wp_later wp wp"
  by (simp add: wp_later_def)

lemma wps_later_refl [simp]: "list_all2 wp_later wps wps"
  by (rule list_all2_refl) simp

lemma wps_later_trans:
  "list_all2 wp_later ws us \<Longrightarrow> list_all2 wp_later us vs \<Longrightarrow> list_all2 wp_later ws vs"
  by (rule list_all2_trans [of wp_later wp_later wp_later]) (auto simp: wp_later_def)

lemma wps_later_update:
  assumes "wp_later (wps ! i) wp"
  shows "list_all2 wp_later wps (wps[i := wp])"
proof (rule list_all2_all_nthI)
  fix j
  assume "j < length wps"
  then show "wp_later (wps ! j) (wps[i := wp] ! j)"
    using assms by (cases "i = j") simp_all
qed simp

definition steady :: "'w cdbg \<Rightarrow> 'w cdbg \<Rightarrow> bool" where
  "steady s0 s \<longleftrightarrow> rights (dsys s) = rights (dsys s0)
     \<and> map bp_addr (breakpoints s) = map bp_addr (breakpoints s0)
     \<and> list_all2 wp_later (watchpoints s0) (watchpoints s)
     \<and> lineno s = lineno s0 \<and> syms s = syms s0
     \<and> executable_path s = executable_path s0 \<and> debug_info_path s = debug_info_path s0
     \<and> run_argv s = run_argv s0 \<and> run_argc s = run_argc s0
     \<and> print_pretty s = print_pretty s0 \<and> malloc_stack_logging s = malloc_stack_logging s0
     \<and> language s = language s0"

lemma steady_refl [simp]: "steady s s"
  by (simp add: steady_def)

lemma steady_trans: "steady s t \<Longrightarrow> steady t u \<Longrightarrow> steady s u"
  by (auto simp: steady_def intro: wps_later_trans)

lemma steady_fields [simp]:
  "steady s0 (s\<lparr>pid := p\<rparr>) = steady s0 s" "steady s0 (s\<lparr>state := st\<rparr>) = steady s0 s"
  "steady s0 (s\<lparr>wait_status := w\<rparr>) = steady s0 s" "steady s0 (s\<lparr>current_tid := t\<rparr>) = steady s0 s"
  "steady s0 (s\<lparr>regs := r\<rparr>) = steady s0 s"
  by (simp_all add: steady_def)

lemma steady_say [simp]: "steady s0 (say x s) = steady s0 s"
  by (simp add: steady_def)

lemma steady_dsys [simp]:
  "rights y = rights (dsys s) \<Longrightarrow> steady s0 (s\<lparr>dsys := y\<rparr>) = steady s0 s"
  by (simp add: steady_def)

lemma steady_on_sys [simp]:
  "rights (snd (f (dsys s))) = rights (dsys s) \<Longrightarrow> steady s0 (snd (on_sys f s)) = steady s0 s"
  by (simp add: steady_def)

lemma steady_breakpoints:
  "map bp_addr bps = map bp_addr (breakpoints s) \<Longrightarrow> steady s0 (s\<lparr>breakpoints := bps\<rparr>) = steady s0 s"
  by (simp add: steady_def)

lemma steady_watchpoints:
  "steady s0 s \<Longrightarrow> list_all2 wp_later (watchpoints s) wps \<Longrightarrow> steady s0 (s\<lparr>watchpoints := wps\<rparr>)"
  by (auto simp: steady_def intro: wps_later_trans)

lemma map_update_same: "f x = f (xs ! i) \<Longrightarrow> map f (xs[i := x]) = map f xs"
  by (metis list_update_id map_update)

lemma ensures_Some_if [simp]:
  "ensures b (Some (if c then p else q)) Q =
     (if c then ensures b (Some p) Q else ensures b (Some q) Q)"
  by simp

section \<open>Displays\<close>

lemma rights_lineno_print [simp]:
  "rights (snd (print_window_loop bufs line_no start end_line target printed y)) = rights y"
  by (induction bufs arbitrary: line_no printed y) (simp_all add: Let_def)

lemma rights_source_window [simp]:
  "rights (snd (lineno_print_source_window K ln file target n y)) = rights y"
  by (simp add: lineno_print_source_window_def Let_def split_beta split: option.split)

lemma rights_source_at [simp]:
  "rights (snd (cdbg_lineno_print_source_at_pc K ln pc y)) = rights y"
  "rights (snd (cdbg_lineno_print_source_at_line K ln ff line y)) = rights y"
  by (simp_all add: cdbg_lineno_print_source_at_pc_def cdbg_lineno_print_source_at_line_def Let_def
      split: option.split sum.split bool.split)

lemma steady_fold_say [simp]: "steady s0 (fold (\<lambda>e. say (g e)) es s) = steady s0 s"
  by (induction es arbitrary: s) auto

lemma steady_display [simp]:
  "steady s0 (snd (print_otool_disassembly_range K pc n label s)) = steady s0 s"
  "steady s0 (print_memory_disassembly_range K pc n label s) = steady s0 s"
  "steady s0 (print_disassembly_range K pc n label s) = steady s0 s"
  "steady s0 (print_disassembly_at_pc K pc s) = steady s0 s"
  "steady s0 (snd (resolve_display_tid K s)) = steady s0 s"
  "steady s0 (print_stop_header K s) = steady s0 s"
  "steady s0 (print_stop_location K pc s) = steady s0 s"
  "steady s0 (snd (cdbg_refresh_regs K s)) = steady s0 s"
  "steady s0 (cdbg_print_stop_context K s) = steady s0 s"
proof -
  show 1: "steady s0 (snd (print_otool_disassembly_range K pc n label s)) = steady s0 s" for s pc n label
    by (simp add: print_otool_disassembly_range_def Let_def split: option.split)
  show 2: "steady s0 (print_memory_disassembly_range K pc n label s) = steady s0 s" for s pc n label
    by (simp add: print_memory_disassembly_range_def Let_def split_beta split: option.split)
  show "steady s0 (print_disassembly_range K pc n label s) = steady s0 s"
    by (simp add: print_disassembly_range_def split_beta 1 2)
  show 3: "steady s0 (print_disassembly_at_pc K pc s) = steady s0 s" for s pc
    by (simp add: print_disassembly_at_pc_def split_beta 1 2 del: One_nat_def)
  show 4: "steady s0 (snd (resolve_display_tid K s)) = steady s0 s"
    by (simp add: resolve_display_tid_def split_beta split: option.split list.split)
  show "steady s0 (print_stop_header K s) = steady s0 s"
    by (simp add: print_stop_header_def split_beta 4)
  show 5: "steady s0 (print_stop_location K pc s) = steady s0 s" for s pc
    by (simp add: print_stop_location_def split_beta 3)
  show 6: "steady s0 (snd (cdbg_refresh_regs K s)) = steady s0 s"
    by (simp add: cdbg_refresh_regs_def split_beta)
  show "steady s0 (cdbg_print_stop_context K s) = steady s0 s"
    by (simp add: cdbg_print_stop_context_def split_beta 5 6)
qed

section \<open>The tables\<close>

lemma reenable_loop_frame:
  "map bp_addr (snd (fst (reenable_loop K p pc bps y))) = map bp_addr bps
   \<and> rights (snd (reenable_loop K p pc bps y)) = rights y"
proof (induction bps arbitrary: y)
  case (Cons bp bps)
  obtain ok bp' y' where e: "cdbg_bp_enable K bp p (bp_addr bp) y = ((ok, bp'), y')"
    by (metis prod.exhaust)
  have "rights y' = rights y" using rights_bp(1) [of K bp p "bp_addr bp" y] e by simp
  moreover have "bp_addr bp' = bp_addr bp"
    using e by (auto simp: cdbg_bp_enable_def Let_def split_beta split: option.splits if_splits)
  ultimately show ?case using Cons by (auto simp: e split_beta Let_def)
qed simp

lemmas reenable_loop_addrs [simp] =
  reenable_loop_frame [THEN conjunct1] reenable_loop_frame [THEN conjunct2]

lemma steady_reenable [simp]:
  "steady s0 (snd (reenable_breakpoints_after_step K s)) = steady s0 s"
  by (simp add: reenable_breakpoints_after_step_def split_beta Let_def steady_breakpoints)

lemma steady_single_step [simp]: "steady s0 (snd (cdbg_single_step K s)) = steady s0 s"
  by (simp add: cdbg_single_step_def split_beta)

lemma bp_disable_addr [simp]: "bp_addr (snd (fst (cdbg_bp_disable K bp p y))) = bp_addr bp"
  by (simp add: cdbg_bp_disable_def split_beta)

lemma steady_disable_all [simp]: "steady s0 s \<Longrightarrow> steady s0 (disable_all s)"
  unfolding disable_all_def
  by (auto simp: steady_breakpoints comp_def wp_later_def wp_config_def list_all2_map2
      intro!: steady_watchpoints list_all2_refl)

lemma steady_exit [simp]: "steady s0 s \<Longrightarrow> steady s0 (report_process_exit s)"
  by (simp add: report_process_exit_def Let_def)

lemma steady_drop_bp [simp]: "steady s0 (drop_bp K bp s) = steady s0 s"
  by (simp add: drop_bp_def)

lemma steady_breakpoint_hit [simp]: "steady s0 (snd (handle_breakpoint_hit K i s)) = steady s0 s"
  by (simp add: handle_breakpoint_hit_def Let_def split_beta steady_breakpoints map_update_same)

lemma rights_disarm_each [simp]: "rights (disarm_each K p slot ts y) = rights y"
  unfolding disarm_each_def by (induction ts arbitrary: y) auto

lemma rights_arm_loop [simp]: "rights (snd (arm_loop K p wp before ts y)) = rights y"
  by (induction ts arbitrary: before y) (simp_all add: split_beta Let_def)

lemma rights_arm_all [simp]:
  "rights (snd (arm_watchpoint_all_threads K p wp y)) = rights y"
  "rights (disarm_watchpoint_all_threads K p wp y) = rights y"
  by (simp_all add: arm_watchpoint_all_threads_def disarm_watchpoint_all_threads_def split_beta
      split: option.split)

lemma rights_rearm_loop [simp]: "rights (snd (rearm_loop K p wps y)) = rights y"
  by (induction wps arbitrary: y) (simp_all add: split_beta)

lemma rights_disarm_all [simp]: "rights (fold (disarm_watchpoint_all_threads K p) wps y) = rights y"
  by (induction wps arbitrary: y) auto

lemma rights_watch_thread_loop [simp]: "rights (snd (watch_thread_loop K p ts y)) = rights y"
  by (induction ts arbitrary: y) (simp_all add: split_beta Let_def split: option.split)

lemma steady_hit_threads [simp]:
  "steady s0 (snd (find_breakpoint_hit_thread K s)) = steady s0 s"
  "steady s0 (snd (find_watchpoint_hit_thread K s)) = steady s0 s"
  by (simp_all add: find_breakpoint_hit_thread_def find_watchpoint_hit_thread_def split_beta Let_def
      split: option.split)

lemma steady_call_return [simp]: "steady s0 (snd (call_return_address K pc s)) = steady s0 s"
  by (simp add: call_return_address_def split_beta Let_def split: option.split)

lemma steady_frame_up [simp]: "steady s0 (snd (cdbg_frame_up K s)) = steady s0 s"
  by (simp add: cdbg_frame_up_def split_beta Let_def)

section \<open>Operations that wait\<close>

lemma rights_process_wait:
  assumes "process_wait K p y = Some (r, y')"
  shows "rights y' = rights y"
proof -
  have "rights (snd q) = rights y" if "process_wait K p y = Some q" for q
    using that
  proof (rule process_wait.raw_induct [rotated])
    fix f :: "'a kernel \<Rightarrow> pid \<Rightarrow> 'a sys \<Rightarrow> (u32 option \<times> 'a sys) option" and K p y q
    assume IH: "\<And>K p y q. f K p y = Some q \<Longrightarrow> rights (snd q) = rights y"
      and step: "(let (ret, y) = syscall (k_waitpid K p) y
         in case ret of Wait_Status status \<Rightarrow> Some (Some status, y) | Wait_EINTR \<Rightarrow> f K p y
            | Wait_Error \<Rightarrow> Some (None, emit (Perror ''waitpid'') y)) = Some q"
    show "rights (snd q) = rights y"
      using step IH [of K p "snd (syscall (k_waitpid K p) y)" q]
      by (auto simp: split_beta split: wait_result.splits)
  qed
  from this [OF assms] show ?thesis by simp
qed

text \<open>\<open>b\<close> as in \<open>ensures\<close>: with \<open>b = False\<close> the waits are known to return.\<close>

locale waits =
  fixes K :: "'w kernel" and b :: bool and s0 :: "'w cdbg"
  assumes returns: "b \<or> (\<forall>p y. process_wait K p y \<noteq> None)"
begin

abbreviation keeps :: "('r \<times> 'w cdbg) option \<Rightarrow> bool" where
  "keeps m \<equiv> ensures b m (\<lambda>_. steady s0)"

lemma keeps_process_wait:
  assumes "steady s0 s"
  shows "keeps (cdbg_process_wait K s)"
proof (cases "process_wait K (pid s) (dsys s)")
  case None
  then have "b" using returns by metis
  with None show ?thesis by (simp add: cdbg_process_wait_def ensures_def)
next
  case (Some q)
  obtain r y where q: "q = (r, y)" by (cases q)
  have "rights y = rights (dsys s)" using rights_process_wait Some q by blast
  then show ?thesis
    using assms by (cases r) (simp_all add: cdbg_process_wait_def Some q)
qed

lemmas process_wait_rule = keeps_process_wait [THEN ensures_mono]

lemma keeps_wait: "steady s0 s \<Longrightarrow> keeps (cdbg_wait K s)"
  unfolding cdbg_wait_def
  by (auto simp: split_beta Let_def ensures_Some_pair intro!: process_wait_rule)

lemmas wait_rule = keeps_wait [THEN ensures_mono]

lemma keeps_step_over: "steady s0 s \<Longrightarrow> keeps (step_over_disabled_breakpoint K s)"
  unfolding step_over_disabled_breakpoint_def
  by (auto simp: split_beta Let_def ensures_Some_pair intro!: wait_rule)

lemmas step_over_rule = keeps_step_over [THEN ensures_mono]

lemma keeps_continue: "steady s0 s \<Longrightarrow> keeps (cdbg_continue K s)"
  unfolding cdbg_continue_def
  by (auto simp: split_beta Let_def ensures_Some_pair intro!: step_over_rule)

lemmas continue_rule = keeps_continue [THEN ensures_mono]

lemma keeps_step_past: "steady s0 s \<Longrightarrow> keeps (step_past_all_watchpoints K s)"
  unfolding step_past_all_watchpoints_def
  by (auto simp: split_beta Let_def ensures_Some_pair intro!: wait_rule)

lemmas step_past_rule = keeps_step_past [THEN ensures_mono]

lemma keeps_watchpoint_hit: "steady s0 s \<Longrightarrow> keeps (handle_watchpoint_hit K i is_write s)"
  unfolding handle_watchpoint_hit_def
  by (auto simp: split_beta Let_def ensures_Some_pair wp_later_def wp_config_def
      intro!: step_past_rule steady_watchpoints wps_later_update split: option.split)

lemmas watchpoint_hit_rule = keeps_watchpoint_hit [THEN ensures_mono]

lemma keeps_unresolved: "steady s0 s \<Longrightarrow> keeps (handle_unresolved_watchpoint_hit K far s)"
  unfolding handle_unresolved_watchpoint_hit_def
  by (auto simp: split_beta Let_def ensures_Some_pair intro!: step_past_rule)

lemmas unresolved_rule = keeps_unresolved [THEN ensures_mono]

lemma keeps_try_report: "steady s0 s \<Longrightarrow> keeps (try_report_watchpoint_hit K s)"
  unfolding try_report_watchpoint_hit_def
  by (auto simp: split_beta Let_def ensures_Some_pair split: option.split
      intro!: watchpoint_hit_rule unresolved_rule)

lemmas try_report_rule = keeps_try_report [THEN ensures_mono]

lemma keeps_report_stop: "steady s0 s \<Longrightarrow> keeps (report_stop K s)"
  unfolding report_stop_def
  by (auto simp: split_beta Let_def ensures_Some_pair split: option.split intro!: try_report_rule)

lemmas report_stop_rule = keeps_report_stop [THEN ensures_mono]

lemma keeps_finish_temp: "steady s0 s \<Longrightarrow> keeps (finish_temp_breakpoint K bp s)"
  unfolding finish_temp_breakpoint_def
  by (auto simp: split_beta Let_def ensures_Some_pair intro!: report_stop_rule)

lemmas finish_temp_rule = keeps_finish_temp [THEN ensures_mono]

lemma keeps_step_over_call: "steady s0 s \<Longrightarrow> keeps (step_over_call K a s)"
  unfolding step_over_call_def
  by (auto simp: split_beta Let_def ensures_Some_pair intro!: continue_rule wait_rule finish_temp_rule)

lemmas step_over_call_rule = keeps_step_over_call [THEN ensures_mono]

lemma keeps_one_step: "steady s0 s \<Longrightarrow> keeps (one_step K s)"
  unfolding one_step_def
  by (auto simp: split_beta Let_def ensures_Some_pair intro!: wait_rule)

lemmas one_step_rule = keeps_one_step [THEN ensures_mono]

lemma keeps_after_step: "steady s0 s \<Longrightarrow> keeps (after_step K start s)"
  unfolding after_step_def
  by (auto simp: split_beta Let_def ensures_Some_pair split: option.split
      intro!: report_stop_rule try_report_rule)

lemmas after_step_rule = keeps_after_step [THEN ensures_mono]

lemma keeps_step_loop: "steady s0 s \<Longrightarrow> keeps (step_loop K start n s)"
  by (induction n arbitrary: s)
    (auto simp: split_beta Let_def ensures_Some_pair split: sum.split
      intro!: one_step_rule after_step_rule)

lemma keeps_next_loop: "steady s0 s \<Longrightarrow> keeps (next_loop K start n pc s)"
proof (induction n arbitrary: s pc)
  case (Suc n)
  then show ?case
    by (auto simp: split_beta Let_def ensures_Some_pair split: sum.split option.split
      intro!: one_step_rule after_step_rule step_over_call_rule)
qed simp

lemma keeps_step_without_line: "steady s0 s \<Longrightarrow> keeps (step_without_line K s)"
  unfolding step_without_line_def
  by (auto simp: split_beta Let_def ensures_Some_pair intro!: wait_rule report_stop_rule)

lemma keeps_step_next_line: "steady s0 s \<Longrightarrow> keeps (cdbg_step_next_line K s)"
  unfolding cdbg_step_next_line_def
  by (auto simp: split_beta Let_def split: option.split
      intro!: keeps_step_without_line keeps_step_loop simp del: step_loop.simps)

lemma keeps_next_source_line: "steady s0 s \<Longrightarrow> keeps (cdbg_next_source_line K s)"
  unfolding cdbg_next_source_line_def
  by (auto simp: split_beta Let_def split: option.split
      intro!: keeps_step_without_line keeps_next_loop simp del: next_loop.simps)

lemma keeps_run_to_entry: "steady s0 s \<Longrightarrow> keeps (run_to_entry_stop K s)"
  unfolding run_to_entry_stop_def
  by (auto simp: split_beta Let_def ensures_Some_pair split: option.split
      intro!: continue_rule wait_rule)

lemma keeps_stop_debuggee: "steady s0 s \<Longrightarrow> keeps (stop_debuggee K s)"
  unfolding stop_debuggee_def
  by (auto simp: split_beta Let_def ensures_Some_pair intro!: process_wait_rule)

end

text \<open>Partial correctness holds of every kernel; \<open>responsive\<close> gives total correctness.\<close>

interpretation partial: waits K True s0 for K s0
  by unfold_locales simp

definition responsive :: "'w kernel \<Rightarrow> bool" where
  "responsive K \<longleftrightarrow> (\<forall>p y. process_wait K p y \<noteq> None)"

lemma waits_responsive: "responsive K \<Longrightarrow> waits K False"
  by (simp add: waits_def responsive_def)

text \<open>A kernel that never interrupts the wait is responsive.\<close>

lemma responsive_no_EINTR:
  assumes "\<And>p w. fst (k_waitpid K p w) \<noteq> Wait_EINTR"
  shows "responsive K"
  unfolding responsive_def
proof (intro allI)
  fix p y
  show "process_wait K p y \<noteq> None"
    using assms [of p "world y"]
    by (subst process_wait.simps) (auto simp: syscall_def split_beta split: wait_result.split)
qed

section \<open>The rights across a run\<close>

lemma rights_map_file [simp]: "rights (snd (map_file K path y)) = rights y"
  by (simp add: map_file_def Let_def split: option.split)

lemma rights_load_section:
  "lineno_load_section K ln path obj y = Some (r, y') \<Longrightarrow> rights y' = rights y"
  unfolding lineno_load_section_def
  by (auto simp: Let_def split_beta split: option.splits if_splits sum.splits prod.splits)

lemma rights_lineno_load: "cdbg_lineno_load K path y = Some (r, y') \<Longrightarrow> rights y' = rights y"
  unfolding cdbg_lineno_load_def
  by (auto simp: Let_def split_beta split: option.splits if_splits dest: rights_load_section)

abbreviation holds :: "port multiset \<Rightarrow> 'w cdbg \<Rightarrow> bool" where
  "holds R s \<equiv> rights (dsys s) = R"

lemma holds_update_slides:
  "holds R s \<Longrightarrow> ensures True (update_slides K a b s) (\<lambda>_. holds R)"
  unfolding update_slides_def cdbg_lineno_update_slide_def cdbg_syms_update_slide_def
  by (auto simp: ensures_partial bind_eq_Some_conv split: if_splits dest!: update_slide_rights)

lemma rights_update_slides:
  "update_slides K a b s = Some (u, s') \<Longrightarrow> rights (dsys s') = rights (dsys s)"
  using holds_update_slides [of s "rights (dsys s)" K a b] by (simp add: ensures_partial)

lemmas update_slides_rule = holds_update_slides [THEN ensures_mono]

lemma holds_load_symbols:
  assumes "holds R s"
  shows "ensures True (cdbg_load_symbols K path s) (\<lambda>_. holds R)"
  unfolding cdbg_load_symbols_def
  using assms
  by (auto simp: Let_def split_beta ensures_partial bind_eq_Some_conv split: if_splits
      dest!: rights_lineno_load rights_update_slides)

lemmas load_symbols_rule = holds_load_symbols [THEN ensures_mono]

lemma holds_spawn: "holds R s \<Longrightarrow> ensures True (cdbg_spawn K argv s) (\<lambda>_. holds R)"
  by (auto simp: cdbg_spawn_def cdbg_process_spawn_def Let_def split_beta split: option.split
      intro!: update_slides_rule)

lemmas spawn_rule = holds_spawn [THEN ensures_mono]

lemma steady_holds: "ensures True m (\<lambda>_. steady s) \<Longrightarrow> holds R s \<Longrightarrow> ensures True m (\<lambda>_. holds R)"
  by (erule ensures_mono) (simp add: steady_def)

lemmas stop_debuggee_rule =
  partial.keeps_stop_debuggee [OF steady_refl, THEN steady_holds, THEN ensures_mono]
lemmas run_wait_rule = partial.keeps_wait [OF steady_refl, THEN steady_holds, THEN ensures_mono]
lemmas entry_rule = partial.keeps_run_to_entry [OF steady_refl, THEN steady_holds, THEN ensures_mono]

lemma holds_stop_context: "holds R (cdbg_print_stop_context K s) = holds R s"
  using steady_display(9) [of s K s] by (simp add: steady_def)

lemma holds_run:
  assumes "holds R s"
  shows "ensures True (cdbg_run K argv s) (\<lambda>_. holds R)"
proof -
  have target: "holds R (snd (cdbg_set_run_target a s))" for a
    using assms by (simp add: cdbg_set_run_target_def)
  have exit: "holds R (report_process_exit t) = holds R t" for t :: "'a cdbg"
    using steady_exit [OF steady_refl, of t] by (simp add: steady_def)
  show ?thesis
    unfolding cdbg_run_def
    using assms target
    by (auto simp: Let_def split_beta ensures_Some_pair exit holds_stop_context print_run_banner_def
        split: option.split
        intro!: stop_debuggee_rule load_symbols_rule spawn_rule run_wait_rule entry_rule
          update_slides_rule)
qed

end
