(* ===== verification/Stops.thy ===== *)
theory Stops
  imports Steady
begin

text \<open>
  The state machine of a run: what a wait, the end of the debuggee and a new run leave in the
  debugger's state.
\<close>

section \<open>Waiting\<close>

lemma reenable_loop_enabled:
  "reenable_loop K p pc bps y = ((True, bps'), y') \<Longrightarrow>
     \<forall>bp \<in> set bps'. bp_addr bp \<noteq> pc \<longrightarrow> bp_enabled bp"
proof (induction bps arbitrary: y bps')
  case (Cons bp bps)
  show ?case
  proof (cases "\<not> bp_enabled bp \<and> bp_addr bp \<noteq> pc")
    case False
    then obtain bps1 where "reenable_loop K p pc bps y = ((True, bps1), y')" "bps' = bp # bps1"
      using Cons.prems by (auto simp: split_beta Let_def prod_eq_iff)
    with Cons.IH False show ?thesis by auto
  next
    case True
    obtain ok bp1 y1 where e: "cdbg_bp_enable K bp p (bp_addr bp) y = ((ok, bp1), y1)"
      by (metis prod.exhaust)
    then have "ok" using Cons.prems True by (auto split: if_splits)
    then obtain bps1 where r: "reenable_loop K p pc bps y1 = ((True, bps1), y')" "bps' = bp1 # bps1"
      using Cons.prems True e by (auto simp: split_beta Let_def prod_eq_iff)
    have "bp_enabled bp1" using bp_enable_flag [of K bp p "bp_addr bp" y ok bp1] e \<open>ok\<close> by simp
    with Cons.IH [OF r(1)] r(2) show ?thesis by auto
  qed
qed simp

lemma reenable_enabled:
  assumes "reenable_breakpoints_after_step K s = (True, s')" and "state s = State_STOPPED"
  shows "\<forall>bp \<in> set (breakpoints s'). bp_addr bp \<noteq> cdbg_regs_pc (regs s') \<longrightarrow> bp_enabled bp"
proof (cases "breakpoints s = []")
  case True
  with assms show ?thesis by (simp add: reenable_breakpoints_after_step_def)
next
  case False
  let ?s1 = "snd (cdbg_refresh_regs K s)"
  obtain ok bps y where r: "reenable_loop K (pid ?s1) (cdbg_regs_pc (regs ?s1)) (breakpoints ?s1)
      (dsys ?s1) = ((ok, bps), y)" by (metis prod.exhaust)
  with False assms have "ok" "s' = ?s1\<lparr>breakpoints := bps, dsys := y\<rparr>"
    by (auto simp: reenable_breakpoints_after_step_def split_beta Let_def split: if_splits)
  with reenable_loop_enabled r show ?thesis by fastforce
qed

lemma refresh_regs_state [simp]: "state (snd (cdbg_refresh_regs K s)) = state s"
  "wait_status (snd (cdbg_refresh_regs K s)) = wait_status s"
  "pid (snd (cdbg_refresh_regs K s)) = pid s"
  "current_tid (snd (cdbg_refresh_regs K s)) = current_tid s"
  by (simp_all add: cdbg_refresh_regs_def split_beta)

lemma reenable_state [simp]:
  "state (snd (reenable_breakpoints_after_step K s)) = state s"
  "wait_status (snd (reenable_breakpoints_after_step K s)) = wait_status s"
  "pid (snd (reenable_breakpoints_after_step K s)) = pid s"
  by (simp_all add: reenable_breakpoints_after_step_def split_beta Let_def)

lemma process_wait_state:
  "cdbg_process_wait K s = Some (ok, s') \<Longrightarrow>
     state s' = state s \<and> pid s' = pid s \<and> breakpoints s' = breakpoints s
     \<and> watchpoints s' = watchpoints s"
  by (auto simp: cdbg_process_wait_def bind_eq_Some_conv split: option.splits)

lemma wait_outcome:
  assumes "cdbg_wait K s = Some (rc, s')"
  shows "pid s' = pid s
    \<and> (rc = 0 \<longrightarrow> state s' = State_STOPPED \<and>
         (\<forall>bp \<in> set (breakpoints s'). bp_addr bp \<noteq> cdbg_regs_pc (regs s') \<longrightarrow> bp_enabled bp))
    \<and> (rc = 1 \<longrightarrow> state s' = State_IDLE \<and> (WIFEXITED (wait_status s') \<or> WIFSIGNALED (wait_status s')))
    \<and> (rc = - 1 \<longrightarrow> state s' = state s \<or> state s' = State_STOPPED)
    \<and> rc \<in> {- 1, 0, 1}"
proof -
  obtain ok s1 where w: "cdbg_process_wait K s = Some (ok, s1)"
    using assms by (auto simp: cdbg_wait_def bind_eq_Some_conv)
  note st = process_wait_state [OF w]
  let ?t = "s1\<lparr>state := State_STOPPED\<rparr>"
  obtain ok2 s2 where r: "reenable_breakpoints_after_step K ?t = (ok2, s2)" by (metis prod.exhaust)
  have s2: "state s2 = State_STOPPED" "pid s2 = pid s1"
    using reenable_state(1) [of K ?t] reenable_state(3) [of K ?t] r by simp_all
  consider "\<not> ok" "rc = - 1" "s' = s1"
    | "ok" "WIFEXITED (wait_status s1) \<or> WIFSIGNALED (wait_status s1)" "rc = 1"
        "s' = s1\<lparr>state := State_IDLE\<rparr>"
    | "ok" "rc = (if ok2 then 0 else - 1)" "s' = s2"
    using assms w r by (auto simp: cdbg_wait_def Let_def split: if_splits)
  then show ?thesis
  proof cases
    case 3
    with st s2 reenable_enabled [of K ?t s2] r show ?thesis by auto
  qed (use st in auto)
qed

section \<open>The end of the debuggee\<close>

lemma report_exit_state:
  assumes "state s = State_IDLE"
  shows "pid (report_process_exit s) = 0
    \<and> (\<forall>bp \<in> set (breakpoints (report_process_exit s)). \<not> bp_enabled bp)
    \<and> (\<forall>wp \<in> set (watchpoints (report_process_exit s)). \<not> wp_enabled wp)"
  using assms by (auto simp: report_process_exit_def disable_all_def Let_def)

lemma stop_debuggee_state:
  assumes "stop_debuggee K s = Some (True, s')"
  shows "pid s' \<le> 0 \<and> state s' = State_IDLE \<and> (0 < pid s \<longrightarrow> pid s' = 0
    \<and> (\<forall>bp \<in> set (breakpoints s'). \<not> bp_enabled bp) \<and> (\<forall>wp \<in> set (watchpoints s'). \<not> wp_enabled wp))"
  using assms
  by (auto simp: stop_debuggee_def disable_all_def bind_eq_Some_conv split: if_splits)

section \<open>A new run\<close>

definition cleared :: "'w cdbg \<Rightarrow> bool" where
  "cleared s \<longleftrightarrow> breakpoints s = [] \<and> watchpoints s = []"

lemma cleared_steady: "steady s t \<Longrightarrow> cleared s \<Longrightarrow> cleared t"
  by (auto simp: steady_def cleared_def)

lemma cleared_keeps: "ensures True m (\<lambda>_. steady s) \<Longrightarrow> cleared s \<Longrightarrow> ensures True m (\<lambda>_. cleared)"
  by (erule ensures_mono) (rule cleared_steady)

lemma cleared_say [simp]: "cleared (say x s) = cleared s"
  by (simp add: cleared_def)

lemma cleared_update_slides:
  "cleared s \<Longrightarrow> ensures True (update_slides K a b s) (\<lambda>_. cleared)"
  by (auto simp: update_slides_def cleared_def ensures_partial bind_eq_Some_conv split: if_splits)

lemmas cleared_slides_rule = cleared_update_slides [THEN ensures_mono]

lemma cleared_load_symbols: "cleared s \<Longrightarrow> ensures True (cdbg_load_symbols K path s) (\<lambda>_. cleared)"
proof -
  have u: "update_slides K a b s = Some (r, s') \<Longrightarrow> cleared s \<Longrightarrow> cleared s'" for a b s r s'
    using cleared_update_slides [of s K a b] by (simp add: ensures_partial)
  assume "cleared s"
  then show ?thesis
    unfolding cdbg_load_symbols_def
    by (auto simp: Let_def split_beta ensures_partial bind_eq_Some_conv cleared_def
        split: if_splits dest!: u)
qed

lemmas cleared_load_rule = cleared_load_symbols [THEN ensures_mono]

lemma cleared_spawn: "cleared s \<Longrightarrow> ensures True (cdbg_spawn K argv s) (\<lambda>_. cleared)"
  by (auto simp: cdbg_spawn_def Let_def split_beta split: option.split
      intro!: cleared_slides_rule) (simp_all add: cleared_def)

lemmas cleared_spawn_rule = cleared_spawn [THEN ensures_mono]
lemmas cleared_wait_rule = partial.keeps_wait [OF steady_refl, THEN cleared_keeps, THEN ensures_mono]
lemmas cleared_entry_rule =
  partial.keeps_run_to_entry [OF steady_refl, THEN cleared_keeps, THEN ensures_mono]

lemma cleared_exit: "cleared s \<Longrightarrow> cleared (report_process_exit s)"
  by (rule cleared_steady [of s]) simp_all

lemma cleared_context: "cleared s \<Longrightarrow> cleared (cdbg_print_stop_context K s)"
  by (rule cleared_steady [of s]) simp_all

lemma run_clears: "ensures True (cdbg_run K argv s) (\<lambda>ok s'. ok \<longrightarrow> cleared s')"
proof -
  have any: "(\<And>a s'. Q a s') \<Longrightarrow> ensures True (stop_debuggee K t) Q" for Q t
    by (simp add: ensures_partial)
  show ?thesis
    unfolding cdbg_run_def
    by (auto simp: Let_def split_beta ensures_Some_pair cleared_exit cleared_context
        print_run_banner_def split: option.split
        intro!: any cleared_load_rule cleared_spawn_rule cleared_wait_rule cleared_entry_rule
          cleared_slides_rule) (simp_all add: cleared_def)
qed

end
