(* ===== verification/Dwarf.thy ===== *)
theory Dwarf
  imports Debugger
begin

text \<open>
  The part of \<^verbatim>\<open>src/debugger.c\<close> that finds types and variables: the sizes it derives from
  the text of a type, and the four scans over the output of \<^verbatim>\<open>dwarfdump --debug-info\<close>, for
  the kind of an aggregate, the members of a struct, a local variable, and the variables of
  a scope. Each scan is a step function on one line; none of them changes the world.
\<close>

section \<open>Types as text\<close>

record struct_member =
  sm_name :: string
  sm_type :: string
  sm_offset :: u64
  sm_size :: u64
  sm_signed :: bool

record var_info =
  vi_name :: string
  vi_type :: string
  vi_element_type :: string
  vi_fbreg_offset :: int
  vi_base :: var_base
  vi_size :: u64
  vi_element_size :: u64
  vi_pointee_size :: u64
  vi_array_count :: u64
  vi_has_location :: bool
  vi_is_pointer :: bool
  vi_is_signed :: bool
  vi_is_array :: bool

definition zero_member :: struct_member where
  "zero_member = \<lparr>sm_name = [], sm_type = [], sm_offset = 0, sm_size = 0, sm_signed = False\<rparr>"

definition zero_var :: var_info where
  "zero_var = \<lparr>vi_name = [], vi_type = [], vi_element_type = [], vi_fbreg_offset = 0, vi_base = Base_FB,
     vi_size = 0, vi_element_size = 0, vi_pointee_size = 0, vi_array_count = 0, vi_has_location = False,
     vi_is_pointer = False, vi_is_signed = False, vi_is_array = False\<rparr>"

definition type_scalar_size :: "string \<Rightarrow> u64" where
  "type_scalar_size type =
     (if strchr type CHR ''*'' \<noteq> None then 8
      else if contains type ''char'' then 1
      else if contains type ''short'' then 2
      else if contains type ''long'' then 8
      else if contains type ''int'' \<or> contains type ''bool'' then 4
      else 8)"

definition type_pointee_size :: "string \<Rightarrow> u64" where
  "type_pointee_size type =
     (if strchr type CHR ''*'' = None then 0
      else let base = takeWhile (\<lambda>c. c \<noteq> CHR ''*'') type
           in type_scalar_size (trim_space (take 127 base)))"

definition type_is_scalar :: "string \<Rightarrow> bool" where
  "type_is_scalar type \<longleftrightarrow>
     type \<noteq> [] \<and> (strchr type CHR ''*'' \<noteq> None \<or> contains type ''char'' \<or> contains type ''short''
       \<or> contains type ''int'' \<or> contains type ''long'' \<or> contains type ''bool'')"

definition parse_array_type :: "string \<Rightarrow> nat \<Rightarrow> (string \<times> u64) option" where
  "parse_array_type type elem_len =
     (case strchr type CHR ''['' of
        None \<Rightarrow> None
      | Some bracket \<Rightarrow>
          if bracket = type then None
          else let name = takeWhile (\<lambda>c. c \<noteq> CHR ''['') type;
                   elem = (if length name \<ge> elem_len then take (elem_len - 1) name else name)
               in case strtoull 10 (tl bracket) of
                    None \<Rightarrow> None
                  | Some (n, end) \<Rightarrow> if starts_with end '']'' then Some (elem, n) else None)"

definition type_has_struct_union_prefix :: "string \<Rightarrow> bool" where
  "type_has_struct_union_prefix type \<longleftrightarrow> starts_with type ''struct '' \<or> starts_with type ''union ''"

section \<open>Scans over dwarfdump\<close>

text \<open>The lines of the dump, as a buffer of 1024 bytes receives them.\<close>

definition debug_info_lines :: "'w kernel \<Rightarrow> 'w cdbg \<Rightarrow> string list option" where
  "debug_info_lines K s =
     (let cmd = ''dwarfdump --debug-info '' @ [CHR 0x27] @ debug_info_path s @ [CHR 0x27] @ '' 2>/dev/null''
      in if debug_info_path s = [] then None
         else if length cmd \<ge> CDBG_MAX_PATH + 64 then None
         else map_option (\<lambda>(out, status). fgets_all 1024 out) (k_popen K cmd (world (dsys s))))"

text \<open>A scan: \<open>Inr\<close> is the \<^verbatim>\<open>break\<close> out of the loop.\<close>

fun scan_lines :: "('a \<Rightarrow> string \<Rightarrow> 'a + 'b) \<Rightarrow> 'a \<Rightarrow> string list \<Rightarrow> 'a + 'b" where
  "scan_lines step st [] = Inl st"
| "scan_lines step st (line # lines) =
     (case step st line of Inr b \<Rightarrow> Inr b | Inl st \<Rightarrow> scan_lines step st lines)"

subsection \<open>Aggregates\<close>

datatype aggregate_kind = Agg_NONE | Agg_STRUCT | Agg_UNION

definition aggregate_line ::
    "string \<Rightarrow> bool \<times> aggregate_kind \<Rightarrow> string \<Rightarrow> (bool \<times> aggregate_kind) + aggregate_kind" where
  "aggregate_line name = (\<lambda>(in_aggregate, kind) line.
     if dwarf_starts_die line
     then if contains line ''DW_TAG_structure_type'' then Inl (True, Agg_STRUCT)
          else if contains line ''DW_TAG_union_type'' then Inl (True, Agg_UNION)
          else Inl (False, kind)
     else if \<not> in_aggregate then Inl (False, kind)
     else if contains line ''DW_AT_name'' \<and> parse_quoted_value line 128 = Some name then Inr kind
     else Inl (True, kind))"

definition dwarf_lookup_aggregate_kind :: "'w kernel \<Rightarrow> 'w cdbg \<Rightarrow> string \<Rightarrow> aggregate_kind" where
  "dwarf_lookup_aggregate_kind K s name =
     (if debug_info_path s = [] \<or> name = [] \<or> type_is_scalar name then Agg_NONE
      else case debug_info_lines K s of
             None \<Rightarrow> Agg_NONE
           | Some lines \<Rightarrow>
               (case scan_lines (aggregate_line name) (False, Agg_NONE) lines of
                  Inr kind \<Rightarrow> kind | Inl _ \<Rightarrow> Agg_NONE))"

definition format_type_for_display :: "'w kernel \<Rightarrow> 'w cdbg \<Rightarrow> string \<Rightarrow> nat \<Rightarrow> string" where
  "format_type_for_display K s type out_len =
     (if type = [] then []
      else if type_has_struct_union_prefix type then snprintf_s out_len type
      else let work = snprintf_s 256 type;
               array_suffix = (case strchr work CHR ''['' of None \<Rightarrow> [] | Some b \<Rightarrow> snprintf_s 64 b);
               work = takeWhile (\<lambda>c. c \<noteq> CHR ''['') work;
               ptr_suffix = (if strchr work CHR ''*'' \<noteq> None then '' *'' else []);
               base = trim_space (takeWhile (\<lambda>c. c \<noteq> CHR ''*'') work)
           in case dwarf_lookup_aggregate_kind K s base of
                Agg_STRUCT \<Rightarrow> snprintf_s out_len (''struct '' @ base @ array_suffix @ ptr_suffix)
              | Agg_UNION \<Rightarrow> snprintf_s out_len (''union '' @ base @ array_suffix @ ptr_suffix)
              | Agg_NONE \<Rightarrow> snprintf_s out_len type)"

subsection \<open>Members of a struct\<close>

record struct_scan =
  ss_in :: bool
  ss_matches :: bool
  ss_reading :: bool
  ss_member :: struct_member
  ss_members :: "struct_member list"
  ss_byte_size :: u64

definition struct_scan0 :: struct_scan where
  "struct_scan0 = \<lparr>ss_in = False, ss_matches = False, ss_reading = False, ss_member = zero_member,
     ss_members = [], ss_byte_size = 0\<rparr>"

definition push_member :: "nat \<Rightarrow> struct_scan \<Rightarrow> struct_scan" where
  "push_member max_members st =
     (let m = ss_member st
      in if sm_name m \<noteq> [] \<and> length (ss_members st) < max_members
         then st\<lparr>ss_members := ss_members st @
                [m\<lparr>sm_size := type_scalar_size (sm_type m), sm_signed := \<not> contains (sm_type m) ''unsigned''\<rparr>]\<rparr>
         else st)"

text \<open>The attributes of the member or of the struct itself.\<close>

definition struct_attribute :: "string \<Rightarrow> struct_scan \<Rightarrow> string \<Rightarrow> struct_scan" where
  "struct_attribute name st line =
     (if \<not> ss_in st then st
      else if contains line ''DW_AT_name'' \<and> \<not> ss_reading st
      then if parse_quoted_value line 128 = Some name then st\<lparr>ss_matches := True\<rparr> else st
      else if \<not> ss_matches st then st
      else if contains line ''DW_AT_byte_size''
      then (case strchr line CHR ''('' of
              None \<Rightarrow> st
            | Some open \<Rightarrow>
                (case strtoull 16 (tl open) of
                   None \<Rightarrow> st | Some (value, _) \<Rightarrow> st\<lparr>ss_byte_size := value\<rparr>))
      else if \<not> ss_reading st then st
      else let m = ss_member st
           in if contains line ''DW_AT_name''
              then (case parse_quoted_value line 64 of
                      None \<Rightarrow> st | Some x \<Rightarrow> st\<lparr>ss_member := m\<lparr>sm_name := x\<rparr>\<rparr>)
              else if contains line ''DW_AT_type''
              then (case parse_quoted_value line 64 of
                      None \<Rightarrow> st | Some x \<Rightarrow> st\<lparr>ss_member := m\<lparr>sm_type := x\<rparr>\<rparr>)
              else if contains line ''DW_AT_data_member_location''
              then (case parse_member_offset line of
                      None \<Rightarrow> st | Some x \<Rightarrow> st\<lparr>ss_member := m\<lparr>sm_offset := x\<rparr>\<rparr>)
              else st)"

definition struct_line :: "nat \<Rightarrow> string \<Rightarrow> struct_scan \<Rightarrow> string \<Rightarrow> struct_scan + struct_scan" where
  "struct_line max_members name st line =
     (let die = dwarf_starts_die line;
          null = contains line ''NULL'';
          was_reading = ss_reading st;
          st = (if was_reading \<and> die
                then (push_member max_members st)\<lparr>ss_member := zero_member, ss_reading := False\<rparr> else st)
      in if was_reading \<and> die \<and> ss_in st \<and> ss_matches st \<and> null then Inr st
         else if \<not> die then Inl (struct_attribute name st line)
         else if contains line ''DW_TAG_structure_type''
         then Inl (st\<lparr>ss_in := True, ss_matches := False, ss_byte_size := 0\<rparr>)
         else if ss_in st \<and> ss_matches st \<and> contains line ''DW_TAG_member''
         then Inl (st\<lparr>ss_member := zero_member, ss_reading := True\<rparr>)
         else if ss_in st \<and> ss_matches st \<and> null then Inr st
         else Inl (struct_attribute name (if ss_in st \<and> \<not> ss_matches st then st\<lparr>ss_in := False\<rparr> else st) line))"

definition dwarf_lookup_struct ::
    "'w kernel \<Rightarrow> 'w cdbg \<Rightarrow> string \<Rightarrow> nat \<Rightarrow> (struct_member list \<times> u64) option" where
  "dwarf_lookup_struct K s name max_members =
     (if debug_info_path s = [] \<or> name = [] then None
      else case debug_info_lines K s of
             None \<Rightarrow> None
           | Some lines \<Rightarrow>
               (let st = (case scan_lines (struct_line max_members name) struct_scan0 lines of
                            Inl st \<Rightarrow> st | Inr st \<Rightarrow> st);
                    st = (if ss_reading st then push_member max_members st else st)
                in if ss_members st = [] then None else Some (ss_members st, ss_byte_size st)))"

definition type_element_size :: "'w kernel \<Rightarrow> 'w cdbg \<Rightarrow> string \<Rightarrow> u64" where
  "type_element_size K s type =
     (if type = [] then 0
      else if type_is_scalar type then type_scalar_size type
      else case dwarf_lookup_struct K s type 32 of
             Some (members, byte_size) \<Rightarrow> if byte_size > 0 then byte_size else 8
           | None \<Rightarrow> 8)"

definition lookup_struct_member ::
    "'w kernel \<Rightarrow> 'w cdbg \<Rightarrow> string \<Rightarrow> string \<Rightarrow> struct_member option" where
  "lookup_struct_member K s struct_type member_name =
     (case dwarf_lookup_struct K s struct_type 32 of
        None \<Rightarrow> None
      | Some (members, _) \<Rightarrow> find (\<lambda>m. sm_name m = member_name) members)"

subsection \<open>Local variables\<close>

definition complete_var_type :: "'w kernel \<Rightarrow> 'w cdbg \<Rightarrow> var_info \<Rightarrow> var_info" where
  "complete_var_type K s var =
     (let var = var\<lparr>vi_is_pointer := strchr (vi_type var) CHR ''*'' \<noteq> None,
                    vi_is_signed := \<not> contains (vi_type var) ''unsigned''\<rparr>
      in case parse_array_type (vi_type var) 128 of
           Some (elem, n) \<Rightarrow>
             (let sz = type_element_size K s elem
              in var\<lparr>vi_is_array := True, vi_element_type := snprintf_s 128 elem, vi_array_count := n,
                     vi_element_size := sz, vi_size := sz * n, vi_pointee_size := sz\<rparr>)
         | None \<Rightarrow>
             (let p = type_pointee_size (vi_type var)
              in var\<lparr>vi_is_array := False, vi_element_type := [], vi_array_count := 0, vi_element_size := 0,
                     vi_size := type_scalar_size (vi_type var), vi_pointee_size := if p = 0 then 8 else p\<rparr>))"

text \<open>\<^verbatim>\<open>parse_fbreg_offset\<close> stores the base as soon as it has seen the operation, also when
  it fails afterwards.\<close>

definition fbreg_base :: "string \<Rightarrow> var_base \<Rightarrow> var_base" where
  "fbreg_base line base =
     (if contains line ''DW_OP_fbreg'' then Base_FB
      else case strstr line ''DW_OP_breg'' of
             None \<Rightarrow> base
           | Some p \<Rightarrow>
               (case strtoll 10 (drop (length ''DW_OP_breg'') p) of
                  None \<Rightarrow> base
                | Some (reg, _) \<Rightarrow> if reg = 31 then Base_SP else if reg = 29 then Base_X29 else base))"

definition var_ready :: "var_info \<Rightarrow> string \<Rightarrow> bool" where
  "var_ready var name \<longleftrightarrow> vi_has_location var \<and> vi_name var \<noteq> [] \<and> vi_name var = name"

definition finish_var_if_match :: "'w kernel \<Rightarrow> 'w cdbg \<Rightarrow> var_info \<Rightarrow> string \<Rightarrow> var_info option" where
  "finish_var_if_match K s var name =
     (if \<not> var_ready var name then None else Some (complete_var_type K s var))"

record local_scan =
  lc_in :: bool
  lc_matches :: bool
  lc_depth :: nat
  lc_low :: addr
  lc_high :: addr
  lc_reading :: bool
  lc_var :: var_info

definition local_scan0 :: local_scan where
  "local_scan0 = \<lparr>lc_in = False, lc_matches = False, lc_depth = 0, lc_low = 0, lc_high = 0,
     lc_reading = False, lc_var = zero_var\<rparr>"

text \<open>The start of a debugging entry: the new state, and whether the line is done with.\<close>

definition local_die :: "local_scan \<Rightarrow> string \<Rightarrow> local_scan \<times> bool" where
  "local_die st line =
     (let depth = dwarf_line_depth line
      in if contains line ''DW_TAG_subprogram''
         then (st\<lparr>lc_in := True, lc_matches := False, lc_depth := depth, lc_low := 0, lc_high := 0\<rparr>, True)
         else let st = (if lc_in st \<and> depth \<le> lc_depth st
                        then st\<lparr>lc_in := False, lc_matches := False\<rparr> else st)
              in if lc_in st \<and> lc_matches st
                    \<and> (contains line ''DW_TAG_variable'' \<or> contains line ''DW_TAG_formal_parameter'')
                 then (st\<lparr>lc_var := zero_var, lc_reading := True\<rparr>, True)
                 else (st, False))"

definition local_attribute :: "addr \<Rightarrow> local_scan \<Rightarrow> string \<Rightarrow> local_scan" where
  "local_attribute link_pc st line =
     (let var = lc_var st
      in if lc_in st \<and> contains line ''DW_AT_low_pc''
         then let low = (case parse_hex_value line of None \<Rightarrow> lc_low st | Some v \<Rightarrow> v)
              in st\<lparr>lc_low := low, lc_matches := pc_in_range link_pc low (lc_high st)\<rparr>
         else if lc_in st \<and> contains line ''DW_AT_high_pc''
         then let high = (case parse_hex_value line of None \<Rightarrow> lc_high st | Some v \<Rightarrow> v)
              in st\<lparr>lc_high := high, lc_matches := pc_in_range link_pc (lc_low st) high\<rparr>
         else if \<not> lc_reading st then st
         else let loc = contains line ''DW_AT_location'';
                  var = (if loc then var\<lparr>vi_base := fbreg_base line (vi_base var)\<rparr> else var)
              in case (if loc then parse_fbreg_offset line else None) of
                   Some (offset, base) \<Rightarrow>
                     st\<lparr>lc_var := var\<lparr>vi_fbreg_offset := offset, vi_base := base, vi_has_location := True\<rparr>\<rparr>
                 | None \<Rightarrow>
                     if contains line ''DW_AT_name''
                     then st\<lparr>lc_var := (case parse_quoted_value line 128 of
                                          None \<Rightarrow> var | Some x \<Rightarrow> var\<lparr>vi_name := x\<rparr>)\<rparr>
                     else if contains line ''DW_AT_type''
                     then st\<lparr>lc_var := (case parse_quoted_value line 128 of
                                          None \<Rightarrow> var | Some x \<Rightarrow> var\<lparr>vi_type := x\<rparr>)\<rparr>
                     else st\<lparr>lc_var := var\<rparr>)"

definition local_line :: "'w kernel \<Rightarrow> 'w cdbg \<Rightarrow> addr \<Rightarrow> string \<Rightarrow> local_scan \<Rightarrow> string \<Rightarrow> local_scan + var_info" where
  "local_line K s link_pc name st line =
     (let die = dwarf_starts_die line
      in case (if lc_reading st \<and> die then finish_var_if_match K s (lc_var st) name else None) of
           Some var \<Rightarrow> Inr var
         | None \<Rightarrow>
             (let st = (if lc_reading st \<and> die then st\<lparr>lc_var := zero_var, lc_reading := False\<rparr> else st);
                  (st, done) = (if die then local_die st line else (st, False))
              in Inl (if done then st else local_attribute link_pc st line)))"

definition find_local_var :: "'w kernel \<Rightarrow> 'w cdbg \<Rightarrow> string \<Rightarrow> var_info option" where
  "find_local_var K s name =
     (let link_pc = cdbg_regs_pc (regs s) - ln_slide (lineno s)
      in case debug_info_lines K s of
           None \<Rightarrow> None
         | Some lines \<Rightarrow>
             (case scan_lines (local_line K s link_pc name) local_scan0 lines of
                Inr var \<Rightarrow> Some var
              | Inl st \<Rightarrow> if lc_reading st then finish_var_if_match K s (lc_var st) name else None))"

definition var_base_addr :: "'w cdbg \<Rightarrow> var_base \<Rightarrow> addr" where
  "var_base_addr s base =
     (case base of
        Base_SP \<Rightarrow> (case cdbg_regs_get_by_name (regs s) ''sp'' of None \<Rightarrow> 0 | Some sp \<Rightarrow> sp)
      | _ \<Rightarrow> cdbg_regs_fp (regs s))"

text \<open>A variable by name: a local of the function at the pc, or else a symbol, which counts
  as an unsigned long. The third result is \<^verbatim>\<open>found_local\<close>.\<close>

definition resolve_variable_address ::
    "'w kernel \<Rightarrow> 'w cdbg \<Rightarrow> string \<Rightarrow> (var_info \<times> addr \<times> bool) option" where
  "resolve_variable_address K s name =
     (case find_local_var K s name of
        Some var \<Rightarrow> Some (var, var_base_addr s (vi_base var) + word_of_int (vi_fbreg_offset var), True)
      | None \<Rightarrow>
          (case cdbg_syms_lookup_name (syms s) name of
             None \<Rightarrow> None
           | Some e \<Rightarrow>
               if se_address e = 0 \<or> se_type e = CHR ''U'' \<or> se_type e = CHR ''u'' then None
               else Some (complete_var_type K s
                            (zero_var\<lparr>vi_name := snprintf_s 128 name, vi_type := ''unsigned long''\<rparr>),
                          cdbg_syms_runtime_addr (syms s) (se_address e), False)))"

end
