(* ===== verification/Values.thy ===== *)
theory Values
  imports Dwarf
begin

text \<open>
  Scalar values of the debuggee in \<^verbatim>\<open>src/debugger.c\<close>: reading and writing them, sign
  extension, the formats of \<^verbatim>\<open>print\<close>, and the printing of scalars, structs and arrays.
\<close>

section \<open>Reading and writing\<close>

definition scalar_size :: "u64 \<Rightarrow> nat" where
  "scalar_size sz = (if sz = 0 \<or> sz > 8 then 8 else unat sz)"

definition read_scalar_value :: "'w kernel \<Rightarrow> pid \<Rightarrow> addr \<Rightarrow> u64 \<Rightarrow> 'w sys \<Rightarrow> u64 option \<times> 'w sys" where
  "read_scalar_value K p addr sz y =
     (let (buf, y) = cdbg_mem_read K p addr (scalar_size sz) y
      in (map_option le_word buf, y))"

definition write_scalar_value :: "'w kernel \<Rightarrow> pid \<Rightarrow> addr \<Rightarrow> u64 \<Rightarrow> u64 \<Rightarrow> 'w sys \<Rightarrow> bool \<times> 'w sys" where
  "write_scalar_value K p addr sz value y =
     cdbg_mem_write K p addr (le_bytes (scalar_size sz) value) y"

text \<open>The result is \<^verbatim>\<open>int64_t\<close>: the word, to be read with \<open>sint\<close>.\<close>

definition sign_extend_value :: "u64 \<Rightarrow> u64 \<Rightarrow> u64" where
  "sign_extend_value value sz =
     (if sz = 0 \<or> sz \<ge> 8 then value
      else let bits = unat sz * 8;
               sign = push_bit (bits - 1) 1;
               mask = push_bit bits 1 - 1;
               value = value AND mask
           in if value AND sign \<noteq> 0 then value OR NOT mask else value)"

definition mask_to_size :: "u64 \<Rightarrow> u64 \<Rightarrow> u64" where
  "mask_to_size value sz =
     (if sz = 0 \<or> sz \<ge> 8 then value
      else let bits = unat sz * 8; mask = push_bit bits 1 - 1 in value AND mask)"

text \<open>A string of the debuggee, cut to the buffer: \<open>i\<close> characters are in it already.\<close>

function read_c_string_loop ::
    "'w kernel \<Rightarrow> pid \<Rightarrow> addr \<Rightarrow> nat \<Rightarrow> nat \<Rightarrow> string \<Rightarrow> 'w sys \<Rightarrow> string option \<times> 'w sys" where
  "read_c_string_loop K p addr out_len i acc y =
     (if i + 1 < out_len
      then let (buf, y) = cdbg_mem_read K p (addr + of_nat i) 1 y
           in case buf of
                None \<Rightarrow> (None, y)
              | Some bs \<Rightarrow>
                  if hd bs = 0 then (Some acc, y)
                  else read_c_string_loop K p addr out_len (i + 1) (acc @ [char_of_byte (hd bs)]) y
      else (Some acc, y))"
  by pat_completeness auto
termination by (relation "measure (\<lambda>(K, p, a, n, i, acc, y). n - i)") auto

declare read_c_string_loop.simps [simp del]

definition read_c_string :: "'w kernel \<Rightarrow> pid \<Rightarrow> addr \<Rightarrow> nat \<Rightarrow> 'w sys \<Rightarrow> string option \<times> 'w sys" where
  "read_c_string K p addr out_len y =
     (if out_len = 0 then (None, y) else read_c_string_loop K p addr out_len 0 [] y)"

section \<open>Formats\<close>

datatype print_format = Fmt_DEFAULT | Fmt_DEC | Fmt_HEX | Fmt_OCT | Fmt_BIN | Fmt_CHAR | Fmt_STRING

definition CDBG_MAX_PRINT_STRING :: nat where "CDBG_MAX_PRINT_STRING = 256"

text \<open>The format in front of an expression, and the rest of the text.\<close>

definition parse_print_format :: "string \<Rightarrow> print_format \<times> string" where
  "parse_print_format expr =
     (if \<not> starts_with expr ''/'' then (Fmt_DEFAULT, expr)
      else let fmt = (if length expr < 2 then None
                      else map_of [(CHR ''d'', Fmt_DEC), (CHR ''i'', Fmt_DEC), (CHR ''x'', Fmt_HEX),
                             (CHR ''o'', Fmt_OCT), (CHR ''t'', Fmt_BIN), (CHR ''c'', Fmt_CHAR),
                             (CHR ''s'', Fmt_STRING)] (expr ! 1))
           in case fmt of
                None \<Rightarrow> (Fmt_DEFAULT, expr)
              | Some f \<Rightarrow>
                  if length expr > 2 \<and> \<not> isspace (expr ! 2) then (Fmt_DEFAULT, expr)
                  else (f, trim_space (drop 2 expr)))"

definition print_binary_value :: "u64 \<Rightarrow> u64 \<Rightarrow> string" where
  "print_binary_value value sz =
     (let bits = scalar_size sz * 8; value = mask_to_size value sz
      in map (\<lambda>i. if drop_bit (i - 1) value AND 1 \<noteq> 0 then CHR ''1'' else CHR ''0'') (rev [1..<Suc bits]))"

definition print_char_value :: "u8 \<Rightarrow> string" where
  "print_char_value ch =
     (let c = char_of_byte ch; q = CHR 0x27; bs = CHR 0x5C
      in if c = bs then [q, bs, bs, q]
         else if c = q then [q, bs, q, q]
         else if isprint c then [q, c, q]
         else [q, bs, CHR ''x''] @ fmt_02x ch @ [q])"

text \<open>\<^verbatim>\<open>%#llo\<close>.\<close>

definition fmt_o :: "u64 \<Rightarrow> string" where
  "fmt_o w = (if w = 0 then ''0'' else ''0'' @ digits_of 8 (unat w))"

section \<open>Printing scalars\<close>

definition type_annotation :: "'w kernel \<Rightarrow> 'w cdbg \<Rightarrow> print_format \<Rightarrow> string \<Rightarrow> string" where
  "type_annotation K s fmt type =
     (if print_pretty s \<and> fmt = Fmt_DEFAULT \<and> type \<noteq> []
      then ''('' @ format_type_for_display K s type 256 @ '') '' else [])"

text \<open>The annotation printed by itself.\<close>

definition annotate :: "'w kernel \<Rightarrow> print_format \<Rightarrow> string \<Rightarrow> 'w cdbg \<Rightarrow> 'w cdbg" where
  "annotate K fmt type s =
     (let t = type_annotation K s fmt type in if t = [] then s else out t s)"

definition print_scalar_result_fmt ::
    "'w kernel \<Rightarrow> string \<Rightarrow> print_format \<Rightarrow> u64 \<Rightarrow> u64 \<Rightarrow> bool \<Rightarrow> bool \<Rightarrow> bool \<Rightarrow> string \<Rightarrow> 'w cdbg \<Rightarrow> 'w cdbg" where
  "print_scalar_result_fmt K label fmt value sz is_signed is_pointer is_address type s =
     (let value = mask_to_size value sz;
          start = label @ '' = '' @ type_annotation K s fmt type
      in case fmt of
           Fmt_HEX \<Rightarrow> out (start @ ''0x'' @ fmt_x value @ nl) s
         | Fmt_OCT \<Rightarrow> out (start @ fmt_o value @ nl) s
         | Fmt_BIN \<Rightarrow> out (start @ print_binary_value value sz @ nl) s
         | Fmt_CHAR \<Rightarrow> out (start @ print_char_value (ucast value) @ nl) s
         | Fmt_STRING \<Rightarrow>
             (let (str, s) = on_sys (read_c_string K (pid s) value CDBG_MAX_PRINT_STRING) s
              in case str of
                   None \<Rightarrow> err (''Cannot read string at 0x'' @ fmt_x value @ nl) s
                 | Some t \<Rightarrow> out (start @ [CHR 0x22] @ t @ [CHR 0x22] @ nl) s)
         | Fmt_DEC \<Rightarrow>
             out (start @ (if is_signed then fmt_d (sint (sign_extend_value value sz))
                           else fmt_u (unat value)) @ nl) s
         | Fmt_DEFAULT \<Rightarrow>
             if is_pointer \<or> is_address then out (start @ fmt_0x16 value @ nl) s
             else out (start @ (if is_signed then fmt_d (sint (sign_extend_value value sz))
                                else fmt_u (unat value))
                       @ '' (0x'' @ fmt_x value @ '')'' @ nl) s)"

definition print_scalar_result :: "string \<Rightarrow> u64 \<Rightarrow> u64 \<Rightarrow> bool \<Rightarrow> bool \<Rightarrow> string" where
  "print_scalar_result label value sz is_signed is_pointer =
     (if is_pointer then label @ '' = '' @ fmt_0x16 value @ nl
      else label @ '' = '' @ (if is_signed then fmt_d (sint (sign_extend_value value sz))
                            else fmt_u (unat value))
           @ '' (0x'' @ fmt_x value @ '')'' @ nl)"

definition is_simple_identifier :: "string \<Rightarrow> bool" where
  "is_simple_identifier expr \<longleftrightarrow>
     expr \<noteq> [] \<and> (isalpha (hd expr) \<or> hd expr = CHR ''_'')
     \<and> list_all (\<lambda>c. isalnum c \<or> c = CHR ''_'') (tl expr)"

definition print_scalar_inline :: "u64 \<Rightarrow> u64 \<Rightarrow> bool \<Rightarrow> bool \<Rightarrow> string" where
  "print_scalar_inline value sz is_signed is_pointer =
     (if is_pointer then ''0x'' @ fmt_x value
      else if is_signed then fmt_d (sint (sign_extend_value value sz)) else fmt_u (unat value))"

section \<open>Printing structs and arrays\<close>

text \<open>The members from the \<open>i\<close>th on. What has been printed stays when a member cannot be
  read.\<close>

fun print_members ::
    "'w kernel \<Rightarrow> addr \<Rightarrow> bool \<Rightarrow> nat \<Rightarrow> struct_member list \<Rightarrow> 'w cdbg \<Rightarrow> bool \<times> 'w cdbg" where
  "print_members K addr pretty i [] s = (True, s)"
| "print_members K addr pretty i (m # ms) s =
     (let (value, s) = on_sys (read_scalar_value K (pid s) (addr + sm_offset m) (sm_size m)) s
      in case value of
           None \<Rightarrow> (False, s)
         | Some v \<Rightarrow>
             (let item = print_scalar_inline v (sm_size m) (sm_signed m) False;
                  text = (if pretty
                          then ''  '' @ sm_name m @ '' = '' @ type_annotation K s Fmt_DEFAULT (sm_type m) @ item @ nl
                          else (if i > 0 then '', '' else []) @ sm_name m @ ''='' @ item)
              in print_members K addr pretty (i + 1) ms (out text s)))"

definition print_struct_element ::
    "'w kernel \<Rightarrow> addr \<Rightarrow> struct_member list \<Rightarrow> bool \<Rightarrow> 'w cdbg \<Rightarrow> bool \<times> 'w cdbg" where
  "print_struct_element K addr members pretty s =
     (let s = out (if pretty then ''{'' @ nl else ''{'') s;
          (ok, s) = print_members K addr pretty 0 members s
      in if \<not> ok then (False, s) else (True, out ''}'' s))"

definition pointer_pointee_type :: "var_info \<Rightarrow> nat \<Rightarrow> string" where
  "pointer_pointee_type var out_len =
     (if strchr (vi_type var) CHR ''*'' = None then snprintf_s out_len (vi_type var)
      else let base = rev (dropWhile (\<lambda>c. c = CHR '' '') (rev (takeWhile (\<lambda>c. c \<noteq> CHR ''*'') (vi_type var))))
           in if length base \<ge> out_len then take (out_len - 1) base else base)"

text \<open>An element of an array, or of what a pointer points to: the view of it (whose
  \<open>vi_element_type\<close> and \<open>vi_element_size\<close> are used) and its address.\<close>

definition resolve_subscript_element ::
    "'w kernel \<Rightarrow> string \<Rightarrow> u64 \<Rightarrow> 'w cdbg \<Rightarrow> (var_info \<times> addr) option \<times> 'w cdbg" where
  "resolve_subscript_element K var_name index s =
     (case resolve_variable_address K s var_name of
        None \<Rightarrow> (None, err (''Unknown variable: '' @ var_name @ nl) s)
      | Some (var, addr, _) \<Rightarrow>
          if vi_is_array var
          then if index \<ge> vi_array_count var
               then (None, err (''Array index out of bounds: '' @ fmt_u (unat index) @ nl) s)
               else (Some (var, addr + index * vi_element_size var), s)
          else if vi_is_pointer var
          then let (ptr, s) = on_sys (read_scalar_value K (pid s) addr 8) s
               in case ptr of
                    None \<Rightarrow> (None, s)
                  | Some ptr \<Rightarrow>
                      (let pointee_type = pointer_pointee_type var 128;
                           sz = type_element_size K s pointee_type
                       in (Some (zero_var\<lparr>vi_element_type := snprintf_s 128 pointee_type,
                                   vi_element_size := sz\<rparr>, ptr + index * sz), s))
          else (None, err (var_name @ '' is not an array or pointer'' @ nl) s))"

definition print_array_element_value ::
    "'w kernel \<Rightarrow> var_info \<Rightarrow> addr \<Rightarrow> 'w cdbg \<Rightarrow> bool \<times> 'w cdbg" where
  "print_array_element_value K var elem_addr s =
     (let type = vi_element_type var;
          struct = (if type_is_scalar type then None else dwarf_lookup_struct K s type 32)
      in case struct of
           Some (members, _) \<Rightarrow>
             print_struct_element K elem_addr members False (annotate K Fmt_DEFAULT type s)
         | None \<Rightarrow>
             (let (value, s) = on_sys (read_scalar_value K (pid s) elem_addr (vi_element_size var)) s
              in case value of
                   None \<Rightarrow> (False, s)
                 | Some v \<Rightarrow>
                     (True, out (type_annotation K s Fmt_DEFAULT type
                              @ print_scalar_inline v (vi_element_size var) (\<not> contains type ''unsigned'')
                                  (strchr type CHR ''*'' \<noteq> None)
                              @ '' (0x'' @ fmt_x v @ '')'') s)))"

definition CDBG_MAX_ARRAY_PRINT :: u64 where "CDBG_MAX_ARRAY_PRINT = 256"

fun print_elements :: "'w kernel \<Rightarrow> var_info \<Rightarrow> addr \<Rightarrow> nat \<Rightarrow> nat \<Rightarrow> 'w cdbg \<Rightarrow> bool \<times> 'w cdbg" where
  "print_elements K var base i 0 s = (True, s)"
| "print_elements K var base i (Suc n) s =
     (let s = (if print_pretty s then out (''  ['' @ fmt_u i @ ''] '') s
               else if i > 0 then out '', '' s else s);
          (ok, s) = print_array_element_value K var (base + of_nat i * vi_element_size var) s
      in if \<not> ok then (False, s)
         else print_elements K var base (i + 1) n (if print_pretty s then out nl s else s))"

definition print_array_variable ::
    "'w kernel \<Rightarrow> string \<Rightarrow> var_info \<Rightarrow> addr \<Rightarrow> 'w cdbg \<Rightarrow> bool \<times> 'w cdbg" where
  "print_array_variable K name var base s =
     (if vi_array_count var = 0 \<or> vi_element_size var = 0 then (False, s)
      else if vi_array_count var > CDBG_MAX_ARRAY_PRINT
      then (False, err (''Array too large to print ('' @ fmt_u (unat (vi_array_count var)) @ '' elements)'' @ nl) s)
      else let s = out (if print_pretty s
                        then name @ '' = '' @ type_annotation K s Fmt_DEFAULT (vi_type var) @ ''['' @ nl
                        else name @ '' = ['') s;
               (ok, s) = print_elements K var base 0 (unat (vi_array_count var)) s
           in if \<not> ok then (False, s) else (True, out ('']'' @ nl) s))"

text \<open>A struct printed as \<^verbatim>\<open>name = { ... }\<close>.\<close>

definition print_struct_variable ::
    "'w kernel \<Rightarrow> string \<Rightarrow> string \<Rightarrow> addr \<Rightarrow> struct_member list \<Rightarrow> 'w cdbg \<Rightarrow> bool \<times> 'w cdbg" where
  "print_struct_variable K label type addr members s =
     (let s = out (label @ '' = '' @ type_annotation K s Fmt_DEFAULT type) s;
          (ok, s) = print_struct_element K addr members (print_pretty s) s
      in if \<not> ok then (False, s) else (True, out nl s))"

definition print_named_variable :: "'w kernel \<Rightarrow> var_info \<Rightarrow> addr \<Rightarrow> 'w cdbg \<Rightarrow> bool \<times> 'w cdbg" where
  "print_named_variable K var addr s =
     (let name = vi_name var; type = vi_type var
      in if vi_is_array var then print_array_variable K name var addr s
         else case (if \<not> vi_is_pointer var \<and> \<not> type_is_scalar type then dwarf_lookup_struct K s type 32 else None) of
                Some (members, _) \<Rightarrow> print_struct_variable K name type addr members s
              | None \<Rightarrow>
                  (let (value, s) = on_sys (read_scalar_value K (pid s) addr (vi_size var)) s
                   in case value of
                        None \<Rightarrow> (False, s)
                      | Some v \<Rightarrow>
                          (True, print_scalar_result_fmt K name Fmt_DEFAULT v (vi_size var) (vi_is_signed var)
                             (vi_is_pointer var) False type s)))"

end
