(* ===== verification/Eval.thy ===== *)
theory Eval
  imports Values Expr Display
begin

text \<open>
  \<^verbatim>\<open>src/expr_eval.c\<close>: the evaluation of an expression to an lvalue or a value. The three
  mutually recursive functions pass the state along, as they read the debuggee and write
  messages; a failure is \<open>None\<close>.
\<close>

section \<open>Results\<close>

record lvalue =
  lv_addr :: addr
  lv_size :: u64
  lv_signed :: bool
  lv_type :: string

text \<open>\<^verbatim>\<open>cdbg_expr_result_t\<close>. The \<^verbatim>\<open>double\<close> kept beside the value is the one its bits denote,
  as in the syntax tree, so \<open>er_value\<close> carries both.\<close>

record expr_result =
  er_value :: u64
  er_is_float :: bool
  er_is_address :: bool
  er_type :: string

definition plain_result :: "u64 \<Rightarrow> expr_result" where
  "plain_result v = \<lparr>er_value = v, er_is_float = False, er_is_address = False, er_type = []\<rparr>"

section \<open>Pointer types as text\<close>

definition strip_spaces :: "string \<Rightarrow> string" where
  "strip_spaces s = rev (dropWhile (\<lambda>c. c = CHR '' '') (rev s))"

definition make_pointer_type :: "string \<Rightarrow> nat \<Rightarrow> string" where
  "make_pointer_type base_type out_len =
     (if base_type = [] then []
      else let base = strip_spaces base_type;
               base = (if length base \<ge> out_len - 3 then take (out_len - 4) base else base)
           in base @ snprintf_s (out_len - length base) '' *'')"

definition strip_pointer_star :: "string \<Rightarrow> nat \<Rightarrow> string" where
  "strip_pointer_star type out_len =
     (if strchr type CHR ''*'' = None then []
      else let base = strip_spaces (takeWhile (\<lambda>c. c \<noteq> CHR ''*'') type)
           in if length base \<ge> out_len then take (out_len - 1) base else base)"

section \<open>Operators\<close>

text \<open>A shift by 64 or more is undefined in C; the shift instructions of arm64 take the
  amount modulo 64. \<open>Inl\<close> is the message of the error.\<close>

definition truth :: "bool \<Rightarrow> u64" where "truth b = (if b then 1 else 0)"

fun combine_binary :: "u64 \<Rightarrow> u64 \<Rightarrow> cdbg_expr_op \<Rightarrow> string + u64" where
  "combine_binary left right Op_ADD = Inr (left + right)"
| "combine_binary left right Op_SUB = Inr (left - right)"
| "combine_binary left right Op_MUL = Inr (left * right)"
| "combine_binary left right Op_DIV =
     (if right = 0 then Inl (''Division by zero'' @ nl) else Inr (left div right))"
| "combine_binary left right Op_MOD =
     (if right = 0 then Inl (''Division by zero'' @ nl) else Inr (left mod right))"
| "combine_binary left right Op_SHL = Inr (push_bit (unat right mod 64) left)"
| "combine_binary left right Op_SHR = Inr (drop_bit (unat right mod 64) left)"
| "combine_binary left right Op_LT = Inr (truth (left < right))"
| "combine_binary left right Op_GT = Inr (truth (left > right))"
| "combine_binary left right Op_LE = Inr (truth (left \<le> right))"
| "combine_binary left right Op_GE = Inr (truth (left \<ge> right))"
| "combine_binary left right Op_EQ = Inr (truth (left = right))"
| "combine_binary left right Op_NE = Inr (truth (left \<noteq> right))"
| "combine_binary left right Op_BAND = Inr (left AND right)"
| "combine_binary left right Op_BXOR = Inr (left XOR right)"
| "combine_binary left right Op_BOR = Inr (left OR right)"
| "combine_binary left right Op_LAND = Inr (truth (left \<noteq> 0 \<and> right \<noteq> 0))"
| "combine_binary left right Op_LOR = Inr (truth (left \<noteq> 0 \<or> right \<noteq> 0))"
| "combine_binary left right _ = Inl (''Invalid operator'' @ nl)"

text \<open>The unary operators on a result. Negating a double flips the sign bit.\<close>

fun combine_unary :: "cdbg_expr_op \<Rightarrow> expr_result \<Rightarrow> string + expr_result" where
  "combine_unary Op_POS r = Inr r"
| "combine_unary Op_NEG r =
     Inr (if er_is_float r then (plain_result (er_value r XOR push_bit 63 1))\<lparr>er_is_float := True\<rparr>
          else plain_result (- er_value r))"
| "combine_unary Op_NOT r = Inr (plain_result (if er_value r \<noteq> 0 then 0 else 1))"
| "combine_unary Op_BNOT r = Inr (plain_result (NOT (er_value r)))"
| "combine_unary _ r = Inl (''Invalid operator'' @ nl)"

section \<open>Evaluation\<close>

text \<open>The error monad of the evaluator: a step that fails ends it.\<close>

type_synonym ('r, 'w) ev = "'w cdbg \<Rightarrow> 'r option \<times> 'w cdbg"

definition ev_bind :: "('r, 'w) ev \<Rightarrow> ('r \<Rightarrow> ('q, 'w) ev) \<Rightarrow> ('q, 'w) ev" where
  "ev_bind m f s = (let (r, s) = m s in case r of None \<Rightarrow> (None, s) | Some r \<Rightarrow> f r s)"

lemma ev_bind_cong [fundef_cong]:
  assumes "m s = m' s'" and "\<And>r t. m' s' = (Some r, t) \<Longrightarrow> f r t = f' r t" and "s = s'"
  shows "ev_bind m f s = ev_bind m' f' s'"
  using assms by (auto simp: ev_bind_def split: option.split prod.split)

definition ev_return :: "'r \<Rightarrow> ('r, 'w) ev" where "ev_return r s = (Some r, s)"

definition ev_fail :: "string \<Rightarrow> ('r, 'w) ev" where "ev_fail msg s = (None, err msg s)"

definition ev_read :: "'w kernel \<Rightarrow> addr \<Rightarrow> u64 \<Rightarrow> (u64, 'w) ev" where
  "ev_read K a sz s = on_sys (read_scalar_value K (pid s) a sz) s"

definition ev_variable :: "'w kernel \<Rightarrow> string \<Rightarrow> (var_info \<times> addr, 'w) ev" where
  "ev_variable K name s =
     (case resolve_variable_address K s name of
        None \<Rightarrow> (None, err (''Unknown variable: '' @ name @ nl) s)
      | Some (var, addr, _) \<Rightarrow> (Some (var, addr), s))"

definition signed_type :: "string \<Rightarrow> bool" where
  "signed_type type \<longleftrightarrow> \<not> contains type ''unsigned''"

text \<open>The object a pointer value designates: a number without a type counts as eight
  unsigned bytes when it is dereferenced.\<close>

definition deref_lvalue :: "'w kernel \<Rightarrow> u64 \<Rightarrow> string \<Rightarrow> (lvalue, 'w) ev" where
  "deref_lvalue K ptr pointee s =
     (Some (if pointee \<noteq> []
            then \<lparr>lv_addr = ptr, lv_size = type_element_size K s pointee, lv_signed = signed_type pointee,
                  lv_type = snprintf_s 128 pointee\<rparr>
            else \<lparr>lv_addr = ptr, lv_size = 8, lv_signed = False, lv_type = []\<rparr>), s)"

definition member_lvalue :: "'w kernel \<Rightarrow> addr \<Rightarrow> string \<Rightarrow> string \<Rightarrow> (lvalue, 'w) ev" where
  "member_lvalue K base base_type ident s =
     (case lookup_struct_member K s base_type ident of
        None \<Rightarrow> ev_fail (''Unknown member: '' @ ident @ nl) s
      | Some m \<Rightarrow>
          (Some \<lparr>lv_addr = base + sm_offset m, lv_size = sm_size m, lv_signed = sm_signed m,
                 lv_type = snprintf_s 128 (if sm_type m \<noteq> [] then snprintf_s 128 (sm_type m) else base_type)\<rparr>, s))"

definition element_lvalue :: "'w kernel \<Rightarrow> u64 \<Rightarrow> string \<Rightarrow> u64 \<Rightarrow> (lvalue, 'w) ev" where
  "element_lvalue K ptr pointee index s =
     (let sz = (if pointee \<noteq> [] then type_element_size K s pointee else 8)
      in (Some \<lparr>lv_addr = ptr + index * sz, lv_size = sz, lv_signed = signed_type pointee,
                lv_type = snprintf_s 128 pointee\<rparr>, s))"

definition variable_lvalue :: "string \<Rightarrow> var_info \<times> addr \<Rightarrow> (lvalue, 'w) ev" where
  "variable_lvalue name = (\<lambda>(var, addr).
     if vi_is_array var
     then ev_fail (''Cannot use array '' @ [CHR 0x22] @ name @ [CHR 0x22] @ '' directly; index it first'' @ nl)
     else ev_return \<lparr>lv_addr = addr, lv_size = vi_size var, lv_signed = vi_is_signed var,
                     lv_type = snprintf_s 128 (vi_type var)\<rparr>)"

text \<open>The pointer stored in a variable, with the type it points to.\<close>

definition variable_pointer :: "'w kernel \<Rightarrow> string \<Rightarrow> (u64 \<times> string, 'w) ev" where
  "variable_pointer K name =
     ev_bind (ev_variable K name) (\<lambda>(var, addr).
       if \<not> vi_is_pointer var then ev_fail (name @ '' is not a pointer'' @ nl)
       else ev_bind (ev_read K addr 8) (\<lambda>ptr. ev_return (ptr, pointer_pointee_type var 128)))"

definition lvalue_pointer :: "'w kernel \<Rightarrow> lvalue \<Rightarrow> (u64 \<times> string, 'w) ev" where
  "lvalue_pointer K lv =
     (if strchr (lv_type lv) CHR ''*'' = None then ev_fail (''Not a pointer'' @ nl)
      else ev_bind (ev_read K (lv_addr lv) 8) (\<lambda>ptr. ev_return (ptr, strip_pointer_star (lv_type lv) 128)))"

definition lvalue_result :: "'w kernel \<Rightarrow> addr \<Rightarrow> u64 \<Rightarrow> string \<Rightarrow> (expr_result, 'w) ev" where
  "lvalue_result K a sz type =
     ev_bind (ev_read K a sz) (\<lambda>v. ev_return ((plain_result v)\<lparr>er_type := snprintf_s 128 type\<rparr>))"

definition or_fail :: "string + 'r \<Rightarrow> ('r, 'w) ev" where
  "or_fail r = (case r of Inl msg \<Rightarrow> ev_fail msg | Inr v \<Rightarrow> ev_return v)"

fun has_lvalue_shape :: "cdbg_expr \<Rightarrow> bool" where
  "has_lvalue_shape (Member e x) = True"
| "has_lvalue_shape (Arrow e x) = True"
| "has_lvalue_shape (Index e i) = True"
| "has_lvalue_shape (Deref e) = True"
| "has_lvalue_shape e = False"

function (sequential)
      eval_as_pointer :: "'w kernel \<Rightarrow> cdbg_expr \<Rightarrow> (u64 \<times> string, 'w) ev"
  and eval_lvalue :: "'w kernel \<Rightarrow> cdbg_expr \<Rightarrow> (lvalue, 'w) ev"
  and eval_value :: "'w kernel \<Rightarrow> cdbg_expr \<Rightarrow> (expr_result, 'w) ev"
where
  "eval_as_pointer K (Ident name) s = variable_pointer K name s"
| "eval_as_pointer K node s =
     (if has_lvalue_shape node then ev_bind (eval_lvalue K node) (lvalue_pointer K) s
      else ev_bind (eval_value K node) (\<lambda>val. ev_return (er_value val, [])) s)"
| "eval_lvalue K (Ident name) s = ev_bind (ev_variable K name) (variable_lvalue name) s"
| "eval_lvalue K (Deref e) s =
     ev_bind (eval_as_pointer K e) (\<lambda>(ptr, pointee). deref_lvalue K ptr pointee) s"
| "eval_lvalue K (Arrow e x) s =
     ev_bind (eval_as_pointer K e) (\<lambda>(ptr, pointee). member_lvalue K ptr pointee x) s"
| "eval_lvalue K (Member e x) s =
     ev_bind (eval_lvalue K e) (\<lambda>lv. member_lvalue K (lv_addr lv) (snprintf_s 128 (lv_type lv)) x) s"
| "eval_lvalue K (Index (Ident name) i) s =
     ev_bind (eval_value K i) (\<lambda>idx.
       ev_bind (resolve_subscript_element K name (er_value idx)) (\<lambda>(view, addr).
         ev_return \<lparr>lv_addr = addr, lv_size = vi_element_size view,
           lv_signed = signed_type (vi_element_type view), lv_type = snprintf_s 128 (vi_element_type view)\<rparr>)) s"
| "eval_lvalue K (Index e i) s =
     ev_bind (eval_value K i) (\<lambda>idx.
       ev_bind (eval_as_pointer K e) (\<lambda>(ptr, pointee). element_lvalue K ptr pointee (er_value idx))) s"
| "eval_lvalue K e s = (None, s)"
| "eval_value K (Num v is_float) s = (Some ((plain_result v)\<lparr>er_is_float := is_float\<rparr>), s)"
| "eval_value K (Ident name) s =
     ev_bind (ev_variable K name) (\<lambda>(var, addr). lvalue_result K addr (vi_size var) (vi_type var)) s"
| "eval_value K (Addr e) s =
     ev_bind (eval_lvalue K e) (\<lambda>lv.
       ev_return ((plain_result (lv_addr lv))\<lparr>er_is_address := True, er_type := make_pointer_type (lv_type lv) 128\<rparr>)) s"
| "eval_value K (Unary op e) s = ev_bind (eval_value K e) (\<lambda>r. or_fail (combine_unary op r)) s"
| "eval_value K (Binary op l r) s =
     ev_bind (eval_value K l) (\<lambda>l.
       ev_bind (eval_value K r) (\<lambda>r.
         or_fail (map_sum id plain_result (combine_binary (er_value l) (er_value r) op)))) s"
| "eval_value K e s = ev_bind (eval_lvalue K e) (\<lambda>lv. lvalue_result K (lv_addr lv) (lv_size lv) (lv_type lv)) s"
  by pat_completeness auto
termination
  by (relation "measure (\<lambda>x. case x of Inl (K, e, s) \<Rightarrow> 3 * size e + 2
        | Inr (Inl (K, e, s)) \<Rightarrow> 3 * size e | Inr (Inr (K, e, s)) \<Rightarrow> 3 * size e + 1)") auto

section \<open>Entry points\<close>

text \<open>A syntax error is reported by \<^verbatim>\<open>expr_error\<close>.\<close>

definition ev_parse :: "(string \<Rightarrow> u64) \<Rightarrow> string \<Rightarrow> (cdbg_expr, 'w) ev" where
  "ev_parse strtod text s =
     (case cdbg_expr_parse strtod text of
        None \<Rightarrow> ev_fail (''syntax error'' @ nl) s
      | Some e \<Rightarrow> (Some e, s))"

definition cdbg_expr_eval :: "'w kernel \<Rightarrow> (string \<Rightarrow> u64) \<Rightarrow> string \<Rightarrow> (expr_result, 'w) ev" where
  "cdbg_expr_eval K strtod text s =
     (let (ok, s) = cdbg_language_check_expr s
      in if \<not> ok then (None, s)
         else let (ok, s) = cdbg_refresh_regs K s
              in if \<not> ok then (None, s) else ev_bind (ev_parse strtod text) (eval_value K) s)"

fun terminal_shape :: "cdbg_expr \<Rightarrow> bool" where
  "terminal_shape (Ident x) = True"
| "terminal_shape (Deref e) = True"
| "terminal_shape (Index e i) = True"
| "terminal_shape e = False"

text \<open>The lvalue of a text, and whether it is a whole struct.\<close>

definition cdbg_expr_eval_lvalue :: "'w kernel \<Rightarrow> (string \<Rightarrow> u64) \<Rightarrow> string \<Rightarrow> (lvalue \<times> bool, 'w) ev" where
  "cdbg_expr_eval_lvalue K strtod text =
     ev_bind (ev_parse strtod text) (\<lambda>root.
       case root of
         Addr e \<Rightarrow> ev_fail (''Cannot use an address expression as an lvalue'' @ nl)
       | _ \<Rightarrow>
           ev_bind (eval_lvalue K root) (\<lambda>lv.
             ev_return (lv, terminal_shape root \<and> lv_type lv \<noteq> [] \<and> \<not> type_is_scalar (lv_type lv))))"

end
