(* ===== verification/Tables.thy ===== *)
theory Tables
  imports Control
begin

text \<open>
  The commands of \<^verbatim>\<open>src/debugger.c\<close> that keep the two tables: \<^verbatim>\<open>break\<close>, \<^verbatim>\<open>del\<close>,
  \<^verbatim>\<open>delwatch\<close> and the choice of a hardware slot; and the commands that resolve a place in
  the source the same way, \<^verbatim>\<open>dis\<close>, \<^verbatim>\<open>list\<close>, \<^verbatim>\<open>lines\<close>. The two deletions share one
  contract, stated as a locale and interpreted on both tables.
\<close>

section \<open>Deleting by number\<close>

definition remove_nth :: "nat \<Rightarrow> 'a list \<Rightarrow> 'a list" where
  "remove_nth i xs = take i xs @ drop (Suc i) xs"

definition delete_breakpoint_at :: "'w kernel \<Rightarrow> nat \<Rightarrow> 'w cdbg \<Rightarrow> bool \<times> 'w cdbg" where
  "delete_breakpoint_at K index s =
     (if index \<ge> length (breakpoints s)
      then (False, err (''No breakpoint number '' @ fmt_u index @ nl) s)
      else let ((ok, bp), s) =
             (if pid s > 0 \<and> state s \<noteq> State_IDLE
              then on_sys (cdbg_bp_disable K (breakpoints s ! index) (pid s)) s
              else ((True, (breakpoints s ! index)\<lparr>bp_enabled := False\<rparr>), s));
             bps = (breakpoints s)[index := bp]
           in if \<not> ok then (False, s\<lparr>breakpoints := bps\<rparr>)
              else (True, s\<lparr>breakpoints := remove_nth index bps\<rparr>))"

definition delete_watchpoint_at :: "'w kernel \<Rightarrow> nat \<Rightarrow> 'w cdbg \<Rightarrow> bool \<times> 'w cdbg" where
  "delete_watchpoint_at K index s =
     (if index \<ge> length (watchpoints s)
      then (False, err (''No watchpoint number '' @ fmt_u index @ nl) s)
      else let s = (if pid s > 0 \<and> state s \<noteq> State_IDLE
                    then s\<lparr>dsys := disarm_watchpoint_all_threads K (pid s) (watchpoints s ! index) (dsys s)\<rparr>
                    else s)
           in (True, s\<lparr>watchpoints := remove_nth index (watchpoints s)\<rparr>))"

text \<open>The numbers of a command, without repetitions and in the order given; the message when
  one is not a number or out of range.\<close>

fun collect_indices :: "string \<Rightarrow> nat \<Rightarrow> string list \<Rightarrow> nat list \<Rightarrow> string + nat list" where
  "collect_indices what n [] indices = Inr indices"
| "collect_indices what n (token # tokens) indices =
     (case parse_u64 token of
        None \<Rightarrow> Inl (''Invalid '' @ what @ '' number: '' @ token @ nl)
      | Some number \<Rightarrow>
          if unat number \<ge> n
          then Inl (''No '' @ what @ '' number '' @ fmt_u (unat number) @ nl)
          else collect_indices what n tokens
                 (if unat number \<in> set indices then indices else indices @ [unat number]))"

text \<open>The exchange sort of the code, largest first: one pass brings the maximum to the
  front.\<close>

fun exchange_pass :: "nat \<Rightarrow> nat list \<Rightarrow> nat \<times> nat list" where
  "exchange_pass x [] = (x, [])"
| "exchange_pass x (y # ys) =
     (if y > x then let (m, r) = exchange_pass y ys in (m, x # r)
      else let (m, r) = exchange_pass x ys in (m, y # r))"

lemma length_exchange_pass [simp]: "length (snd (exchange_pass x ys)) = length ys"
  by (induction ys arbitrary: x) (simp_all add: split_beta)

function exchange_sort :: "nat list \<Rightarrow> nat list" where
  "exchange_sort [] = []"
| "exchange_sort (x # xs) = (let (m, r) = exchange_pass x xs in m # exchange_sort r)"
  by pat_completeness auto
termination
proof (relation "measure length", goal_cases)
  case (2 x xs p m r)
  then show ?case using length_exchange_pass [of x xs] by (simp add: prod_eq_iff)
qed simp

fun delete_each ::
    "(nat \<Rightarrow> 's \<Rightarrow> bool \<times> 's) \<Rightarrow> (nat \<Rightarrow> 's \<Rightarrow> 's) \<Rightarrow> nat list \<Rightarrow> 's \<Rightarrow> bool \<times> 's" where
  "delete_each delete_at announce [] s = (True, s)"
| "delete_each delete_at announce (i # is) s =
     (let (ok, s) = delete_at i (announce i s)
      in if \<not> ok then (False, s) else delete_each delete_at announce is s)"

text \<open>\<^verbatim>\<open>while (count > 0) delete_at(count - 1)\<close>, started with \<open>n\<close> the count.\<close>

fun delete_down :: "(nat \<Rightarrow> 's \<Rightarrow> bool \<times> 's) \<Rightarrow> nat \<Rightarrow> 's \<Rightarrow> bool \<times> 's" where
  "delete_down delete_at 0 s = (True, s)"
| "delete_down delete_at (Suc n) s =
     (let (ok, s) = delete_at n s in if \<not> ok then (False, s) else delete_down delete_at n s)"

definition cmd_del :: "'w kernel \<Rightarrow> string option \<Rightarrow> 'w cdbg \<Rightarrow> bool \<times> 'w cdbg" where
  "cmd_del K args s =
     (let usage = ''Usage: del <n> [n...] | del all'' @ nl
      in if breakpoints s = [] then (True, out (''No breakpoints.'' @ nl) s)
         else case map_option trim_space args of
                None \<Rightarrow> (False, err usage s)
              | Some a \<Rightarrow>
                  if a = [] then (False, err usage s)
                  else if a = ''all''
                  then let (ok, s) = delete_down (delete_breakpoint_at K) (length (breakpoints s)) s
                       in if \<not> ok then (False, s) else (True, out (''All breakpoints deleted.'' @ nl) s)
                  else case collect_indices ''breakpoint'' (length (breakpoints s))
                              (strtok (snprintf_s 256 a) ('' '' @ [CHR 0x09])) [] of
                         Inl msg \<Rightarrow> (False, err msg s)
                       | Inr indices \<Rightarrow>
                           delete_each (delete_breakpoint_at K)
                             (\<lambda>i. out (''Deleting breakpoint '' @ fmt_u i @ nl))
                             (exchange_sort indices) s)"

definition cmd_delwatch :: "'w kernel \<Rightarrow> string option \<Rightarrow> 'w cdbg \<Rightarrow> bool \<times> 'w cdbg" where
  "cmd_delwatch K args s =
     (let usage = ''Usage: delwatch <n> [n...] | delwatch all'' @ nl
      in if watchpoints s = [] then (True, out (''No watchpoints.'' @ nl) s)
         else case map_option trim_space args of
                None \<Rightarrow> (False, err usage s)
              | Some a \<Rightarrow>
                  if a = [] then (False, err usage s)
                  else if a = ''all''
                  then let (ok, s) = delete_down (delete_watchpoint_at K) (length (watchpoints s)) s
                       in if \<not> ok then (False, s) else (True, out (''All watchpoints deleted.'' @ nl) s)
                  else case collect_indices ''watchpoint'' (length (watchpoints s))
                              (strtok (snprintf_s 256 a) ('' '' @ [CHR 0x09])) [] of
                         Inl msg \<Rightarrow> (False, err msg s)
                       | Inr indices \<Rightarrow>
                           delete_each (delete_watchpoint_at K)
                             (\<lambda>i. out (''Deleting watchpoint '' @ fmt_u i @ nl))
                             (exchange_sort indices) s)"

section \<open>The order of deletion\<close>

lemma exchange_pass_props:
  "exchange_pass x ys = (m, r) \<Longrightarrow> mset (m # r) = mset (x # ys) \<and> (\<forall>z \<in> set (x # ys). z \<le> m)"
proof (induction ys arbitrary: x m r)
  case (Cons y ys)
  show ?case
  proof (cases "y > x")
    case True
    then obtain r' where "exchange_pass y ys = (m, r')" "r = x # r'"
      using Cons.prems by (auto split: prod.splits)
    with Cons.IH [of y m r'] True show ?thesis by auto
  next
    case False
    then obtain r' where "exchange_pass x ys = (m, r')" "r = y # r'"
      using Cons.prems by (auto split: prod.splits)
    with Cons.IH [of x m r'] False show ?thesis by auto
  qed
qed auto

lemma mset_exchange_sort [simp]: "mset (exchange_sort xs) = mset xs"
proof (induction xs rule: exchange_sort.induct)
  case (2 x xs)
  obtain m r where p: "exchange_pass x xs = (m, r)" by (metis prod.exhaust)
  with 2 [of "(m, r)"] exchange_pass_props [OF p] show ?case by simp
qed simp

lemma set_exchange_sort [simp]: "set (exchange_sort xs) = set xs"
  by (metis mset_exchange_sort set_mset_mset)

lemma exchange_sort_descending: "sorted_wrt (\<lambda>a b. b \<le> a) (exchange_sort xs)"
proof (induction xs rule: exchange_sort.induct)
  case (2 x xs)
  obtain m r where p: "exchange_pass x xs = (m, r)" by (metis prod.exhaust)
  have "set (m # r) = set (x # xs)" "\<forall>z \<in> set (x # xs). z \<le> m"
    using exchange_pass_props [OF p] by (metis set_mset_mset, blast)
  with 2 [of "(m, r)"] p show ?case by auto
qed simp

lemma collect_indices_props:
  "collect_indices what n tokens acc = Inr is \<Longrightarrow> distinct acc \<Longrightarrow> \<forall>i \<in> set acc. i < n \<Longrightarrow>
   distinct is \<and> (\<forall>i \<in> set is. i < n)
   \<and> set is = set acc \<union> (\<lambda>t. unat (the (parse_u64 t))) ` set tokens"
proof (induction tokens arbitrary: acc)
  case (Cons t ts)
  obtain v where v: "parse_u64 t = Some v" using Cons.prems(1) by (cases "parse_u64 t") auto
  have n: "unat v < n" using Cons.prems(1) v by (cases "unat v < n") (auto simp: not_less)
  let ?acc = "if unat v \<in> set acc then acc else acc @ [unat v]"
  have "collect_indices what n ts ?acc = Inr is" using Cons.prems(1) v n by simp
  moreover have "distinct ?acc" "\<forall>i \<in> set ?acc. i < n" using Cons.prems(2,3) n by auto
  ultimately have "distinct is" "\<forall>i \<in> set is. i < n"
    and s: "set is = set ?acc \<union> (\<lambda>t. unat (the (parse_u64 t))) ` set ts"
    using Cons.IH [of ?acc] by blast+
  moreover have "set ?acc = insert (unat v) (set acc)" by auto
  ultimately show ?case unfolding s by (simp add: v)
qed simp

text \<open>The numbers fit the code's array, which has one element for each table entry.\<close>

lemma collect_indices_fits:
  assumes "collect_indices what n tokens [] = Inr is"
  shows "length is \<le> n"
proof -
  have "distinct is" "set is \<subseteq> {..<n}" using collect_indices_props [OF assms] by auto
  then show ?thesis by (metis card_lessThan card_mono distinct_card finite_lessThan)
qed

section \<open>The contract of a table\<close>

lemma nths_below: "(\<And>j. j < length xs \<Longrightarrow> (j \<in> A) = (j \<in> B)) \<Longrightarrow> nths xs A = nths xs B"
  unfolding nths_def by (rule arg_cong [where f = "map fst"], rule filter_cong [OF refl])
    (auto simp: set_zip)

lemma nths_remove:
  assumes "i < length xs" and "\<forall>j \<in> I. j < i"
  shows "nths (remove_nth i xs) (- I) = nths xs (- insert i I)"
proof -
  have xs: "xs = take i xs @ xs ! i # drop (Suc i) xs" using assms(1) by (rule id_take_nth_drop)
  have len: "length (take i xs) = i" using assms(1) by simp
  have I: "j + i \<in> - I" "j + i \<notin> I" "Suc (j + i) \<notin> I" for j using assms(2) by fastforce+
  have "nths (take i xs) (- I) = nths (take i xs) (- insert i I)"
    by (rule nths_below) (auto simp: len)
  moreover have "nths (drop (Suc i) xs) {j. j + i \<in> - I} = drop (Suc i) xs"
    by (rule nths_all) (simp add: I)
  moreover have "nths (xs ! i # drop (Suc i) xs) {j. j + i \<in> - insert i I} = drop (Suc i) xs"
    by (simp add: nths_Cons) (rule nths_all, simp add: I)
  moreover have "nths (remove_nth i xs) (- I)
      = nths (take i xs) (- I) @ nths (drop (Suc i) xs) {j. j + i \<in> - I}"
    unfolding remove_nth_def by (subst nths_append) (simp only: len)
  moreover have "nths xs (- insert i I) = nths (take i xs) (- insert i I)
      @ nths (xs ! i # drop (Suc i) xs) {j. j + i \<in> - insert i I}"
    by (subst xs, subst nths_append) (simp only: len)
  ultimately show ?thesis by simp
qed

locale indexed_table =
  fixes delete_at :: "nat \<Rightarrow> 's \<Rightarrow> bool \<times> 's"
    and announce :: "nat \<Rightarrow> 's \<Rightarrow> 's"
    and items :: "'s \<Rightarrow> 'a list"
  assumes announce: "items (announce i s) = items s"
    and delete_ok: "fst (delete_at i s) \<Longrightarrow>
      i < length (items s) \<and> items (snd (delete_at i s)) = remove_nth i (items s)"
    and delete_fail: "\<not> fst (delete_at i s) \<Longrightarrow> items (snd (delete_at i s)) = items s"
begin

text \<open>Deleting in descending order removes exactly the entries that had those numbers.\<close>

lemma delete_each_items:
  assumes "sorted_wrt (\<lambda>a b. b \<le> a) is" and "distinct is"
    and "delete_each delete_at announce is s = (True, s')"
  shows "items s' = nths (items s) (- set is)"
  using assms
proof (induction "is" arbitrary: s)
  case (Cons i "is")
  obtain ok s1 where d: "delete_at i (announce i s) = (ok, s1)" by (metis prod.exhaust)
  with Cons.prems(3) have ok: "ok" and r: "delete_each delete_at announce is s1 = (True, s')"
    by (auto split: if_splits)
  have 1: "i < length (items s)" "items s1 = remove_nth i (items s)"
    using delete_ok [of i "announce i s"] d ok announce by auto
  have "\<forall>j \<in> set is. j < i" using Cons.prems(1,2) by (auto simp: le_less)
  from nths_remove [OF 1(1) this] Cons.IH [OF _ _ r] Cons.prems(1,2) 1(2)
  show ?case by simp
qed (simp add: nths_all)

lemma delete_down_items:
  "length (items s) = n \<Longrightarrow> delete_down delete_at n s = (True, s') \<Longrightarrow> items s' = []"
proof (induction n arbitrary: s)
  case (Suc n)
  obtain ok s1 where d: "delete_at n s = (ok, s1)" by (metis prod.exhaust)
  with Suc.prems(2) have "ok" "delete_down delete_at n s1 = (True, s')" by (auto split: if_splits)
  moreover from this d delete_ok [of n s] Suc.prems(1) have "length (items s1) = n"
    by (auto simp: remove_nth_def)
  ultimately show ?case by (intro Suc.IH)
qed simp

end

lemma list_update_remove: "remove_nth i (xs[i := x]) = remove_nth i xs"
  by (simp add: remove_nth_def)

interpretation bp_table: indexed_table
  "delete_breakpoint_at K" "\<lambda>i. out (''Deleting breakpoint '' @ fmt_u i @ nl)" breakpoints for K
proof unfold_locales
  fix i and s :: "'a cdbg"
  show "fst (delete_breakpoint_at K i s) \<Longrightarrow> i < length (breakpoints s)
      \<and> breakpoints (snd (delete_breakpoint_at K i s)) = remove_nth i (breakpoints s)"
    by (auto simp: delete_breakpoint_at_def Let_def split_beta list_update_remove split: if_splits)
next
  fix i and s :: "'a cdbg"
  let ?d = "cdbg_bp_disable K (breakpoints s ! i) (pid s) (dsys s)"
  have "\<not> fst (fst ?d) \<Longrightarrow> snd (fst ?d) = breakpoints s ! i"
    using bp_disable_flag [of K "breakpoints s ! i" "pid s" "dsys s"] by (metis prod.collapse)
  then show "\<not> fst (delete_breakpoint_at K i s) \<Longrightarrow>
      breakpoints (snd (delete_breakpoint_at K i s)) = breakpoints s"
    by (auto simp: delete_breakpoint_at_def Let_def split_beta split: if_splits)
qed simp

interpretation wp_table: indexed_table
  "delete_watchpoint_at K" "\<lambda>i. out (''Deleting watchpoint '' @ fmt_u i @ nl)" watchpoints for K
  by unfold_locales (auto simp: delete_watchpoint_at_def Let_def split: if_splits)

end
