(* ===== verification/Places.thy ===== *)
theory Places
  imports Tables
begin

text \<open>
  The commands of \<^verbatim>\<open>src/debugger.c\<close> whose argument names a place in the program: \<^verbatim>\<open>break\<close>,
  \<^verbatim>\<open>dis\<close>, \<^verbatim>\<open>list\<close>, \<^verbatim>\<open>lines\<close>, \<^verbatim>\<open>x\<close>; and the choice of a hardware slot for \<^verbatim>\<open>watch\<close>.
  A place is \<^verbatim>\<open>file:line\<close>, a line, an address or a symbol.
\<close>

section \<open>Operations\<close>

definition resolve_break_line ::
    "string option \<Rightarrow> u32 \<Rightarrow> nat \<Rightarrow> 'w cdbg \<Rightarrow> (addr \<times> string) option \<times> 'w cdbg" where
  "resolve_break_line file line label_len s =
     (let named = (file \<noteq> None \<and> file \<noteq> Some []);
          entry = (if named then cdbg_lineno_lookup_line (lineno s) file line
                   else cdbg_lineno_lookup_line_unique (lineno s) line)
      in case entry of
           Some e \<Rightarrow>
             (Some (cdbg_lineno_runtime_addr (lineno s) (le_address e),
                    snprintf_s label_len (le_file e @ '':'' @ fmt_u (unat (le_line e)))), s)
         | None \<Rightarrow>
             (None, if named
                    then err (''No line info for '' @ the file @ '':'' @ fmt_u (unat line) @ nl) s
                    else if ln_entries (lineno s) = []
                    then err (''No line number information loaded'' @ nl) s
                    else err (''Line '' @ fmt_u (unat line) @ '' is ambiguous; use file:line'' @ nl) s))"

text \<open>The text around the last colon, unless nothing follows it.\<close>

definition at_last_colon :: "string \<Rightarrow> (string \<times> string) option" where
  "at_last_colon target =
     (case strrchr target CHR '':'' of
        None \<Rightarrow> None
      | Some r \<Rightarrow> if tl r = [] then None else Some (take (length target - length r) target, tl r))"

text \<open>The two parts as a file name that fits its buffer and a line number that is not 0.\<close>

definition file_and_line :: "string \<Rightarrow> string \<Rightarrow> (string \<times> u32) option" where
  "file_and_line file_part line_part =
     (if file_part = [] \<or> length file_part \<ge> CDBG_LINENO_MAX_FILE then None
      else case parse_u64 line_part of
             None \<Rightarrow> None
           | Some line_no \<Rightarrow> if line_no = 0 then None else Some (file_part, ucast line_no))"

definition undefined_symbol :: "cdbg_sym_entry \<Rightarrow> bool" where
  "undefined_symbol e \<longleftrightarrow> se_address e = 0 \<or> se_type e = CHR ''U'' \<or> se_type e = CHR ''u''"

definition break_target :: "string \<Rightarrow> 'w cdbg \<Rightarrow> (addr \<times> string) option \<times> 'w cdbg" where
  "break_target target s =
     (case at_last_colon target of
        Some (file_part, line_part) \<Rightarrow>
          (case file_and_line file_part line_part of
             None \<Rightarrow> (None, err (''Invalid file:line'' @ nl) s)
           | Some (file, line) \<Rightarrow>
               resolve_break_line (Some file) line (CDBG_LINENO_MAX_FILE + 32) s)
      | None \<Rightarrow>
          (case parse_u64 target of
             Some parsed \<Rightarrow>
               if starts_with target ''0x'' \<or> starts_with target ''0X'' then (Some (parsed, target), s)
               else (case resolve_break_line None (ucast parsed) (CDBG_LINENO_MAX_FILE + 32) s of
                       (Some r, s) \<Rightarrow> (Some r, s)
                     | (None, s) \<Rightarrow> (Some (parsed, target), s))
           | None \<Rightarrow>
               (case cdbg_syms_lookup_name (syms s) target of
                  None \<Rightarrow> (None, err (''Unknown symbol: '' @ target @ nl) s)
                | Some e \<Rightarrow>
                    if undefined_symbol e
                    then (None, err (''Symbol is undefined: '' @ se_name e @ nl) s)
                    else let a = cdbg_syms_runtime_addr (syms s) (se_address e)
                         in (Some (case cdbg_lineno_lookup_next_line_after_pc (lineno s) a of
                                     Some b \<Rightarrow> cdbg_lineno_runtime_addr (lineno s) (le_address b)
                                   | None \<Rightarrow> a, se_name e), s))))"

text \<open>The new breakpoint is filled in behind the table; it becomes part of it on success.\<close>

definition cmd_break :: "'w kernel \<Rightarrow> string \<Rightarrow> 'w cdbg \<Rightarrow> bool \<times> 'w cdbg" where
  "cmd_break K target s =
     (let (place, s) = break_target target s
      in case place of
           None \<Rightarrow> (False, s)
         | Some (a, label) \<Rightarrow>
             if length (breakpoints s) \<ge> CDBG_MAX_BREAKPOINTS
             then (False, err (''Breakpoint table full'' @ nl) s)
             else let index = length (breakpoints s);
                      ((ok, bp), s) = on_sys (cdbg_bp_enable K zero_bp (pid s) a) s
                  in if \<not> ok then (False, s)
                     else (True, out (''Breakpoint '' @ fmt_u index @ '' at '' @ label
                                 @ '' (0x'' @ fmt_x a @ '')'' @ nl)
                                (s\<lparr>breakpoints := breakpoints s @ [bp]\<rparr>)))"

definition resolve_dis_target :: "string \<Rightarrow> nat \<Rightarrow> 'w cdbg \<Rightarrow> (addr \<times> string) option \<times> 'w cdbg" where
  "resolve_dis_target target label_len s =
     (let usage = ''Usage: dis <function|file:line|line>'' @ nl;
          cut = map_option (\<lambda>(a, label). (a, snprintf_s label_len label))
      in case at_last_colon target of
           Some (file_part, line_part) \<Rightarrow>
             (case file_and_line file_part line_part of
                None \<Rightarrow> (None, err usage s)
              | Some (file, line) \<Rightarrow>
                  let (r, s) = resolve_break_line (Some file) line (CDBG_LINENO_MAX_FILE + 32) s
                  in (cut r, s))
         | None \<Rightarrow>
             (case parse_u64 target of
                Some parsed \<Rightarrow>
                  if parsed = 0 then (None, err usage s)
                  else (case resolve_break_line None (ucast parsed) (CDBG_LINENO_MAX_FILE + 32) s of
                          (Some r, s) \<Rightarrow> (cut (Some r), s)
                        | (None, s) \<Rightarrow>
                            (None, err (''Line '' @ fmt_u (unat parsed)
                                        @ '' is ambiguous; use file:line'' @ nl) s))
              | None \<Rightarrow>
                  (case cdbg_syms_lookup_name (syms s) target of
                     None \<Rightarrow> (None, err (''Unknown function: '' @ target @ nl) s)
                   | Some e \<Rightarrow>
                       if undefined_symbol e
                       then (None, err (''Symbol is undefined: '' @ se_name e @ nl) s)
                       else let name = se_name e;
                                name = (if name \<noteq> [] \<and> hd name = CHR ''_'' \<and> tl name \<noteq> []
                                        then tl name else name)
                            in (Some (cdbg_syms_runtime_addr (syms s) (se_address e),
                                      snprintf_s label_len name), s))))"

definition CDBG_DISASM_DEFAULT_COUNT :: nat where "CDBG_DISASM_DEFAULT_COUNT = 10"

definition cmd_dis :: "'w kernel \<Rightarrow> string option \<Rightarrow> 'w cdbg \<Rightarrow> bool \<times> 'w cdbg" where
  "cmd_dis K target s =
     (let usage = ''Usage: dis <function|file:line|line>'' @ nl
      in case target of
           None \<Rightarrow> (False, err usage s)
         | Some t \<Rightarrow>
             (let trimmed = trim_space (snprintf_s (CDBG_MAX_PATH + 64) t)
              in if trimmed = [] then (False, err usage s)
                 else if executable_path s = []
                 then (False, err (''No debug info loaded; use run first'' @ nl) s)
                 else let (place, s) = resolve_dis_target trimmed 256 s
                      in case place of
                           None \<Rightarrow> (False, s)
                         | Some (a, label) \<Rightarrow>
                             (True, print_disassembly_range K a CDBG_DISASM_DEFAULT_COUNT label s)))"

definition cmd_lines :: "string option \<Rightarrow> 'w cdbg \<Rightarrow> bool \<times> 'w cdbg" where
  "cmd_lines file_filter s =
     (True, s\<lparr>dsys := cdbg_lineno_print_list (lineno s) file_filter (dsys s)\<rparr>)"

definition cmd_list :: "'w kernel \<Rightarrow> string option \<Rightarrow> 'w cdbg \<Rightarrow> bool \<times> 'w cdbg" where
  "cmd_list K target s =
     (let usage = ''Usage: list [line|file:line|function]'' @ nl;
          show_line = (\<lambda>file line. on_sys (cdbg_lineno_print_source_at_line K (lineno s) file line) s);
          t = (case target of None \<Rightarrow> [] | Some t \<Rightarrow> trim_space t)
      in if t = []
         then let (ok, s) = cdbg_refresh_regs K s
              in if \<not> ok then (False, s)
                 else (True, snd (on_sys (cdbg_lineno_print_source_at_pc K (lineno s)
                                            (cdbg_regs_pc (regs s))) s))
         else case at_last_colon t of
                Some (file_part, line_part) \<Rightarrow>
                  (case file_and_line file_part line_part of
                     None \<Rightarrow> (False, err usage s)
                   | Some (file, line) \<Rightarrow> show_line (Some file) line)
              | None \<Rightarrow>
                  (case parse_u64 t of
                     Some line_no \<Rightarrow>
                       if line_no = 0 then (False, err usage s) else show_line None (ucast line_no)
                   | None \<Rightarrow>
                       (case cdbg_syms_lookup_name (syms s) t of
                          None \<Rightarrow> (False, err (''Unknown function: '' @ t @ nl) s)
                        | Some e \<Rightarrow>
                            if undefined_symbol e
                            then (False, err (''Symbol is undefined: '' @ se_name e @ nl) s)
                            else (case line_at s (cdbg_syms_runtime_addr (syms s) (se_address e)) of
                                    None \<Rightarrow>
                                      (False, err (''No source line for function: '' @ t @ nl) s)
                                  | Some (file, line) \<Rightarrow> show_line (Some file) line))))"

definition examine_line :: "addr \<Rightarrow> u8 list \<Rightarrow> nat \<Rightarrow> string" where
  "examine_line a buf i =
     ''0x'' @ pad_left 16 CHR ''0'' (fmt_x (a + of_nat i)) @ '': ''
     @ concat (map (\<lambda>b. fmt_02x b @ '' '') (take 8 (drop i buf))) @ nl"

definition cmd_examine ::
    "'w kernel \<Rightarrow> string \<Rightarrow> string option \<Rightarrow> 'w cdbg \<Rightarrow> bool \<times> 'w cdbg" where
  "cmd_examine K addr_text count_text s =
     (case parse_u64 addr_text of
        None \<Rightarrow> (False, err (''Invalid address'' @ nl) s)
      | Some a \<Rightarrow>
          (case (case count_text of None \<Rightarrow> Some 16 | Some t \<Rightarrow> parse_u64 t) of
             None \<Rightarrow> (False, err (''Invalid count'' @ nl) s)
           | Some n \<Rightarrow>
               if n = 0 \<or> n > 64 then (False, err (''Count must be 1-64'' @ nl) s)
               else let (r, s) = on_sys (cdbg_mem_read K (pid s) a (unat n)) s
                    in case r of
                         None \<Rightarrow> (False, s)
                       | Some buf \<Rightarrow>
                           (True, fold (\<lambda>i. out (examine_line a buf i))
                                    (map ((*) 8) [0..<(unat n + 7) div 8]) s)))"

definition find_free_watch_slot :: "cdbg_watchpoint list \<Rightarrow> int option" where
  "find_free_watch_slot wps =
     (let used = (\<lambda>slot. \<exists>wp \<in> set wps. wp_enabled wp \<and> wp_slot wp \<ge> 0
                     \<and> wp_slot wp < int CDBG_MAX_WATCHPOINTS \<and> wp_slot wp = slot)
      in find (\<lambda>slot. \<not> used slot) (map int [0..<CDBG_MAX_WATCHPOINTS]))"

end
