(* ===== verification/Inspect.thy ===== *)
theory Inspect
  imports Eval Places
begin

text \<open>
  The commands \<^verbatim>\<open>print\<close>, \<^verbatim>\<open>set\<close> and \<^verbatim>\<open>watch\<close> of \<^verbatim>\<open>src/debugger.c\<close>. The conversions
  between text and doubles are parameters: \<open>strtod\<close> yields the bits of the double a text
  denotes, \<open>fmt_g17\<close> is \<^verbatim>\<open>printf\<close> with \<^verbatim>\<open>%.17g\<close> on the double of these bits.
\<close>

section \<open>print\<close>

definition print_usage :: string where
  "print_usage = ''Usage: print [/fmt] <expr>'' @ nl"

text \<open>A variable by its plain name; \<open>None\<close> when the name is none.\<close>

definition print_identifier ::
    "'w kernel \<Rightarrow> print_format \<Rightarrow> string \<Rightarrow> 'w cdbg \<Rightarrow> (bool \<times> 'w cdbg) option" where
  "print_identifier K fmt expr s =
     (case resolve_variable_address K s expr of
        None \<Rightarrow> None
      | Some (var, addr, _) \<Rightarrow> Some
          (if vi_is_array var \<and> fmt = Fmt_DEFAULT then print_array_variable K expr var addr s
           else case (if \<not> vi_is_pointer var \<and> fmt = Fmt_DEFAULT \<and> \<not> type_is_scalar (vi_type var)
                      then dwarf_lookup_struct K s (vi_type var) 32 else None) of
                  Some (members, _) \<Rightarrow> print_struct_variable K expr (vi_type var) addr members s
                | None \<Rightarrow>
                    (let (value, s) = on_sys (read_scalar_value K (pid s) addr (vi_size var)) s
                     in case value of
                          None \<Rightarrow> (False, s)
                        | Some v \<Rightarrow>
                            (True, print_scalar_result_fmt K expr fmt v (vi_size var) (vi_is_signed var)
                               (vi_is_pointer var) False (vi_type var) s))))"

definition print_lvalue ::
    "'w kernel \<Rightarrow> print_format \<Rightarrow> string \<Rightarrow> lvalue \<times> bool \<Rightarrow> 'w cdbg \<Rightarrow> bool \<times> 'w cdbg" where
  "print_lvalue K fmt expr = (\<lambda>(lv, whole_struct) s.
     if whole_struct \<and> fmt = Fmt_DEFAULT
     then case dwarf_lookup_struct K s (lv_type lv) 32 of
            None \<Rightarrow> (False, s)
          | Some (members, _) \<Rightarrow> print_struct_variable K expr (lv_type lv) (lv_addr lv) members s
     else let (value, s) = on_sys (read_scalar_value K (pid s) (lv_addr lv) (lv_size lv)) s
          in case value of
               None \<Rightarrow> (False, s)
             | Some v \<Rightarrow>
                 (True, print_scalar_result_fmt K expr fmt v (lv_size lv) (lv_signed lv) False False
                    (lv_type lv) s))"

text \<open>An expression that is no lvalue is evaluated to a value. The messages of the first
  attempt stay.\<close>

definition print_expression ::
    "'w kernel \<Rightarrow> (string \<Rightarrow> u64) \<Rightarrow> print_format \<Rightarrow> string \<Rightarrow> 'w cdbg \<Rightarrow> bool \<times> 'w cdbg" where
  "print_expression K strtod fmt expr s =
     (let (lv, s) = cdbg_expr_eval_lvalue K strtod (snprintf_s 256 expr) s
      in case lv of
           Some r \<Rightarrow> print_lvalue K fmt expr r s
         | None \<Rightarrow>
             (let (result, s) = cdbg_expr_eval K strtod expr s
              in case result of
                   None \<Rightarrow> (False, s)
                 | Some r \<Rightarrow>
                     (True, print_scalar_result_fmt K expr fmt (er_value r) 8 True False (er_is_address r)
                        (er_type r) s)))"

definition cmd_print :: "'w kernel \<Rightarrow> (string \<Rightarrow> u64) \<Rightarrow> string option \<Rightarrow> 'w cdbg \<Rightarrow> bool \<times> 'w cdbg" where
  "cmd_print K strtod arg s =
     (case arg of
        None \<Rightarrow> (False, err print_usage s)
      | Some expr \<Rightarrow>
          (let expr = trim_space expr; (fmt, expr) = parse_print_format expr
           in if expr = [] then (False, err print_usage s)
              else let (ok, s) = cdbg_language_check_expr s
                   in if \<not> ok then (False, s)
                      else let (ok, s) = cdbg_refresh_regs K s
                           in if \<not> ok then (False, s)
                              else case (if is_simple_identifier expr then print_identifier K fmt expr s else None) of
                                     Some r \<Rightarrow> r
                                   | None \<Rightarrow> print_expression K strtod fmt expr s))"

section \<open>set\<close>

definition print_language_usage :: string where
  "print_language_usage =
     ''Usage: set language auto|c|c++|objective-c|fortran|pascal|ada|modula-2|java|go|rust|assembly'' @ nl"

definition cmd_set_language :: "string \<Rightarrow> 'w cdbg \<Rightarrow> bool \<times> 'w cdbg" where
  "cmd_set_language args s =
     (let args = trim_space args
      in case cdbg_language_parse args of
           None \<Rightarrow> (False, err print_language_usage (err (''Unknown language: '' @ args @ nl) s))
         | Some lang \<Rightarrow>
             (True, out (''The current source language is '' @ [CHR 0x22] @ cdbg_language_name lang
                         @ [CHR 0x22] @ ''.'' @ nl) (s\<lparr>language := lang\<rparr>)))"

definition set_print_usage :: string where
  "set_print_usage = ''Usage: set print pretty on|off'' @ nl"

definition cmd_set_print :: "string \<Rightarrow> 'w cdbg \<Rightarrow> bool \<times> 'w cdbg" where
  "cmd_set_print args s =
     (let args = trim_space args
      in if \<not> starts_with args ''pretty''
         then (False, err set_print_usage (err (''Unknown print option: '' @ args @ nl) s))
         else let value = trim_space (drop 6 args)
              in if value = ''on''
                 then (True, out (''Print pretty printing is on.'' @ nl) (s\<lparr>print_pretty := True\<rparr>))
                 else if value = ''off''
                 then (True, out (''Print pretty printing is off.'' @ nl) (s\<lparr>print_pretty := False\<rparr>))
                 else (False, err set_print_usage s))"

definition cmd_set_malloc_log :: "string \<Rightarrow> 'w cdbg \<Rightarrow> bool \<times> 'w cdbg" where
  "cmd_set_malloc_log args s =
     (let args = trim_space args
      in if args = ''on''
         then (True, out (''Malloc stack logging is on. Takes effect on the next '' @ [CHR 0x27] @ ''run''
                          @ [CHR 0x27] @ ''.'' @ nl) (s\<lparr>malloc_stack_logging := True\<rparr>))
         else if args = ''off''
         then (True, out (''Malloc stack logging is off.'' @ nl) (s\<lparr>malloc_stack_logging := False\<rparr>))
         else (False, err (''Usage: set malloc-log on|off'' @ nl) s))"

definition set_usage :: string where
  "set_usage = ''Usage: set <var> <expr> | set print pretty on|off | ''
     @ ''set language <name> | set malloc-log on|off'' @ nl"

definition resolve_set_lhs :: "'w kernel \<Rightarrow> (string \<Rightarrow> u64) \<Rightarrow> string \<Rightarrow> (lvalue, 'w) ev" where
  "resolve_set_lhs K strtod lhs s =
     (let (ok, s) = cdbg_refresh_regs K s
      in if \<not> ok then (None, s)
         else if starts_with lhs ''&'' then ev_fail (''Cannot assign to an address expression'' @ nl) s
         else ev_bind (cdbg_expr_eval_lvalue K strtod lhs) (\<lambda>(lv, whole_struct).
                if whole_struct then ev_fail (''Cannot assign to a struct value'' @ nl) else ev_return lv) s)"

text \<open>The right-hand side, which must not be an address.\<close>

definition set_rhs :: "'w kernel \<Rightarrow> (string \<Rightarrow> u64) \<Rightarrow> string \<Rightarrow> (expr_result, 'w) ev" where
  "set_rhs K strtod rhs s =
     (let (ok, s) = cdbg_language_check_expr s
      in if \<not> ok then (None, s)
         else let (r, s) = cdbg_expr_eval K strtod rhs s
              in case r of
                   None \<Rightarrow> ev_fail (''Invalid expression: '' @ rhs @ nl) s
                 | Some r \<Rightarrow>
                     if er_is_address r then ev_fail (''Cannot assign an address expression'' @ nl) s
                     else (Some r, s))"

definition set_register ::
    "'w kernel \<Rightarrow> (string \<Rightarrow> u64) \<Rightarrow> (u64 \<Rightarrow> string) \<Rightarrow> string \<Rightarrow> string \<Rightarrow> 'w cdbg \<Rightarrow> bool \<times> 'w cdbg" where
  "set_register K strtod fmt_g17 reg_name rhs s =
     (let (r, s) = set_rhs K strtod rhs s
      in case r of
           None \<Rightarrow> (False, s)
         | Some r \<Rightarrow>
             (let (ok, s) = cdbg_refresh_regs K s
              in if \<not> ok then (False, s)
                 else let ((ok, rs), s) =
                            on_sys (cdbg_regs_set_by_name K (pid s) (current_tid s) (regs s) reg_name (er_value r)) s;
                          s = s\<lparr>regs := rs\<rparr>
                      in if \<not> ok then (False, err (''Unknown register: '' @ reg_name @ nl) s)
                         else if er_is_float r
                         then (True, out (''$'' @ reg_name @ '' = '' @ fmt_0x16 (er_value r) @ ''  (''
                                          @ fmt_g17 (er_value r) @ '')'' @ nl) s)
                         else case cdbg_regs_get_by_name rs reg_name of
                                None \<Rightarrow> (True, s)
                              | Some v \<Rightarrow> (True, out (''$'' @ reg_name @ '' = '' @ fmt_0x16 v @ nl) s)))"

definition set_variable ::
    "'w kernel \<Rightarrow> (string \<Rightarrow> u64) \<Rightarrow> string \<Rightarrow> string \<Rightarrow> 'w cdbg \<Rightarrow> bool \<times> 'w cdbg" where
  "set_variable K strtod lhs rhs s =
     (let (r, s) = set_rhs K strtod rhs s
      in case r of
           None \<Rightarrow> (False, s)
         | Some r \<Rightarrow>
             (let label = snprintf_s 256 lhs; (lv, s) = resolve_set_lhs K strtod lhs s
              in case lv of
                   None \<Rightarrow> (False, s)
                 | Some lv \<Rightarrow>
                     (let (ok, s) = on_sys (write_scalar_value K (pid s) (lv_addr lv) (lv_size lv) (er_value r)) s
                      in if \<not> ok then (False, s)
                         else let (written, s) = on_sys (read_scalar_value K (pid s) (lv_addr lv) (lv_size lv)) s
                              in (True, out (case written of
                                               Some v \<Rightarrow> print_scalar_result label v (lv_size lv) (lv_signed lv) False
                                             | None \<Rightarrow> label @ '' set'' @ nl) s))))"

definition cmd_set ::
    "'w kernel \<Rightarrow> (string \<Rightarrow> u64) \<Rightarrow> (u64 \<Rightarrow> string) \<Rightarrow> string option \<Rightarrow> 'w cdbg \<Rightarrow> bool \<times> 'w cdbg" where
  "cmd_set K strtod fmt_g17 arg s =
     (case arg of
        None \<Rightarrow> (False, err set_usage s)
      | Some args \<Rightarrow>
          (let trimmed = trim_space (snprintf_s 256 args)
           in if starts_with trimmed ''print '' then cmd_set_print (drop 6 trimmed) s
              else if starts_with trimmed ''language '' then cmd_set_language (drop 9 trimmed) s
              else if starts_with trimmed ''malloc-log '' then cmd_set_malloc_log (drop 11 trimmed) s
              else case split_assignment trimmed of
                     None \<Rightarrow> (False, err set_usage s)
                   | Some (lhs, rhs) \<Rightarrow>
                       if starts_with lhs ''&''
                       then (False, err (''Cannot assign to an address expression'' @ nl) s)
                       else if starts_with lhs ''$'' then set_register K strtod fmt_g17 (tl lhs) rhs s
                       else set_variable K strtod lhs rhs s))"

section \<open>watch\<close>

definition watch_usage :: string where
  "watch_usage = ''Usage: watch|rwatch|awatch <expr>'' @ nl"

text \<open>Setting the watchpoint once its place is known. The entry past the end of the table is
  cleared again when arming fails.\<close>

definition new_watchpoint ::
    "'w kernel \<Rightarrow> string \<Rightarrow> cdbg_watch_kind \<Rightarrow> int \<Rightarrow> addr \<Rightarrow> u64 \<Rightarrow> 'w cdbg \<Rightarrow> bool \<times> 'w cdbg" where
  "new_watchpoint K expr kind slot a sz s =
     (let wp = \<lparr>wp_addr = a, wp_size = sz, wp_kind = kind, wp_enabled = False, wp_slot = slot,
                wp_expr = [], wp_last_value = 0, wp_has_last_value = False\<rparr>;
          (ok, s) = on_sys (arm_watchpoint_all_threads K (pid s) wp) s
      in if \<not> ok
         then (False, err (''Cannot set watchpoint on '' @ [CHR 0x22] @ expr @ [CHR 0x22] @ '' at '' @ hex_addr a
                @ '': unsupported address/size, or no more hardware watchpoints on this CPU'' @ nl) s)
         else let wp = wp\<lparr>wp_enabled := True, wp_expr := snprintf_s CDBG_WATCH_EXPR_LEN expr\<rparr>;
                  (initial, s) = on_sys (cdbg_mem_read K (pid s) a (unat sz)) s;
                  wp = (case initial of
                          None \<Rightarrow> wp
                        | Some bs \<Rightarrow> wp\<lparr>wp_last_value := le_word bs, wp_has_last_value := True\<rparr>);
                  index = length (watchpoints s)
              in (True, out (watch_label kind (kind = Watch_Write) @ '' '' @ fmt_u index @ '': '' @ expr @ nl)
                    (s\<lparr>watchpoints := watchpoints s @ [wp]\<rparr>)))"

definition cmd_watch ::
    "'w kernel \<Rightarrow> (string \<Rightarrow> u64) \<Rightarrow> string option \<Rightarrow> cdbg_watch_kind \<Rightarrow> 'w cdbg \<Rightarrow> bool \<times> 'w cdbg" where
  "cmd_watch K strtod arg kind s =
     (case map_option trim_space arg of
        None \<Rightarrow> (False, err watch_usage s)
      | Some expr \<Rightarrow>
          if expr = [] then (False, err watch_usage s)
          else if pid s \<le> 0 \<or> state s \<noteq> State_STOPPED then (False, err (''No process is running'' @ nl) s)
          else let (ok, s) = cdbg_language_check_expr s
               in if \<not> ok then (False, s)
                  else let (ok, s) = cdbg_refresh_regs K s
                       in if \<not> ok then (False, s)
                          else if length (watchpoints s) \<ge> CDBG_MAX_WATCHPOINTS
                          then (False, err (''Watchpoint table full'' @ nl) s)
                          else case find_free_watch_slot (watchpoints s) of
                                 None \<Rightarrow> (False, err (''No hardware watchpoint slots available'' @ nl) s)
                               | Some slot \<Rightarrow>
                                   (let (r, s) = cdbg_expr_eval_lvalue K strtod (snprintf_s 256 expr) s
                                    in case r of
                                         None \<Rightarrow> (False, err (''Cannot watch expression: '' @ expr @ nl) s)
                                       | Some (lv, whole_struct) \<Rightarrow>
                                           if whole_struct
                                           then (False, err (''Cannot watch '' @ [CHR 0x22] @ expr @ [CHR 0x22]
                                                  @ '': it is a struct/union; watch a specific scalar member instead''
                                                  @ nl) s)
                                           else if lv_size lv = 0 \<or> lv_size lv > 8
                                           then (False, err (''Cannot watch '' @ [CHR 0x22] @ expr @ [CHR 0x22]
                                                  @ '': value is '' @ fmt_u (unat (lv_size lv))
                                                  @ '' bytes (watchpoints support scalars up to 8 bytes)'' @ nl) s)
                                           else new_watchpoint K expr kind slot (lv_addr lv) (lv_size lv) s))"

end
