(* ===== verification/Show.thy ===== *)
theory Show
  imports Inspect Run
begin

text \<open>
  The commands of \<^verbatim>\<open>src/debugger.c\<close> that list things: \<^verbatim>\<open>show\<close> with the variables of a
  scope, the breakpoints, the watchpoints and the threads; \<^verbatim>\<open>tb\<close>; \<^verbatim>\<open>thread\<close>; \<^verbatim>\<open>leaks\<close>; and
  \<^verbatim>\<open>run\<close> with a command line.
\<close>

section \<open>Symbols of addresses\<close>

definition CDBG_MAX_BACKTRACE_FRAMES :: nat where "CDBG_MAX_BACKTRACE_FRAMES = 64"
definition CDBG_MAX_SYMBOL_OFFSET :: u64 where "CDBG_MAX_SYMBOL_OFFSET = 0x100000"

text \<open>The symbol and the offset in it.\<close>

definition lookup_symbol_for_pc :: "cdbg_syms \<Rightarrow> addr \<Rightarrow> (cdbg_sym_entry \<times> u64) option" where
  "lookup_symbol_for_pc sy pc =
     (case best_of (\<lambda>e. \<not> (se_address e = 0 \<or> se_type e \<noteq> CHR ''T'' \<and> se_type e \<noteq> CHR ''t'')
                       \<and> cdbg_syms_runtime_addr sy (se_address e) \<le> pc)
             (\<lambda>e b. cdbg_syms_runtime_addr sy (se_address e) > cdbg_syms_runtime_addr sy (se_address b))
             None (sy_entries sy) of
        None \<Rightarrow> None
      | Some best \<Rightarrow>
          (let offset = pc - cdbg_syms_runtime_addr sy (se_address best)
           in if offset > CDBG_MAX_SYMBOL_OFFSET then None else Some (best, offset)))"

definition display_sym_name :: "cdbg_sym_entry option \<Rightarrow> string" where
  "display_sym_name e =
     (case e of
        None \<Rightarrow> ''??''
      | Some e \<Rightarrow> if starts_with (se_name e) ''_'' \<and> length (se_name e) > 1 then tl (se_name e) else se_name e)"

definition format_pc_location :: "'w cdbg \<Rightarrow> addr \<Rightarrow> nat \<Rightarrow> string" where
  "format_pc_location s pc out_size =
     (let found = lookup_symbol_for_pc (syms s) pc;
          name = display_sym_name (map_option fst found);
          loc = (case cdbg_lineno_line_at_pc (lineno s) pc CDBG_LINENO_MAX_FILE of
                   None \<Rightarrow> []
                 | Some (file, line) \<Rightarrow>
                     snprintf_s (CDBG_LINENO_MAX_FILE + 32) ('' at '' @ file @ '':'' @ fmt_u (unat line)))
      in snprintf_s out_size
           (case found of
              Some (_, offset) \<Rightarrow> if offset \<noteq> 0 then name @ '' + '' @ fmt_u (unat offset) @ loc else name @ loc
            | None \<Rightarrow> name @ loc))"

section \<open>Backtrace\<close>

definition backtrace_line :: "'w cdbg \<Rightarrow> nat \<Rightarrow> addr \<Rightarrow> string" where
  "backtrace_line s frame_no pc =
     (let found = lookup_symbol_for_pc (syms s) pc
      in ''#'' @ pad_right 2 (fmt_u frame_no) @ '' '' @ fmt_0x16 pc @ '' in ''
         @ display_sym_name (map_option fst found)
         @ (case found of
              None \<Rightarrow> []
            | Some (_, offset) \<Rightarrow> if offset \<noteq> 0 then '' + '' @ fmt_u (unat offset) else [])
         @ (case cdbg_lineno_line_at_pc (lineno s) pc CDBG_LINENO_MAX_FILE of
              None \<Rightarrow> []
            | Some (file, line) \<Rightarrow> '' at '' @ file @ '':'' @ fmt_u (unat line))
         @ nl)"

definition print_backtrace_frame :: "nat \<Rightarrow> addr \<Rightarrow> 'w cdbg \<Rightarrow> 'w cdbg" where
  "print_backtrace_frame frame_no pc s = out (backtrace_line s frame_no pc) s"

text \<open>The caller's frame pointer and the return address.\<close>

definition frame_record_next :: "'w kernel \<Rightarrow> addr \<Rightarrow> 'w cdbg \<Rightarrow> (addr \<times> addr) option \<times> 'w cdbg" where
  "frame_record_next K fp s =
     (let (saved_fp, s) = on_sys (cdbg_mem_read_u64 K (pid s) fp) s
      in case saved_fp of
           None \<Rightarrow> (None, s)
         | Some saved_fp \<Rightarrow>
             (let (saved_pc, s) = on_sys (cdbg_mem_read_u64 K (pid s) (fp + 8)) s
              in case saved_pc of
                   None \<Rightarrow> (None, s)
                 | Some saved_pc \<Rightarrow>
                     if saved_fp = 0 \<or> saved_pc < 0x1000 \<or> saved_fp \<le> fp then (None, s)
                     else (Some (saved_fp, saved_pc), s)))"

text \<open>The frames from \<open>frame_no\<close> on, at most \<open>n\<close> of them.\<close>

fun backtrace_loop :: "'w kernel \<Rightarrow> nat \<Rightarrow> nat \<Rightarrow> addr \<Rightarrow> 'w cdbg \<Rightarrow> 'w cdbg" where
  "backtrace_loop K 0 frame_no fp s = s"
| "backtrace_loop K (Suc n) frame_no fp s =
     (if fp = 0 then s
      else let (r, s) = frame_record_next K fp s
           in case r of
                None \<Rightarrow> s
              | Some (next_fp, ret_addr) \<Rightarrow>
                  backtrace_loop K n (frame_no + 1) next_fp (print_backtrace_frame frame_no ret_addr s))"

definition cmd_backtrace :: "'w kernel \<Rightarrow> 'w cdbg \<Rightarrow> bool \<times> 'w cdbg" where
  "cmd_backtrace K s =
     (let (ok, s) = cdbg_refresh_regs K s
      in if \<not> ok then (False, s)
         else let s = print_backtrace_frame 0 (cdbg_regs_pc (regs s)) (out (''Backtrace:'' @ nl) s)
              in (True, backtrace_loop K (CDBG_MAX_BACKTRACE_FRAMES - 1) 1 (cdbg_regs_fp (regs s)) s))"

section \<open>run with a command line\<close>

text \<open>The arguments: the program is resolved, every one is cut to its buffer.\<close>

definition run_words :: "'w kernel \<Rightarrow> string list \<Rightarrow> 'w \<Rightarrow> string + string list" where
  "run_words K tokens w =
     (case tokens of
        [] \<Rightarrow> Inl (''Usage: run <program> [args...]'' @ nl)
      | program # args \<Rightarrow>
          (case cdbg_resolve_program K program PATH_MAX w of
             None \<Rightarrow> Inl (''Invalid program: '' @ program @ nl)
           | Some resolved \<Rightarrow>
               if length tokens > CDBG_MAX_RUN_ARGS then Inl (''Too many run arguments'' @ nl)
               else Inr (map (snprintf_s CDBG_MAX_PATH) (resolved # args))))"

definition cmd_run :: "'w kernel \<Rightarrow> string option \<Rightarrow> (bool, 'w) op" where
  "cmd_run K arg s =
     (let args = (case arg of None \<Rightarrow> [] | Some a \<Rightarrow> trim_space a)
      in if args = [] then cdbg_run K None s
         else case run_words K (strtok (snprintf_s (2 * CDBG_MAX_PATH) args) [CHR '' '', CHR 0x09])
                     (world (dsys s)) of
                Inl msg \<Rightarrow> Some (False, err msg s)
              | Inr argv \<Rightarrow> cdbg_run K (Some argv) s)"

section \<open>show bp, show wp\<close>

definition yes_no :: "bool \<Rightarrow> string" where "yes_no b = (if b then ''y'' else ''n'')"

definition breakpoint_location :: "'w cdbg \<Rightarrow> addr \<Rightarrow> string" where
  "breakpoint_location s a =
     (case cdbg_lineno_line_at_pc (lineno s) a CDBG_LINENO_MAX_FILE of
        Some (file, line) \<Rightarrow> snprintf_s (CDBG_LINENO_MAX_FILE + 32) (file @ '':'' @ fmt_u (unat line))
      | None \<Rightarrow>
          (case lookup_symbol_for_pc (syms s) a of
             None \<Rightarrow> ''<unknown>''
           | Some (e, offset) \<Rightarrow>
               snprintf_s (CDBG_LINENO_MAX_FILE + 32)
                 (display_sym_name (Some e) @ (if offset = 0 then [] else ''+'' @ hex_addr offset))))"

definition breakpoint_row :: "'w cdbg \<Rightarrow> nat \<Rightarrow> cdbg_breakpoint \<Rightarrow> string" where
  "breakpoint_row s i bp =
     pad_right 4 (fmt_u i) @ '' '' @ pad_right 4 (yes_no (bp_enabled bp)) @ '' '' @ fmt_0x16 (bp_addr bp)
     @ ''  '' @ breakpoint_location s (bp_addr bp) @ nl"

definition cmd_show_breakpoints :: "'w cdbg \<Rightarrow> bool \<times> 'w cdbg" where
  "cmd_show_breakpoints s =
     (if breakpoints s = [] then (True, out (''No breakpoints.'' @ nl) s)
      else (True, fold (\<lambda>(i, bp) t. out (breakpoint_row s i bp) t) (List.enumerate 0 (breakpoints s))
              (out (pad_right 4 ''Num'' @ '' '' @ pad_right 4 ''Enb'' @ '' '' @ pad_right 18 ''Address''
                    @ ''  Location'' @ nl) s)))"

fun watch_kind_label :: "cdbg_watch_kind \<Rightarrow> string" where
  "watch_kind_label Watch_Read = ''read''"
| "watch_kind_label Watch_Write = ''write''"
| "watch_kind_label Watch_Access = ''access''"

definition watchpoint_row :: "nat \<Rightarrow> cdbg_watchpoint \<Rightarrow> string" where
  "watchpoint_row i wp =
     pad_right 4 (fmt_u i) @ '' '' @ pad_right 4 (yes_no (wp_enabled wp)) @ '' ''
     @ pad_right 8 (watch_kind_label (wp_kind wp)) @ '' '' @ pad_right 6 (fmt_u (unat (wp_size wp))) @ '' ''
     @ fmt_0x16 (wp_addr wp) @ ''  '' @ wp_expr wp @ nl"

definition cmd_show_watchpoints :: "'w cdbg \<Rightarrow> bool \<times> 'w cdbg" where
  "cmd_show_watchpoints s =
     (if watchpoints s = [] then (True, out (''No watchpoints.'' @ nl) s)
      else (True, fold (\<lambda>(i, wp) t. out (watchpoint_row i wp) t) (List.enumerate 0 (watchpoints s))
              (out (pad_right 4 ''Num'' @ '' '' @ pad_right 4 ''Enb'' @ '' '' @ pad_right 8 ''Type'' @ '' ''
                    @ pad_right 6 ''Size'' @ '' '' @ pad_right 18 ''Address'' @ ''  Expression'' @ nl) s)))"

section \<open>Threads\<close>

definition thread_row :: "'w cdbg \<Rightarrow> tid \<Rightarrow> nat \<Rightarrow> cdbg_thread_entry \<Rightarrow> string" where
  "thread_row s current i t =
     pad_right 4 (fmt_u i) @ '' '' @ pad_right 3 (if te_tid t = current then ''*'' else []) @ '' ''
     @ pad_right 20 (fmt_u (unat (te_tid t))) @ '' '' @ fmt_0x16 (te_pc t) @ ''  ''
     @ format_pc_location s (te_pc t) (CDBG_LINENO_MAX_FILE + 64) @ nl"

definition cmd_show_threads :: "'w kernel \<Rightarrow> 'w cdbg \<Rightarrow> bool \<times> 'w cdbg" where
  "cmd_show_threads K s =
     (if pid s \<le> 0 \<or> state s = State_IDLE then (False, err (''No process is running'' @ nl) s)
      else let (threads, s) = on_sys (cdbg_threads_list K (pid s) CDBG_MAX_THREADS) s
           in case threads of
                None \<Rightarrow> (False, err (''Could not list threads'' @ nl) s)
              | Some ts \<Rightarrow>
                  if ts = [] then (False, err (''Could not list threads'' @ nl) s)
                  else let (current, s) = resolve_display_tid K s
                       in (True, fold (\<lambda>(i, t) u. out (thread_row s current i t) u) (List.enumerate 0 ts)
                             (out (pad_right 4 ''Num'' @ '' '' @ pad_right 3 ''Cur'' @ '' '' @ pad_right 20 ''TID''
                                   @ '' '' @ pad_right 18 ''PC'' @ ''  Location'' @ nl) s)))"

definition cmd_thread :: "'w kernel \<Rightarrow> string \<Rightarrow> 'w cdbg \<Rightarrow> bool \<times> 'w cdbg" where
  "cmd_thread K arg s =
     (if pid s \<le> 0 \<or> state s = State_IDLE then (False, err (''No process is running'' @ nl) s)
      else case parse_u64 arg of
             None \<Rightarrow> (False, err (''Invalid thread number: '' @ arg @ nl) s)
           | Some number \<Rightarrow>
               (let (threads, s) = on_sys (cdbg_threads_list K (pid s) CDBG_MAX_THREADS) s
                in case threads of
                     None \<Rightarrow> (False, err (''Could not list threads'' @ nl) s)
                   | Some ts \<Rightarrow>
                       if unat number \<ge> length ts
                       then (False, err (''No thread number '' @ fmt_u (unat number) @ nl) s)
                       else let s = s\<lparr>current_tid := te_tid (ts ! unat number)\<rparr>;
                                (ok, s) = cdbg_refresh_regs K s
                            in if \<not> ok then (False, s)
                               else let pc = cdbg_regs_pc (regs s)
                                    in (True, print_stop_location K pc
                                          (out (''Switched to thread '' @ fmt_u (unat number) @ '' (tid ''
                                              @ fmt_u (unat (current_tid s)) @ ''): '' @ fmt_0x16 pc @ '' in ''
                                              @ format_pc_location s pc (CDBG_LINENO_MAX_FILE + 64) @ nl) s))))"

section \<open>Variables of a scope\<close>

datatype show_scope = Show_LOCALS | Show_ARGS | Show_GLOBALS

definition CDBG_MAX_SHOW_VARS :: nat where "CDBG_MAX_SHOW_VARS = 128"

type_synonym show_vars = "(var_info \<times> addr) list"

definition show_var_name_exists :: "show_vars \<Rightarrow> string \<Rightarrow> bool" where
  "show_var_name_exists vars name \<longleftrightarrow> list_ex (\<lambda>(var, a). vi_name var = name) vars"

definition show_var_push ::
    "'w kernel \<Rightarrow> 'w cdbg \<Rightarrow> nat \<Rightarrow> var_info \<Rightarrow> addr \<Rightarrow> show_vars \<Rightarrow> show_vars" where
  "show_var_push K s max_vars var addr vars =
     (if vi_name var = [] \<or> length vars \<ge> max_vars \<or> show_var_name_exists vars (vi_name var) then vars
      else vars @ [(complete_var_type K s (var\<lparr>vi_has_location := True\<rparr>), addr)])"

definition sym_is_global_data :: "char \<Rightarrow> bool" where
  "sym_is_global_data type \<longleftrightarrow> type \<in> set ''bBdDgGsSC''"

definition collect_globals_from_syms :: "'w kernel \<Rightarrow> 'w cdbg \<Rightarrow> nat \<Rightarrow> show_vars \<Rightarrow> show_vars" where
  "collect_globals_from_syms K s max_vars vars =
     fold (\<lambda>e vars.
       if length vars \<ge> max_vars \<or> se_address e = 0 \<or> \<not> sym_is_global_data (se_type e)
          \<or> show_var_name_exists vars (se_name e) then vars
       else show_var_push K s max_vars
              (zero_var\<lparr>vi_name := snprintf_s 128 (se_name e), vi_type := ''unsigned long''\<rparr>)
              (cdbg_syms_runtime_addr (syms s) (se_address e)) vars) (sy_entries (syms s)) vars"

record show_scan =
  sw_in_func :: bool
  sw_func_matches :: bool
  sw_depth :: nat
  sw_func_low :: addr
  sw_func_high :: addr
  sw_in_lex :: bool
  sw_lex_matches :: bool
  sw_lex_low :: addr
  sw_lex_high :: addr
  sw_reading :: bool
  sw_formal :: bool
  sw_var :: var_info
  sw_fbreg :: bool
  sw_link_addr :: addr
  sw_vars :: show_vars

definition show_scan0 :: show_scan where
  "show_scan0 = \<lparr>sw_in_func = False, sw_func_matches = False, sw_depth = 0, sw_func_low = 0,
     sw_func_high = 0, sw_in_lex = False, sw_lex_matches = False, sw_lex_low = 0, sw_lex_high = 0,
     sw_reading = False, sw_formal = False, sw_var = zero_var, sw_fbreg = False, sw_link_addr = 0,
     sw_vars = []\<rparr>"

definition var_included :: "show_scope \<Rightarrow> show_scan \<Rightarrow> bool" where
  "var_included scope st =
     (case scope of
        Show_ARGS \<Rightarrow> sw_formal st \<and> sw_func_matches st \<and> sw_in_func st \<and> sw_fbreg st
      | Show_LOCALS \<Rightarrow> \<not> sw_formal st \<and> sw_func_matches st \<and> sw_in_func st \<and> sw_fbreg st
          \<and> (\<not> sw_in_lex st \<or> sw_lex_matches st)
      | Show_GLOBALS \<Rightarrow> \<not> sw_formal st \<and> \<not> sw_in_func st \<and> \<not> sw_in_lex st \<and> sw_link_addr st \<noteq> 0)"

text \<open>The end of a variable's entry: it joins the list when it belongs to the scope.\<close>

definition show_finish :: "'w kernel \<Rightarrow> 'w cdbg \<Rightarrow> show_scope \<Rightarrow> nat \<Rightarrow> show_scan \<Rightarrow> show_scan" where
  "show_finish K s scope max_vars st =
     (let var = sw_var st;
          addr = (case scope of
                    Show_GLOBALS \<Rightarrow> cdbg_syms_runtime_addr (syms s) (sw_link_addr st)
                  | _ \<Rightarrow> var_base_addr s (vi_base var) + word_of_int (vi_fbreg_offset var))
      in if vi_name var \<noteq> [] \<and> var_included scope st
         then st\<lparr>sw_vars := show_var_push K s max_vars var addr (sw_vars st)\<rparr> else st)"

definition fresh_var :: "bool \<Rightarrow> bool \<Rightarrow> show_scan \<Rightarrow> show_scan" where
  "fresh_var reading formal st =
     st\<lparr>sw_var := zero_var, sw_reading := reading, sw_formal := formal, sw_fbreg := False, sw_link_addr := 0\<rparr>"

definition show_die :: "show_scan \<Rightarrow> string \<Rightarrow> show_scan" where
  "show_die st line =
     (let depth = dwarf_line_depth line
      in if contains line ''DW_TAG_subprogram''
         then st\<lparr>sw_in_func := True, sw_func_matches := False, sw_depth := depth, sw_func_low := 0,
                 sw_func_high := 0\<rparr>
         else if sw_in_func st \<and> depth \<le> sw_depth st
         then st\<lparr>sw_in_func := False, sw_func_matches := False, sw_in_lex := False, sw_lex_matches := False\<rparr>
         else if sw_in_func st \<and> sw_func_matches st \<and> contains line ''DW_TAG_lexical_block''
         then st\<lparr>sw_in_lex := True, sw_lex_matches := False, sw_lex_low := 0, sw_lex_high := 0\<rparr>
         else if sw_in_func st \<and> sw_func_matches st \<and> contains line ''DW_TAG_formal_parameter''
         then fresh_var True True st
         else if contains line ''DW_TAG_variable'' then fresh_var True False st
         else if sw_in_lex st \<and> contains line ''NULL''
         then st\<lparr>sw_in_lex := False, sw_lex_matches := False\<rparr>
         else st)"

definition show_attribute :: "addr \<Rightarrow> show_scan \<Rightarrow> string \<Rightarrow> show_scan" where
  "show_attribute link_pc st line =
     (let var = sw_var st; v = parse_hex_value line
      in if sw_in_func st \<and> contains line ''DW_AT_low_pc''
         then if sw_in_lex st
              then let low = (case v of None \<Rightarrow> sw_lex_low st | Some v \<Rightarrow> v)
                   in st\<lparr>sw_lex_low := low, sw_lex_matches := pc_in_range link_pc low (sw_lex_high st)\<rparr>
              else let low = (case v of None \<Rightarrow> sw_func_low st | Some v \<Rightarrow> v)
                   in st\<lparr>sw_func_low := low, sw_func_matches := pc_in_range link_pc low (sw_func_high st)\<rparr>
         else if sw_in_func st \<and> contains line ''DW_AT_high_pc''
         then if sw_in_lex st
              then let high = (case v of None \<Rightarrow> sw_lex_high st | Some v \<Rightarrow> v)
                   in st\<lparr>sw_lex_high := high, sw_lex_matches := pc_in_range link_pc (sw_lex_low st) high\<rparr>
              else let high = (case v of None \<Rightarrow> sw_func_high st | Some v \<Rightarrow> v)
                   in st\<lparr>sw_func_high := high, sw_func_matches := pc_in_range link_pc (sw_func_low st) high\<rparr>
         else if \<not> sw_reading st then st
         else if contains line ''DW_AT_location''
         then (case parse_fbreg_offset line of
                 Some (offset, base) \<Rightarrow>
                   st\<lparr>sw_var := var\<lparr>vi_fbreg_offset := offset, vi_base := base\<rparr>, sw_fbreg := True\<rparr>
               | None \<Rightarrow>
                   (let st = st\<lparr>sw_var := var\<lparr>vi_base := fbreg_base line (vi_base var)\<rparr>\<rparr>
                    in case parse_addr_location line of
                         Some a \<Rightarrow> st\<lparr>sw_link_addr := a, sw_fbreg := False\<rparr>
                       | None \<Rightarrow> st))
         else if contains line ''DW_AT_name''
         then st\<lparr>sw_var := (case parse_quoted_value line 128 of None \<Rightarrow> var | Some x \<Rightarrow> var\<lparr>vi_name := x\<rparr>)\<rparr>
         else if contains line ''DW_AT_type''
         then st\<lparr>sw_var := (case parse_quoted_value line 128 of None \<Rightarrow> var | Some x \<Rightarrow> var\<lparr>vi_type := x\<rparr>)\<rparr>
         else st)"

definition show_line ::
    "'w kernel \<Rightarrow> 'w cdbg \<Rightarrow> show_scope \<Rightarrow> nat \<Rightarrow> addr \<Rightarrow> string \<Rightarrow> show_scan \<Rightarrow> show_scan" where
  "show_line K s scope max_vars link_pc line st =
     (let die = dwarf_starts_die line;
          st = (if sw_reading st \<and> die
                then fresh_var False False (show_finish K s scope max_vars st) else st);
          st = (if die then show_die st line else st)
      in show_attribute link_pc st line)"

definition collect_show_vars :: "'w kernel \<Rightarrow> show_scope \<Rightarrow> nat \<Rightarrow> 'w cdbg \<Rightarrow> show_vars" where
  "collect_show_vars K scope max_vars s =
     (if debug_info_path s = []
      then if scope = Show_GLOBALS then collect_globals_from_syms K s max_vars [] else []
      else case debug_info_lines K s of
             None \<Rightarrow> []
           | Some lines \<Rightarrow>
               (let link_pc = cdbg_regs_pc (regs s) - ln_slide (lineno s);
                    st = fold (show_line K s scope max_vars link_pc) lines show_scan0;
                    st = (if sw_reading st then show_finish K s scope max_vars st else st)
                in if scope = Show_GLOBALS then collect_globals_from_syms K s max_vars (sw_vars st)
                   else sw_vars st))"

definition show_usage :: string where
  "show_usage = ''Usage: show locals|args|globals|bp|wp|threads'' @ nl"

definition show_variable :: "'w kernel \<Rightarrow> var_info \<times> addr \<Rightarrow> 'w cdbg \<Rightarrow> 'w cdbg" where
  "show_variable K = (\<lambda>(var, addr) s.
     let (ok, s) = print_named_variable K var addr s
     in if ok then s else err (''Cannot print variable: '' @ vi_name var @ nl) s)"

definition show_variables :: "'w kernel \<Rightarrow> show_scope \<Rightarrow> 'w cdbg \<Rightarrow> bool \<times> 'w cdbg" where
  "show_variables K scope s =
     (let (ok, s) = cdbg_language_check_expr s
      in if \<not> ok then (False, s)
         else let (ok, s) = cdbg_refresh_regs K s
              in if \<not> ok then (False, s)
                 else let vars = collect_show_vars K scope CDBG_MAX_SHOW_VARS s
                      in if vars = [] then (True, out (''(none)'' @ nl) s)
                         else (True, fold (show_variable K) vars s))"

definition cmd_show :: "'w kernel \<Rightarrow> string option \<Rightarrow> 'w cdbg \<Rightarrow> bool \<times> 'w cdbg" where
  "cmd_show K arg s =
     (case map_option trim_space arg of
        None \<Rightarrow> (False, err show_usage s)
      | Some args \<Rightarrow>
          if args = ''bp'' then cmd_show_breakpoints s
          else if args = ''wp'' then cmd_show_watchpoints s
          else if args = ''threads'' then cmd_show_threads K s
          else if state s \<noteq> State_STOPPED
          then (False, err (''Not stopped or no process is running'' @ nl) s)
          else if args = ''locals'' then show_variables K Show_LOCALS s
          else if args = ''args'' then show_variables K Show_ARGS s
          else if args = ''globals'' then show_variables K Show_GLOBALS s
          else (False, err show_usage (err (''Unknown show option: '' @ args @ nl) s)))"

section \<open>leaks\<close>

definition cmd_leaks :: "'w kernel \<Rightarrow> 'w cdbg \<Rightarrow> bool \<times> 'w cdbg" where
  "cmd_leaks K s =
     (if pid s \<le> 0 \<or> state s = State_IDLE then (False, err (''No process is running'' @ nl) s)
      else let q = [CHR 0x27];
               s = (if malloc_stack_logging s then s
                    else out (''Note: '' @ q @ ''set malloc-log on'' @ q @ '' before '' @ q @ ''run'' @ q
                           @ '' to get allocation backtraces in the report below.'' @ nl) s)
           in case k_popen K (snprintf_s 64 (''leaks '' @ fmt_d (pid s) @ '' 2>&1'')) (world (dsys s)) of
                None \<Rightarrow> (False, say (Perror ''popen(leaks)'') s)
              | Some (text, status) \<Rightarrow>
                  (let s = fold out (fgets_all 1024 text) s
                   in if status \<noteq> 0
                      then (False, err (''Could not run the '' @ q @ ''leaks'' @ q
                             @ '' tool. It requires Xcode command line tools and permission to inspect this process.''
                             @ nl) s)
                      else (True, s)))"

end
