(* ===== verification/Help.thy ===== *)
theory Help
  imports Debugger
begin

text \<open>
  The \<^verbatim>\<open>help\<close> command of \<^verbatim>\<open>src/debugger.c\<close>: the table of texts, one list for each category
  in the order of the source, the lookup of a command by any of its names or by its usage
  line, and the listings.
\<close>

section \<open>The table\<close>

record help_entry =
  he_category :: string
  he_names :: string
  he_usage :: string
  he_summary :: string
  he_detail :: "string option"

abbreviation squote :: string where "squote \<equiv> [CHR 0x27]"
abbreviation dquote :: string where "dquote \<equiv> [CHR 0x22]"

definition help_general :: "help_entry list" where
  "help_general =
    [\<lparr>he_category = ''General'', he_names = ''help, h'',
      he_usage = ''help [command]'',
      he_summary = ''List commands or show help for a specific command.'',
      he_detail = Some (''Without an argument, prints a one-line summary of every command.'' @ nl
            @ ''With a command name, prints usage and full details.'' @ nl @ nl @ ''Examples:''
            @ nl @ ''  help'' @ nl @ ''  help break'' @ nl @ ''  help set'' @ nl)\<rparr>,
     \<lparr>he_category = ''General'', he_names = ''quit, q'',
      he_usage = ''quit'',
      he_summary = ''Kill the debuggee (if running) and exit the debugger.'',
      he_detail = Some (''Sends SIGKILL to the debuggee, waits for it to exit, then'' @ nl
            @ ''terminates the debugger session.'' @ nl @ ''Use '' @ squote @ ''kill'' @ squote
            @ '' to terminate only the debuggee and stay in the REPL.'' @ nl)\<rparr>]"

definition help_execution :: "help_entry list" where
  "help_execution =
    [\<lparr>he_category = ''Execution'', he_names = ''run'',
      he_usage = ''run [program [args...]]'',
      he_summary = ''Start or restart the debuggee. Without arguments, rerun the last '' @ ''program.'',
      he_detail = Some (''If a process is already running it is killed before the new one '' @ ''starts.''
            @ nl @ ''Breakpoints set before '' @ squote @ ''run'' @ squote
            @ '' are preserved across restarts.'' @ nl @ nl @ ''Examples:'' @ nl
            @ ''  run                     Rerun the last program'' @ nl
            @ ''  run ./target            Run a specific program'' @ nl
            @ ''  run ./target arg1 arg2  Run with arguments'' @ nl)\<rparr>,
     \<lparr>he_category = ''Execution'', he_names = ''continue, c'',
      he_usage = ''continue'',
      he_summary = ''Resume execution until the next breakpoint or process exit.'',
      he_detail = Some (''Resumes the stopped debuggee and waits for the next stop event.'' @ nl
            @ ''Stop events: breakpoint hit, signal received, or process exit.'' @ nl)\<rparr>,
     \<lparr>he_category = ''Execution'', he_names = ''step, s'',
      he_usage = ''step'',
      he_summary = ''Execute one source line, entering function calls.'',
      he_detail = Some (''Steps one source line. If the line contains a function call the'' @ nl
            @ ''debugger enters the callee.'' @ nl @ ''Use '' @ squote @ ''next'' @ squote
            @ '' to step over calls instead.'' @ nl @ ''Use '' @ squote @ ''si'' @ squote
            @ '' to step one machine instruction.'' @ nl)\<rparr>,
     \<lparr>he_category = ''Execution'', he_names = ''si'',
      he_usage = ''si'',
      he_summary = ''Execute a single machine instruction.'',
      he_detail = Some (''Useful when there is no source information (e.g. inside a library)'' @ nl
            @ ''or when inspecting compiler-generated code closely.'' @ nl @ ''Use '' @ squote
            @ ''step'' @ squote @ '' / '' @ squote @ ''next'' @ squote
            @ '' for source-level stepping.'' @ nl)\<rparr>,
     \<lparr>he_category = ''Execution'', he_names = ''next, n'',
      he_usage = ''next'',
      he_summary = ''Execute one source line, stepping over function calls.'',
      he_detail = Some (''Steps one source line. Function calls are executed as a unit;'' @ nl
            @ ''the debugger does not enter the callee.'' @ nl @ ''Use '' @ squote @ ''step''
            @ squote @ '' to step into calls instead.'' @ nl)\<rparr>,
     \<lparr>he_category = ''Execution'', he_names = ''up'',
      he_usage = ''up'',
      he_summary = ''Move to the caller frame and stop there.'',
      he_detail = Some (''Reads the saved frame pointer and return address from the stack'' @ nl
            @ ''and updates the register context to the calling frame.'' @ nl @ ''Use '' @ squote
            @ ''regs'' @ squote @ '' or '' @ squote @ ''print'' @ squote
            @ '' to inspect the caller'' @ squote @ ''s state.'' @ nl)\<rparr>,
     \<lparr>he_category = ''Execution'', he_names = ''kill'',
      he_usage = ''kill'',
      he_summary = ''Kill the debuggee and return to the prompt (debugger stays open).'',
      he_detail = Some (''Sends SIGKILL to the debuggee and waits for it to exit.'' @ nl
            @ ''The debugger stays open; use '' @ squote @ ''run'' @ squote
            @ '' to start a new session.'' @ nl @ ''Use '' @ squote @ ''quit'' @ squote
            @ '' to also exit the debugger.'' @ nl)\<rparr>]"

definition help_inspection :: "help_entry list" where
  "help_inspection =
    [\<lparr>he_category = ''Inspection'', he_names = ''regs, r'',
      he_usage = ''regs'',
      he_summary = ''Print all registers: general-purpose, NEON/FP, and system registers.'',
      he_detail = Some (''ARM64 registers:'' @ nl
            @ ''  General-purpose:  x0-x28, fp (x29), lr (x30), sp, pc, cpsr'' @ nl
            @ ''  NEON/FP:          v0-v31, fpsr, fpcr'' @ nl)\<rparr>,
     \<lparr>he_category = ''Inspection'', he_names = ''print, p'',
      he_usage = ''print [/fmt] <expr>'',
      he_summary = ''Evaluate and print an expression. Formats: /d /x /o /t /c /s.'',
      he_detail = Some (''Format specifiers:'' @ nl @ ''  /d   decimal (default for integers)'' @ nl
            @ ''  /x   hexadecimal'' @ nl @ ''  /o   octal'' @ nl @ ''  /t   binary'' @ nl
            @ ''  /c   character'' @ nl @ ''  /s   C string (dereference as char*)'' @ nl @ nl
            @ ''Expression examples:'' @ nl @ ''  p x              Variable'' @ nl
            @ ''  p/x ptr          Pointer in hex'' @ nl @ ''  p sa             Array'' @ nl
            @ ''  p f.a, p p->b    Struct members'' @ nl
            @ ''  p p->a.b         Nested member access (any depth)'' @ nl
            @ ''  p arr[i]         Array index (any expression, not just a literal)'' @ nl
            @ ''  p 3.14           Float literal'' @ nl @ ''  p x + y * 2      Arithmetic'' @ nl
            @ ''  p *ptr           Dereference'' @ nl @ ''  p &x             Address of'' @ nl)\<rparr>,
     \<lparr>he_category = ''Inspection'', he_names = ''show'',
      he_usage = ''show locals|args|globals|bp|wp|threads'',
      he_summary = ''Print local variables, arguments, global variables, breakpoints, ''
        @ ''watchpoints, or threads.'',
      he_detail = Some (''Subcommands:'' @ nl @ ''  show locals    Local variables of the current function''
            @ nl @ ''  show args      Arguments of the current function'' @ nl
            @ ''  show globals   Global variables in the program'' @ nl
            @ ''  show bp        All breakpoints (same as '' @ squote @ ''show bp'' @ squote
            @ '' in Breakpoints)'' @ nl @ ''  show wp        All watchpoints (same as '' @ squote
            @ ''show wp'' @ squote @ '' in Watchpoints)'' @ nl
            @ ''  show threads   All threads (same as '' @ squote @ ''thread'' @ squote
            @ '' with no argument)'' @ nl)\<rparr>,
     \<lparr>he_category = ''Inspection'', he_names = ''x'',
      he_usage = ''x <addr> [count]'',
      he_summary = ''Examine memory as a hexadecimal dump (default 16 bytes).'',
      he_detail = Some (''Dumps <count> bytes of memory at <addr> as hex + ASCII.'' @ nl @ nl @ ''Examples:''
            @ nl @ ''  x 0x100003f20        16 bytes at address'' @ nl
            @ ''  x 0x100003f20 64     64 bytes at address'' @ nl
            @ ''  x &buf               Address of a variable'' @ nl)\<rparr>,
     \<lparr>he_category = ''Inspection'', he_names = ''dis'',
      he_usage = ''dis <func|file:line|line|addr>'',
      he_summary = ''Disassemble about 10 instructions at the given location.'',
      he_detail = Some (''Location forms:'' @ nl @ ''  dis main             Function name'' @ nl
            @ ''  dis target.c:42     File and line number'' @ nl
            @ ''  dis 42               Line number (single source file)'' @ nl
            @ ''  dis 0x100003f20      Absolute address'' @ nl)\<rparr>,
     \<lparr>he_category = ''Inspection'', he_names = ''list, l'',
      he_usage = ''list [line|file:line|function]'',
      he_summary = ''Show source code around the current or specified location.'',
      he_detail = Some (''Displays 10 lines centred on the target location.'' @ nl @ nl @ ''Location forms:''
            @ nl @ ''  list                 Current instruction'' @ nl
            @ ''  list 42              Line 42 in the current file'' @ nl
            @ ''  list target.c:42     Line 42 in a specific file'' @ nl
            @ ''  list main            Start of function '' @ squote @ ''main'' @ squote @ nl)\<rparr>,
     \<lparr>he_category = ''Inspection'', he_names = ''lines'',
      he_usage = ''lines [file]'',
      he_summary = ''List line number to address mappings.'',
      he_detail = Some (''Prints DWARF line-number entries (address '' @ [CHR 0xE2, CHR 0x86, CHR 0x92]
            @ '' file:line).'' @ nl
            @ ''Useful for finding the address of a specific source line.'' @ nl @ nl
            @ ''Examples:'' @ nl @ ''  lines              All mappings'' @ nl
            @ ''  lines target.c     Only mappings for target.c'' @ nl)\<rparr>,
     \<lparr>he_category = ''Inspection'', he_names = ''lists'',
      he_usage = ''lists [file]'',
      he_summary = ''List source line to address mappings.'',
      he_detail = Some (''Like '' @ squote @ ''lines'' @ squote @ '' but grouped by source line number.'' @ nl
            @ nl @ ''Examples:'' @ nl @ ''  lists              All mappings'' @ nl
            @ ''  lists target.c     Only mappings for target.c'' @ nl)\<rparr>,
     \<lparr>he_category = ''Inspection'', he_names = ''syms, sym'',
      he_usage = ''syms [name]'',
      he_summary = ''List loaded symbols, optionally filtered by name.'',
      he_detail = Some (''Prints address and name for every loaded symbol.'' @ nl
            @ ''The optional argument is a substring filter.'' @ nl @ nl @ ''Examples:'' @ nl
            @ ''  syms               All symbols'' @ nl
            @ ''  syms main          Symbols whose name contains '' @ dquote @ ''main'' @ dquote
            @ nl)\<rparr>,
     \<lparr>he_category = ''Inspection'', he_names = ''tb'',
      he_usage = ''tb'',
      he_summary = ''Show a backtrace of the current call stack.'',
      he_detail = Some (''Prints each frame as: #n  <address>  <function> (if known)'' @ nl
            @ ''Unwinding follows saved FP/LR chains on the stack.'' @ nl)\<rparr>,
     \<lparr>he_category = ''Inspection'', he_names = ''leaks'',
      he_usage = ''leaks'',
      he_summary = ''Run the macOS '' @ squote @ ''leaks'' @ squote
        @ '' tool against the debuggee to report unreachable malloc blocks.'',
      he_detail = Some (''Runs '' @ squote @ ''leaks <pid>'' @ squote @ '' and prints the output.'' @ nl
            @ ''For allocation backtraces, enable malloc stack logging before running:'' @ nl @ nl
            @ ''  set malloc-log on'' @ nl @ ''  run'' @ nl @ ''  (trigger the leak)'' @ nl
            @ ''  leaks'' @ nl)\<rparr>]"

definition help_breakpoints :: "help_entry list" where
  "help_breakpoints =
    [\<lparr>he_category = ''Breakpoints'', he_names = ''show bp'',
      he_usage = ''show bp'',
      he_summary = ''List breakpoints with number, enabled state, address, and location.'',
      he_detail = Some (''Each line shows:'' @ nl @ ''  #n   breakpoint number (used with '' @ squote
            @ ''del'' @ squote @ '')'' @ nl @ ''  [+]  enabled   [-]  disabled'' @ nl
            @ ''  address'' @ nl @ ''  source location (file:line, if known)'' @ nl)\<rparr>,
     \<lparr>he_category = ''Breakpoints'', he_names = ''del, delete'',
      he_usage = ''del <n> [n...] | del all'',
      he_summary = ''Delete one or more breakpoints by number.'',
      he_detail = Some (''Examples:'' @ nl @ ''  del 1          Delete breakpoint #1'' @ nl
            @ ''  del 1 2 3      Delete multiple breakpoints'' @ nl
            @ ''  del all        Delete all breakpoints'' @ nl)\<rparr>,
     \<lparr>he_category = ''Breakpoints'', he_names = ''break, b'',
      he_usage = ''break <addr|name|file:line|line>'',
      he_summary = ''Set a breakpoint at an address, symbol, or source line.'',
      he_detail = Some (''Location forms:'' @ nl @ ''  break main           Function name'' @ nl
            @ ''  break target.c:42    File and line number'' @ nl
            @ ''  break 42             Line number (single source file)'' @ nl
            @ ''  break 0x100003f20    Absolute address'' @ nl)\<rparr>]"

definition help_watchpoints :: "help_entry list" where
  "help_watchpoints =
    [\<lparr>he_category = ''Watchpoints'', he_names = ''watch'',
      he_usage = ''watch <expr>'',
      he_summary = ''Set a hardware watchpoint that stops execution when <expr> is written.'',
      he_detail = Some (''Uses ARM64 debug registers (up to 4 at a time) to trap on writes'' @ nl
            @ ''to the watched location without single-stepping.'' @ nl @ nl @ ''Examples:'' @ nl
            @ ''  watch counter        Stop when the variable is written'' @ nl
            @ ''  watch arr[0]         Stop when an array element is written'' @ nl
            @ ''  watch s.field        Stop when a struct member is written'' @ nl
            @ ''  watch *ptr           Stop when the pointee is written'' @ nl @ nl
            @ ''Supports scalars up to 8 bytes that do not cross an 8-byte boundary.'' @ nl
            @ ''Use '' @ squote @ ''rwatch'' @ squote @ '' for reads and '' @ squote @ ''awatch''
            @ squote @ '' for reads or writes.'' @ nl)\<rparr>,
     \<lparr>he_category = ''Watchpoints'', he_names = ''rwatch'',
      he_usage = ''rwatch <expr>'',
      he_summary = ''Set a hardware watchpoint that stops execution when <expr> is read.'',
      he_detail = Some (''Same expression forms as '' @ squote @ ''watch'' @ squote
            @ '', but triggers on reads instead of writes.'' @ nl)\<rparr>,
     \<lparr>he_category = ''Watchpoints'', he_names = ''awatch'',
      he_usage = ''awatch <expr>'',
      he_summary = ''Set a hardware watchpoint that stops execution on any read or write '' @ ''of <expr>.'',
      he_detail = Some (''Same expression forms as '' @ squote @ ''watch'' @ squote
            @ '', but triggers on both reads and writes.'' @ nl)\<rparr>,
     \<lparr>he_category = ''Watchpoints'', he_names = ''show wp'',
      he_usage = ''show wp'',
      he_summary = ''List watchpoints with number, enabled state, type, size, address, and ''
        @ ''expression.'',
      he_detail = Some (''Each line shows:'' @ nl @ ''  #n     watchpoint number (used with '' @ squote
            @ ''delwatch'' @ squote @ '')'' @ nl @ ''  y/n    enabled'' @ nl
            @ ''  type   read, write, or access'' @ nl @ ''  size   watched size in bytes'' @ nl
            @ ''  address and the original expression'' @ nl)\<rparr>,
     \<lparr>he_category = ''Watchpoints'', he_names = ''delwatch, dw'',
      he_usage = ''delwatch <n> [n...] | delwatch all'',
      he_summary = ''Delete one or more watchpoints by number.'',
      he_detail = Some (''Examples:'' @ nl @ ''  delwatch 0        Delete watchpoint #0'' @ nl
            @ ''  delwatch 0 1      Delete multiple watchpoints'' @ nl
            @ ''  delwatch all      Delete all watchpoints'' @ nl)\<rparr>]"

definition help_threads :: "help_entry list" where
  "help_threads =
    [\<lparr>he_category = ''Threads'', he_names = ''thread'',
      he_usage = ''thread [n]'',
      he_summary = ''List all threads, or switch to thread <n>.'',
      he_detail = Some (''Without an argument, lists every thread of the debuggee: its number ''
            @ ''(used to switch), thread ID, and current PC. The current thread is ''
            @ ''marked with '' @ squote @ ''*'' @ squote @ ''.'' @ nl @ nl
            @ ''With a number, switches the current thread; subsequent '' @ squote @ ''regs''
            @ squote @ '', '' @ squote @ ''print'' @ squote @ '', '' @ squote @ ''set'' @ squote
            @ '', '' @ squote @ ''tb'' @ squote @ '', '' @ squote @ ''up'' @ squote @ '', and ''
            @ squote @ ''step'' @ squote @ ''/'' @ squote @ ''next'' @ squote @ ''/'' @ squote
            @ ''si'' @ squote @ '' all operate on that thread. Breakpoints and '' @ squote
            @ ''continue'' @ squote
            @ '' are unaffected by thread selection (they apply process-wide); '' @ squote
            @ ''step'' @ squote @ ''/'' @ squote @ ''next'' @ squote @ ''/'' @ squote @ ''si''
            @ squote @ '' only advance the selected thread, freezing the others for the ''
            @ ''duration of that single step.'' @ nl @ nl
            @ ''When a breakpoint or watchpoint fires, the thread that actually ''
            @ ''triggered it is automatically selected.'' @ nl @ nl @ ''Examples:'' @ nl
            @ ''  thread        List all threads'' @ nl @ ''  thread 1      Switch to thread #1''
            @ nl)\<rparr>]"

definition help_settings :: "help_entry list" where
  "help_settings =
    [\<lparr>he_category = ''Settings'', he_names = ''set'',
      he_usage = ''set <var> = <expr>  |  set $<reg> = <expr>'',
      he_summary = ''Assign a value to a variable, struct member, array element, or '' @ ''register.'',
      he_detail = Some (''Variable examples:'' @ nl @ ''  set x = 42'' @ nl @ ''  set arr[0] = 1'' @ nl
            @ ''  set arr[i] = 1              Index can be any expression'' @ nl
            @ ''  set s.field = 100'' @ nl @ ''  set p->n = 0'' @ nl
            @ ''  set p->inner.field = 0       Nested member access (any depth)'' @ nl @ nl
            @ ''Register examples (ARM64):'' @ nl @ ''  set $x0 = 0xff              Integer GPR''
            @ nl @ ''  set $v0 = 0x3ff0000000000000  NEON register (lower 64 bits)'' @ nl
            @ ''  set $fpsr = 0               FP status register'' @ nl)\<rparr>,
     \<lparr>he_category = ''Settings'', he_names = ''set print'',
      he_usage = ''set print pretty on|off'',
      he_summary = ''Enable or disable multi-line struct and array formatting.'',
      he_detail = Some (''  set print pretty on    Indent structs and arrays across multiple '' @ ''lines''
            @ nl @ ''  set print pretty off   Single-line output (default)'' @ nl)\<rparr>,
     \<lparr>he_category = ''Settings'', he_names = ''set language'',
      he_usage = ''set language <name>'',
      he_summary = ''Set the expression language (c, c++, auto, fortran, ...).'',
      he_detail = Some (''Affects how expressions in '' @ squote @ ''print'' @ squote @ '' and '' @ squote
            @ ''set'' @ squote @ '' are parsed.'' @ nl @ ''Supported: c, c++, fortran, auto'' @ nl
            @ squote @ ''auto'' @ squote
            @ '' selects based on the current source file extension.'' @ nl)\<rparr>,
     \<lparr>he_category = ''Settings'', he_names = ''set malloc-log'',
      he_usage = ''set malloc-log on|off'',
      he_summary = ''Enable MallocStackLogging for the debuggee so '' @ squote @ ''leaks'' @ squote
        @ '' can show allocation backtraces. Takes effect on the next '' @ squote @ ''run''
        @ squote @ ''.'',
      he_detail = Some (''Sets the MallocStackLogging environment variable for the next '' @ squote @ ''run''
            @ squote @ ''.'' @ nl @ ''This lets '' @ squote @ ''leaks'' @ squote
            @ '' report the call stack at each allocation.'' @ nl @ nl
            @ ''  set malloc-log on     Record allocation backtraces'' @ nl
            @ ''  set malloc-log off    Disable (default)'' @ nl)\<rparr>]"

definition k_help_entries :: "help_entry list" where
  "k_help_entries = help_general @ help_execution @ help_inspection @ help_breakpoints
     @ help_watchpoints @ help_threads @ help_settings"

section \<open>Lookup\<close>

definition strip_blanks :: "string \<Rightarrow> string" where
  "strip_blanks token =
     rev (dropWhile (\<lambda>c. c = CHR '' '') (rev (dropWhile (\<lambda>c. c = CHR '' '') token)))"

definition help_name_matches :: "help_entry \<Rightarrow> string \<Rightarrow> bool" where
  "help_name_matches entry name \<longleftrightarrow>
     name \<noteq> []
     \<and> (list_ex (\<lambda>token. str_ieq (strip_blanks token) name)
          (strtok (snprintf_s 128 (he_names entry)) '','')
        \<or> starts_with (he_usage entry) name
          \<and> (length (he_usage entry) = length name
             \<or> he_usage entry ! length name \<in> set '' <''))"

section \<open>Listings\<close>

definition print_help_entry :: "help_entry \<Rightarrow> string" where
  "print_help_entry entry = ''  '' @ pad_right 22 (he_names entry) @ ''  '' @ he_summary entry @ nl"

text \<open>The lines of a detail text, each indented.\<close>

function detail_lines :: "string \<Rightarrow> string list" where
  "detail_lines p =
     (if p = [] then []
      else let line = takeWhile (\<lambda>c. c \<noteq> CHR 0x0A) p
           in (if line \<noteq> [] then ''  '' @ line @ nl else nl)
              # detail_lines (drop (length line + 1) p))"
  by pat_completeness auto
termination by (relation "measure length") auto

declare detail_lines.simps [simp del]

definition print_help_entry_detail :: "help_entry \<Rightarrow> 'w cdbg \<Rightarrow> 'w cdbg" where
  "print_help_entry_detail entry s =
     (let s = out (''  '' @ he_summary entry @ nl) (out (''  Usage: '' @ he_usage entry @ nl)
                (out (he_names entry @ nl) s))
      in case he_detail entry of
           None \<Rightarrow> s
         | Some detail \<Rightarrow> fold out (detail_lines detail) (out nl s))"

fun help_listing :: "string option \<Rightarrow> help_entry list \<Rightarrow> string list" where
  "help_listing category [] = []"
| "help_listing category (entry # entries) =
     (if category = Some (he_category entry) then []
      else (if category = None then [] else [nl]) @ [he_category entry @ '':'' @ nl])
     @ print_help_entry entry # help_listing (Some (he_category entry)) entries"

definition help_examples :: "string list" where
  "help_examples =
     map (\<lambda>t. t @ nl)
       [''Expression examples:'',
        ''  p x                  Print variable x'',
        ''  p/x ptr              Print pointer in hex'',
        ''  p sa                 Print an array'',
        ''  p f.a, p p->b        Print struct members'',
        ''  p arr[i]             Print an array element (index can be any expression)'',
        ''  p 3.14               Print float literal'',
        ''  set x = 1            Assign to a variable'',
        ''  set sa[1].b = 100    Assign to an array element member'',
        ''  set $x0 = 0xff       Assign to an integer register'',
        ''  set $v0 = 0x3ff0000000000000  Assign bit pattern to NEON register'']"

definition print_help_all :: "'w cdbg \<Rightarrow> 'w cdbg" where
  "print_help_all s =
     fold out
       ([''Available commands (type '' @ squote @ ''help <command>'' @ squote @ '' for details):'' @ nl, nl]
        @ help_listing None k_help_entries @ [nl] @ help_examples) s"

definition cmd_help :: "string option \<Rightarrow> 'w cdbg \<Rightarrow> bool \<times> 'w cdbg" where
  "cmd_help arg s =
     (case map_option trim_space arg of
        None \<Rightarrow> (True, print_help_all s)
      | Some args \<Rightarrow>
          if args = [] then (True, print_help_all s)
          else case find (\<lambda>entry. help_name_matches entry args) k_help_entries of
                 Some entry \<Rightarrow> (True, print_help_entry_detail entry s)
               | None \<Rightarrow>
                   (False, err (''Try '' @ squote @ ''help'' @ squote @ '' for a list of commands.'' @ nl)
                             (err (''No help available for: '' @ args @ nl) s)))"

end
