(* ===== verification/Command.thy ===== *)
theory Command
  imports Watchpoint
begin

text \<open>
  The command language: \<^verbatim>\<open>src/command.l\<close>, whose start conditions make the scanner deliver a
  command word and then the raw rest of the line, its words, or nothing; and
  \<^verbatim>\<open>src/command.y\<close>, which builds the \<^verbatim>\<open>cdbg_command_t\<close> of \<^verbatim>\<open>include/command_ast.h\<close>.
\<close>

section \<open>Commands\<close>

datatype cmd_kind =
  Cmd_UNKNOWN | Cmd_EMPTY | Cmd_HELP | Cmd_RUN | Cmd_CONTINUE | Cmd_STEP | Cmd_SI | Cmd_NEXT | Cmd_UP
| Cmd_REGS | Cmd_PRINT | Cmd_SET | Cmd_SHOW | Cmd_TB | Cmd_LEAKS | Cmd_BREAK | Cmd_DEL | Cmd_WATCH
| Cmd_DELWATCH | Cmd_DIS | Cmd_LIST | Cmd_LINES | Cmd_LISTS | Cmd_SYMS | Cmd_X | Cmd_KILL | Cmd_QUIT
| Cmd_THREAD

record command =
  c_kind :: cmd_kind
  c_print_fmt :: "char option"
  c_watch_kind :: cdbg_watch_kind
  c_arg1 :: "string option"
  c_arg2 :: "string option"
  c_unknown_text :: "string option"

text \<open>What the scanner reads after a command word: its start condition.\<close>

datatype rest_mode = RAWLINE | TOKENS | IGNORE_REST

definition blank :: "char \<Rightarrow> bool" where "blank c \<longleftrightarrow> c = CHR '' '' \<or> c = CHR 0x09"

definition command_words :: "(string \<times> cmd_kind \<times> cdbg_watch_kind \<times> rest_mode) list" where
  "command_words =
     (let plain = (\<lambda>k m. (k, Watch_Read, m))
      in [(''print'', plain Cmd_PRINT RAWLINE), (''p'', plain Cmd_PRINT RAWLINE),
          (''help'', plain Cmd_HELP RAWLINE), (''h'', plain Cmd_HELP RAWLINE),
          (''run'', plain Cmd_RUN RAWLINE), (''set'', plain Cmd_SET RAWLINE),
          (''show'', plain Cmd_SHOW RAWLINE), (''del'', plain Cmd_DEL RAWLINE),
          (''delete'', plain Cmd_DEL RAWLINE),
          (''watch'', Cmd_WATCH, Watch_Write, RAWLINE), (''rwatch'', Cmd_WATCH, Watch_Read, RAWLINE),
          (''awatch'', Cmd_WATCH, Watch_Access, RAWLINE),
          (''delwatch'', plain Cmd_DELWATCH RAWLINE), (''dw'', plain Cmd_DELWATCH RAWLINE),
          (''dis'', plain Cmd_DIS RAWLINE), (''list'', plain Cmd_LIST RAWLINE), (''l'', plain Cmd_LIST RAWLINE),
          (''break'', plain Cmd_BREAK TOKENS), (''b'', plain Cmd_BREAK TOKENS), (''x'', plain Cmd_X TOKENS),
          (''lines'', plain Cmd_LINES TOKENS), (''lists'', plain Cmd_LISTS TOKENS),
          (''syms'', plain Cmd_SYMS TOKENS), (''sym'', plain Cmd_SYMS TOKENS),
          (''thread'', plain Cmd_THREAD TOKENS),
          (''continue'', plain Cmd_CONTINUE IGNORE_REST), (''c'', plain Cmd_CONTINUE IGNORE_REST),
          (''step'', plain Cmd_STEP IGNORE_REST), (''s'', plain Cmd_STEP IGNORE_REST),
          (''si'', plain Cmd_SI IGNORE_REST), (''next'', plain Cmd_NEXT IGNORE_REST),
          (''n'', plain Cmd_NEXT IGNORE_REST), (''up'', plain Cmd_UP IGNORE_REST),
          (''regs'', plain Cmd_REGS IGNORE_REST), (''r'', plain Cmd_REGS IGNORE_REST),
          (''tb'', plain Cmd_TB IGNORE_REST), (''leaks'', plain Cmd_LEAKS IGNORE_REST),
          (''kill'', plain Cmd_KILL IGNORE_REST), (''quit'', plain Cmd_QUIT IGNORE_REST),
          (''q'', plain Cmd_QUIT IGNORE_REST)])"

section \<open>Parsing\<close>

definition no_command :: command where
  "no_command = \<lparr>c_kind = Cmd_UNKNOWN, c_print_fmt = None, c_watch_kind = Watch_Read, c_arg1 = None,
     c_arg2 = None, c_unknown_text = None\<rparr>"

text \<open>In start condition \<open>RAWLINE\<close> the rule \<^verbatim>\<open>.+\<close> takes all of the line, blanks in front
  included; the rule for blanks comes first, and so wins when there is nothing else.\<close>

definition raw_rest :: "string \<Rightarrow> string option" where
  "raw_rest rest = (if list_all blank rest then None else Some rest)"

definition words :: "string \<Rightarrow> string list" where
  "words rest = strtok rest [CHR '' '', CHR 0x09]"

definition nth_word :: "nat \<Rightarrow> string \<Rightarrow> string option" where
  "nth_word i rest = (if i < length (words rest) then Some (words rest ! i) else None)"

text \<open>The word \<^verbatim>\<open>print/...\<close> or \<^verbatim>\<open>p/...\<close>: the character after the slash, none at the end of
  the word.\<close>

definition print_fmt_word :: "string \<Rightarrow> char option option" where
  "print_fmt_word w =
     (let after = (\<lambda>n. Some (if n < length w then Some (w ! n) else None))
      in if starts_with w ''print/'' then after 6 else if starts_with w ''p/'' then after 2 else None)"

text \<open>The parser has made its command when it meets a word too many, so that error does not
  change the command: the words behind the ones a command takes are passed over.\<close>

definition cdbg_command_parse :: "string \<Rightarrow> command" where
  "cdbg_command_parse line =
     (let line = dropWhile blank line;
          word = takeWhile (\<lambda>c. \<not> blank c) line;
          rest = dropWhile (\<lambda>c. \<not> blank c) line
      in if word = [] then no_command\<lparr>c_kind := Cmd_EMPTY\<rparr>
         else case print_fmt_word word of
                Some fmt \<Rightarrow> no_command\<lparr>c_kind := Cmd_PRINT, c_print_fmt := fmt, c_arg1 := raw_rest rest\<rparr>
              | None \<Rightarrow>
                  (case map_of command_words word of
                     None \<Rightarrow> no_command\<lparr>c_unknown_text := Some word\<rparr>
                   | Some (kind, watch, RAWLINE) \<Rightarrow>
                       no_command\<lparr>c_kind := kind, c_watch_kind := (if kind = Cmd_WATCH then watch else Watch_Read),
                         c_arg1 := raw_rest rest\<rparr>
                   | Some (kind, _, TOKENS) \<Rightarrow>
                       no_command\<lparr>c_kind := kind, c_arg1 := nth_word 0 rest,
                         c_arg2 := (if kind = Cmd_X then nth_word 1 rest else None)\<rparr>
                   | Some (kind, _, IGNORE_REST) \<Rightarrow> no_command\<lparr>c_kind := kind\<rparr>))"

end
