(* ===== verification/Repl.thy ===== *)
theory Repl
  imports Show Help Command Tables
begin

text \<open>
  The command loop: \<^verbatim>\<open>cdbg_repl\<close> of \<^verbatim>\<open>src/debugger.c\<close> and \<^verbatim>\<open>src/main.c\<close>. The standard input
  is the list of what the calls of \<^verbatim>\<open>fgets\<close> yield, and its end is the end of the file; so a
  line longer than the buffer arrives in pieces. The handler of SIGINT runs at any time and
  only sends a signal to a running debuggee, which is an event of the kernel's side.
\<close>

section \<open>Commands\<close>

text \<open>The conversions between text and doubles of the C library, on the bits of the double.\<close>

record c_library =
  l_strtod :: "string \<Rightarrow> u64"
  l_g17 :: "u64 \<Rightarrow> string"
  l_g :: "u64 \<Rightarrow> string"

definition cmd_print_from_repl ::
    "'w kernel \<Rightarrow> (string \<Rightarrow> u64) \<Rightarrow> char option \<Rightarrow> string option \<Rightarrow> 'w cdbg \<Rightarrow> 'w cdbg" where
  "cmd_print_from_repl K strtod fmt_char rest s =
     (let expr = (case fmt_char of
                    Some c \<Rightarrow>
                      (case rest of
                         None \<Rightarrow> [CHR ''/'', c]
                       | Some r \<Rightarrow> if r = [] then [CHR ''/'', c] else [CHR ''/'', c] @ '' '' @ r)
                  | None \<Rightarrow> (case rest of None \<Rightarrow> [] | Some r \<Rightarrow> r))
      in snd (cmd_print K strtod (Some (snprintf_s 256 expr)) s))"

definition not_running :: "'w cdbg \<Rightarrow> 'w cdbg" where
  "not_running = err (''No process is running'' @ nl)"

text \<open>A command goes on (\<open>None\<close>) or ends the loop with a result. What follows the wait for a
  debuggee that has been set going:\<close>

definition after_resume :: "'w kernel \<Rightarrow> (int option, 'w) op" where
  "after_resume K s =
     do { (rc, s) \<leftarrow> cdbg_wait K s;
          if rc \<noteq> 0
          then Some (if state s = State_IDLE then (None, report_process_exit s) else (Some (- 1), s))
          else if state s = State_STOPPED then do { (_, s) \<leftarrow> report_stop K s; Some (None, s) }
          else Some (None, report_process_exit s) }"

definition repl_continue :: "'w kernel \<Rightarrow> (int option, 'w) op" where
  "repl_continue K s =
     (if state s = State_IDLE then Some (None, not_running s)
      else do { (rc, s) \<leftarrow> cdbg_continue K s;
                if rc \<noteq> 0 then Some (Some (- 1), s)
                else if state s = State_IDLE then Some (None, report_process_exit s)
                else after_resume K s })"

definition repl_si :: "'w kernel \<Rightarrow> (int option, 'w) op" where
  "repl_si K s =
     (if state s = State_IDLE then Some (None, not_running s)
      else let (ok, s) = cdbg_single_step K s
           in if \<not> ok then Some (Some (- 1), s) else after_resume K s)"

definition repl_step :: "('w kernel \<Rightarrow> (bool, 'w) op) \<Rightarrow> 'w kernel \<Rightarrow> (int option, 'w) op" where
  "repl_step step K s =
     (if state s = State_IDLE then Some (None, not_running s)
      else do { (ok, s) \<leftarrow> step K s;
                if \<not> ok \<and> state s \<noteq> State_IDLE then Some (Some (- 1), s)
                else Some (None, if state s = State_IDLE then report_process_exit s else s) })"

definition repl_kill :: "'w kernel \<Rightarrow> (int option, 'w) op" where
  "repl_kill K s =
     (if pid s \<le> 0 \<or> state s = State_IDLE then Some (None, err (''No process is running.'' @ nl) s)
      else let killed_pid = pid s
           in do { (_, s) \<leftarrow> stop_debuggee K s;
                   Some (None, out (''Process '' @ fmt_d killed_pid @ '' killed.'' @ nl) s) })"

definition repl_quit :: "'w kernel \<Rightarrow> (int option, 'w) op" where
  "repl_quit K s =
     do { (_, s) \<leftarrow> stop_debuggee K s;
          Some (Some 0, s\<lparr>lineno := cdbg_lineno_free (lineno s), syms := cdbg_syms_free (syms s)\<rparr>) }"

text \<open>The commands that always return and never end the loop.\<close>

definition simple_command :: "'w kernel \<Rightarrow> c_library \<Rightarrow> command \<Rightarrow> 'w cdbg \<Rightarrow> 'w cdbg" where
  "simple_command K L cmd s =
     (let arg = c_arg1 cmd
      in case c_kind cmd of
           Cmd_HELP \<Rightarrow> snd (cmd_help arg s)
         | Cmd_UP \<Rightarrow> snd (cdbg_frame_up K s)
         | Cmd_PRINT \<Rightarrow> cmd_print_from_repl K (l_strtod L) (c_print_fmt cmd) arg s
         | Cmd_SET \<Rightarrow> snd (cmd_set K (l_strtod L) (l_g17 L) arg s)
         | Cmd_SHOW \<Rightarrow> snd (cmd_show K arg s)
         | Cmd_TB \<Rightarrow> snd (cmd_backtrace K s)
         | Cmd_LEAKS \<Rightarrow> snd (cmd_leaks K s)
         | Cmd_BREAK \<Rightarrow>
             (case arg of
                None \<Rightarrow> err (''Usage: break <addr|name|file:line|line>'' @ nl) s
              | Some target \<Rightarrow> snd (cmd_break K target s))
         | Cmd_DEL \<Rightarrow> snd (cmd_del K arg s)
         | Cmd_WATCH \<Rightarrow> snd (cmd_watch K (l_strtod L) arg (c_watch_kind cmd) s)
         | Cmd_DELWATCH \<Rightarrow> snd (cmd_delwatch K arg s)
         | Cmd_DIS \<Rightarrow> snd (cmd_dis K arg s)
         | Cmd_LIST \<Rightarrow> snd (cmd_list K arg s)
         | Cmd_LINES \<Rightarrow> snd (cmd_lines arg s)
         | Cmd_LISTS \<Rightarrow> s\<lparr>dsys := cdbg_lineno_print_list (lineno s) arg (dsys s)\<rparr>
         | Cmd_SYMS \<Rightarrow> s\<lparr>dsys := cdbg_syms_print_list (syms s) arg (dsys s)\<rparr>
         | Cmd_X \<Rightarrow>
             (case arg of
                None \<Rightarrow> err (''Usage: x <addr> [count]'' @ nl) s
              | Some a \<Rightarrow> snd (cmd_examine K a (c_arg2 cmd) s))
         | Cmd_THREAD \<Rightarrow>
             (case arg of
                None \<Rightarrow> snd (cmd_show_threads K s)
              | Some n \<Rightarrow> snd (cmd_thread K n s))
         | Cmd_UNKNOWN \<Rightarrow> out (''Unknown command: '' @ the (c_unknown_text cmd) @ nl) s
         | _ \<Rightarrow> s)"

definition run_command :: "'w kernel \<Rightarrow> c_library \<Rightarrow> command \<Rightarrow> (int option, 'w) op" where
  "run_command K L cmd s =
     (case c_kind cmd of
        Cmd_RUN \<Rightarrow> do { (_, s) \<leftarrow> cmd_run K (c_arg1 cmd) s; Some (None, s) }
      | Cmd_CONTINUE \<Rightarrow> repl_continue K s
      | Cmd_STEP \<Rightarrow> repl_step cdbg_step_next_line K s
      | Cmd_SI \<Rightarrow> repl_si K s
      | Cmd_NEXT \<Rightarrow> repl_step cdbg_next_source_line K s
      | Cmd_REGS \<Rightarrow>
          (let (ok, s) = cdbg_refresh_regs K s
           in Some (if \<not> ok then (Some (- 1), s) else (None, cdbg_print_regs (l_g L) s)))
      | Cmd_KILL \<Rightarrow> repl_kill K s
      | Cmd_QUIT \<Rightarrow> repl_quit K s
      | _ \<Rightarrow> Some (None, simple_command K L cmd s))"

section \<open>The loop\<close>

text \<open>One \<^verbatim>\<open>fgets\<close>: a line, or an interrupted read.\<close>

datatype input = Input_Line string | Input_EINTR

definition chomp :: "string \<Rightarrow> string" where
  "chomp line = takeWhile (\<lambda>c. c \<noteq> CHR 0x0A) line"

fun repl_loop :: "'w kernel \<Rightarrow> c_library \<Rightarrow> input list \<Rightarrow> (int, 'w) op" where
  "repl_loop K L [] s = Some (0, out ''cdbg> '' s)"
| "repl_loop K L (Input_EINTR # inputs) s = repl_loop K L inputs (out nl (out ''cdbg> '' s))"
| "repl_loop K L (Input_Line line # inputs) s =
     do { (stop, s) \<leftarrow> run_command K L (cdbg_command_parse (chomp line)) (out ''cdbg> '' s);
          case stop of Some rc \<Rightarrow> Some (rc, s) | None \<Rightarrow> repl_loop K L inputs s }"

definition cdbg_repl :: "'w kernel \<Rightarrow> c_library \<Rightarrow> input list \<Rightarrow> (int, 'w) op" where
  "cdbg_repl K L inputs s =
     repl_loop K L inputs (out (''Type '' @ squote @ ''help'' @ squote @ '' for available commands.'' @ nl) s)"

section \<open>main.c\<close>

text \<open>\<open>argv\<close> includes the name of the debugger. The result is whether the debugger exits with
  \<^verbatim>\<open>EXIT_SUCCESS\<close>.\<close>

definition usage :: "string \<Rightarrow> 'w cdbg \<Rightarrow> 'w cdbg" where
  "usage prog s =
     err (''Interactive debugger for C programs on macOS (ptrace-based).'' @ nl)
       (err (''Usage: '' @ prog @ '' <program> [args...]'' @ nl) s)"

definition main :: "'w kernel \<Rightarrow> c_library \<Rightarrow> input list \<Rightarrow> string list \<Rightarrow> 'w sys \<Rightarrow> (bool \<times> 'w cdbg) option" where
  "main K L inputs argv y =
     (let s = cdbg_init y
      in if length argv < 2 then Some (False, usage (hd argv) s)
         else case cdbg_resolve_program K (argv ! 1) PATH_MAX (world y) of
                None \<Rightarrow> Some (False, err (''cdbg: invalid program path: '' @ argv ! 1 @ nl) s)
              | Some program \<Rightarrow>
                  if length argv > 256 then Some (False, err (''cdbg: too many arguments'' @ nl) s)
                  else let (ok, s) = cdbg_set_run_target (program # drop 2 argv) s
                       in if \<not> ok then Some (False, s)
                          else do { (ok, s) \<leftarrow> cdbg_run K None s;
                                    if \<not> ok then Some (False, s)
                                    else do { (rc, s) \<leftarrow> cdbg_repl K L inputs s;
                                              Some (rc = 0, s) } })"

end
