(* ===== verification/Traps.thy ===== *)
theory Traps
  imports Places
begin

text \<open>
  The invariant of the breakpoint table over the debuggee's memory: memory is the original
  one except under the enabled breakpoints, where the trap is, and each of these holds the
  original instruction. Planting, lifting and deleting breakpoints keep it as long as no two
  of them overlap; a table without enabled breakpoints means the original memory is back.
\<close>

section \<open>The invariant\<close>

definition covers :: "cdbg_breakpoint \<Rightarrow> addr \<Rightarrow> bool" where
  "covers bp x \<longleftrightarrow> unat (x - bp_addr bp) < 4"

definition separate :: "addr \<Rightarrow> addr \<Rightarrow> bool" where
  "separate a b \<longleftrightarrow> 4 \<le> unat (a - b) \<and> 4 \<le> unat (b - a)"

definition trapped :: "cdbg_breakpoint set \<Rightarrow> (addr \<Rightarrow> u8) \<Rightarrow> (addr \<Rightarrow> u8) \<Rightarrow> bool" where
  "trapped bps orig m \<longleftrightarrow>
     (\<forall>bp \<in> bps. bp_enabled bp \<longrightarrow>
        bytes_at m (bp_addr bp) 4 = le_bytes 4 CDBG_TRAP_INST
        \<and> le_bytes 4 (bp_saved_inst bp) = bytes_at orig (bp_addr bp) 4)
     \<and> (\<forall>x. (\<forall>bp \<in> bps. bp_enabled bp \<longrightarrow> \<not> covers bp x) \<longrightarrow> m x = orig x)"

text \<open>No two breakpoints of the table share a byte.\<close>

definition apart :: "cdbg_breakpoint list \<Rightarrow> bool" where
  "apart bps \<longleftrightarrow> sorted_wrt (\<lambda>a b. separate (bp_addr a) (bp_addr b)) bps"

section \<open>Lemmas\<close>

lemma separate_sym: "separate a b = separate b a"
  by (auto simp: separate_def)

lemma separate_covers:
  assumes "separate (bp_addr a) (bp_addr b)" and "covers a x"
  shows "\<not> covers b x"
proof
  assume "covers b x"
  let ?u = "x - bp_addr a" and ?v = "x - bp_addr b"
  show False
  proof (cases "unat ?v \<le> unat ?u")
    case True
    have "bp_addr b - bp_addr a = ?u - ?v" by simp
    then have "unat (bp_addr b - bp_addr a) = unat ?u - unat ?v"
      using True by (metis unat_sub word_le_nat_alt)
    then show False using assms unfolding separate_def covers_def by linarith
  next
    case False
    have "bp_addr a - bp_addr b = ?v - ?u" by simp
    then have "unat (bp_addr a - bp_addr b) = unat ?v - unat ?u"
      using False by (metis nat_le_linear unat_sub word_le_nat_alt)
    then show False using assms \<open>covers b x\<close> unfolding separate_def covers_def by linarith
  qed
qed

lemma bytes_at_iff:
  assumes "length bs = n" and "n \<le> 2 ^ 64"
  shows "bytes_at m a n = bs \<longleftrightarrow> (\<forall>x. unat (x - a) < n \<longrightarrow> m x = bs ! unat (x - a))"
proof
  assume "bytes_at m a n = bs"
  then show "\<forall>x. unat (x - a) < n \<longrightarrow> m x = bs ! unat (x - a)"
    using nth_bytes_at [of _ n m a] by auto
next
  assume r: "\<forall>x. unat (x - a) < n \<longrightarrow> m x = bs ! unat (x - a)"
  show "bytes_at m a n = bs"
  proof (rule nth_equalityI)
    fix i assume i: "i < length (bytes_at m a n)"
    then have "unat (of_nat i :: u64) = i"
      using assms by (simp add: unat_of_nat take_bit_nat_eq_self)
    with r [rule_format, of "a + of_nat i"] i assms show "bytes_at m a n ! i = bs ! i"
      by (simp add: nth_bytes_at)
  qed (simp add: assms)
qed

lemma bytes_at_cong:
  assumes "\<And>x. unat (x - a) < n \<Longrightarrow> m x = m' x" and "n \<le> 2 ^ 64"
  shows "bytes_at m a n = bytes_at m' a n"
proof -
  have "\<forall>x. unat (x - a) < n \<longrightarrow> m x = bytes_at m' a n ! unat (x - a)"
    using assms(1) nth_bytes_at [of _ n m' a] by auto
  then show ?thesis using bytes_at_iff [of "bytes_at m' a n" n m a] assms(2) by simp
qed

lemma trapped_none: "trapped {} m m"
  by (simp add: trapped_def)

lemma trapped_restored:
  "trapped bps orig m \<Longrightarrow> \<forall>bp \<in> bps. \<not> bp_enabled bp \<Longrightarrow> m = orig"
  by (auto simp: trapped_def)

lemma trapped_enabled_only: "trapped bps orig m = trapped {bp \<in> bps. bp_enabled bp} orig m"
  by (auto simp: trapped_def)

lemma trapped_plant:
  assumes "trapped bps orig m" and "planted bp m m'"
    and "\<And>b. b \<in> bps \<Longrightarrow> bp_enabled b \<Longrightarrow> separate (bp_addr b) (bp_addr bp)"
  shows "trapped (insert bp bps) orig m'"
proof -
  let ?t = "le_bytes 4 CDBG_TRAP_INST"
  have m': "m' x = (if covers bp x then ?t ! unat (x - bp_addr bp) else m x)" for x
    using assms(2) by (simp add: planted_def put_bytes_apply covers_def)
  have saved: "le_bytes 4 (bp_saved_inst bp) = bytes_at m (bp_addr bp) 4"
    "bp_enabled bp" using assms(2) by (simp_all add: planted_def)
  have old: "m x = orig x" if "covers bp x" for x
  proof -
    have "\<forall>b \<in> bps. bp_enabled b \<longrightarrow> \<not> covers b x" using assms(3) separate_covers that by blast
    then show ?thesis using assms(1) unfolding trapped_def by blast
  qed
  have "bytes_at m' (bp_addr bp) 4 = ?t"
    by (rule bytes_at_iff [THEN iffD2]) (auto simp: m' covers_def)
  moreover have "bytes_at m (bp_addr bp) 4 = bytes_at orig (bp_addr bp) 4"
    by (rule bytes_at_cong) (auto simp: old covers_def)
  moreover have "bytes_at m' (bp_addr b) 4 = bytes_at m (bp_addr b) 4"
    if "b \<in> bps" "bp_enabled b" for b
  proof (rule bytes_at_cong)
    fix x assume "unat (x - bp_addr b) < 4"
    then have "covers b x" by (simp add: covers_def)
    then have "\<not> covers bp x" using separate_covers assms(3) [OF that] by blast
    then show "m' x = m x" by (simp add: m')
  qed simp
  ultimately show ?thesis
    using assms(1) by (auto simp: trapped_def m' saved)
qed

lemma trapped_lift:
  assumes "trapped (insert bp bps) orig m" and "bp_enabled bp"
    and "m' = put_bytes (bp_addr bp) (le_bytes 4 (bp_saved_inst bp)) m"
    and "\<And>b. b \<in> bps \<Longrightarrow> bp_enabled b \<Longrightarrow> separate (bp_addr b) (bp_addr bp)"
  shows "trapped bps orig m'"
proof -
  have saved: "le_bytes 4 (bp_saved_inst bp) = bytes_at orig (bp_addr bp) 4"
    using assms(1,2) by (auto simp: trapped_def)
  have m': "m' x = (if covers bp x then orig x else m x)" for x
    using nth_bytes_at [of "unat (x - bp_addr bp)" 4 orig "bp_addr bp"]
    by (auto simp: assms(3) put_bytes_apply covers_def saved)
  have "bytes_at m' (bp_addr b) 4 = bytes_at m (bp_addr b) 4" if "b \<in> bps" "bp_enabled b" for b
  proof (rule bytes_at_cong)
    fix x assume "unat (x - bp_addr b) < 4"
    then have "covers b x" by (simp add: covers_def)
    then have "\<not> covers bp x" using separate_covers assms(4) [OF that] by blast
    then show "m' x = m x" by (simp add: m')
  qed simp
  then show ?thesis using assms(1) by (auto simp: trapped_def m')
qed

lemma trapped_insert_off: "\<not> bp_enabled bp \<Longrightarrow> trapped (insert bp bps) orig m = trapped bps orig m"
  by (auto simp: trapped_def)

lemma apart_append:
  "apart (xs @ ys) \<longleftrightarrow> apart xs \<and> apart ys
     \<and> (\<forall>a \<in> set xs. \<forall>b \<in> set ys. separate (bp_addr a) (bp_addr b))"
  by (auto simp: apart_def sorted_wrt_append)

lemma apart_addrs: "map bp_addr xs = map bp_addr ys \<Longrightarrow> apart xs = apart ys"
  unfolding apart_def sorted_wrt_map [symmetric, of separate bp_addr] by simp

lemma apart_split:
  assumes "apart bps" and "i < length bps"
  shows "apart (remove_nth i bps)"
    and "\<And>b. b \<in> set (remove_nth i bps) \<Longrightarrow> separate (bp_addr b) (bp_addr (bps ! i))"
    and "set bps = insert (bps ! i) (set (remove_nth i bps))"
proof -
  have "bps = take i bps @ bps ! i # drop (Suc i) bps" using assms(2) by (rule id_take_nth_drop)
  then obtain xs x ys where s: "bps = xs @ x # ys" "bps ! i = x" "remove_nth i bps = xs @ ys"
    unfolding remove_nth_def by blast
  have a: "apart (xs @ x # ys)" using assms(1) s by simp
  then show "apart (remove_nth i bps)"
    unfolding s(3) by (simp add: apart_append) (simp add: apart_def)
  from a show "b \<in> set (remove_nth i bps) \<Longrightarrow> separate (bp_addr b) (bp_addr (bps ! i))" for b
    unfolding s(2,3) by (auto simp: apart_def sorted_wrt_append separate_sym)
  show "set bps = insert (bps ! i) (set (remove_nth i bps))"
    unfolding s(2,3) by (simp add: s(1))
qed

lemma cmd_del_True:
  assumes "cmd_del K args s = (True, s')"
  obtains (none) "breakpoints s = []" "s' = out (''No breakpoints.'' @ nl) s"
  | (all) s1 where "map_option trim_space args = Some ''all''"
      "delete_down (delete_breakpoint_at K) (length (breakpoints s)) s = (True, s1)"
      "s' = out (''All breakpoints deleted.'' @ nl) s1"
  | (some) a "is" where "map_option trim_space args = Some a" "a \<noteq> ''all''"
      "collect_indices ''breakpoint'' (length (breakpoints s))
         (strtok (snprintf_s 256 a) ('' '' @ [CHR 0x09])) [] = Inr is"
      "delete_each (delete_breakpoint_at K) (\<lambda>i. out (''Deleting breakpoint '' @ fmt_u i @ nl))
         (exchange_sort is) s = (True, s')"
proof (cases "breakpoints s = []")
  case True
  then show thesis using assms none by (simp add: cmd_del_def)
next
  case False
  show thesis
  proof (cases "map_option trim_space args")
    case None
    then show thesis using assms False by (simp add: cmd_del_def)
  next
    case (Some a)
    show thesis
    proof (cases "a = ''all''")
      case True
      obtain ok s1 where d: "delete_down (delete_breakpoint_at K) (length (breakpoints s)) s = (ok, s1)"
        by (metis prod.exhaust)
      then have "ok" "s' = out (''All breakpoints deleted.'' @ nl) s1"
        using assms False Some True by (cases ok; simp add: cmd_del_def)+
      with all d Some True show thesis by simp
    next
      case False
      obtain r where c: "collect_indices ''breakpoint'' (length (breakpoints s))
         (strtok (snprintf_s 256 a) ('' '' @ [CHR 0x09])) [] = r" by simp
      show thesis
      proof (cases r)
        case (Inl m)
        then show thesis
          using assms \<open>breakpoints s \<noteq> []\<close> Some False c by (cases "a = []") (simp_all add: cmd_del_def)
      next
        case (Inr "is")
        then have "delete_each (delete_breakpoint_at K)
            (\<lambda>i. out (''Deleting breakpoint '' @ fmt_u i @ nl)) (exchange_sort is) s = (True, s')"
          using assms \<open>breakpoints s \<noteq> []\<close> Some False c by (cases "a = []") (simp_all add: cmd_del_def)
        then show thesis by (rule some [OF Some False trans [OF c Inr]])
      qed
    qed
  qed
qed

lemma resolve_break_line_frame [simp]:
  "breakpoints (snd (resolve_break_line f l n s)) = breakpoints s"
  "cdbg.pid (snd (resolve_break_line f l n s)) = cdbg.pid s"
  "world (dsys (snd (resolve_break_line f l n s))) = world (dsys s)"
  "state (snd (resolve_break_line f l n s)) = state s"
  by (simp_all add: resolve_break_line_def Let_def split: option.split)

lemma break_target_frame [simp]:
  "breakpoints (snd (break_target t s)) = breakpoints s"
  "cdbg.pid (snd (break_target t s)) = cdbg.pid s"
  "world (dsys (snd (break_target t s))) = world (dsys s)"
  "state (snd (break_target t s)) = state s"
  using resolve_break_line_frame
  by (simp_all add: break_target_def Let_def split: option.split prod.split; metis snd_conv)+

section \<open>The operations\<close>

context traced_memory
begin

lemma enable_trapped:
  assumes "fst (cdbg_bp_enable K bp pid a y) = (True, bp')"
    and "trapped bps orig (mem (world y))"
    and "\<And>b. b \<in> bps \<Longrightarrow> bp_enabled b \<Longrightarrow> separate (bp_addr b) a"
  shows "trapped (insert bp' bps) orig (mem (world (snd (cdbg_bp_enable K bp pid a y))))"
  using bp_enable_spec [OF assms(1)] assms(2,3) by (intro trapped_plant) auto

lemma disable_writes:
  assumes "fst (fst (cdbg_bp_disable K bp pid y))" and "bp_enabled bp"
  shows "mem (world (snd (cdbg_bp_disable K bp pid y)))
    = put_bytes (bp_addr bp) (le_bytes 4 (bp_saved_inst bp)) (mem (world y))"
proof -
  obtain ok y1 where
    wr: "cdbg_mem_write K pid (bp_addr bp) (le_bytes 4 (bp_saved_inst bp)) y = (ok, y1)"
    by (metis prod.exhaust)
  with assms have "ok" "snd (cdbg_bp_disable K bp pid y) = y1"
    by (cases ok; simp add: cdbg_bp_disable_def)+
  with mi.wr_ok [of "bp_addr bp" "le_bytes 4 (bp_saved_inst bp)" y] wr show ?thesis by simp
qed

text \<open>A second breakpoint at an address saves the trap of the first.\<close>

lemma planted_twice:
  assumes "cdbg_bp_enable K b1 pid a y = ((True, c1), y1)"
    and "cdbg_bp_enable K b2 pid a y1 = ((True, c2), y2)"
    and "cdbg_bp_disable K c1 pid y2 = ((True, d1), y3)"
    and "cdbg_bp_disable K c2 pid y3 = ((True, d2), y4)"
  shows "mem (world y3) = mem (world y)
    \<and> mem (world y4) = put_bytes a (le_bytes 4 CDBG_TRAP_INST) (mem (world y))"
proof -
  let ?t = "le_bytes 4 CDBG_TRAP_INST" and ?m = "mem (world y)"
  have 1: "planted c1 ?m (mem (world y1))" "bp_addr c1 = a"
    using bp_enable_spec [of b1 a y c1] assms(1) by simp_all
  have 2: "planted c2 (mem (world y1)) (mem (world y2))" "bp_addr c2 = a"
    using bp_enable_spec [of b2 a y1 c2] assms(2) by simp_all
  have "bytes_at (put_bytes a ?t ?m) a 4 = ?t"
    using bytes_at_put_bytes [of ?t a ?m] by simp
  with 1 2 have t: "le_bytes 4 (bp_saved_inst c2) = ?t" by (simp add: planted_def)
  have "put_bytes a ?t (put_bytes a ?t ?m) = put_bytes a ?t ?m"
    by (rule ext) (simp add: put_bytes_apply)
  with 1 2 have "planted c1 ?m (mem (world y2))" by (simp add: planted_def)
  from bp_disable_spec [OF this] assms(3) have m3: "mem (world y3) = ?m" by simp
  have "mem (world y4) = put_bytes a ?t ?m"
    using disable_writes [of c2 y3] assms(4) 2 m3 t by (simp add: planted_def)
  with m3 show ?thesis by simp
qed

lemma disable_trapped:
  assumes "fst (fst (cdbg_bp_disable K bp pid y))"
    and "trapped (insert bp bps) orig (mem (world y))"
    and "\<And>b. b \<in> bps \<Longrightarrow> separate (bp_addr b) (bp_addr bp)"
  shows "trapped bps orig (mem (world (snd (cdbg_bp_disable K bp pid y))))"
proof (cases "bp_enabled bp")
  case False
  then show ?thesis
    using assms(2) by (simp add: cdbg_bp_disable_def trapped_insert_off)
next
  case True
  note disable_writes [OF assms(1) this]
  from trapped_lift [OF assms(2) True this] assms(3) show ?thesis by blast
qed

lemma reenable_trapped:
  assumes "trapped (R \<union> set bps) orig (mem (world y))" and "apart bps"
    and "\<And>a b. a \<in> R \<Longrightarrow> b \<in> set bps \<Longrightarrow> separate (bp_addr a) (bp_addr b)"
    and "reenable_loop K pid pc bps y = ((True, bps'), y')"
  shows "trapped (R \<union> set bps') orig (mem (world y'))
    \<and> (\<forall>bp \<in> set bps'. bp_addr bp \<noteq> pc \<longrightarrow> bp_enabled bp)"
  using assms
proof (induction bps arbitrary: R y bps')
  case (Cons bp bps)
  have rest: "apart bps" "\<And>b. b \<in> set bps \<Longrightarrow> separate (bp_addr bp) (bp_addr b)"
    using Cons.prems(2) by (simp_all add: apart_def)
  show ?case
  proof (cases "\<not> bp_enabled bp \<and> bp_addr bp \<noteq> pc")
    case False
    obtain bps1 where r: "reenable_loop K pid pc bps y = ((True, bps1), y')" "bps' = bp # bps1"
      using Cons.prems(4) False by (auto simp: split_beta Let_def prod_eq_iff)
    have "trapped (insert bp R \<union> set bps) orig (mem (world y))" using Cons.prems(1) by simp
    from Cons.IH [OF this rest(1) _ r(1)] Cons.prems(3) rest(2)
    have "trapped (insert bp R \<union> set bps1) orig (mem (world y'))
      \<and> (\<forall>bp \<in> set bps1. bp_addr bp \<noteq> pc \<longrightarrow> bp_enabled bp)" by (metis insert_iff list.set_intros(2))
    then show ?thesis using False r(2) by auto
  next
    case True
    obtain ok bp1 y1 where e: "cdbg_bp_enable K bp pid (bp_addr bp) y = ((ok, bp1), y1)"
      by (metis prod.exhaust)
    then have ok "ok" using Cons.prems(4) True by (auto split: if_splits)
    obtain bps1 where r: "reenable_loop K pid pc bps y1 = ((True, bps1), y')" "bps' = bp1 # bps1"
      using Cons.prems(4) True e \<open>ok\<close> by (auto simp: split_beta Let_def prod_eq_iff)
    have bp1: "bp_enabled bp1" "bp_addr bp1 = bp_addr bp"
      using bp_enable_flag [of K bp pid "bp_addr bp" y ok bp1] e \<open>ok\<close> by auto
    have "trapped (R \<union> set bps) orig (mem (world y))"
      using Cons.prems(1) True by (simp add: trapped_insert_off)
    then have "trapped (insert bp1 R \<union> set bps) orig (mem (world y1))"
      using enable_trapped [of bp "bp_addr bp" y bp1 "R \<union> set bps" orig] e \<open>ok\<close> Cons.prems(3) rest(2)
      by (auto simp: separate_sym)
    from Cons.IH [OF this rest(1) _ r(1)] Cons.prems(3) rest(2) bp1(2)
    have "trapped (insert bp1 R \<union> set bps1) orig (mem (world y'))
      \<and> (\<forall>bp \<in> set bps1. bp_addr bp \<noteq> pc \<longrightarrow> bp_enabled bp)" by (metis insert_iff list.set_intros(2))
    then show ?thesis using bp1(1) r(2) by auto
  qed
qed simp

lemma delete_keeps:
  assumes "delete_breakpoint_at K i s = (True, s')" and "apart (breakpoints s)"
    and "trapped (set (breakpoints s)) orig (mem (world (dsys s)))"
    and "cdbg.pid s = pid" "0 < pid" "state s \<noteq> State_IDLE"
  shows "apart (breakpoints s') \<and> trapped (set (breakpoints s')) orig (mem (world (dsys s')))
    \<and> cdbg.pid s' = pid \<and> state s' \<noteq> State_IDLE"
proof -
  let ?bp = "breakpoints s ! i" and ?r = "remove_nth i (breakpoints s)"
  let ?d = "cdbg_bp_disable K ?bp pid (dsys s)"
  have i: "i < length (breakpoints s)"
    using assms(1) by (auto simp: delete_breakpoint_at_def split: if_splits)
  have ok: "fst (fst ?d)" and s': "breakpoints s' = ?r" "dsys s' = snd ?d" "cdbg.pid s' = pid"
    "state s' = state s"
    using assms(1,4,5,6) i
    by (auto simp: delete_breakpoint_at_def Let_def split_beta list_update_remove split: if_splits)
  note sp = apart_split [OF assms(2) i]
  have "trapped (insert ?bp (set ?r)) orig (mem (world (dsys s)))"
    using assms(3) sp(3) by simp
  from disable_trapped [OF ok this sp(2)] sp(1) s' assms(6) show ?thesis by simp
qed

lemma delete_each_keeps:
  assumes "delete_each (delete_breakpoint_at K) announce is s = (True, s')"
    and "\<And>i t. breakpoints (announce i t) = breakpoints t \<and> cdbg.pid (announce i t) = cdbg.pid t
      \<and> state (announce i t) = state t \<and> world (dsys (announce i t)) = world (dsys t)"
    and "apart (breakpoints s)" "trapped (set (breakpoints s)) orig (mem (world (dsys s)))"
    and "cdbg.pid s = pid" "0 < pid" "state s \<noteq> State_IDLE"
  shows "apart (breakpoints s') \<and> trapped (set (breakpoints s')) orig (mem (world (dsys s')))
    \<and> cdbg.pid s' = pid \<and> state s' \<noteq> State_IDLE"
  using assms
proof (induction "is" arbitrary: s)
  case (Cons i "is")
  obtain ok s1 where d: "delete_breakpoint_at K i (announce i s) = (ok, s1)" by (metis prod.exhaust)
  with Cons.prems(1) have ok: "ok" and r: "delete_each (delete_breakpoint_at K) announce is s1 = (True, s')"
    by (auto split: if_splits)
  have "apart (breakpoints s1) \<and> trapped (set (breakpoints s1)) orig (mem (world (dsys s1)))
    \<and> cdbg.pid s1 = pid \<and> state s1 \<noteq> State_IDLE"
    using delete_keeps [of i "announce i s" s1 orig] d ok Cons.prems(2-7) by simp
  with Cons.IH [OF r Cons.prems(2)] Cons.prems(6) show ?case by blast
qed simp

lemma delete_down_keeps:
  assumes "delete_down (delete_breakpoint_at K) n s = (True, s')"
    and "apart (breakpoints s)" "trapped (set (breakpoints s)) orig (mem (world (dsys s)))"
    and "cdbg.pid s = pid" "0 < pid" "state s \<noteq> State_IDLE"
  shows "apart (breakpoints s') \<and> trapped (set (breakpoints s')) orig (mem (world (dsys s')))
    \<and> cdbg.pid s' = pid \<and> state s' \<noteq> State_IDLE"
  using assms
proof (induction n arbitrary: s)
  case (Suc n)
  obtain ok s1 where d: "delete_breakpoint_at K n s = (ok, s1)" by (metis prod.exhaust)
  with Suc.prems(1) have ok: "ok" and r: "delete_down (delete_breakpoint_at K) n s1 = (True, s')"
    by (auto split: if_splits)
  from delete_keeps [of n s s1 orig] d ok Suc.prems Suc.IH [OF r] show ?case by simp
qed simp

lemma cmd_del_keeps:
  assumes "cmd_del K args s = (True, s')" and "apart (breakpoints s)"
    and "trapped (set (breakpoints s)) orig (mem (world (dsys s)))"
    and "cdbg.pid s = pid" "0 < pid" "state s \<noteq> State_IDLE"
  shows "apart (breakpoints s') \<and> trapped (set (breakpoints s')) orig (mem (world (dsys s')))
    \<and> cdbg.pid s' = pid \<and> state s' \<noteq> State_IDLE"
  using assms(1)
proof (cases rule: cmd_del_True)
  case none
  then show ?thesis using assms by simp
next
  case (all s1)
  then show ?thesis using delete_down_keeps [OF all(2) assms(2-6)] by simp
next
  case (some a "is")
  then show ?thesis using delete_each_keeps [OF some(4) _ assms(2-6)] by simp
qed

lemma cmd_break_keeps:
  assumes "cmd_break K target s = (True, s')" and "fst (break_target target s) = Some (a, label)"
    and "apart (breakpoints s)" and "\<And>b. b \<in> set (breakpoints s) \<Longrightarrow> separate (bp_addr b) a"
    and "trapped (set (breakpoints s)) orig (mem (world (dsys s)))" and "cdbg.pid s = pid"
  shows "trapped (set (breakpoints s')) orig (mem (world (dsys s'))) \<and> apart (breakpoints s')
    \<and> (\<exists>bp. breakpoints s' = breakpoints s @ [bp] \<and> bp_enabled bp \<and> bp_addr bp = a)
    \<and> cdbg.pid s' = pid \<and> state s' = state s"
proof -
  let ?y = "dsys (snd (break_target target s))"
  obtain ok bp y where e: "cdbg_bp_enable K zero_bp pid a ?y = ((ok, bp), y)" by (metis prod.exhaust)
  then have s': "ok" "breakpoints s' = breakpoints s @ [bp]" "world (dsys s') = world y" "cdbg.pid s' = pid"
    "state s' = state s"
    using assms(1,2,6)
    by (cases ok; auto simp: cmd_break_def Let_def split_beta on_sys_def split: if_splits)+
  have bp: "bp_enabled bp" "bp_addr bp = a" using bp_enable_flag [of K zero_bp pid a ?y ok bp] e s' by auto
  have "trapped (insert bp (set (breakpoints s))) orig (mem (world y))"
    using enable_trapped [of zero_bp a ?y bp "set (breakpoints s)" orig] e s' assms(4,5) by simp
  then show ?thesis using s' bp assms(3,4) by (auto simp: apart_append) (simp add: apart_def)
qed

end

end
