(* ===== verification/WatchThreads.thy ===== *)
theory WatchThreads
  imports Places
begin

text \<open>
  Arming a watchpoint on every thread (\<^verbatim>\<open>arm_watchpoint_all_threads\<close> in
  \<^verbatim>\<open>src/debugger.c\<close>) against the debug registers of the threads, and the choice of the
  slot.
\<close>

section \<open>All threads\<close>

text \<open>The debug state of a thread on which the watchpoint is armed, and when it can be.\<close>

definition arm_state :: "nat \<Rightarrow> cdbg_watchpoint \<Rightarrow> debug_state \<Rightarrow> debug_state" where
  "arm_state n wp st = implemented n (st
     \<lparr>d_wvr := (d_wvr st)(nat (wp_slot wp) := wp_addr wp AND NOT 7),
      d_wcr := (d_wcr st)(nat (wp_slot wp) := watch_wcr (wp_addr wp) (wp_size wp) (wp_kind wp))\<rparr>)"

definition armable :: "nat \<Rightarrow> cdbg_watchpoint \<Rightarrow> bool" where
  "armable n wp \<longleftrightarrow> 0 \<le> wp_slot wp \<and> nat (wp_slot wp) < CDBG_MAX_WATCHPOINTS \<and> nat (wp_slot wp) < n
     \<and> 1 \<le> wp_size wp \<and> wp_size wp \<le> 8 \<and> (wp_addr wp AND 7) + wp_size wp \<le> 8"

locale armable_task = debuggable_task K pid task ts ident dbgs nslots
  for K :: "'w kernel" and pid task ts ident dbgs nslots +
  assumes get_gpr: "k_get_gpr K t w = ((kr, st), w') \<Longrightarrow> dbgs w' = dbgs w"
    and few: "length ts \<le> CDBG_MAX_THREADS" and distinct: "distinct ts"
begin

lemma threads_list_loop_spec:
  "set us \<subseteq> set ts \<Longrightarrow> length us \<le> room \<Longrightarrow>
   map te_tid (fst (threads_list_loop K us room y)) = map ident us
   \<and> dbgs (world (snd (threads_list_loop K us room y))) = dbgs (world y)"
proof (induction us arbitrary: room y)
  case (Cons u us)
  then obtain r where room: "room = Suc r" by (cases room) auto
  obtain kr st w' where g: "k_get_gpr K u (world y) = ((kr, st), w')" by (metis prod.exhaust)
  with Cons room get_gpr [OF g] Cons.IH [of r "y\<lparr>world := w'\<rparr>"] show ?case
    by (simp add: thread_id_for syscall_def split_beta Let_def)
qed simp

lemma threads_list_spec:
  obtains threads y' where "cdbg_threads_list K pid CDBG_MAX_THREADS y = (Some threads, y')"
    and "map te_tid threads = map ident ts" and "dbgs (world y') = dbgs (world y)"
proof -
  let ?r = "threads_list_loop K ts CDBG_MAX_THREADS (y\<lparr>rights := live ts + rights y\<rparr>)"
  have "cdbg_threads_list K pid CDBG_MAX_THREADS y = (Some (fst ?r), deallocate_threads ts (snd ?r))"
    by (simp add: cdbg_threads_list_def enumerate split_beta)
  moreover have "world (deallocate_threads ts (snd ?r)) = world (snd ?r)"
    by (simp add: deallocate_threads_def)
  ultimately show thesis
    using that threads_list_loop_spec [of ts CDBG_MAX_THREADS "y\<lparr>rights := live ts + rights y\<rparr>"] few
    by simp
qed

lemma arm_loop_spec:
  assumes "map te_tid threads = map ident us" and "set us \<subseteq> set ts" and "distinct us"
    and "arm_loop K pid wp before threads y = (True, y')"
  shows "dbgs (world y') =
      (\<lambda>t. if t \<in> set us then arm_state nslots wp (dbgs (world y) t) else dbgs (world y) t)
    \<and> (us \<noteq> [] \<longrightarrow> armable nslots wp)"
  using assms
proof (induction us arbitrary: threads before y)
  case (Cons u us)
  then obtain e es where th: "threads = e # es" "te_tid e = ident u" "map te_tid es = map ident us"
    by (cases threads) auto
  obtain ok y1 where a: "cdbg_watch_arm K pid (ident u) (wp_slot wp) (wp_addr wp) (wp_size wp)
      (wp_kind wp) y = (ok, y1)" by (metis prod.exhaust)
  with Cons.prems(4) th have ok: "ok" and r: "arm_loop K pid wp (before @ [e]) es y1 = (True, y')"
    by (auto split: if_splits)
  have u: "u \<in> set ts" "set us \<subseteq> set ts" "u \<notin> set us" "distinct us" using Cons.prems by auto
  note arm = watch_arm_spec [OF u(1) disjI1 [OF refl], of "wp_slot wp" "wp_addr wp" "wp_size wp"
      "wp_kind wp" y y1]
  have "dbgs (world y1) = (dbgs (world y))(u := arm_state nslots wp (dbgs (world y) u))"
    and "armable nslots wp"
    using arm a ok by (simp_all add: arm_state_def armable_def)
  with Cons.IH [OF th(3) u(2,4) r] u(3) show ?case by auto
qed simp

lemma arm_all_spec:
  assumes "arm_watchpoint_all_threads K pid wp y = (True, y')"
  shows "dbgs (world y') =
      (\<lambda>t. if t \<in> set ts then arm_state nslots wp (dbgs (world y) t) else dbgs (world y) t)
    \<and> armable nslots wp"
proof -
  obtain threads y1 where l: "cdbg_threads_list K pid CDBG_MAX_THREADS y = (Some threads, y1)"
    "map te_tid threads = map ident ts" "dbgs (world y1) = dbgs (world y)"
    by (rule threads_list_spec)
  with assms have "arm_loop K pid wp [] threads y1 = (True, y')"
    by (simp add: arm_watchpoint_all_threads_def)
  from arm_loop_spec [OF l(2) subset_refl distinct this] ports show ?thesis by (simp add: l(3) cong: if_cong)
qed

text \<open>On every thread the hardware traps exactly the accesses that were asked for.\<close>

lemma arm_all_triggers:
  assumes "arm_watchpoint_all_threads K pid wp y = (True, y')" and "t \<in> set ts"
  shows "hw_triggers (dbgs (world y') t) (nat (wp_slot wp)) x is_write \<longleftrightarrow>
    unat (wp_addr wp) \<le> unat x \<and> unat x < unat (wp_addr wp) + unat (wp_size wp)
    \<and> kind_matches (wp_kind wp) is_write"
proof -
  let ?st = "dbgs (world y') t"
  have st: "?st = arm_state nslots wp (dbgs (world y) t)" and a: "armable nslots wp"
    using arm_all_spec [OF assms(1)] assms(2) by auto
  then have "d_wcr ?st (nat (wp_slot wp)) = watch_wcr (wp_addr wp) (wp_size wp) (wp_kind wp)"
    "d_wvr ?st (nat (wp_slot wp)) = wp_addr wp AND NOT 7"
    by (simp_all add: arm_state_def armable_def implemented_def)
  with a show ?thesis by (intro watch_wcr_triggers) (auto simp: armable_def)
qed

lemma arm_all_others:
  assumes "arm_watchpoint_all_threads K pid wp y = (True, y')"
    and "i \<noteq> nat (wp_slot wp)" "i < nslots"
  shows "d_wvr (dbgs (world y') t) i = d_wvr (dbgs (world y) t) i
    \<and> d_wcr (dbgs (world y') t) i = d_wcr (dbgs (world y) t) i"
  using arm_all_spec [OF assms(1)] assms(2,3) by (simp add: arm_state_def implemented_def)

end

section \<open>The slot\<close>

lemma find_free_slot_Some:
  assumes "find_free_watch_slot wps = Some slot"
  shows "0 \<le> slot \<and> slot < int CDBG_MAX_WATCHPOINTS \<and> (\<forall>wp \<in> set wps. wp_enabled wp \<longrightarrow> wp_slot wp \<noteq> slot)"
  using assms by (auto simp: find_free_watch_slot_def Let_def find_Some_iff)

lemma find_free_slot_None:
  assumes "find_free_watch_slot wps = None"
  shows "CDBG_MAX_WATCHPOINTS \<le> length (filter wp_enabled wps)"
proof -
  let ?used = "wp_slot ` set (filter wp_enabled wps)"
  have "int ` {..<CDBG_MAX_WATCHPOINTS} \<subseteq> ?used"
  proof
    fix x assume "x \<in> int ` {..<CDBG_MAX_WATCHPOINTS}"
    then obtain n where n: "n < CDBG_MAX_WATCHPOINTS" "x = int n" by auto
    with assms have "\<exists>wp \<in> set wps. wp_enabled wp \<and> wp_slot wp = int n"
      by (auto simp: find_free_watch_slot_def Let_def find_None_iff)
    with n show "x \<in> ?used" by force
  qed
  then have "card (int ` {..<CDBG_MAX_WATCHPOINTS}) \<le> card ?used"
    by (intro card_mono) auto
  also have "\<dots> \<le> length (filter wp_enabled wps)"
    using card_image_le [of "set (filter wp_enabled wps)" wp_slot] card_length [of "filter wp_enabled wps"]
    by (meson List.finite_set le_trans)
  finally show ?thesis by (simp add: card_image)
qed

end
