(* ===== verification/Machine.thy ===== *)
theory Machine
  imports Steady Traps WatchThreads
begin

text \<open>
  A small machine that satisfies every law the development states of the kernel: a debuggee
  with two threads, byte-addressed memory with protected pages, debug registers, suspend
  counts and a map of regions, and enough of a processor to run, step, call, return, trap
  and exit. It shows that the laws can hold together, and the concrete instances of the
  properties are evaluated on it.
\<close>

section \<open>The state\<close>

record machine =
  m_mem :: "addr \<Rightarrow> u8"
  m_prot :: "u64 \<Rightarrow> u32"
  m_gpr :: "port \<Rightarrow> gpr_state"
  m_neon :: "port \<Rightarrow> neon_state"
  m_dbg :: "port \<Rightarrow> debug_state"
  m_exc :: "port \<Rightarrow> exc_state"
  m_susp :: "port \<Rightarrow> int"
  m_status :: u32
  m_files :: "string \<Rightarrow> u8 list option"
  m_tools :: "string \<Rightarrow> string option"

definition the_pid :: pid where "the_pid = 42"
definition the_task :: port where "the_task = 0x103"
definition thread1 :: port where "thread1 = 0x203"
definition thread2 :: port where "thread2 = 0x303"
definition the_threads :: "port list" where "the_threads = [thread1, thread2]"

definition the_ident :: "port \<Rightarrow> tid" where
  "the_ident t = (if t = thread1 then 1001 else if t = thread2 then 1002 else 0)"

definition the_regions :: "region list" where
  "the_regions =
     [\<lparr>region_addr = 0x100000000, region_size = 0x4000, region_prot = 1\<rparr>,
      \<lparr>region_addr = 0x100004000, region_size = 0x4000, region_prot = 5\<rparr>,
      \<lparr>region_addr = 0x16f000000, region_size = 0x8000, region_prot = 3\<rparr>]"

section \<open>Memory\<close>

text \<open>Pages of 16384 bytes.\<close>

definition page :: "addr \<Rightarrow> u64" where "page a = drop_bit 14 a"

fun writable :: "(u64 \<Rightarrow> u32) \<Rightarrow> addr \<Rightarrow> u8 list \<Rightarrow> bool" where
  "writable prot a [] = True"
| "writable prot a (b # bs) = (bit (prot (page a)) 1 \<and> writable prot (a + 1) bs)"

definition machine_write :: "addr \<Rightarrow> u8 list \<Rightarrow> machine \<Rightarrow> kern_return \<times> machine" where
  "machine_write a bs w =
     (if writable (m_prot w) a bs then (KERN_SUCCESS, w\<lparr>m_mem := put_bytes a bs (m_mem w)\<rparr>)
      else (2, w))"

text \<open>A page of code becomes writable only as a private copy.\<close>

definition machine_protect :: "addr \<Rightarrow> u64 \<Rightarrow> u32 \<Rightarrow> machine \<Rightarrow> kern_return \<times> machine" where
  "machine_protect a len prot w =
     (if bit prot 1 \<and> \<not> bit prot 4 then (2, w)
      else (KERN_SUCCESS, w\<lparr>m_prot := \<lambda>p. if page a \<le> p \<and> p \<le> page (a + len - 1) then prot else m_prot w p\<rparr>))"

section \<open>The processor\<close>

definition fetch :: "machine \<Rightarrow> u32" where
  "fetch w = le_word (bytes_at (m_mem w) (r_pc (m_gpr w thread1)) 4)"

definition set_gpr :: "gpr_state \<Rightarrow> machine \<Rightarrow> machine" where
  "set_gpr r w = w\<lparr>m_gpr := (m_gpr w)(thread1 := r)\<rparr>"

definition TRAPPED :: u32 where "TRAPPED = 0x57f"

text \<open>One instruction of the first thread: \<^verbatim>\<open>brk\<close>, \<^verbatim>\<open>bl\<close>, \<^verbatim>\<open>ret\<close>, \<^verbatim>\<open>svc\<close> (exit
  with the code in \<^verbatim>\<open>x0\<close>); any other one only advances. \<open>True\<close>: execution stops here.\<close>

definition cpu_step :: "machine \<Rightarrow> bool \<times> machine" where
  "cpu_step w =
     (let inst = fetch w; r = m_gpr w thread1
      in if inst = CDBG_TRAP_INST then (True, w\<lparr>m_status := TRAPPED\<rparr>)
         else if inst = 0xd4000001
         then (True, w\<lparr>m_status := push_bit 8 (ucast (r_x r 0) AND 0xff)\<rparr>)
         else if inst = 0xd65f03c0 then (False, set_gpr (r\<lparr>r_pc := r_lr r\<rparr>) w)
         else if inst AND 0xfc000000 = 0x94000000
         then (False, set_gpr (r\<lparr>r_lr := r_pc r + 4,
                                 r_pc := r_pc r + push_bit 2 (ucast (inst AND 0x3ffffff))\<rparr>) w)
         else (False, set_gpr (r\<lparr>r_pc := r_pc r + 4\<rparr>) w))"

fun cpu_run :: "nat \<Rightarrow> machine \<Rightarrow> machine" where
  "cpu_run 0 w = w\<lparr>m_status := 0x117f\<rparr>"
| "cpu_run (Suc n) w = (let (stop, w) = cpu_step w in if stop then w else cpu_run n w)"

definition machine_step :: "machine \<Rightarrow> machine" where
  "machine_step w = (let (stop, w) = cpu_step w in if stop then w else w\<lparr>m_status := TRAPPED\<rparr>)"

section \<open>The kernel\<close>

definition machine_kernel :: "machine kernel" where
  "machine_kernel =
     \<lparr>k_task_for_pid = \<lambda>p w. (if p = the_pid then (KERN_SUCCESS, the_task) else (5, 0), w),
      k_mach_vm_read = \<lambda>t a n w. ((KERN_SUCCESS, bytes_at (m_mem w) a n), w),
      k_mach_vm_write = \<lambda>t. machine_write,
      k_mach_vm_protect = \<lambda>t. machine_protect,
      k_pagesize = \<lambda>w. 16384,
      k_vm_region = \<lambda>t a w. (find (\<lambda>r. unat a < region_end r) the_regions, w),
      k_pt_read_d = \<lambda>p a w. ((ucast (m_mem w a), False), w),
      k_pt_write_d = \<lambda>p a b w. (True, w\<lparr>m_mem := (m_mem w)(a := b)\<rparr>),
      k_pt_step = \<lambda>p w. (True, machine_step w),
      k_pt_continue = \<lambda>p w. (True, cpu_run 64 w),
      k_pt_detach = \<lambda>p w. (True, w),
      k_kill_sigkill = \<lambda>p w. (Kill_Ok, w\<lparr>m_status := 9\<rparr>),
      k_waitpid = \<lambda>p w. (Wait_Status (m_status w), w),
      k_fork = \<lambda>cs w. (Some the_pid, w\<lparr>m_status := TRAPPED\<rparr>),
      k_task_threads = \<lambda>t w. ((KERN_SUCCESS, the_threads), w),
      k_thread_id = \<lambda>t w. ((KERN_SUCCESS, the_ident t), w),
      k_get_gpr = \<lambda>t w. ((KERN_SUCCESS, m_gpr w t), w),
      k_get_neon = \<lambda>t w. ((KERN_SUCCESS, m_neon w t), w),
      k_get_debug = \<lambda>t w. ((KERN_SUCCESS, m_dbg w t), w),
      k_get_exc = \<lambda>t w. ((KERN_SUCCESS, m_exc w t), w),
      k_set_gpr = \<lambda>t r w. (KERN_SUCCESS, w\<lparr>m_gpr := (m_gpr w)(t := r)\<rparr>),
      k_set_neon = \<lambda>t r w. (KERN_SUCCESS, w\<lparr>m_neon := (m_neon w)(t := r)\<rparr>),
      k_set_debug = \<lambda>t r w. (KERN_SUCCESS, w\<lparr>m_dbg := (m_dbg w)(t := implemented 4 r)\<rparr>),
      k_thread_suspend = \<lambda>t w. (KERN_SUCCESS, w\<lparr>m_susp := (m_susp w)(t := m_susp w t + 1)\<rparr>),
      k_thread_resume = \<lambda>t w. (KERN_SUCCESS, w\<lparr>m_susp := (m_susp w)(t := m_susp w t - 1)\<rparr>),
      k_access = \<lambda>path mode w. m_files w path \<noteq> None,
      k_read_file = \<lambda>path w. m_files w path,
      k_popen = \<lambda>cmd w. map_option (\<lambda>text. (text, 0)) (m_tools w cmd)\<rparr>"

section \<open>The laws hold\<close>

lemma ucast_u8_u64 [simp]: "ucast (ucast (x :: u8) :: u64) = x"
  by (rule bit_word_eqI) (simp add: bit_ucast8 bit_ucast_of8)

interpretation machine_memory: traced_memory machine_kernel the_pid "{the_task}" m_mem
  by unfold_locales
    (auto simp: machine_kernel_def machine_write_def machine_protect_def split: if_splits)

interpretation machine_task: suspendable_task machine_kernel the_pid the_task the_threads the_ident m_susp
  by unfold_locales
    (auto simp: machine_kernel_def the_threads_def the_ident_def the_task_def thread1_def thread2_def
      inj_on_def)

interpretation machine_debug: armable_task machine_kernel the_pid the_task the_threads the_ident m_dbg 4
  by unfold_locales
    (auto simp: machine_kernel_def the_threads_def thread1_def thread2_def CDBG_MAX_THREADS_def)

interpretation machine_regions: region_map machine_kernel the_pid the_task the_regions
  by unfold_locales
    (auto simp: machine_kernel_def the_regions_def region_end_def)

lemma machine_responsive: "responsive machine_kernel"
  by (rule responsive_no_EINTR) (simp add: machine_kernel_def)

interpretation machine_waits: waits machine_kernel False s0 for s0
  by (rule waits_responsive [OF machine_responsive])

section \<open>A debuggee\<close>

text \<open>The code at \<^verbatim>\<open>0x100004000\<close>: two \<^verbatim>\<open>nop\<close>, a call of the function at \<^verbatim>\<open>+0x20\<close>,
  a \<^verbatim>\<open>nop\<close> and the exit; the function is a \<^verbatim>\<open>nop\<close> and a \<^verbatim>\<open>ret\<close>.\<close>

definition nop :: u32 where "nop = 0xd503201f"

definition program :: "u32 list" where
  "program = [nop, nop, 0x94000006, nop, 0xd4000001, nop, nop, nop, nop, 0xd65f03c0]"

definition code_base :: addr where "code_base = 0x100004000"

definition machine0 :: machine where
  "machine0 =
     \<lparr>m_mem = put_bytes code_base (concat (map (le_bytes 4) program)) (\<lambda>_. 0),
      m_prot = \<lambda>p. if p = page code_base then 5 else 3,
      m_gpr = \<lambda>_. zero_gpr\<lparr>r_pc := code_base, r_sp := 0x16f004000\<rparr>,
      m_neon = \<lambda>_. \<lparr>n_v = \<lambda>_. 0, n_fpsr = 0, n_fpcr = 0\<rparr>,
      m_dbg = \<lambda>_. \<lparr>d_bvr = \<lambda>_. 0, d_bcr = \<lambda>_. 0, d_wvr = \<lambda>_. 0, d_wcr = \<lambda>_. 0\<rparr>,
      m_exc = \<lambda>_. \<lparr>e_far = 0, e_esr = 0\<rparr>,
      m_susp = \<lambda>_. 0,
      m_status = TRAPPED,
      m_files = \<lambda>_. None,
      m_tools = \<lambda>_. None\<rparr>"

definition sys0 :: "machine sys" where
  "sys0 = \<lparr>world = machine0, rights = {#}, io = []\<rparr>"

definition stopped0 :: "machine cdbg" where
  "stopped0 = (cdbg_init sys0)\<lparr>pid := the_pid, state := State_STOPPED\<rparr>"

text \<open>The same stop with the registers read, and with tools that print a text.\<close>

definition machine_printing :: "string \<Rightarrow> machine" where
  "machine_printing text = machine0\<lparr>m_tools := \<lambda>_. Some text\<rparr>"

definition stopped_printing :: "string \<Rightarrow> machine cdbg" where
  "stopped_printing text =
     stopped0\<lparr>debug_info_path := ''a.out'', dsys := sys0\<lparr>world := machine_printing text\<rparr>\<rparr>"

definition refreshed_printing :: "string \<Rightarrow> machine cdbg" where
  "refreshed_printing text = (stopped_printing text)
     \<lparr>regs := (regs stopped0)\<lparr>native := m_gpr machine0 thread1, neon := m_neon machine0 thread1\<rparr>\<rparr>"

section \<open>What succeeds on the machine\<close>

lemma machine_pt_write: "fst (mem_write_ptrace machine_kernel p a bs y)"
  by (induction bs arbitrary: a y) (simp_all add: machine_kernel_def split_beta Let_def)

lemma machine_write_ok: "fst (cdbg_mem_write machine_kernel p a bs y)"
  using machine_pt_write
  by (simp add: cdbg_mem_write_def mem_write_fallback_def split_beta Let_def)

lemma machine_task: "task_for_traced_pid machine_kernel the_pid y = (the_task, acquire the_task y)"
  by (simp add: task_for_traced_pid_def sys_task_for_pid_def syscall_def machine_kernel_def)

lemma machine_read: "fst (cdbg_mem_read machine_kernel the_pid a n y) = Some (bytes_at (m_mem (world y)) a n)"
  by (simp add: cdbg_mem_read_def machine_task syscall_def Let_def)
    (simp add: machine_kernel_def the_task_def)

lemma machine_enable: "fst (fst (cdbg_bp_enable machine_kernel bp the_pid a y))"
  using machine_write_ok machine_read
  by (simp add: cdbg_bp_enable_def split_beta Let_def)

lemma machine_disable: "fst (fst (cdbg_bp_disable machine_kernel bp p y))"
  using machine_write_ok by (simp add: cdbg_bp_disable_def split_beta)

lemma machine_break:
  assumes "fst (break_target t s) = Some (a, label)" and "pid s = the_pid"
    and "length (breakpoints s) < CDBG_MAX_BREAKPOINTS"
  shows "fst (cmd_break machine_kernel t s)"
  using assms machine_enable [of zero_bp a "dsys (snd (break_target t s))"]
  by (simp add: cmd_break_def split_beta Let_def)

text \<open>The state after \<^verbatim>\<open>break 0x100004008\<close>.\<close>

definition broken0 :: "machine cdbg" where
  "broken0 = snd (cmd_break machine_kernel ''0x100004008'' stopped0)"

lemma target0: "fst (break_target ''0x100004008'' stopped0) = Some (0x100004008, ''0x100004008'')"
  by (simp add: break_target_def at_last_colon_def parse_u64_def strtoull_def text_eval
      starts_with_def)

lemma stopped0_fields [simp]:
  "pid stopped0 = the_pid" "state stopped0 = State_STOPPED" "breakpoints stopped0 = []"
  "watchpoints stopped0 = []" "dsys stopped0 = sys0" "world sys0 = machine0"
  by (simp_all add: stopped0_def cdbg_init_def sys0_def)

lemma break0: "cmd_break machine_kernel ''0x100004008'' stopped0 = (True, broken0)"
proof -
  have "fst (cmd_break machine_kernel ''0x100004008'' stopped0)"
    by (rule machine_break [OF target0]) (simp_all add: CDBG_MAX_BREAKPOINTS_def)
  then show ?thesis by (simp add: broken0_def prod_eq_iff)
qed

lemma machine_delete:
  "i < length (breakpoints s) \<Longrightarrow> fst (delete_breakpoint_at machine_kernel i s)
     \<and> length (breakpoints (snd (delete_breakpoint_at machine_kernel i s))) = length (breakpoints s) - 1"
  using machine_disable [of "breakpoints s ! i" "pid s" "dsys s"]
  by (auto simp: delete_breakpoint_at_def split_beta Let_def remove_nth_def on_sys_def)

lemma machine_delete_down:
  "length (breakpoints s) = n \<Longrightarrow> fst (delete_down (delete_breakpoint_at machine_kernel) n s)"
proof (induction n arbitrary: s)
  case (Suc n)
  then show ?case using machine_delete [of n s] by (simp add: split_beta Let_def)
qed simp

lemma machine_delete_all: "fst (cmd_del machine_kernel (Some ''all'') s)"
proof -
  have "trim_space ''all'' = ''all''"
    by (simp add: trim_space_def trim_left_def trim_right_def text_eval)
  with machine_delete_down [of s "length (breakpoints s)"] show ?thesis
    by (simp add: cmd_del_def split_beta Let_def)
qed

lemma broken0_fields: "pid broken0 = the_pid \<and> state broken0 = State_STOPPED"
proof -
  have "pid (snd (cmd_break machine_kernel t s)) = pid s
      \<and> state (snd (cmd_break machine_kernel t s)) = state s" for t s
    by (simp add: cmd_break_def split_beta Let_def split: option.split)
  then show ?thesis by (simp add: broken0_def)
qed

lemma broken0_table: "\<exists>bp. breakpoints broken0 = [bp] \<and> bp_enabled bp \<and> bp_addr bp = 0x100004008"
  using machine_memory.cmd_break_keeps [OF break0 target0, of "m_mem machine0"]
    trapped_none [of "m_mem machine0"] by (simp add: apart_def)

lemma tokens0: "trim_space ''0'' = ''0''"
  "strtok (snprintf_s 256 ''0'') [CHR '' '', CHR 0x09] = [''0'']"
  by (simp_all add: trim_space_def trim_left_def trim_right_def text_eval snprintf_s_def strtok.simps)

lemma delete0: "fst (cmd_del machine_kernel (Some ''0'') broken0)"
proof -
  obtain bp where b: "breakpoints broken0 = [bp]" using broken0_table by auto
  have "parse_u64 ''0'' = Some 0" by (simp add: parse_u64_def strtoull_def text_eval)
  then have c: "collect_indices ''breakpoint'' (Suc 0) [''0''] [] = Inr [0]" by simp
  have d: "fst (delete_breakpoint_at machine_kernel 0
      (out (''Deleting breakpoint '' @ fmt_u 0 @ nl) broken0))"
    using machine_delete [of 0 "out (''Deleting breakpoint '' @ fmt_u 0 @ nl) broken0"] b by simp
  show ?thesis
    using d by (simp add: cmd_del_def tokens0 b split_beta c del: collect_indices.simps)
qed

section \<open>Registers\<close>

lemma machine_get_regs:
  "cdbg_regs_get machine_kernel the_pid 0 r y =
     ((True, r\<lparr>native := m_gpr (world y) thread1, neon := m_neon (world y) thread1\<rparr>), y)"
proof -
  have "cdbg_threads_resolve_port machine_kernel the_pid 0 y = (Some thread1, y\<lparr>rights := live [thread1] + rights y\<rparr>)"
    by (rule machine_task.resolve) (simp_all add: the_threads_def)
  moreover have "k_get_gpr machine_kernel = (\<lambda>t w. ((KERN_SUCCESS, m_gpr w t), w))"
    "k_get_neon machine_kernel = (\<lambda>t w. ((KERN_SUCCESS, m_neon w t), w))"
    by (simp_all add: machine_kernel_def)
  ultimately show ?thesis
    by (simp add: cdbg_regs_get_def syscall_def Let_def mach_port_deallocate_def)
qed

lemma machine_refresh:
  assumes "pid s = the_pid" and "current_tid s = 0"
  shows "cdbg_refresh_regs machine_kernel s =
    (True, s\<lparr>regs := (regs s)\<lparr>native := m_gpr (world (dsys s)) thread1, neon := m_neon (world (dsys s)) thread1\<rparr>\<rparr>)"
  using assms by (simp add: cdbg_refresh_regs_def on_sys_def machine_get_regs)

section \<open>A watchpoint\<close>

definition wp0 :: cdbg_watchpoint where
  "wp0 = \<lparr>wp_addr = 0x16f000100, wp_size = 8, wp_kind = Watch_Write, wp_enabled = False, wp_slot = 1,
     wp_expr = ''x'', wp_last_value = 0, wp_has_last_value = False\<rparr>"

lemma machine_get_debug:
  "t \<in> set the_threads \<Longrightarrow>
   cdbg_regs_get_debug_state machine_kernel the_pid (the_ident t) y = (Some (m_dbg (world y) t), y)"
  by (simp add: cdbg_regs_get_debug_state_def with_thread_def machine_task.resolve Let_def split_beta
      sys.equality)
    (simp add: machine_kernel_def)

lemma machine_set_debug:
  "t \<in> set the_threads \<Longrightarrow>
   fst (cdbg_regs_set_debug_state machine_kernel the_pid (the_ident t) st y)"
  by (simp add: cdbg_regs_set_debug_state_def with_thread_def machine_task.resolve Let_def split_beta)
    (simp add: machine_kernel_def)

lemma machine_arm:
  assumes "t \<in> set the_threads" and "armable 4 wp"
  shows "fst (cdbg_watch_arm machine_kernel the_pid (the_ident t) (wp_slot wp) (wp_addr wp)
    (wp_size wp) (wp_kind wp) y)"
proof -
  let ?n = "nat (wp_slot wp)"
  let ?st = "(m_dbg (world y) t)\<lparr>d_wvr := (d_wvr (m_dbg (world y) t))(?n := wp_addr wp AND NOT 7),
    d_wcr := (d_wcr (m_dbg (world y) t))(?n := watch_wcr (wp_addr wp) (wp_size wp) (wp_kind wp))\<rparr>"
  obtain y1 where s: "cdbg_regs_set_debug_state machine_kernel the_pid (the_ident t) ?st y = (True, y1)"
    using machine_set_debug [OF assms(1), of ?st y] by (metis prod.collapse)
  have "m_dbg (world y1) t = implemented 4 ?st"
    using machine_debug.set_debug_state [OF assms(1) disjI1 [OF refl] s] by simp
  then have v: "d_wcr (m_dbg (world y1) t) ?n = watch_wcr (wp_addr wp) (wp_size wp) (wp_kind wp)"
    using assms(2) by (simp add: implemented_def armable_def)
  have n: "\<not> (wp_slot wp < 0 \<or> wp_slot wp \<ge> int CDBG_MAX_WATCHPOINTS)"
    "\<not> (wp_size wp = 0 \<or> wp_size wp > 8)" "\<not> (wp_addr wp AND 7) + wp_size wp > 8"
    using assms(2) by (auto simp: armable_def)
  show ?thesis
    unfolding cdbg_watch_arm_def if_not_P [OF n(1)] if_not_P [OF n(2)] if_not_P [OF n(3)]
    using s v by (simp add: machine_get_debug [OF assms(1)] Let_def del: fun_upd_apply)
qed

lemma machine_arm_all:
  assumes "armable 4 wp"
  shows "fst (arm_watchpoint_all_threads machine_kernel the_pid wp y)"
proof -
  obtain threads y' where l: "cdbg_threads_list machine_kernel the_pid CDBG_MAX_THREADS y = (Some threads, y')"
    "map te_tid threads = map the_ident the_threads"
    by (rule machine_debug.threads_list_spec)
  have arm: "set us \<subseteq> set the_threads \<Longrightarrow> map te_tid es = map the_ident us \<Longrightarrow>
      fst (arm_loop machine_kernel the_pid wp before es y)" for us es before y
  proof (induction us arbitrary: es before y)
    case (Cons u us)
    then obtain e es' where "es = e # es'" "te_tid e = the_ident u" "map te_tid es' = map the_ident us"
      by (cases es) auto
    with Cons machine_arm [OF _ assms, of u y] show ?case by (simp add: split_beta Let_def)
  qed simp
  show ?thesis using arm [OF subset_refl l(2)] l(1) by (simp add: arm_watchpoint_all_threads_def)
qed

lemma arm_wp0: "fst (arm_watchpoint_all_threads machine_kernel the_pid wp0 y)"
  by (rule machine_arm_all) (simp add: armable_def wp0_def CDBG_MAX_WATCHPOINTS_def)

lemma disarm0: "fst (cdbg_watch_disarm machine_kernel the_pid 1001 1 sys0)"
proof -
  have t: "thread1 \<in> set the_threads" "the_ident thread1 = 1001"
    by (simp_all add: the_threads_def the_ident_def)
  show ?thesis
    using machine_set_debug [OF t(1)] machine_get_debug [OF t(1)] t(2)
    by (simp add: cdbg_watch_disarm_def CDBG_MAX_WATCHPOINTS_def Let_def)
qed

section \<open>A run\<close>

lemma machine_process_wait: "process_wait machine_kernel p y = Some (Some (m_status (world y)), y)"
  by (subst process_wait.simps) (simp add: machine_kernel_def syscall_def)

lemma machine_load:
  assumes "m_files (world (dsys s)) = (\<lambda>_. None)" and "m_tools (world (dsys s)) = (\<lambda>_. None)" and "pid s = 0"
  shows "\<exists>s'. cdbg_load_symbols machine_kernel path s = Some (False, s') \<and> pid s' = 0
    \<and> m_files (world (dsys s')) = (\<lambda>_. None) \<and> breakpoints s' = breakpoints s \<and> state s' = state s
    \<and> ln_entries (lineno s') = [] \<and> sy_entries (syms s') = [] \<and> malloc_stack_logging s' = malloc_stack_logging s \<and> run_argv s' = run_argv s \<and> run_argc s' = run_argc s"
  using assms
  by (simp add: cdbg_load_symbols_def cdbg_lineno_load_def map_file_def cdbg_syms_load_def
      syms_map_file_def dsym_object_path_def syms_load_from_nm_def machine_kernel_def Let_def split_beta
      empty_lineno_def empty_syms_def cdbg_syms_free_def split: option.split)


lemma machine_stop: "\<exists>s'. stop_debuggee machine_kernel (s :: machine cdbg) = Some (True, s') \<and> pid s' = 0
    \<and> m_files (world (dsys s')) = m_files (world (dsys s)) \<and> m_tools (world (dsys s')) = m_tools (world (dsys s))
    \<and> run_argv s' = run_argv s \<and> run_argc s' = run_argc s"
  if "0 < pid s" "state s = State_STOPPED" 
  using that
  by (simp add: stop_debuggee_def cdbg_process_wait_def machine_process_wait disable_all_def split_beta Let_def)
   (simp add: machine_kernel_def)

lemma machine_spawn: "argv \<noteq> [] \<Longrightarrow> cdbg_process_spawn machine_kernel argv msl y =
  (Some the_pid, y\<lparr>world := (world y)\<lparr>m_status := TRAPPED\<rparr>\<rparr>)"
  by (simp add: cdbg_process_spawn_def machine_kernel_def syscall_def)

lemma machine_spawned: "\<exists>s'. cdbg_spawn machine_kernel argv s = Some (True, s') \<and> pid s' = the_pid \<and> state s' = State_RUNNING
   \<and> m_status (world (dsys s')) = TRAPPED \<and> syms s' = syms s \<and> lineno s' = lineno s \<and> breakpoints s' = breakpoints s"
  if "argv \<noteq> []" "ln_entries (lineno s) = []" "sy_entries (syms s) = []"
  using that
  by (simp add: cdbg_spawn_def update_slides_def on_sys_def machine_spawn)

lemma machine_wait: "\<exists>s'. cdbg_wait machine_kernel s = Some (0, s') \<and> state s' = State_STOPPED
   \<and> syms s' = syms s \<and> lineno s' = lineno s"
  if "m_status (world (dsys s)) = TRAPPED" "breakpoints s = []"
  using that
  by (simp add: cdbg_wait_def cdbg_process_wait_def machine_process_wait reenable_breakpoints_after_step_def
     WIFEXITED_def WIFSIGNALED_def TRAPPED_def)

lemma machine_entry: "run_to_entry_stop machine_kernel s = Some (0, s)" if "sy_entries (syms s) = []"
  using that by (simp add: run_to_entry_stop_def resolve_entry_stop_addr_def cdbg_syms_lookup_name_def Let_def)

lemma run0: "\<exists>s'. cdbg_run machine_kernel (Some [''./a'']) stopped0 = Some (True, s')"
proof -
  obtain s0 where t: "cdbg_set_run_target [''./a''] stopped0 = (True, s0)"
    and f: "pid s0 = the_pid" "state s0 = State_STOPPED" "run_argv s0 = [''./a'']" "run_argc s0 = 1"
       "m_files (world (dsys s0)) = (\<lambda>_. None)" "m_tools (world (dsys s0)) = (\<lambda>_. None)"
    by (simp add: cdbg_set_run_target_def CDBG_MAX_RUN_ARGS_def CDBG_MAX_PATH_def snprintf_s_def machine0_def)
  obtain s1 where s1: "stop_debuggee machine_kernel s0 = Some (True, s1)" "pid s1 = 0"
    "m_files (world (dsys s1)) = (\<lambda>_. None)" "m_tools (world (dsys s1)) = (\<lambda>_. None)" "run_argv s1 = [''./a'']" "run_argc s1 = 1"
    using machine_stop [of s0] f by (auto simp: the_pid_def)
  let ?s1 = "s1\<lparr>breakpoints := [], watchpoints := [], regs := zero_regs, wait_status := 0\<rparr>"
  obtain s2 where s2: "cdbg_load_symbols machine_kernel ''./a'' ?s1 = Some (False, s2)"
    "breakpoints s2 = []" "ln_entries (lineno s2) = []" "sy_entries (syms s2) = []" "run_argv s2 = [''./a'']"
    using machine_load [of ?s1 "''./a''"] s1 by auto
  let ?s2 = "err (''Warning: could not load debug info for '' @ ''./a'' @ nl) s2"
  obtain s3 where s3: "cdbg_spawn machine_kernel [''./a''] ?s2 = Some (True, s3)" 
    "m_status (world (dsys s3)) = TRAPPED" "ln_entries (lineno s3) = []" "sy_entries (syms s3) = []" "breakpoints s3 = []"
    using machine_spawned [of "[''./a'']" ?s2] s2 by auto
  obtain s4 where s4: "cdbg_wait machine_kernel s3 = Some (0, s4)" "state s4 = State_STOPPED"
    "ln_entries (lineno s4) = []" "sy_entries (syms s4) = []"
    using machine_wait [of s3] s3 by auto
  have u: "update_slides machine_kernel False False s4 = Some ((), s4)" by (simp add: update_slides_def)
  have e: "run_to_entry_stop machine_kernel (print_run_banner s4) = Some (0, print_run_banner s4)"
    by (rule machine_entry) (simp add: print_run_banner_def s4)
  show ?thesis
    by (simp add: cdbg_run_def t f s1 s2 s3 [simplified] s4 u e)
qed

end
