(* ===== verification/Quiet.thy ===== *)
theory Quiet
  imports Repl Machine
begin

text \<open>
  The commands that only look: \<^verbatim>\<open>print\<close>, \<^verbatim>\<open>show\<close>, \<^verbatim>\<open>tb\<close>, \<^verbatim>\<open>thread\<close>, \<^verbatim>\<open>x\<close>, \<^verbatim>\<open>list\<close>, \<^verbatim>\<open>dis\<close>, \<^verbatim>\<open>lines\<close>,
  \<^verbatim>\<open>lists\<close>, \<^verbatim>\<open>syms\<close>, \<^verbatim>\<open>leaks\<close>, \<^verbatim>\<open>help\<close>, and the evaluation of any expression. Of the
  debugger's own state they change at most the registers it has read and the thread it has
  selected; and whatever reading memory, registers and the list of threads keeps of the
  system, they keep. The latter is the interface \<open>inspection\<close>, interpreted on the send
  rights, for any kernel, and on the memory of the debuggee.
\<close>

section \<open>What is kept\<close>

text \<open>The state but for the registers, the selected thread and the system's side.\<close>

definition same_but_view :: "'w cdbg \<Rightarrow> 'w cdbg \<Rightarrow> bool" where
  "same_but_view s0 s \<longleftrightarrow> pid s = pid s0 \<and> state s = state s0 \<and> wait_status s = wait_status s0
     \<and> breakpoints s = breakpoints s0 \<and> watchpoints s = watchpoints s0
     \<and> lineno s = lineno s0 \<and> syms s = syms s0
     \<and> executable_path s = executable_path s0 \<and> debug_info_path s = debug_info_path s0
     \<and> run_argv s = run_argv s0 \<and> run_argc s = run_argc s0
     \<and> print_pretty s = print_pretty s0 \<and> malloc_stack_logging s = malloc_stack_logging s0
     \<and> language s = language s0"

definition looked :: "(pid \<Rightarrow> 'w sys \<Rightarrow> bool) \<Rightarrow> 'w cdbg \<Rightarrow> 'w cdbg \<Rightarrow> bool" where
  "looked Q s0 s \<longleftrightarrow> Q (pid s) (dsys s) \<and> same_but_view s0 s"

lemma looked_refl: "Q (pid s) (dsys s) \<Longrightarrow> looked Q s s"
  by (simp add: looked_def same_but_view_def)

lemma looked_fields [simp]:
  "looked Q s0 (s\<lparr>regs := r\<rparr>) = looked Q s0 s" "looked Q s0 (s\<lparr>current_tid := t\<rparr>) = looked Q s0 s"
  by (simp_all add: looked_def same_but_view_def)

lemma looked_dsys [simp]:
  "looked Q s0 s \<Longrightarrow> Q (pid s) y \<Longrightarrow> looked Q s0 (s\<lparr>dsys := y\<rparr>)"
  by (simp add: looked_def same_but_view_def)

lemma looked_Q [simp]: "looked Q s0 s \<Longrightarrow> Q (pid s) (dsys s)"
  by (simp add: looked_def)

lemma looked_on_sys [simp]:
  "looked Q s0 s \<Longrightarrow> (Q (pid s) (dsys s) \<Longrightarrow> Q (pid s) (snd (f (dsys s)))) \<Longrightarrow>
     looked Q s0 (snd (on_sys f s))"
  by (simp add: on_sys_def split_beta)

text \<open>The steps of the evaluator that keep it.\<close>

definition quiet :: "(pid \<Rightarrow> 'w sys \<Rightarrow> bool) \<Rightarrow> 'w cdbg \<Rightarrow> ('r, 'w) ev \<Rightarrow> bool" where
  "quiet Q s0 m \<longleftrightarrow> (\<forall>s. looked Q s0 s \<longrightarrow> looked Q s0 (snd (m s)))"

lemma quiet_looked [simp]: "quiet Q s0 m \<Longrightarrow> looked Q s0 s \<Longrightarrow> looked Q s0 (snd (m s))"
  by (simp add: quiet_def)

lemma quiet_bind: "quiet Q s0 m \<Longrightarrow> (\<And>r. quiet Q s0 (f r)) \<Longrightarrow> quiet Q s0 (ev_bind m f)"
  unfolding quiet_def ev_bind_def by (auto simp: split_beta split: option.split)

section \<open>The interface\<close>

locale inspection =
  fixes K :: "'w kernel" and Q :: "pid \<Rightarrow> 'w sys \<Rightarrow> bool"
  assumes emit [simp]: "Q p y \<Longrightarrow> Q p (emit x y)"
    and read [simp]: "Q p y \<Longrightarrow> Q p (snd (cdbg_mem_read K p a n y))"
    and get [simp]: "Q p y \<Longrightarrow> Q p (snd (cdbg_regs_get K p tid r y))"
    and list [simp]: "Q p y \<Longrightarrow> Q p (snd (cdbg_threads_list K p m y))"
begin

lemma say [simp]: "looked Q s0 s \<Longrightarrow> looked Q s0 (say x s)"
  by (simp add: say_def)

lemma fold_say [simp]: "looked Q s0 s \<Longrightarrow> looked Q s0 (fold (\<lambda>e. say (g e)) es s)"
  by (induction es arbitrary: s) auto

lemma fold_say_pairs [simp]:
  "looked Q s0 s \<Longrightarrow> looked Q s0 (fold (\<lambda>(i, e) t. say (g i e) t) es s)"
  by (induction es arbitrary: s) auto

lemma refresh [simp]: "looked Q s0 s \<Longrightarrow> looked Q s0 (snd (cdbg_refresh_regs K s))"
  by (simp add: cdbg_refresh_regs_def split_beta)

lemma language [simp]: "looked Q s0 s \<Longrightarrow> looked Q s0 (snd (cdbg_language_check_expr s))"
  by (simp add: cdbg_language_check_expr_def Let_def)

subsection \<open>Values\<close>

lemma read_u64 [simp]: "Q p y \<Longrightarrow> Q p (snd (cdbg_mem_read_u64 K p a y))"
  by (simp add: cdbg_mem_read_u64_def split_beta)

lemma scalar [simp]: "Q p y \<Longrightarrow> Q p (snd (read_scalar_value K p a n y))"
  by (simp add: read_scalar_value_def split_beta)

lemma c_string_loop: "Q p y \<Longrightarrow> Q p (snd (read_c_string_loop K p a n i acc y))"
proof (induction "n - i" arbitrary: i acc y rule: less_induct)
  case less
  then show ?case
    by (subst read_c_string_loop.simps) (auto simp: split_beta Let_def split: option.split)
qed

lemma c_string [simp]: "Q p y \<Longrightarrow> Q p (snd (read_c_string K p a n y))"
  by (simp add: read_c_string_def c_string_loop)

lemma scalar_result [simp]:
  "looked Q s0 s \<Longrightarrow> looked Q s0 (print_scalar_result_fmt K l f v n sg pt ad t s)"
  by (cases f) (simp_all add: print_scalar_result_fmt_def Let_def split_beta split: option.split)

lemma annotate [simp]: "looked Q s0 s \<Longrightarrow> looked Q s0 (annotate K f t s)"
  by (simp add: annotate_def Let_def)

lemma members [simp]: "looked Q s0 s \<Longrightarrow> looked Q s0 (snd (print_members K a pretty i ms s))"
  by (induction ms arbitrary: i s) (simp_all add: split_beta Let_def split: option.split)

lemma struct_element [simp]:
  "looked Q s0 s \<Longrightarrow> looked Q s0 (snd (print_struct_element K a ms pretty s))"
  by (simp add: print_struct_element_def Let_def split_beta)

lemma array_element [simp]:
  "looked Q s0 s \<Longrightarrow> looked Q s0 (snd (print_array_element_value K var a s))"
  by (simp add: print_array_element_value_def Let_def split_beta split: option.split)

lemma elements: "looked Q s0 s \<Longrightarrow> looked Q s0 (snd (print_elements K var base i n s))"
  by (induction n arbitrary: i s) (simp_all add: split_beta Let_def)

lemma variable [simp]:
  "looked Q s0 s \<Longrightarrow> looked Q s0 (snd (print_array_variable K name var a s))"
  "looked Q s0 s \<Longrightarrow> looked Q s0 (snd (print_struct_variable K l t a ms s))"
  by (simp_all add: print_array_variable_def print_struct_variable_def Let_def split_beta elements)

lemma named_variable [simp]:
  "looked Q s0 s \<Longrightarrow> looked Q s0 (snd (print_named_variable K var a s))"
  by (simp add: print_named_variable_def Let_def split_beta split: option.split)

lemma subscript [simp]:
  "looked Q s0 s \<Longrightarrow> looked Q s0 (snd (resolve_subscript_element K name i s))"
  by (simp add: resolve_subscript_element_def Let_def split_beta split: option.split)

subsection \<open>Expressions\<close>

lemma quiet_return [simp]: "quiet Q s0 (ev_return r)"
  by (simp add: quiet_def ev_return_def)

lemma quiet_fail [simp]: "quiet Q s0 (ev_fail msg)"
  by (simp add: quiet_def ev_fail_def)

lemma quiet_none [simp]: "quiet Q s0 (\<lambda>s. (None, s))"
  by (simp add: quiet_def)

lemma quiet_or_fail [simp]: "quiet Q s0 (or_fail r)"
  by (cases r) (simp_all add: or_fail_def)

lemma quiet_steps [simp]:
  "quiet Q s0 (ev_read K a n)" "quiet Q s0 (ev_variable K name)"
  "quiet Q s0 (resolve_subscript_element K name i)"
  by (simp_all add: quiet_def ev_read_def ev_variable_def split_beta split: option.split)

lemma quiet_lvalues [simp]:
  "quiet Q s0 (deref_lvalue K ptr t)" "quiet Q s0 (element_lvalue K ptr t i)"
  "quiet Q s0 (member_lvalue K a t x)" "quiet Q s0 (variable_lvalue name v)"
  by (auto simp: quiet_def ev_fail_def ev_return_def deref_lvalue_def member_lvalue_def
      element_lvalue_def variable_lvalue_def Let_def split_beta split: option.split)

lemma quiet_pointers [simp]:
  "quiet Q s0 (variable_pointer K name)" "quiet Q s0 (lvalue_pointer K lv)"
  "quiet Q s0 (lvalue_result K a n t)"
  by (auto simp: variable_pointer_def lvalue_pointer_def lvalue_result_def intro!: quiet_bind)

lemma quiet_parse [simp]: "quiet Q s0 (ev_parse sd text)"
  by (simp add: quiet_def ev_parse_def ev_fail_def split: option.split)

lemma quiet_as_pointer:
  assumes "quiet Q s0 (eval_lvalue K e)" and "quiet Q s0 (eval_value K e)"
  shows "quiet Q s0 (eval_as_pointer K e)"
proof -
  have "quiet Q s0 (ev_bind (eval_lvalue K e) (lvalue_pointer K))"
    "quiet Q s0 (ev_bind (eval_value K e) (\<lambda>val. ev_return (er_value val, [])))"
    using assms by (auto intro!: quiet_bind)
  then show ?thesis
    using quiet_pointers(1) by (cases e) (simp_all add: quiet_def)
qed

lemma quiet_value_of_lvalue:
  assumes "quiet Q s0 (eval_lvalue K e)" and "has_lvalue_shape e"
  shows "quiet Q s0 (eval_value K e)"
proof -
  have "quiet Q s0 (ev_bind (eval_lvalue K e) (\<lambda>lv. lvalue_result K (lv_addr lv) (lv_size lv) (lv_type lv)))"
    using assms by (auto intro!: quiet_bind)
  with assms(2) show ?thesis by (cases e) (simp_all add: quiet_def)
qed

lemma quiet_index:
  assumes "quiet Q s0 (eval_as_pointer K e)" and "quiet Q s0 (eval_value K i)"
  shows "quiet Q s0 (eval_lvalue K (Index e i))"
proof -
  have "quiet Q s0 (ev_bind (eval_value K i) (\<lambda>idx.
       ev_bind (resolve_subscript_element K name (er_value idx)) (\<lambda>(view, addr).
         ev_return \<lparr>lv_addr = addr, lv_size = vi_element_size view,
           lv_signed = signed_type (vi_element_type view), lv_type = snprintf_s 128 (vi_element_type view)\<rparr>)))"
    "quiet Q s0 (ev_bind (eval_value K i) (\<lambda>idx.
       ev_bind (eval_as_pointer K e) (\<lambda>(ptr, pointee). element_lvalue K ptr pointee (er_value idx))))"
    for name
    using assms by (auto intro!: quiet_bind)
  then show ?thesis by (cases e) (simp_all add: quiet_def)
qed

lemma quiet_eval_lvalue:
  "quiet Q s0 (eval_lvalue K e) \<and> quiet Q s0 (eval_value K e)"
proof (induction e)
  case (Ident x)
  have "quiet Q s0 (ev_bind (ev_variable K x) (variable_lvalue x))"
    "quiet Q s0 (ev_bind (ev_variable K x) (\<lambda>(var, addr). lvalue_result K addr (vi_size var) (vi_type var)))"
    by (auto intro!: quiet_bind)
  then show ?case by (simp add: quiet_def)
next
  case (Unary op e)
  then have "quiet Q s0 (ev_bind (eval_value K e) (\<lambda>r. or_fail (combine_unary op r)))"
    by (auto intro!: quiet_bind)
  then show ?case by (simp add: quiet_def)
next
  case (Binary op l r)
  then have "quiet Q s0 (ev_bind (eval_value K l) (\<lambda>l. ev_bind (eval_value K r) (\<lambda>r.
       or_fail (map_sum id plain_result (combine_binary (er_value l) (er_value r) op)))))"
    by (auto intro!: quiet_bind)
  then show ?case by (simp add: quiet_def)
next
  case (Member e x)
  then have "quiet Q s0 (ev_bind (eval_lvalue K e)
      (\<lambda>lv. member_lvalue K (lv_addr lv) (snprintf_s 128 (lv_type lv)) x))"
    by (auto intro!: quiet_bind)
  then have "quiet Q s0 (eval_lvalue K (Member e x))" by (simp add: quiet_def)
  with quiet_value_of_lvalue [of s0 "Member e x"] show ?case by (simp only: has_lvalue_shape.simps)
next
  case (Arrow e x)
  then have "quiet Q s0 (ev_bind (eval_as_pointer K e) (\<lambda>(ptr, pointee). member_lvalue K ptr pointee x))"
    by (auto intro!: quiet_bind quiet_as_pointer)
  then have "quiet Q s0 (eval_lvalue K (Arrow e x))" by (simp add: quiet_def)
  with quiet_value_of_lvalue [of s0 "Arrow e x"] show ?case by (simp only: has_lvalue_shape.simps)
next
  case (Deref e)
  then have "quiet Q s0 (ev_bind (eval_as_pointer K e) (\<lambda>(ptr, pointee). deref_lvalue K ptr pointee))"
    by (auto intro!: quiet_bind quiet_as_pointer)
  then have "quiet Q s0 (eval_lvalue K (Deref e))" by (simp add: quiet_def)
  with quiet_value_of_lvalue [of s0 "Deref e"] show ?case by (simp only: has_lvalue_shape.simps)
next
  case (Index e i)
  then have "quiet Q s0 (eval_lvalue K (Index e i))" by (simp add: quiet_index quiet_as_pointer)
  with quiet_value_of_lvalue [of s0 "Index e i"] show ?case by (simp only: has_lvalue_shape.simps)
next
  case (Addr e)
  then have "quiet Q s0 (ev_bind (eval_lvalue K e) (\<lambda>lv.
       ev_return ((plain_result (lv_addr lv))\<lparr>er_is_address := True, er_type := make_pointer_type (lv_type lv) 128\<rparr>)))"
    by (auto intro!: quiet_bind)
  then show ?case by (simp add: quiet_def)
qed (simp add: quiet_def)

lemmas quiet_evals [simp] = quiet_eval_lvalue [THEN conjunct1] quiet_eval_lvalue [THEN conjunct2]

lemma expr_eval [simp]: "looked Q s0 s \<Longrightarrow> looked Q s0 (snd (cdbg_expr_eval K sd text s))"
  by (simp add: cdbg_expr_eval_def split_beta Let_def quiet_bind)

lemma quiet_expr_eval_lvalue [simp]: "quiet Q s0 (cdbg_expr_eval_lvalue K sd text)"
  unfolding cdbg_expr_eval_lvalue_def
  by (intro quiet_bind) (auto split: cdbg_expr.split intro!: quiet_bind)

text \<open>The two sides of an assignment are only looked at.\<close>

lemma quiet_set_rhs: "quiet Q s0 (set_rhs K sd rhs)"
  by (simp add: quiet_def set_rhs_def ev_fail_def Let_def split_beta split: option.split)

lemma quiet_set_lhs: "quiet Q s0 (resolve_set_lhs K sd lhs)"
proof -
  have "quiet Q s0 (ev_bind (cdbg_expr_eval_lvalue K sd lhs)
      (\<lambda>(lv, whole_struct). if whole_struct then ev_fail (''Cannot assign to a struct value'' @ nl)
                            else ev_return lv))"
    by (auto intro!: quiet_bind)
  then show ?thesis
    by (simp add: quiet_def resolve_set_lhs_def ev_fail_def Let_def split_beta)
qed

subsection \<open>Displays\<close>

lemma otool [simp]: "looked Q s0 s \<Longrightarrow> looked Q s0 (snd (print_otool_disassembly_range K pc n label s))"
  by (simp add: print_otool_disassembly_range_def Let_def split: option.split)

lemma memory_disassembly [simp]:
  "looked Q s0 s \<Longrightarrow> looked Q s0 (print_memory_disassembly_range K pc n label s)"
  by (simp add: print_memory_disassembly_range_def Let_def split_beta split: option.split)

lemma disassembly [simp]:
  "looked Q s0 s \<Longrightarrow> looked Q s0 (print_disassembly_range K pc n label s)"
  "looked Q s0 s \<Longrightarrow> looked Q s0 (print_disassembly_at_pc K pc s)"
  by (simp_all add: print_disassembly_range_def print_disassembly_at_pc_def split_beta del: One_nat_def)

lemma window_loop: "Q p y \<Longrightarrow> Q p (snd (print_window_loop bufs line_no start end_line target printed y))"
  by (induction bufs arbitrary: line_no printed y) (simp_all add: Let_def)

lemma source [simp]:
  "Q p y \<Longrightarrow> Q p (snd (cdbg_lineno_print_source_at_pc K ln pc y))"
  "Q p y \<Longrightarrow> Q p (snd (cdbg_lineno_print_source_at_line K ln ff line y))"
  by (auto simp: cdbg_lineno_print_source_at_pc_def cdbg_lineno_print_source_at_line_def
      lineno_print_source_window_def Let_def split_beta window_loop
      split: option.split sum.split bool.split)

lemma stop_location [simp]: "looked Q s0 s \<Longrightarrow> looked Q s0 (print_stop_location K pc s)"
  by (simp add: print_stop_location_def split_beta)

lemma display_tid [simp]: "looked Q s0 s \<Longrightarrow> looked Q s0 (snd (resolve_display_tid K s))"
  by (simp add: resolve_display_tid_def split_beta split: option.split list.split)

subsection \<open>Commands\<close>

lemma print_ok [simp]: "looked Q s0 s \<Longrightarrow> looked Q s0 (snd (cmd_print K sd arg s))"
proof -
  assume l: "looked Q s0 s"
  have ident: "looked Q s0 (snd r)" if "looked Q s0 u" "print_identifier K f e u = Some r" for f e u r
    using that by (auto simp: print_identifier_def Let_def split_beta split: option.splits if_splits)
  have lv: "looked Q s0 (snd (print_lvalue K f e r u))" if "looked Q s0 u" for f e r u
    using that by (auto simp: print_lvalue_def Let_def split_beta split: option.splits)
  have expression: "looked Q s0 (snd (print_expression K sd f e u))" if "looked Q s0 u" for f e u
    using that by (auto simp: print_expression_def Let_def split_beta lv split: option.splits)
  show ?thesis
    using l by (auto simp: cmd_print_def Let_def split_beta expression split: option.splits if_splits
        dest!: ident [rotated])
qed

lemma backtrace_loop: "looked Q s0 s \<Longrightarrow> looked Q s0 (backtrace_loop K n i fp s)"
  by (induction n arbitrary: i fp s)
    (simp_all add: frame_record_next_def print_backtrace_frame_def Let_def split_beta split: option.split)

lemma backtrace [simp]: "looked Q s0 s \<Longrightarrow> looked Q s0 (snd (cmd_backtrace K s))"
  by (simp add: cmd_backtrace_def print_backtrace_frame_def Let_def split_beta backtrace_loop)

lemma show_threads [simp]: "looked Q s0 s \<Longrightarrow> looked Q s0 (snd (cmd_show_threads K s))"
  by (simp add: cmd_show_threads_def Let_def split_beta split: option.split)

lemma thread [simp]: "looked Q s0 s \<Longrightarrow> looked Q s0 (snd (cmd_thread K arg s))"
  by (simp add: cmd_thread_def Let_def split_beta split: option.split)

lemma fold_show_variable: "looked Q s0 s \<Longrightarrow> looked Q s0 (fold (show_variable K) vars s)"
  by (induction vars arbitrary: s) (simp_all add: show_variable_def Let_def split_beta)

lemma show_scopes [simp]: "looked Q s0 s \<Longrightarrow> looked Q s0 (snd (cmd_show K arg s))"
  by (simp add: cmd_show_def cmd_show_breakpoints_def cmd_show_watchpoints_def show_variables_def
      Let_def split_beta fold_show_variable split: option.split)

lemma leaks [simp]: "looked Q s0 s \<Longrightarrow> looked Q s0 (snd (cmd_leaks K s))"
  by (simp add: cmd_leaks_def Let_def split: option.split)

lemma examine [simp]: "looked Q s0 s \<Longrightarrow> looked Q s0 (snd (cmd_examine K a n s))"
  by (simp add: cmd_examine_def Let_def split_beta split: option.split)

lemma resolve_line [simp]: "looked Q s0 s \<Longrightarrow> looked Q s0 (snd (resolve_break_line f l n s))"
  by (simp add: resolve_break_line_def Let_def split: option.split sum.split)

lemma resolved: "resolve_break_line f l n s = (r, t) \<Longrightarrow> looked Q s0 s \<Longrightarrow> looked Q s0 t"
  using resolve_line [of s0 s f l n] by simp

lemma break_place [simp]: "looked Q s0 s \<Longrightarrow> looked Q s0 (snd (break_target target s))"
  by (auto simp: break_target_def Let_def split: option.split prod.split dest!: resolved)

lemma dis [simp]: "looked Q s0 s \<Longrightarrow> looked Q s0 (snd (cmd_dis K target s))"
  by (auto simp: cmd_dis_def resolve_dis_target_def Let_def split_beta
      split: option.split prod.split dest!: resolved)

lemma list_source [simp]: "looked Q s0 s \<Longrightarrow> looked Q s0 (snd (cmd_list K target s))"
  by (simp add: cmd_list_def Let_def split_beta split: option.split)

lemma print_list_loop: "Q p y \<Longrightarrow> Q p (print_list_loop ln f es cf ll y)"
  by (induction es arbitrary: cf ll y) (simp_all add: Let_def list_header_def)

lemma fold_emit: "Q p y \<Longrightarrow> Q p (fold (\<lambda>e. emit (g e)) es y)"
  by (induction es arbitrary: y) auto

lemma lists [simp]:
  "Q p y \<Longrightarrow> Q p (cdbg_lineno_print_list ln f y)"
  "Q p y \<Longrightarrow> Q p (cdbg_syms_print_list sy f y)"
  by (simp_all add: cdbg_lineno_print_list_def cdbg_syms_print_list_def Let_def print_list_loop fold_emit)

lemma lines [simp]: "looked Q s0 s \<Longrightarrow> looked Q s0 (snd (cmd_lines f s))"
  by (simp add: cmd_lines_def)

lemma help_text [simp]: "looked Q s0 s \<Longrightarrow> looked Q s0 (snd (cmd_help arg s))"
  by (simp add: cmd_help_def print_help_all_def print_help_entry_detail_def Let_def split: option.split)

lemma print_regs [simp]: "looked Q s0 s \<Longrightarrow> looked Q s0 (cdbg_print_regs g s)"
  by (simp add: cdbg_print_regs_def cdbg_regs_print_def Let_def fold_emit)

end

section \<open>Reading the system\<close>

text \<open>The second interface: the calls that read the debuggee keep a view of the world, be it
  its memory, the registers of its threads or all of it.\<close>

locale reading_calls =
  fixes K :: "'w kernel" and pid :: pid and view :: "'w \<Rightarrow> 'v"
  assumes task_for_pid [simp]: "view (snd (k_task_for_pid K pid w)) = view w"
    and vm_read [simp]: "view (snd (k_mach_vm_read K t a n w)) = view w"
    and pt_read [simp]: "view (snd (k_pt_read_d K pid a w)) = view w"
    and task_threads [simp]: "view (snd (k_task_threads K t w)) = view w"
    and thread_id [simp]: "view (snd (k_thread_id K t w)) = view w"
    and get_gpr [simp]: "view (snd (k_get_gpr K t w)) = view w"
    and get_neon [simp]: "view (snd (k_get_neon K t w)) = view w"
begin

lemma view_task [simp]:
  "view (world (snd (task_for_traced_pid K pid y))) = view (world y)"
  "view (world (snd (threads_task_for_pid K pid y))) = view (world y)"
  by (simp_all add: task_for_traced_pid_def threads_task_for_pid_def sys_task_for_pid_def split_beta Let_def)

lemma view_pt_read [simp]: "view (world (snd (mem_read_ptrace K pid a n y))) = view (world y)"
  by (induction n arbitrary: a y) (simp_all add: split_beta Let_def)

lemma view_read [simp]: "view (world (snd (cdbg_mem_read K pid a n y))) = view (world y)"
  by (simp add: cdbg_mem_read_def mem_read_fallback_def split_beta Let_def split: option.split)

lemma view_enumerate [simp]: "view (world (snd (enumerate_threads K pid y))) = view (world y)"
  by (simp add: enumerate_threads_def sys_task_threads_def split_beta Let_def)

lemma view_thread_id [simp]: "view (world (snd (thread_id_for_port K t y))) = view (world y)"
  by (simp add: thread_id_for_port_def split_beta Let_def)

lemma view_list_loop [simp]: "view (world (snd (threads_list_loop K ts room y))) = view (world y)"
proof (induction ts arbitrary: room y)
  case (Cons t ts)
  then show ?case by (cases room) (simp_all add: Let_def split_beta split: option.split)
qed simp

lemma view_list [simp]: "view (world (snd (cdbg_threads_list K pid m y))) = view (world y)"
  by (simp add: cdbg_threads_list_def deallocate_threads_def Let_def split_beta split: option.split)

lemma view_resolve_loop [simp]: "view (world (snd (resolve_port_loop K tid ts found y))) = view (world y)"
  by (induction ts arbitrary: found y) (simp_all add: Let_def split_beta)

lemma view_resolve [simp]: "view (world (snd (cdbg_threads_resolve_port K pid tid y))) = view (world y)"
  by (simp add: cdbg_threads_resolve_port_def deallocate_threads_def Let_def split_beta
      split: option.split list.split)

lemma view_get [simp]: "view (world (snd (cdbg_regs_get K pid tid r y))) = view (world y)"
  by (simp add: cdbg_regs_get_def Let_def split_beta split: option.split)

end

text \<open>Every such view is kept by every command that inspects.\<close>

definition seen :: "pid \<Rightarrow> ('w \<Rightarrow> 'v) \<Rightarrow> 'v \<Rightarrow> pid \<Rightarrow> 'w sys \<Rightarrow> bool" where
  "seen p view v q y \<longleftrightarrow> q = p \<and> view (world y) = v"

sublocale reading_calls \<subseteq> viewing: inspection K "seen pid view v" for v
  by unfold_locales (auto simp: seen_def)

section \<open>On the model\<close>

text \<open>The send rights, for any kernel; and the whole state of the example machine.\<close>

interpretation holding: inspection K "\<lambda>p y. rights y = R" for K :: "'w kernel" and R
  by unfold_locales simp_all

interpretation machine_reading: reading_calls machine_kernel the_pid view for view
  by unfold_locales (simp_all add: machine_kernel_def)

definition inspecting :: "cmd_kind \<Rightarrow> bool" where
  "inspecting k \<longleftrightarrow> k \<in> {Cmd_UNKNOWN, Cmd_EMPTY, Cmd_HELP, Cmd_PRINT, Cmd_SHOW, Cmd_TB, Cmd_LEAKS,
     Cmd_DIS, Cmd_LIST, Cmd_LINES, Cmd_LISTS, Cmd_SYMS, Cmd_X, Cmd_THREAD}"

context inspection
begin

lemma simple_looked:
  assumes "inspecting (c_kind cmd)" and "looked Q s0 s"
  shows "looked Q s0 (simple_command K L cmd s)"
  using assms
  by (auto simp: inspecting_def simple_command_def cmd_print_from_repl_def Let_def split: option.split)

end

context reading_calls
begin

lemma look_view:
  assumes "inspecting (c_kind cmd)" and "cdbg.pid s = pid"
  shows "view (world (dsys (simple_command K L cmd s))) = view (world (dsys s))"
    and "same_but_view s (simple_command K L cmd s)"
  using viewing.simple_looked [OF assms(1) looked_refl, of "view (world (dsys s))" s L] assms(2)
  by (simp_all add: looked_def seen_def)

end

text \<open>C11. The commands that inspect change nothing: every view of the system that the calls which
  read the debuggee keep (its memory, its registers, all of it) is kept, no send right is
  gained or lost, and of the debugger's state only the registers it has read and the selected
  thread may differ.\<close>

theorem inspection_changes_nothing:
  assumes "reading_calls K (pid s) view" and "inspecting (c_kind cmd)"
  shows "view (world (dsys (simple_command K L cmd s))) = view (world (dsys s))
    \<and> rights (dsys (simple_command K L cmd s)) = rights (dsys s)
    \<and> same_but_view s (simple_command K L cmd s)"
  using reading_calls.look_view [OF assms refl, of L]
    holding.simple_looked [OF assms(2) looked_refl, of s "rights (dsys s)" K L]
  by (auto simp: looked_def)

theorem inspection_changes_nothing_witness:
  "world (dsys (simple_command machine_kernel \<lparr>l_strtod = \<lambda>_. 0, l_g17 = \<lambda>_. [], l_g = \<lambda>_. []\<rparr>
     (no_command\<lparr>c_kind := Cmd_TB\<rparr>) stopped0)) = machine0"
  using inspection_changes_nothing [of machine_kernel stopped0 id "no_command\<lparr>c_kind := Cmd_TB\<rparr>"
      "\<lparr>l_strtod = \<lambda>_. 0, l_g17 = \<lambda>_. [], l_g = \<lambda>_. []\<rparr>"]
    machine_reading.reading_calls_axioms [of id]
  by (simp add: inspecting_def)

end
