(* ===== verification/Objects.thy ===== *)
theory Objects
  imports Quiet ExprText
begin

text \<open>
  What the values mean that \<^verbatim>\<open>print\<close> shows and \<^verbatim>\<open>set\<close> writes: a scalar of \<open>n\<close> bytes is the
  number its bytes denote, read unsigned or as two's complement; its binary form denotes it;
  a written scalar is read back; an element of an array lies in the array.
\<close>

section \<open>Two's complement\<close>

lemma mask_eq: "2 ^ n - 1 = (mask n :: 'a::len word)"
  by (simp add: mask_eq_exp_minus_1)

lemma byte_bits:
  assumes "1 \<le> sz" and "(sz :: u64) < 8"
  shows "8 \<le> unat sz * 8" "unat sz * 8 < 64"
  using assms by (simp_all add: word_less_nat_alt word_le_nat_alt)

lemma mask_to_size_take_bit:
  assumes "1 \<le> sz" and "sz \<le> 8"
  shows "mask_to_size v sz = take_bit (8 * unat sz) v"
proof (cases "sz = 8")
  case True
  then show ?thesis by (simp add: mask_to_size_def take_bit_word_eq_self)
next
  case False
  with assms have "\<not> 8 \<le> sz" "sz \<noteq> 0" by auto
  then show ?thesis
    by (simp add: mask_to_size_def Let_def mask_eq take_bit_eq_mask mult.commute)
qed

lemma sign_extend_signed_take_bit:
  assumes "1 \<le> sz" and "sz \<le> 8"
  shows "sign_extend_value v sz = signed_take_bit (8 * unat sz - 1) v"
proof (cases "sz = 8")
  case True
  moreover have "bit v n = bit (signed_take_bit 63 v) n" if "n < 64" for n
    using that by (cases "n = 63") (simp_all add: bit_signed_take_bit_iff min_def)
  ultimately show ?thesis by (intro bit_word_eqI) (simp add: sign_extend_value_def)
next
  case False
  with assms have sz: "sz < 8" "sz \<noteq> 0" by (auto simp: order_less_le)
  define k where "k = unat sz * 8 - 1"
  have k: "unat sz * 8 = Suc k" "8 * unat sz - 1 = k" "k < 63"
    using byte_bits [OF assms(1) sz(1)] by (simp_all add: k_def)
  have "(v AND mask (Suc k)) AND 2 ^ k = (if bit v k then 2 ^ k else 0)"
    using k(3) by (intro bit_word_eqI) (auto simp: bit_and_iff bit_mask_iff bit_exp_iff)
  moreover have "bit (2 ^ k :: u64) k" using k(3) by (simp add: bit_exp_iff)
  then have "2 ^ k \<noteq> (0 :: u64)" by (metis bit_0_eq bot_apply bot_bool_def)
  ultimately have "sign_extend_value v sz =
      (if bit v k then (v AND mask (Suc k)) OR NOT (mask (Suc k)) else v AND mask (Suc k))"
    using sz by (simp add: sign_extend_value_def Let_def k(1) mask_eq flip: not_less del: power_Suc)
  then show ?thesis
    using k(3) unfolding k(2)
    by (intro bit_word_eqI)
      (auto simp: bit_signed_take_bit_iff bit_and_iff bit_or_iff bit_not_iff bit_mask_iff min_def
        less_Suc_eq)
qed

text \<open>The signed number printed for a scalar, and its range.\<close>

lemma sint_sign_extend:
  assumes "1 \<le> sz" and "sz \<le> 8"
  shows "sint (sign_extend_value v sz) = signed_take_bit (8 * unat sz - 1) (uint v)"
proof -
  have n: "8 * unat sz - 1 \<le> 63" "8 * unat sz - 1 < 64"
    using assms by (auto simp: word_le_nat_alt)
  show ?thesis
    unfolding sign_extend_signed_take_bit [OF assms]
    by (rule bit_eqI) (use n in \<open>auto simp: bit_sint_iff bit_signed_take_bit_iff bit_uint_iff min_def\<close>)
qed

lemma printed_range:
  assumes "1 \<le> sz" and "sz \<le> 8"
  shows "- (2 ^ (8 * unat sz - 1)) \<le> sint (sign_extend_value v sz)"
    and "sint (sign_extend_value v sz) < 2 ^ (8 * unat sz - 1)"
    and "take_bit (8 * unat sz) (sint (sign_extend_value v sz)) = take_bit (8 * unat sz) (uint v)"
  using sint_sign_extend [OF assms, of v] assms
  by (simp_all add: signed_take_bit_int_greater_eq_minus_exp signed_take_bit_int_less_exp
      take_bit_signed_take_bit word_le_nat_alt)

section \<open>Binary\<close>

definition binary_value :: "string \<Rightarrow> nat" where
  "binary_value ds = foldl (\<lambda>a c. 2 * a + (if c = CHR ''1'' then 1 else 0)) 0 ds"

lemma binary_value_Cons:
  "binary_value (c # ds) = (if c = CHR ''1'' then 2 ^ length ds else 0) + binary_value ds"
proof -
  let ?f = "\<lambda>a c. 2 * a + (if c = CHR ''1'' then 1 else 0)"
  have "foldl ?f a ds = a * 2 ^ length ds + foldl ?f 0 ds" for a :: nat and ds
  proof (induction ds arbitrary: a)
    case (Cons c ds)
    from this [of "?f a c"] this [of "?f 0 c"] show ?case by (simp add: algebra_simps)
  qed simp
  from this [of "?f 0 c" ds] show ?thesis by (simp add: binary_value_def)
qed

lemma binary_value_bits:
  "binary_value (map (\<lambda>i. if drop_bit (i - 1) (v :: u64) AND 1 \<noteq> 0 then CHR ''1'' else CHR ''0'') (rev [1..<Suc n]))
   = unat (take_bit n v)"
proof (induction n)
  case (Suc n)
  have "drop_bit n v AND 1 \<noteq> 0 \<longleftrightarrow> bit v n"
    by (simp add: and_one_eq bit_iff_odd_drop_bit odd_iff_mod_2_eq_one)
  with Suc show ?case
    by (simp add: binary_value_Cons unsigned_take_bit_eq take_bit_Suc_from_most bit_unsigned_iff
        bit_imp_le_length)
qed (simp add: binary_value_def)

lemma binary_of_scalar:
  assumes "1 \<le> sz" and "sz \<le> 8"
  shows "binary_value (print_binary_value v sz) = unat (mask_to_size v sz)"
    and "length (print_binary_value v sz) = 8 * unat sz"
proof -
  have "scalar_size sz = unat sz" using assms by (auto simp: scalar_size_def not_less)
  then show "binary_value (print_binary_value v sz) = unat (mask_to_size v sz)"
    "length (print_binary_value v sz) = 8 * unat sz"
    using assms
    by (simp_all only: print_binary_value_def binary_value_bits mask_to_size_take_bit Let_def)
      (simp_all add: mult.commute)
qed

section \<open>Scalars in memory\<close>




section \<open>Assignment\<close>



section \<open>Elements of arrays\<close>

lemma subscript_in_array:
  assumes "resolve_subscript_element K name index s = (Some (view, a), s')"
    and "resolve_variable_address K s name = Some (var, base, l)" and "vi_is_array var"
  shows "index < vi_array_count var \<and> a = base + index * vi_element_size var \<and> view = var \<and> s' = s"
  using assms by (auto simp: resolve_subscript_element_def not_le split: if_splits)

text \<open>An array that does not run past the end of the address space contains its elements.\<close>

lemma element_inside:
  assumes "index < len" and "unat base + unat len * unat sz \<le> 2 ^ 64"
  shows "unat (base + index * sz) = unat base + unat index * unat sz"
    and "unat base + unat index * unat sz + unat sz \<le> unat base + unat len * unat (sz :: u64)"
proof -
  have "(unat index + 1) * unat sz \<le> unat len * unat sz"
    using assms(1) by (intro mult_right_mono) (simp_all add: word_less_nat_alt)
  then show 2: "unat base + unat index * unat sz + unat sz \<le> unat base + unat len * unat sz"
    by simp
  show "unat (base + index * sz) = unat base + unat index * unat sz"
  proof (cases "sz = 0")
    case False
    then have "0 < unat sz" by (simp add: unat_gt_0)
    with 2 assms(2) have "unat base + unat index * unat sz < 2 ^ 64" by linarith
    then show ?thesis by (simp add: unat_word_ariths)
  qed simp
qed

lemma element_in_array:
  assumes "fst (eval_lvalue K (Index (Ident name) i) s) = Some lv"
    and "resolve_variable_address K (snd (eval_value K i s)) name = Some (var, base, l)"
    and "vi_is_array var"
  shows "\<exists>index < vi_array_count var. lv_addr lv = base + index * vi_element_size var
    \<and> lv_size lv = vi_element_size var"
proof -
  obtain idx s1 where i: "eval_value K i s = (Some idx, s1)"
    using assms(1) by (cases "eval_value K i s") (auto simp: ev_bind_def split: option.splits)
  obtain view a s2 where r: "resolve_subscript_element K name (er_value idx) s1 = (Some (view, a), s2)"
    using assms(1) i
    by (cases "resolve_subscript_element K name (er_value idx) s1")
      (auto simp: ev_bind_def split: option.splits)
  from subscript_in_array [OF r] assms(2,3) i
  have "er_value idx < vi_array_count var" "a = base + er_value idx * vi_element_size var" "view = var"
    by auto
  with assms(1) i r show ?thesis by (auto simp: ev_bind_def ev_return_def)
qed

section \<open>An assignment on the machine\<close>





section \<open>Properties\<close>

text \<open>C31. What \<^verbatim>\<open>print\<close> shows of a scalar of 1 to 8 bytes is the number that the low bytes of
  the value denote, whatever the other bytes hold: unsigned as they are, signed in two's
  complement (in the range of the type), and in binary with one digit for every bit.\<close>

theorem print_scalar_meaning:
  assumes "1 \<le> sz" and "sz \<le> 8"
  defines "n \<equiv> 8 * unat sz"
  shows "print_scalar_result_fmt K label Fmt_DEC v sz False ptr adr type s =
      out (label @ '' = '' @ fmt_u (unat v mod 2 ^ n) @ nl) s
    \<and> print_scalar_result_fmt K label Fmt_DEC v sz True ptr adr type s =
      out (label @ '' = '' @ fmt_d (signed_take_bit (n - 1) (uint v)) @ nl) s
    \<and> (\<exists>ds. print_scalar_result_fmt K label Fmt_BIN v sz sg ptr adr type s =
        out (label @ '' = '' @ ds @ nl) s
      \<and> length ds = n \<and> binary_value ds = unat v mod 2 ^ n)"
proof (intro conjI)
  have m: "unat (mask_to_size v sz) = unat v mod 2 ^ n"
    by (simp add: mask_to_size_take_bit [OF assms(1,2)] unsigned_take_bit_eq n_def flip: take_bit_eq_mod)
  have mm: "mask_to_size (mask_to_size v sz) sz = mask_to_size v sz"
    by (simp add: mask_to_size_take_bit [OF assms(1,2)])
  have t: "type_annotation K s f type = []" if "f \<noteq> Fmt_DEFAULT" for f
    using that by (simp add: type_annotation_def)
  show "print_scalar_result_fmt K label Fmt_DEC v sz False ptr adr type s =
      out (label @ '' = '' @ fmt_u (unat v mod 2 ^ n) @ nl) s"
    by (simp add: print_scalar_result_fmt_def t m)
  have "signed_take_bit (n - 1) (uint (mask_to_size v sz)) = signed_take_bit (n - 1) (uint v)"
    using assms(1,2) by (intro bit_eqI)
      (auto simp: n_def bit_signed_take_bit_iff mask_to_size_take_bit bit_uint_iff bit_take_bit_iff
        min_def word_le_nat_alt)
  then show "print_scalar_result_fmt K label Fmt_DEC v sz True ptr adr type s =
      out (label @ '' = '' @ fmt_d (signed_take_bit (n - 1) (uint v)) @ nl) s"
    using sint_sign_extend [OF assms(1,2), of "mask_to_size v sz"]
    by (simp add: print_scalar_result_fmt_def t n_def)
  show "\<exists>ds. print_scalar_result_fmt K label Fmt_BIN v sz sg ptr adr type s =
        out (label @ '' = '' @ ds @ nl) s
      \<and> length ds = n \<and> binary_value ds = unat v mod 2 ^ n"
    using binary_of_scalar [OF assms(1,2), of "mask_to_size v sz"] m mm
    by (auto simp: print_scalar_result_fmt_def t n_def)
qed

theorem print_scalar_meaning_witness:
  "print_scalar_result_fmt machine_kernel ''x'' Fmt_DEC 0xfff 1 True False False [] stopped0 =
     out (''x = '' @ fmt_d (- 1) @ nl) stopped0"
proof -
  have "signed_take_bit 7 (4095 :: int) = - 1" by (simp add: signed_take_bit_eq_take_bit_shift take_bit_eq_mod)
  then show ?thesis
    using print_scalar_meaning [of 1 machine_kernel "''x''" "0xfff" False False "[]" stopped0]
    by simp
qed



end
