(* ===== verification/Arith.thy ===== *)
theory Arith
  imports Eval Machine
begin

text \<open>
  The arithmetic of expressions without variables. \<open>denote\<close> says what such an expression
  means on the integers: the operators of C on unsigned 64-bit numbers, in terms of
  \<open>mod 2 ^ 64\<close>; there is no value when a divisor is zero anywhere in the expression,
  also in an operand of \<^verbatim>\<open>&&\<close> and \<^verbatim>\<open>||\<close> that C would not evaluate.
\<close>

section \<open>The meaning\<close>

definition wrap :: "int \<Rightarrow> int" where "wrap x = x mod 2 ^ 64"

definition flag :: "bool \<Rightarrow> int" where "flag b = (if b then 1 else 0)"

fun meaning :: "cdbg_expr_op \<Rightarrow> int \<Rightarrow> int \<Rightarrow> int option" where
  "meaning Op_ADD x y = Some (wrap (x + y))"
| "meaning Op_SUB x y = Some (wrap (x - y))"
| "meaning Op_MUL x y = Some (wrap (x * y))"
| "meaning Op_DIV x y = (if y = 0 then None else Some (x div y))"
| "meaning Op_MOD x y = (if y = 0 then None else Some (x mod y))"
| "meaning Op_SHL x y = Some (wrap (x * 2 ^ nat y))"
| "meaning Op_SHR x y = Some (x div 2 ^ nat y)"
| "meaning Op_LT x y = Some (flag (x < y))"
| "meaning Op_GT x y = Some (flag (x > y))"
| "meaning Op_LE x y = Some (flag (x \<le> y))"
| "meaning Op_GE x y = Some (flag (x \<ge> y))"
| "meaning Op_EQ x y = Some (flag (x = y))"
| "meaning Op_NE x y = Some (flag (x \<noteq> y))"
| "meaning Op_BAND x y = Some (x AND y)"
| "meaning Op_BXOR x y = Some (x XOR y)"
| "meaning Op_BOR x y = Some (x OR y)"
| "meaning Op_LAND x y = Some (flag (x \<noteq> 0 \<and> y \<noteq> 0))"
| "meaning Op_LOR x y = Some (flag (x \<noteq> 0 \<or> y \<noteq> 0))"
| "meaning _ x y = None"

fun denote :: "cdbg_expr \<Rightarrow> int option" where
  "denote (Num v is_float) = Some (uint v)"
| "denote (Unary op e) =
     (case denote e of
        None \<Rightarrow> None
      | Some x \<Rightarrow>
          (case op of
             Op_POS \<Rightarrow> Some x | Op_NEG \<Rightarrow> Some (wrap (- x)) | Op_NOT \<Rightarrow> Some (flag (x = 0))
           | Op_BNOT \<Rightarrow> Some (2 ^ 64 - 1 - x) | _ \<Rightarrow> None))"
| "denote (Binary op l r) =
     (case (denote l, denote r) of (Some x, Some y) \<Rightarrow> meaning op x y | _ \<Rightarrow> None)"
| "denote _ = None"

text \<open>Expressions over integer literals; a shift is by a literal below 64, as C demands.\<close>

fun arithmetic :: "cdbg_expr \<Rightarrow> bool" where
  "arithmetic (Num v is_float) = (\<not> is_float)"
| "arithmetic (Unary op e) = (op \<in> {Op_POS, Op_NEG, Op_NOT, Op_BNOT} \<and> arithmetic e)"
| "arithmetic (Binary op l r) =
     (op \<notin> {Op_POS, Op_NEG, Op_NOT, Op_BNOT} \<and> arithmetic l \<and> arithmetic r
      \<and> (op \<in> {Op_SHL, Op_SHR} \<longrightarrow> (case r of Num v _ \<Rightarrow> v < 64 | _ \<Rightarrow> False)))"
| "arithmetic _ = False"

section \<open>The evaluator\<close>

lemma uint_truth [simp]: "uint (truth b) = flag b"
  by (simp add: truth_def flag_def)

lemma uint_push: "uint (push_bit n (x :: u64)) = wrap (uint x * 2 ^ n)"
  unfolding unsigned_push_bit_eq by (simp add: wrap_def take_bit_eq_mod push_bit_eq_mult)

lemma uint_drop: "uint (drop_bit n (x :: u64)) = uint x div 2 ^ n"
  by (simp add: drop_bit_eq_div [symmetric])
    (intro bit_eqI, simp add: bit_uint_iff bit_drop_bit_eq, auto dest: bit_imp_le_length)

lemma combine_meaning:
  assumes "op \<notin> {Op_POS, Op_NEG, Op_NOT, Op_BNOT}" and "op \<in> {Op_SHL, Op_SHR} \<Longrightarrow> y < 64"
  shows "(case combine_binary x y op of Inl _ \<Rightarrow> None | Inr v \<Rightarrow> Some (uint v)) = meaning op (uint x) (uint y)"
proof -
  have y: "unat y mod 64 = unat y" "nat (uint y) = unat y" if "y < 64"
    using that by (simp_all add: word_less_nat_alt)
  show ?thesis
  proof (cases "op \<in> {Op_SHL, Op_SHR}")
    case True
    with assms y show ?thesis by (auto simp: uint_push uint_drop simp del: push_bit_eq_mult)
  next
    case False
    with assms show ?thesis
      by (cases op)
        (auto simp: wrap_def uint_word_ariths uint_div_distrib uint_mod_distrib word_less_def word_le_def
          uint_and uint_or uint_xor word_uint_eq_iff)
  qed
qed

lemma unary_meaning:
  assumes "\<not> er_is_float r" and "op \<in> {Op_POS, Op_NEG, Op_NOT, Op_BNOT}"
  shows "\<exists>r'. combine_unary op r = Inr r' \<and> \<not> er_is_float r'
    \<and> denote (Unary op (Num (er_value r) False)) = Some (uint (er_value r'))"
proof -
  have "uint (NOT x) = 2 ^ 64 - 1 - uint x" for x :: u64
  proof -
    have "uint (NOT x) = (- uint x - 1) mod 2 ^ 64"
      by (simp add: not_eq_complement uint_word_ariths mod_diff_left_eq)
    also have "- uint x - 1 = (2 ^ 64 - 1 - uint x) + 2 ^ 64 * (- 1)" by simp
    also have "\<dots> mod 2 ^ 64 = 2 ^ 64 - 1 - uint x"
      unfolding mod_mult_self2 using uint_lt2p [of x] uint_ge_0 [of x] by (intro mod_pos_pos_trivial) (simp, linarith)
    finally show ?thesis .
  qed
  then show ?thesis
    using assms by (auto simp: plain_result_def wrap_def flag_def uint_word_ariths word_uint_eq_iff)
qed

text \<open>The value of an expression agrees with its meaning, and the state is left alone.\<close>

abbreviation agrees :: "'w kernel \<Rightarrow> cdbg_expr \<Rightarrow> 'w cdbg \<Rightarrow> bool" where
  "agrees K e s \<equiv> (case denote e of
      Some x \<Rightarrow> \<exists>r. eval_value K e s = (Some r, s) \<and> uint (er_value r) = x \<and> \<not> er_is_float r
    | None \<Rightarrow> eval_value K e s = (None, err (''Division by zero'' @ nl) s))"

lemma unary_agrees:
  assumes "op \<in> {Op_POS, Op_NEG, Op_NOT, Op_BNOT}" and "agrees K e s"
  shows "agrees K (Unary op e) s"
proof (cases "denote e")
  case None
  with assms(2) show ?thesis by (simp add: ev_bind_def)
next
  case (Some x)
  with assms(2) obtain r where r: "eval_value K e s = (Some r, s)" "uint (er_value r) = x" "\<not> er_is_float r"
    by auto
  from unary_meaning [OF r(3) assms(1)] obtain r' where "combine_unary op r = Inr r'" "\<not> er_is_float r'"
    "denote (Unary op (Num (er_value r) False)) = Some (uint (er_value r'))" by blast
  with r Some show ?thesis by (auto simp: ev_bind_def or_fail_def ev_return_def)
qed

lemma binary_agrees_values:
  assumes "arithmetic (Binary op l r)" and "denote l = Some x" "denote r = Some y"
    and l: "eval_value K l s = (Some a, s)" "uint (er_value a) = x"
    and r: "eval_value K r s = (Some c, s)" "uint (er_value c) = y"
  shows "agrees K (Binary op l r) s"
proof -
  have shift: "er_value c < 64" if "op \<in> {Op_SHL, Op_SHR}"
    using that assms(1) r(1) by (cases r) (auto simp: plain_result_def)
  have "meaning op x y =
      (case combine_binary (er_value a) (er_value c) op of Inl _ \<Rightarrow> None | Inr v \<Rightarrow> Some (uint v))"
    using combine_meaning [of op "er_value c" "er_value a"] shift assms(1) l(2) r(2) by auto
  moreover have "combine_binary (er_value a) (er_value c) op = Inl m \<Longrightarrow> m = ''Division by zero'' @ nl" for m
    using assms(1) by (cases op) (auto split: if_splits)
  ultimately show ?thesis
    using assms
    by (cases "combine_binary (er_value a) (er_value c) op")
      (auto simp: ev_bind_def or_fail_def ev_return_def ev_fail_def plain_result_def)
qed

lemma binary_agrees:
  assumes "arithmetic (Binary op l r)" and "agrees K l s" and "agrees K r s"
  shows "agrees K (Binary op l r) s"
proof (cases "denote l")
  case None
  with assms(2) show ?thesis by (simp add: ev_bind_def)
next
  case (Some x)
  then obtain a where l: "eval_value K l s = (Some a, s)" "uint (er_value a) = x" using assms(2) by auto
  show ?thesis
  proof (cases "denote r")
    case None
    with assms(3) l Some show ?thesis by (simp add: ev_bind_def)
  next
    case (Some y)
    then obtain c where "eval_value K r s = (Some c, s)" "uint (er_value c) = y" using assms(3) by auto
    with binary_agrees_values [OF assms(1) \<open>denote l = Some x\<close> Some l] show ?thesis by blast
  qed
qed

text \<open>C19. An expression over integer literals evaluates to what it means on the integers, with
  the operators of C on unsigned 64-bit numbers, and leaves the state alone; when it means
  nothing, because a divisor is zero somewhere in it, the evaluation fails with one message.
  Both operands of \<^verbatim>\<open>&&\<close> and \<^verbatim>\<open>||\<close> are evaluated.\<close>

theorem eval_is_meaning:
  assumes "arithmetic e"
  shows "case denote e of
      Some x \<Rightarrow> \<exists>r. eval_value K e s = (Some r, s) \<and> uint (er_value r) = x \<and> \<not> er_is_float r
    | None \<Rightarrow> eval_value K e s = (None, err (''Division by zero'' @ nl) s)"
  using assms
proof (induction e)
  case (Num v is_float)
  then show ?case by (simp add: plain_result_def)
next
  case (Unary op e)
  then have "op \<in> {Op_POS, Op_NEG, Op_NOT, Op_BNOT}" "agrees K e s" by simp_all
  then show ?case by (rule unary_agrees)
next
  case (Binary op l r)
  then have "agrees K l s" "agrees K r s" by simp_all
  with Binary.prems show ?case by (rule binary_agrees)
qed simp_all

theorem eval_is_meaning_witness:
  "(\<exists>r. eval_value machine_kernel (Binary Op_SUB (Num 2 False) (Binary Op_MUL (Num 3 False) (Num 4 False))) stopped0
       = (Some r, stopped0) \<and> uint (er_value r) = 2 ^ 64 - 10)
   \<and> eval_value machine_kernel (Binary Op_LAND (Num 0 False) (Binary Op_DIV (Num 1 False) (Num 0 False))) stopped0
       = (None, err (''Division by zero'' @ nl) stopped0)"
  using eval_is_meaning [of "Binary Op_SUB (Num 2 False) (Binary Op_MUL (Num 3 False) (Num 4 False))"
      machine_kernel stopped0]
    eval_is_meaning [of "Binary Op_LAND (Num 0 False) (Binary Op_DIV (Num 1 False) (Num 0 False))"
      machine_kernel stopped0]
  by (auto simp: wrap_def simp del: eval_value.simps)

end
