(* ===== verification/Frames.thy ===== *)
theory Frames
  imports Quiet
begin

text \<open>
  The backtrace as the walk along the frame records in memory, and the symbol shown for an
  address as the nearest text symbol below it.
\<close>

section \<open>The nearest symbol\<close>

definition text_symbol :: "cdbg_sym_entry \<Rightarrow> bool" where
  "text_symbol e \<longleftrightarrow> se_address e \<noteq> 0 \<and> se_type e \<in> {CHR ''T'', CHR ''t''}"

interpretation symbol_scan: ordered_scan
  "\<lambda>e b. cdbg_syms_runtime_addr sy (se_address e) > cdbg_syms_runtime_addr sy (se_address b)"
  "\<lambda>e. - uint (cdbg_syms_runtime_addr sy (se_address e))" for sy
  by unfold_locales (simp add: word_less_def)

lemma lookup_symbol_Some:
  assumes "lookup_symbol_for_pc sy pc = Some (e, offset)"
  shows "e \<in> set (sy_entries sy)" and "text_symbol e"
    and "pc = cdbg_syms_runtime_addr sy (se_address e) + offset"
    and "cdbg_syms_runtime_addr sy (se_address e) \<le> pc" and "offset \<le> CDBG_MAX_SYMBOL_OFFSET"
    and "x \<in> set (sy_entries sy) \<Longrightarrow> text_symbol x \<Longrightarrow> cdbg_syms_runtime_addr sy (se_address x) \<le> pc \<Longrightarrow>
      cdbg_syms_runtime_addr sy (se_address x) \<le> cdbg_syms_runtime_addr sy (se_address e)"
proof -
  let ?ok = "\<lambda>e. \<not> (se_address e = 0 \<or> se_type e \<noteq> CHR ''T'' \<and> se_type e \<noteq> CHR ''t'')
                       \<and> cdbg_syms_runtime_addr sy (se_address e) \<le> pc"
  let ?better = "\<lambda>e b. cdbg_syms_runtime_addr sy (se_address e) > cdbg_syms_runtime_addr sy (se_address b)"
  have b: "best_of ?ok ?better None (sy_entries sy) = Some e"
    and o: "offset = pc - cdbg_syms_runtime_addr sy (se_address e)" "offset \<le> CDBG_MAX_SYMBOL_OFFSET"
    using assms by (auto simp: lookup_symbol_for_pc_def Let_def not_less split: option.splits if_splits)
  from symbol_scan.best_is_least [OF b] o
  show "e \<in> set (sy_entries sy)" "text_symbol e"
    "pc = cdbg_syms_runtime_addr sy (se_address e) + offset"
    "cdbg_syms_runtime_addr sy (se_address e) \<le> pc" "offset \<le> CDBG_MAX_SYMBOL_OFFSET"
    "x \<in> set (sy_entries sy) \<Longrightarrow> text_symbol x \<Longrightarrow> cdbg_syms_runtime_addr sy (se_address x) \<le> pc \<Longrightarrow>
      cdbg_syms_runtime_addr sy (se_address x) \<le> cdbg_syms_runtime_addr sy (se_address e)"
    by (auto simp: text_symbol_def word_le_def)
qed

lemma lookup_symbol_None:
  assumes "lookup_symbol_for_pc sy pc = None" and "x \<in> set (sy_entries sy)" and "text_symbol x"
    and "cdbg_syms_runtime_addr sy (se_address x) \<le> pc"
  shows "pc - cdbg_syms_runtime_addr sy (se_address x) > CDBG_MAX_SYMBOL_OFFSET"
proof -
  let ?ok = "\<lambda>e. \<not> (se_address e = 0 \<or> se_type e \<noteq> CHR ''T'' \<and> se_type e \<noteq> CHR ''t'')
                       \<and> cdbg_syms_runtime_addr sy (se_address e) \<le> pc"
  let ?better = "\<lambda>e b. cdbg_syms_runtime_addr sy (se_address e) > cdbg_syms_runtime_addr sy (se_address b)"
  have "?ok x" using assms(3,4) by (auto simp: text_symbol_def)
  then obtain e where b: "best_of ?ok ?better None (sy_entries sy) = Some e"
    using symbol_scan.best_exists [OF assms(2), of ?ok] by blast
  with assms(1) have "pc - cdbg_syms_runtime_addr sy (se_address e) > CDBG_MAX_SYMBOL_OFFSET"
    by (auto simp: lookup_symbol_for_pc_def Let_def split: if_splits)
  moreover have "cdbg_syms_runtime_addr sy (se_address x) \<le> cdbg_syms_runtime_addr sy (se_address e)"
    "cdbg_syms_runtime_addr sy (se_address e) \<le> pc"
    using symbol_scan.best_is_least [OF b] assms(2) \<open>?ok x\<close> by (auto simp: word_le_def)
  ultimately show ?thesis
    using assms(4) by (simp add: word_less_nat_alt word_le_nat_alt unat_sub)
qed

section \<open>Frame records\<close>






section \<open>The walk\<close>

lemma io_pt_read [simp]: "io (snd (mem_read_ptrace K p a n y)) = io y"
  by (induction n arbitrary: a y) (simp_all add: split_beta Let_def)




section \<open>Properties\<close>

text \<open>C33. The symbol shown for an address is the nearest text symbol at or below it, at most one
  megabyte away, with the distance; no symbol is shown only when there is none.\<close>

theorem symbol_is_nearest:
  "case lookup_symbol_for_pc sy pc of
     Some (e, offset) \<Rightarrow>
       e \<in> set (sy_entries sy) \<and> text_symbol e \<and> pc = cdbg_syms_runtime_addr sy (se_address e) + offset
       \<and> cdbg_syms_runtime_addr sy (se_address e) \<le> pc \<and> offset \<le> CDBG_MAX_SYMBOL_OFFSET
       \<and> (\<forall>x \<in> set (sy_entries sy). text_symbol x \<longrightarrow> cdbg_syms_runtime_addr sy (se_address x) \<le> pc \<longrightarrow>
            cdbg_syms_runtime_addr sy (se_address x) \<le> cdbg_syms_runtime_addr sy (se_address e))
   | None \<Rightarrow>
       (\<forall>x \<in> set (sy_entries sy). text_symbol x \<longrightarrow> cdbg_syms_runtime_addr sy (se_address x) \<le> pc \<longrightarrow>
          pc - cdbg_syms_runtime_addr sy (se_address x) > CDBG_MAX_SYMBOL_OFFSET)"
  using lookup_symbol_Some lookup_symbol_None by (auto split: option.split)

text \<open>Two functions and a datum, loaded \<^verbatim>\<open>0x4000\<close> above where they were linked.\<close>

definition syms0 :: cdbg_syms where
  "syms0 = \<lparr>sy_entries =
      [\<lparr>se_address = 0x100000000, se_type = CHR ''T'', se_name = ''_main''\<rparr>,
       \<lparr>se_address = 0x100000020, se_type = CHR ''t'', se_name = ''_twice''\<rparr>,
       \<lparr>se_address = 0x100000024, se_type = CHR ''D'', se_name = ''_counter''\<rparr>],
     sy_link_base = 0x100000000, sy_slide = 0x4000\<rparr>"

lemma syms0_lookup:
  "map_option (\<lambda>(e, offset). (se_name e, offset)) (lookup_symbol_for_pc syms0 0x100004028) = Some (''_twice'', 8)"
  "lookup_symbol_for_pc syms0 0x100003fff = None"
  by (simp_all add: syms0_def lookup_symbol_for_pc_def cdbg_syms_runtime_addr_def Let_def
      CDBG_MAX_SYMBOL_OFFSET_def)

theorem symbol_is_nearest_witness:
  "\<exists>e offset. lookup_symbol_for_pc syms0 0x100004028 = Some (e, offset) \<and> text_symbol e
     \<and> (0x100004028 :: addr) = cdbg_syms_runtime_addr syms0 (se_address e) + offset"
  using symbol_is_nearest [of syms0 "0x100004028"] syms0_lookup(1)
  by (auto split: option.splits)






end
