(* ===== verification/CommandPrint.thy ===== *)
theory CommandPrint
  imports Command
begin

text \<open>
  Command lines that are typed as printed: a command in canonical form is parsed back from
  its line, with the first spelling of its command word in \<^verbatim>\<open>command.l\<close>.
\<close>

section \<open>Printing\<close>






section \<open>Canonical commands\<close>






section \<open>Parsing back\<close>




















end
