(* ===== verification/AtStop.thy ===== *)
theory AtStop
  imports Quiet
begin

text \<open>
  What a user can type while the debuggee is stopped, as a step relation: commands that
  inspect, breakpoints set at places apart from the others, breakpoints deleted. In every
  state reached the traps are exactly those of the table, so an empty table means that the
  debuggee's code is the original.
\<close>

section \<open>The relation\<close>

inductive at_stop :: "'w kernel \<Rightarrow> c_library \<Rightarrow> 'w cdbg \<Rightarrow> 'w cdbg \<Rightarrow> bool"
  for K :: "'w kernel" and L :: c_library and s0 :: "'w cdbg" where
  stop: "at_stop K L s0 s0"
| look: "at_stop K L s0 s \<Longrightarrow> inspecting (c_kind cmd) \<Longrightarrow> at_stop K L s0 (simple_command K L cmd s)"
| plant: "at_stop K L s0 s \<Longrightarrow> fst (break_target target s) = Some (a, label) \<Longrightarrow>
    \<forall>b \<in> set (breakpoints s). separate (bp_addr b) a \<Longrightarrow> cmd_break K target s = (True, s') \<Longrightarrow>
    at_stop K L s0 s'"
| lift: "at_stop K L s0 s \<Longrightarrow> cmd_del K args s = (True, s') \<Longrightarrow> at_stop K L s0 s'"

inductive_cases at_stop_cases: "at_stop K L s0 s"

section \<open>The invariant\<close>



section \<open>The code between the traps\<close>







end
