(* ===== verification/Session.thy ===== *)
theory Session
  imports Quiet
begin

text \<open>
  The invariant of a whole session. Whatever the user types, whatever the kernel answers: the
  tables stay within the arrays of the program, every watchpoint is one the hardware can
  hold, no two enabled ones share a register, the stored strings fit their buffers, the
  symbols are usable, and the debugger holds no more Mach send rights than it began with.
\<close>

section \<open>The invariant\<close>

definition sane_watch :: "cdbg_watchpoint \<Rightarrow> bool" where
  "sane_watch wp \<longleftrightarrow> 0 \<le> wp_slot wp \<and> wp_slot wp < int CDBG_MAX_WATCHPOINTS
     \<and> 1 \<le> wp_size wp \<and> wp_size wp \<le> 8 \<and> length (wp_expr wp) < CDBG_WATCH_EXPR_LEN"

definition watch_table :: "cdbg_watchpoint list \<Rightarrow> bool" where
  "watch_table wps \<longleftrightarrow> length wps \<le> CDBG_MAX_WATCHPOINTS \<and> (\<forall>wp \<in> set wps. sane_watch wp)
     \<and> distinct (map wp_slot (filter wp_enabled wps))"

definition well_formed :: "'w cdbg \<Rightarrow> bool" where
  "well_formed s \<longleftrightarrow> length (breakpoints s) \<le> CDBG_MAX_BREAKPOINTS \<and> watch_table (watchpoints s)
     \<and> length (run_argv s) \<le> CDBG_MAX_RUN_ARGS \<and> (\<forall>a \<in> set (run_argv s). length a < CDBG_MAX_PATH)
     \<and> length (executable_path s) < CDBG_MAX_PATH \<and> length (debug_info_path s) < CDBG_MAX_PATH
     \<and> good_syms (syms s)"

definition healthy :: "port multiset \<Rightarrow> 'w cdbg \<Rightarrow> bool" where
  "healthy R s \<longleftrightarrow> rights (dsys s) = R \<and> well_formed s"

section \<open>What keeps it\<close>

lemma healthy_fields [simp]:
  "healthy R (s\<lparr>pid := p\<rparr>) = healthy R s" "healthy R (s\<lparr>state := st\<rparr>) = healthy R s"
  "healthy R (s\<lparr>wait_status := w\<rparr>) = healthy R s" "healthy R (s\<lparr>current_tid := t\<rparr>) = healthy R s"
  "healthy R (s\<lparr>regs := r\<rparr>) = healthy R s" "healthy R (s\<lparr>lineno := l\<rparr>) = healthy R s"
  "healthy R (s\<lparr>language := la\<rparr>) = healthy R s" "healthy R (s\<lparr>print_pretty := b\<rparr>) = healthy R s"
  "healthy R (s\<lparr>malloc_stack_logging := b\<rparr>) = healthy R s"
  "healthy R (s\<lparr>run_argc := n\<rparr>) = healthy R s" "healthy R (say x s) = healthy R s"
  by (simp_all add: healthy_def well_formed_def)

lemma healthy_dsys [simp]: "rights y = rights (dsys s) \<Longrightarrow> healthy R (s\<lparr>dsys := y\<rparr>) = healthy R s"
  by (simp add: healthy_def well_formed_def)

lemma healthy_on_sys [simp]:
  "rights (snd (f (dsys s))) = rights (dsys s) \<Longrightarrow> healthy R (snd (on_sys f s)) = healthy R s"
  by (simp add: on_sys_def split_beta)

lemma watch_later:
  assumes "list_all2 wp_later wps wps'" and "watch_table wps"
  shows "watch_table wps'"
proof -
  have "list_all2 wp_later wps wps' \<Longrightarrow> (\<forall>wp \<in> set wps. sane_watch wp) \<Longrightarrow>
      distinct (map wp_slot (filter wp_enabled wps)) \<Longrightarrow>
      (\<forall>wp \<in> set wps'. sane_watch wp) \<and> distinct (map wp_slot (filter wp_enabled wps'))
      \<and> set (map wp_slot (filter wp_enabled wps')) \<subseteq> set (map wp_slot (filter wp_enabled wps))"
  proof (induction rule: list_all2_induct)
    case (Cons wp ws wp' ws')
    have "sane_watch wp' = sane_watch wp" "wp_slot wp' = wp_slot wp" "wp_enabled wp' \<longrightarrow> wp_enabled wp"
      using Cons.hyps(1) by (simp_all add: wp_later_def wp_config_def sane_watch_def)
    with Cons.prems Cons.IH show ?case by (cases "wp_enabled wp"; cases "wp_enabled wp'") auto
  qed simp
  with assms show ?thesis by (auto simp: watch_table_def list_all2_lengthD)
qed

lemma healthy_steady: "steady s0 s \<Longrightarrow> healthy R s0 \<Longrightarrow> healthy R s"
proof -
  assume a: "steady s0 s" "healthy R s0"
  have "length (breakpoints s) = length (breakpoints s0)"
    using a(1) unfolding steady_def by (metis length_map)
  with a show ?thesis
    by (auto simp: steady_def healthy_def well_formed_def intro: watch_later)
qed

lemma healthy_looked:
  "looked (\<lambda>p y. rights y = R) s0 s \<Longrightarrow> healthy R s0 \<Longrightarrow> healthy R s"
  by (simp add: looked_def same_but_view_def healthy_def well_formed_def)

lemma looks: "healthy R s \<Longrightarrow> looked (\<lambda>p y. rights y = R) s s"
  by (rule looked_refl) (simp add: healthy_def)

section \<open>Commands that return at once\<close>

lemma healthy_quiet:
  assumes "healthy R s" and "quiet (\<lambda>p y. rights y = R) s m" and "m s = (r, t)"
  shows "healthy R t"
  using assms looks healthy_looked unfolding quiet_def by (metis snd_conv)

lemma healthy_break:
  assumes "healthy R s"
  shows "healthy R (snd (cmd_break K target s))"
proof -
  obtain place t where p: "break_target target s = (place, t)" by (metis prod.exhaust)
  have t: "healthy R t"
    using holding.break_place [OF looks [OF assms], of target] healthy_looked [OF _ assms] p
    by simp
  then have "length (breakpoints t) < CDBG_MAX_BREAKPOINTS \<Longrightarrow> rights y = rights (dsys t) \<Longrightarrow>
      healthy R (t\<lparr>dsys := y, breakpoints := breakpoints t @ [bp]\<rparr>)" for y bp
    by (simp add: healthy_def well_formed_def)
  with t p show ?thesis
    by (auto simp: cmd_break_def Let_def split_beta on_sys_def split: option.split)
qed

lemma down_invariant:
  "(\<And>i t. I t \<Longrightarrow> I (snd (f i t))) \<Longrightarrow> I s \<Longrightarrow> I (snd (delete_down f n s))"
  by (induction n arbitrary: s) (simp_all add: split_beta)

lemma each_invariant:
  "(\<And>i t. I t \<Longrightarrow> I (snd (f i t))) \<Longrightarrow> (\<And>i t. I t \<Longrightarrow> I (g i t)) \<Longrightarrow> I s \<Longrightarrow>
     I (snd (delete_each f g is s))"
  by (induction "is" arbitrary: s) (simp_all add: split_beta)

lemma healthy_delete_breakpoint: "healthy R s \<Longrightarrow> healthy R (snd (delete_breakpoint_at K i s))"
  by (auto simp: delete_breakpoint_at_def Let_def split_beta healthy_def well_formed_def remove_nth_def
      on_sys_def)

lemma watch_remove: "watch_table wps \<Longrightarrow> watch_table (remove_nth i wps)"
proof -
  have "set (remove_nth i wps) \<subseteq> set wps"
    by (auto simp: remove_nth_def dest: in_set_takeD in_set_dropD)
  moreover have "distinct (map wp_slot (filter wp_enabled (take i wps @ wps')))
      \<Longrightarrow> distinct (map wp_slot (filter wp_enabled (take i wps @ drop 1 wps')))" for wps'
    by (cases wps') (auto split: if_splits)
  from this [of "drop i wps"]
  have "distinct (map wp_slot (filter wp_enabled wps)) \<Longrightarrow>
      distinct (map wp_slot (filter wp_enabled (remove_nth i wps)))"
    by (simp add: remove_nth_def)
  ultimately show "watch_table wps \<Longrightarrow> watch_table (remove_nth i wps)"
    by (auto simp: watch_table_def remove_nth_def)
qed

lemma healthy_delete_watchpoint: "healthy R s \<Longrightarrow> healthy R (snd (delete_watchpoint_at K i s))"
  by (auto simp: delete_watchpoint_at_def Let_def healthy_def well_formed_def watch_remove)

lemma healthy_deletes:
  "healthy R s \<Longrightarrow> healthy R (snd (delete_down (delete_breakpoint_at K) n s))"
  "healthy R s \<Longrightarrow> healthy R (snd (delete_down (delete_watchpoint_at K) n s))"
  "healthy R s \<Longrightarrow> healthy R (snd (delete_each (delete_breakpoint_at K) (\<lambda>i. say (g i)) is s))"
  "healthy R s \<Longrightarrow> healthy R (snd (delete_each (delete_watchpoint_at K) (\<lambda>i. say (g i)) is s))"
  by (rule down_invariant each_invariant;
      simp add: healthy_delete_breakpoint healthy_delete_watchpoint)+

lemma healthy_del: "healthy R s \<Longrightarrow> healthy R (snd (cmd_del K args s))"
  by (simp add: cmd_del_def Let_def split_beta healthy_deletes split: option.split sum.split)

lemma healthy_delwatch: "healthy R s \<Longrightarrow> healthy R (snd (cmd_delwatch K args s))"
  by (simp add: cmd_delwatch_def Let_def split_beta healthy_deletes split: option.split sum.split)

lemma healthy_quiet_snd:
  "quiet (\<lambda>p y. rights y = R) s m \<Longrightarrow> healthy R s \<Longrightarrow> healthy R (snd (m s))"
  by (metis healthy_quiet prod.collapse)

lemmas healthy_set_sides [simp] =
  healthy_quiet_snd [OF holding.quiet_set_rhs] healthy_quiet_snd [OF holding.quiet_set_lhs]

lemma healthy_refresh [simp]: "healthy R (snd (cdbg_refresh_regs K s)) = healthy R s"
  by (simp add: cdbg_refresh_regs_def split_beta)

lemma healthy_set_register: "healthy R s \<Longrightarrow> healthy R (snd (set_register K sd g name rhs s))"
  by (simp add: set_register_def Let_def split_beta split: option.split)

lemma healthy_set_variable: "healthy R s \<Longrightarrow> healthy R (snd (set_variable K sd lhs rhs s))"
  by (simp add: set_variable_def write_scalar_value_def read_scalar_value_def Let_def split_beta
      split: option.split)

lemma healthy_set: "healthy R s \<Longrightarrow> healthy R (snd (cmd_set K sd g arg s))"
  by (simp add: cmd_set_def cmd_set_print_def cmd_set_language_def cmd_set_malloc_log_def
      healthy_set_register healthy_set_variable Let_def split: option.split)

subsection \<open>watch\<close>

lemma watch_append:
  assumes "watch_table wps" and "length wps < CDBG_MAX_WATCHPOINTS" and "sane_watch wp"
    and "find_free_watch_slot wps = Some (wp_slot wp)"
  shows "watch_table (wps @ [wp])"
proof -
  have "wp_slot wp \<notin> wp_slot ` {w \<in> set wps. wp_enabled w}"
    using assms(1,3,4)
    by (auto simp: find_free_watch_slot_def Let_def find_Some_iff watch_table_def sane_watch_def)
  with assms(1-3) show ?thesis by (auto simp: watch_table_def)
qed

lemma healthy_new_watchpoint:
  assumes "healthy R s" and "length (watchpoints s) < CDBG_MAX_WATCHPOINTS"
    and "find_free_watch_slot (watchpoints s) = Some slot" and "1 \<le> sz" "sz \<le> 8"
  shows "healthy R (snd (new_watchpoint K expr kind slot a sz s))"
proof -
  have slot: "0 \<le> slot" "slot < int CDBG_MAX_WATCHPOINTS"
    using assms(3) by (auto simp: find_free_watch_slot_def Let_def find_Some_iff)
  have "watch_table (watchpoints s @ [wp])"
    if "wp_slot wp = slot" "wp_size wp = sz" "length (wp_expr wp) < CDBG_WATCH_EXPR_LEN" for wp
    using that assms slot by (intro watch_append) (auto simp: healthy_def well_formed_def sane_watch_def)
  then have "healthy R (s\<lparr>dsys := y, watchpoints := watchpoints s @ [wp]\<rparr>)"
    if "rights y = rights (dsys s)" "wp_slot wp = slot" "wp_size wp = sz"
      "length (wp_expr wp) < CDBG_WATCH_EXPR_LEN" for wp y
    using that assms(1) by (simp add: healthy_def well_formed_def)
  with assms(1) show ?thesis
    by (auto simp: new_watchpoint_def Let_def split_beta on_sys_def CDBG_WATCH_EXPR_LEN_def
        length_snprintf_s split: option.split)
qed

lemma eval_lvalue_keeps [simp]:
  "watchpoints (snd (cdbg_expr_eval_lvalue K sd text s)) = watchpoints s"
  "healthy R (snd (cdbg_expr_eval_lvalue K sd text s)) = healthy R s"
proof -
  have l: "looked (\<lambda>p y. rights y = rights (dsys s)) s (snd (cdbg_expr_eval_lvalue K sd text s))"
    by (rule quiet_looked [OF holding.quiet_expr_eval_lvalue looked_refl]) simp
  then show "watchpoints (snd (cdbg_expr_eval_lvalue K sd text s)) = watchpoints s"
    by (simp add: looked_def same_but_view_def)
  from l show "healthy R (snd (cdbg_expr_eval_lvalue K sd text s)) = healthy R s"
    by (simp add: looked_def same_but_view_def healthy_def well_formed_def)
qed

lemma healthy_check [simp]: "healthy R (snd (cdbg_language_check_expr s)) = healthy R s"
  by (simp add: cdbg_language_check_expr_def Let_def)

lemma size_pos: "(sz :: u64) \<noteq> 0 \<Longrightarrow> 1 \<le> sz"
  by (simp add: word_le_nat_alt Suc_le_eq unat_eq_0 flip: neq0_conv)

lemma healthy_watch: "healthy R s \<Longrightarrow> healthy R (snd (cmd_watch K sd arg kind s))"
  by (auto simp: cmd_watch_def Let_def split_beta not_le word_neq_0_conv size_pos
      split: option.split intro!: healthy_new_watchpoint)

section \<open>Commands that run the debuggee\<close>

text \<open>\<open>b\<close> as in \<open>ensures\<close>: with \<open>b = False\<close> the waits are known to return.\<close>

locale sessions =
  fixes K :: "'w kernel" and b :: bool
  assumes waits_return: "b \<or> (\<forall>p y. process_wait K p y \<noteq> None)"

sublocale sessions \<subseteq> moving: waits K b s0 for s0
  by unfold_locales (rule waits_return)

context sessions
begin

lemma steady_rule:
  "ensures b m (\<lambda>_. steady s) \<Longrightarrow> healthy R s \<Longrightarrow> (\<And>a t. healthy R t \<Longrightarrow> Q a t) \<Longrightarrow> ensures b m Q"
  by (erule ensures_mono) (blast intro: healthy_steady)

lemmas move_rules =
  moving.keeps_wait [OF steady_refl, THEN steady_rule]
  moving.keeps_report_stop [OF steady_refl, THEN steady_rule]
  moving.keeps_continue [OF steady_refl, THEN steady_rule]
  moving.keeps_step_next_line [OF steady_refl, THEN steady_rule]
  moving.keeps_next_source_line [OF steady_refl, THEN steady_rule]
  moving.keeps_stop_debuggee [OF steady_refl, THEN steady_rule]

lemma healthy_exit: "healthy R s \<Longrightarrow> healthy R (report_process_exit s)"
  by (rule healthy_steady [of s]) simp_all

lemma healthy_single_step: "healthy R s \<Longrightarrow> healthy R (snd (cdbg_single_step K s))"
  by (rule healthy_steady [of s]) simp_all

lemma healthy_after_resume: "healthy R s \<Longrightarrow> ensures b (after_resume K s) (\<lambda>_. healthy R)"
  unfolding after_resume_def
  by (auto simp: split_beta Let_def healthy_exit intro!: move_rules)

lemma healthy_moves:
  assumes "healthy R s"
  shows "ensures b (repl_continue K s) (\<lambda>_. healthy R)"
    and "ensures b (repl_si K s) (\<lambda>_. healthy R)"
    and "ensures b (repl_step cdbg_step_next_line K s) (\<lambda>_. healthy R)"
    and "ensures b (repl_step cdbg_next_source_line K s) (\<lambda>_. healthy R)"
    and "ensures b (repl_kill K s) (\<lambda>_. healthy R)"
  using assms
  unfolding repl_continue_def repl_si_def repl_step_def repl_kill_def not_running_def
  by (auto simp: split_beta Let_def healthy_exit healthy_single_step
      intro!: move_rules healthy_after_resume)

end

section \<open>A run\<close>

lemma entries_after_slide:
  "cdbg_syms_update_slide K sy p y = Some ((ok, sy'), y') \<Longrightarrow> sy_entries sy' = sy_entries sy"
  by (auto simp: cdbg_syms_update_slide_def bind_eq_Some_conv split: option.splits)

lemma well_formed_lineno:
  "well_formed (s\<lparr>lineno := l\<rparr>) = well_formed s" "well_formed (s\<lparr>dsys := y\<rparr>) = well_formed s"
  by (simp_all add: well_formed_def)

lemma well_formed_syms:
  "well_formed s \<Longrightarrow> sy_entries sy = sy_entries (syms s) \<Longrightarrow> well_formed (s\<lparr>syms := sy\<rparr>)"
  by (simp add: well_formed_def good_syms_def)

lemma well_formed_slides: "update_slides K a c s = Some (u, t) \<Longrightarrow> well_formed s \<Longrightarrow> well_formed t"
  by (auto simp: update_slides_def bind_eq_Some_conv well_formed_lineno split: if_splits
      dest!: entries_after_slide intro!: well_formed_syms)

lemma healthy_update_slides: "healthy R s \<Longrightarrow> ensures True (update_slides K a c s) (\<lambda>_. healthy R)"
  using rights_update_slides [of K a c s] well_formed_slides [of K a c s]
  by (auto simp: ensures_partial healthy_def)

lemmas slides_rule = healthy_update_slides [THEN ensures_mono]

lemma well_formed_loaded:
  assumes "well_formed s"
  shows "well_formed (s\<lparr>executable_path := snprintf_s CDBG_MAX_PATH path,
      debug_info_path := (case debugger_dsym_path K path CDBG_MAX_PATH w of
                            None \<Rightarrow> snprintf_s CDBG_MAX_PATH path | Some p \<Rightarrow> p),
      lineno := l, syms := snd (cdbg_syms_load K path w'), dsys := y\<rparr>)"
proof -
  have "length (snprintf_s CDBG_MAX_PATH path) < CDBG_MAX_PATH"
    by (rule length_snprintf_s) (simp add: CDBG_MAX_PATH_def)
  moreover have "length p < CDBG_MAX_PATH" if "debugger_dsym_path K path CDBG_MAX_PATH w = Some p" for p
    using that by (auto simp: debugger_dsym_path_def Let_def split: if_splits)
  ultimately show ?thesis
    using assms good_syms_load by (auto simp: well_formed_def split: option.split)
qed

lemma healthy_load_symbols:
  assumes "healthy R s"
  shows "ensures True (cdbg_load_symbols K path s) (\<lambda>_. healthy R)"
proof -
  have "well_formed t" if l: "cdbg_load_symbols K path s = Some (ok, t)" for ok t
  proof -
    from assms have "well_formed s" by (simp add: healthy_def)
    note loaded = well_formed_loaded [OF this]
    show ?thesis
      using l unfolding cdbg_load_symbols_def
      by (auto simp: Let_def split_beta bind_eq_Some_conv loaded split: if_splits
          intro: well_formed_slides [OF _ loaded])
  qed
  moreover have "ensures True (cdbg_load_symbols K path s) (\<lambda>_. holds R)"
    using assms by (intro holds_load_symbols) (simp add: healthy_def)
  ultimately show ?thesis by (auto simp: ensures_partial healthy_def)
qed

lemmas load_rule = healthy_load_symbols [THEN ensures_mono]

lemma healthy_spawn: "healthy R s \<Longrightarrow> ensures True (cdbg_spawn K argv s) (\<lambda>_. healthy R)"
  by (auto simp: cdbg_spawn_def cdbg_process_spawn_def Let_def split_beta split: option.split
      intro!: slides_rule)

lemmas new_process_rule = healthy_spawn [THEN ensures_mono]

interpretation any: sessions K True for K
  by unfold_locales simp

lemma healthy_target: "healthy R s \<Longrightarrow> healthy R (snd (cdbg_set_run_target argv s))"
  by (auto simp: cdbg_set_run_target_def healthy_def well_formed_def CDBG_MAX_PATH_def
      length_snprintf_s)

lemma healthy_run:
  assumes "healthy R s"
  shows "ensures True (cdbg_run K argv s) (\<lambda>_. healthy R)"
proof -
  have clear: "healthy R t \<Longrightarrow> healthy R (t\<lparr>breakpoints := [], watchpoints := []\<rparr>)" for t :: "'a cdbg"
    by (simp add: healthy_def well_formed_def watch_table_def)
  have place: "healthy R (cdbg_print_stop_context K t)" if "healthy R t" for t :: "'a cdbg"
    using that by (rule healthy_steady [rotated]) simp
  note entry = partial.keeps_run_to_entry [OF steady_refl, THEN any.steady_rule]
  show ?thesis
    unfolding cdbg_run_def
    using assms healthy_target [OF assms]
    by (auto simp: Let_def split_beta ensures_Some_pair any.healthy_exit place clear print_run_banner_def
        split: option.split
        intro!: any.move_rules load_rule new_process_rule slides_rule entry)
qed

section \<open>The loop\<close>

lemma healthy_simple: "healthy R s \<Longrightarrow> healthy R (simple_command K L cmd s)"
proof (cases "inspecting (c_kind cmd)")
  case True
  assume "healthy R s"
  then show ?thesis using holding.simple_looked [OF True looks] healthy_looked by blast
next
  case False
  assume h: "healthy R s"
  then have "healthy R (snd (cdbg_frame_up K s))" by (rule healthy_steady [rotated]) simp
  with h False show ?thesis
    by (simp add: inspecting_def simple_command_def Let_def healthy_break healthy_del healthy_delwatch
        healthy_set healthy_watch split: cmd_kind.split option.split)
qed

context sessions
begin

lemma healthy_quit: "healthy R s \<Longrightarrow> ensures b (repl_quit K s) (\<lambda>_. healthy R)"
  unfolding repl_quit_def
  by (auto simp: healthy_def well_formed_def intro!: moving.keeps_stop_debuggee [OF steady_refl, THEN steady_rule])

lemma healthy_command:
  assumes "healthy R s" and "b \<or> c_kind cmd \<noteq> Cmd_RUN"
  shows "ensures b (run_command K L cmd s) (\<lambda>_. healthy R)"
proof (cases "c_kind cmd = Cmd_RUN")
  case True
  with assms(2) have b: "b = True" by simp
  have "ensures True (cmd_run K arg s) (\<lambda>_. healthy R)" for arg
    using assms(1) healthy_run [OF assms(1)]
    by (simp add: cmd_run_def Let_def split: sum.split)
  then have "ensures True (cmd_run K arg s) (\<lambda>_ s. ensures True (Some (None :: int option, s)) (\<lambda>_. healthy R))" for arg
    by (rule ensures_mono) simp
  with True b show ?thesis by (simp add: run_command_def split_beta)
next
  case False
  have regs: "healthy R (cdbg_print_regs g t)" if "healthy R t" for g and t :: "'w cdbg"
    using holding.print_regs [OF looks [OF that]] healthy_looked [OF _ that] by blast
  with False assms(1) show ?thesis
    by (simp add: run_command_def healthy_moves healthy_quit healthy_simple regs Let_def split_beta
        split: cmd_kind.split)
qed

text \<open>A line that is no \<^verbatim>\<open>run\<close>.\<close>

lemma healthy_loop:
  "healthy R s \<Longrightarrow> b \<or> (\<forall>line. Input_Line line \<in> set inputs \<longrightarrow> c_kind (cdbg_command_parse (chomp line)) \<noteq> Cmd_RUN)
   \<Longrightarrow> ensures b (repl_loop K L inputs s) (\<lambda>_. healthy R)"
proof (induction inputs arbitrary: s)
  case (Cons i inputs)
  show ?case
  proof (cases i)
    case (Input_Line line)
    with Cons.prems have "ensures b (run_command K L (cdbg_command_parse (chomp line)) (out ''cdbg> '' s)) (\<lambda>_. healthy R)"
      by (intro healthy_command) auto
    then show ?thesis
      using Cons.IH Cons.prems(2) Input_Line
      by (auto split: option.split elim!: ensures_mono)
  next
    case Input_EINTR
    with Cons show ?thesis by simp
  qed
qed simp

end

section \<open>The session\<close>

lemma healthy_init: "healthy (rights y) (cdbg_init y)"
  by (simp add: healthy_def well_formed_def watch_table_def cdbg_init_def CDBG_MAX_PATH_def)

lemma healthy_repl:
  "healthy R s \<Longrightarrow> ensures True (cdbg_repl K L inputs s) (\<lambda>_. healthy R)"
  unfolding cdbg_repl_def by (rule any.healthy_loop) simp_all

lemmas repl_rule = healthy_repl [THEN ensures_mono]
lemmas run_rule = healthy_run [THEN ensures_mono]

text \<open>C5. Whatever the arguments, the input, the C library and the kernel: when the debugger ends,
  its state is well formed and it holds exactly the Mach send rights it was started with. As
  the input may end after any line, this holds at every prompt.\<close>

theorem session_invariant:
  "ensures True (main K L inputs argv y) (\<lambda>_ s. rights (dsys s) = rights y \<and> well_formed s)"
proof -
  have "ensures True (main K L inputs argv y) (\<lambda>_. healthy (rights y))"
    unfolding main_def usage_def
    using healthy_init [of y] healthy_target [OF healthy_init, of y]
    by (auto simp: Let_def split_beta split: option.split intro!: run_rule repl_rule)
  then show ?thesis by (rule ensures_mono) (simp add: healthy_def)
qed




end
