(* ===== verification/Running.thy ===== *)
theory Running
  imports AtStop
begin

text \<open>
  Breakpoints across execution. While the debuggee runs, only the debugger writes to its
  code; a hit lifts the breakpoint, and the wait after the next step plants it again. The
  invariant: on the code, memory is the original one with the trap at exactly the enabled
  breakpoints. It is kept by \<^verbatim>\<open>continue\<close>, \<^verbatim>\<open>si\<close> and \<^verbatim>\<open>step\<close>, whatever the kernel answers.
\<close>

section \<open>The invariant on the code\<close>

text \<open>\<open>C\<close> is the code, \<open>orig\<close> what it holds without breakpoints.\<close>

definition within :: "addr set \<Rightarrow> cdbg_breakpoint set \<Rightarrow> bool" where
  "within C bps \<longleftrightarrow> (\<forall>bp \<in> bps. \<forall>x. covers bp x \<longrightarrow> x \<in> C)"

definition trapped_on :: "addr set \<Rightarrow> cdbg_breakpoint set \<Rightarrow> (addr \<Rightarrow> u8) \<Rightarrow> (addr \<Rightarrow> u8) \<Rightarrow> bool" where
  "trapped_on C bps orig m \<longleftrightarrow>
     (\<forall>bp \<in> bps. bp_enabled bp \<longrightarrow>
        bytes_at m (bp_addr bp) 4 = le_bytes 4 CDBG_TRAP_INST
        \<and> le_bytes 4 (bp_saved_inst bp) = bytes_at orig (bp_addr bp) 4)
     \<and> (\<forall>x \<in> C. (\<forall>bp \<in> bps. bp_enabled bp \<longrightarrow> \<not> covers bp x) \<longrightarrow> m x = orig x)"

text \<open>The memory of the code as a map, and the whole memory that differs from \<open>m\<close> at most there.\<close>

abbreviation code :: "addr set \<Rightarrow> (addr \<Rightarrow> u8) \<Rightarrow> addr \<rightharpoonup> u8" where
  "code C m \<equiv> (Some \<circ> m) |` C"

definition outside :: "addr set \<Rightarrow> (addr \<Rightarrow> u8) \<Rightarrow> (addr \<Rightarrow> u8) \<Rightarrow> (addr \<Rightarrow> u8)" where
  "outside C orig m = (\<lambda>x. if x \<in> C then orig x else m x)"

lemma code_eq: "code C m = code C m' \<longleftrightarrow> (\<forall>x \<in> C. m x = m' x)"
  by (auto simp: fun_eq_iff restrict_map_def)

lemma bytes_within:
  assumes "\<forall>x \<in> C. m x = m' x" and "within C bps" and "bp \<in> bps"
  shows "bytes_at m (bp_addr bp) 4 = bytes_at m' (bp_addr bp) 4"
  using assms by (intro bytes_at_cong) (auto simp: within_def covers_def)

lemma trapped_on_code:
  assumes "trapped_on C bps orig m" and "within C bps" and "code C m' = code C m"
  shows "trapped_on C bps orig m'"
  using assms bytes_within [of C m' m bps] by (simp add: trapped_on_def code_eq)

lemma trapped_on_outside:
  assumes "trapped_on C bps orig m" and "within C bps"
  shows "trapped bps (outside C orig m) m"
  using assms bytes_within [of C "outside C orig m" orig bps]
  by (auto simp: trapped_on_def trapped_def outside_def)

lemma trapped_outside:
  assumes "trapped bps (outside C orig m0) m" and "within C bps"
  shows "trapped_on C bps orig m"
  using assms bytes_within [of C "outside C orig m0" orig bps]
  by (auto simp: trapped_on_def trapped_def outside_def)

lemma trapped_on_initial: "trapped bps orig m \<Longrightarrow> trapped_on C bps orig m"
  by (auto simp: trapped_on_def trapped_def)

lemma within_iff: "within C A \<longleftrightarrow> (\<forall>a \<in> bp_addr ` A. \<forall>x. unat (x - a) < 4 \<longrightarrow> x \<in> C)"
  by (auto simp: within_def covers_def)

lemma within_addrs: "bp_addr ` A = bp_addr ` B \<Longrightarrow> within C A = within C B"
  by (simp add: within_iff)

section \<open>The interface\<close>

text \<open>What is relied on: the calls that run the debuggee or write its registers leave the code
  alone, and writes to its memory succeed.\<close>

locale running_code =
  traced_memory K pid task_ports mem + reading_calls K pid "\<lambda>w. code C (mem w)"
  for K :: "'w kernel" and pid task_ports and mem :: "'w \<Rightarrow> addr \<Rightarrow> u8" and C +
  assumes pt_step [simp]: "code C (mem (snd (k_pt_step K pid w))) = code C (mem w)"
    and pt_continue [simp]: "code C (mem (snd (k_pt_continue K pid w))) = code C (mem w)"
    and waitpid [simp]: "code C (mem (snd (k_waitpid K pid w))) = code C (mem w)"
    and get_exc [simp]: "code C (mem (snd (k_get_exc K t w))) = code C (mem w)"
    and get_debug [simp]: "code C (mem (snd (k_get_debug K t w))) = code C (mem w)"
    and set_gpr [simp]: "code C (mem (snd (k_set_gpr K t r w))) = code C (mem w)"
    and set_debug [simp]: "code C (mem (snd (k_set_debug K t d w))) = code C (mem w)"
    and thread_suspend [simp]: "code C (mem (snd (k_thread_suspend K t w))) = code C (mem w)"
    and thread_resume [simp]: "code C (mem (snd (k_thread_resume K t w))) = code C (mem w)"
    and writes: "fst (cdbg_mem_write K pid a bs y)"
begin

subsection \<open>Calls that leave the code alone\<close>

abbreviation same_code :: "'w sys \<Rightarrow> 'w sys \<Rightarrow> bool" where
  "same_code y y' \<equiv> code C (mem (world y')) = code C (mem (world y))"

lemma code_with_thread:
  "(\<And>t w. code C (mem (snd (call t w))) = code C (mem w)) \<Longrightarrow>
     same_code y (snd (with_thread K pid tid msg call y))"
  by (simp add: with_thread_def split_beta Let_def split: option.split)

lemma code_regs [simp]:
  "same_code y (snd (cdbg_regs_set K pid tid r y))"
  "same_code y (snd (cdbg_regs_get_debug_state K pid tid y))"
  "same_code y (snd (cdbg_regs_set_debug_state K pid tid st y))"
  "same_code y (snd (cdbg_regs_get_exception_state K pid tid y))"
  by (simp_all add: cdbg_regs_set_def cdbg_regs_get_debug_state_def cdbg_regs_set_debug_state_def
      cdbg_regs_get_exception_state_def code_with_thread split_beta Let_def)

lemma code_watch [simp]:
  "same_code y (snd (cdbg_watch_arm K pid tid slot a sz kind y))"
  "same_code y (snd (cdbg_watch_disarm K pid tid slot y))"
  by (simp_all add: cdbg_watch_arm_def cdbg_watch_disarm_def split_beta Let_def split: option.split)

lemma code_disarm_each [simp]: "same_code y (disarm_each K pid slot ts y)"
  unfolding disarm_each_def by (induction ts arbitrary: y) auto

lemma code_arm_loop [simp]: "same_code y (snd (arm_loop K pid wp before ts y))"
  by (induction ts arbitrary: before y) (simp_all add: split_beta Let_def)

lemma code_arm_all [simp]:
  "same_code y (snd (arm_watchpoint_all_threads K pid wp y))"
  "same_code y (disarm_watchpoint_all_threads K pid wp y)"
  by (simp_all add: arm_watchpoint_all_threads_def disarm_watchpoint_all_threads_def split_beta
      split: option.split)

lemma code_rearm_loop [simp]: "same_code y (snd (rearm_loop K pid wps y))"
  by (induction wps arbitrary: y) (simp_all add: split_beta)

lemma code_disarm_all [simp]: "same_code y (fold (disarm_watchpoint_all_threads K pid) wps y)"
  by (induction wps arbitrary: y) auto

lemma code_watch_thread_loop [simp]: "same_code y (snd (watch_thread_loop K pid ts y))"
  by (induction ts arbitrary: y) (simp_all add: split_beta Let_def split: option.split)

lemma code_suspend_or_resume_loop [simp]:
  "same_code y (snd (suspend_or_resume_loop K b keep ts ok y))"
  by (induction ts arbitrary: ok y) (simp_all add: split_beta Let_def)

lemma code_keep_thread [simp]: "same_code y (snd (keep_thread K tid ts y))"
  by (simp add: keep_thread_def split_beta split: list.split)

lemma code_suspend_or_resume [simp]:
  "same_code y (snd (cdbg_threads_suspend_others K pid tid y))"
  "same_code y (snd (cdbg_threads_resume_others K pid tid y))"
  by (simp_all add: cdbg_threads_suspend_others_def cdbg_threads_resume_others_def
      suspend_or_resume_others_def deallocate_threads_def split_beta Let_def split: option.split)

lemma code_process_wait:
  assumes "process_wait K pid y = Some (r, y')"
  shows "same_code y y'"
proof -
  have "L = K \<and> p = pid \<longrightarrow> same_code y (snd q)" if "process_wait L p y = Some q" for L p y q
    using that
  proof (rule process_wait.raw_induct [rotated])
    fix f :: "'w kernel \<Rightarrow> pid \<Rightarrow> 'w sys \<Rightarrow> (u32 option \<times> 'w sys) option" and L p y q
    assume IH: "\<And>L p y q. f L p y = Some q \<Longrightarrow> L = K \<and> p = pid \<longrightarrow> same_code y (snd q)"
      and step: "(let (ret, y) = syscall (k_waitpid L p) y
         in case ret of Wait_Status status \<Rightarrow> Some (Some status, y) | Wait_EINTR \<Rightarrow> f L p y
            | Wait_Error \<Rightarrow> Some (None, emit (Perror ''waitpid'') y)) = Some q"
    then show "L = K \<and> p = pid \<longrightarrow> same_code y (snd q)"
      using IH [of K pid "snd (syscall (k_waitpid K pid) y)" q]
      by (auto simp: split_beta split: wait_result.splits)
  qed
  from this [OF assms] show ?thesis by simp
qed

end

section \<open>The invariant of the debugger\<close>

definition caught ::
    "pid \<Rightarrow> ('w \<Rightarrow> addr \<Rightarrow> u8) \<Rightarrow> addr set \<Rightarrow> (addr \<Rightarrow> u8) \<Rightarrow> 'w cdbg \<Rightarrow> bool" where
  "caught p mem C orig s \<longleftrightarrow> pid s = p \<and> state s \<noteq> State_IDLE
     \<and> apart (breakpoints s) \<and> within C (set (breakpoints s))
     \<and> trapped_on C (set (breakpoints s)) orig (mem (world (dsys s)))"

text \<open>Once the debuggee has ended there is no memory to speak of.\<close>

definition unless_ended ::
    "pid \<Rightarrow> ('w \<Rightarrow> addr \<Rightarrow> u8) \<Rightarrow> addr set \<Rightarrow> (addr \<Rightarrow> u8) \<Rightarrow> 'w cdbg \<Rightarrow> bool" where
  "unless_ended p mem C orig s \<longleftrightarrow> state s = State_IDLE \<or> caught p mem C orig s"

lemma caught_fields [simp]:
  "caught p mem C orig (s\<lparr>regs := r\<rparr>) = caught p mem C orig s"
  "caught p mem C orig (s\<lparr>current_tid := t\<rparr>) = caught p mem C orig s"
  "caught p mem C orig (s\<lparr>wait_status := w\<rparr>) = caught p mem C orig s"
  "caught p mem C orig (s\<lparr>watchpoints := wps\<rparr>) = caught p mem C orig s"
  "caught p mem C orig (say x s) = caught p mem C orig s"
  by (simp_all add: caught_def)

lemma caught_state: "caught p mem C orig s \<Longrightarrow> st \<noteq> State_IDLE \<Longrightarrow> caught p mem C orig (s\<lparr>state := st\<rparr>)"
  by (simp add: caught_def)

lemma caught_pid: "caught p mem C orig s \<Longrightarrow> pid s = p \<and> state s \<noteq> State_IDLE"
  by (simp add: caught_def)

lemma caught_dsys [simp]:
  assumes "caught p mem C orig s" and "code C (mem (world y)) = code C (mem (world (dsys s)))"
  shows "caught p mem C orig (s\<lparr>dsys := y\<rparr>)"
  using assms by (auto simp: caught_def intro: trapped_on_code)

lemma caught_on_sys [simp]:
  assumes "caught p mem C orig s"
    and "pid s = p \<Longrightarrow> code C (mem (world (snd (f (dsys s))))) = code C (mem (world (dsys s)))"
  shows "caught p mem C orig (snd (on_sys f s))"
  using assms caught_pid [OF assms(1)] by (simp add: on_sys_def split_beta)

lemma caught_looked:
  assumes "looked (seen p (\<lambda>w. code C (mem w)) (code C (mem (world (dsys s))))) s t"
    and "caught p mem C orig s"
  shows "caught p mem C orig t"
  using assms by (auto simp: looked_def same_but_view_def caught_def seen_def intro: trapped_on_code)

lemma ended_or_caught [simp]: "caught p mem C orig s \<Longrightarrow> unless_ended p mem C orig s"
  "state s = State_IDLE \<Longrightarrow> unless_ended p mem C orig s"
  by (simp_all add: unless_ended_def)

lemma not_ended [simp]:
  "state s \<noteq> State_IDLE \<Longrightarrow> unless_ended p mem C orig s = caught p mem C orig s"
  by (simp add: unless_ended_def)

lemma unless_ended_fields [simp]:
  "unless_ended p mem C orig (s\<lparr>regs := r\<rparr>) = unless_ended p mem C orig s"
  "unless_ended p mem C orig (s\<lparr>current_tid := t\<rparr>) = unless_ended p mem C orig s"
  "unless_ended p mem C orig (s\<lparr>watchpoints := wps\<rparr>) = unless_ended p mem C orig s"
  "unless_ended p mem C orig (say x s) = unless_ended p mem C orig s"
  by (simp_all add: unless_ended_def)

lemma ended_exit [simp]: "unless_ended p mem C orig s \<Longrightarrow> unless_ended p mem C orig (report_process_exit s)"
  by (auto simp: unless_ended_def report_process_exit_def disable_all_def Let_def)

lemma index_of_Some: "index_of P xs = Some i \<Longrightarrow> i < length xs \<and> P (xs ! i)"
  by (induction xs arbitrary: i) (auto split: if_splits)

lemma hit_threads_pid [simp]:
  "pid (snd (find_breakpoint_hit_thread K s)) = pid s"
  "pid (snd (find_watchpoint_hit_thread K s)) = pid s"
  by (simp_all add: find_breakpoint_hit_thread_def find_watchpoint_hit_thread_def split_beta Let_def
      split: option.split)

section \<open>Operations at a stop\<close>

context running_code
begin

abbreviation now :: "(addr \<Rightarrow> u8) \<Rightarrow> 'w cdbg \<Rightarrow> bool" where
  "now orig \<equiv> caught pid mem C orig"

abbreviation later :: "(addr \<Rightarrow> u8) \<Rightarrow> 'w cdbg \<Rightarrow> bool" where
  "later orig \<equiv> unless_ended pid mem C orig"

lemma now_looks:
  "now orig s \<Longrightarrow> looked (seen pid (\<lambda>w. code C (mem w)) (code C (mem (world (dsys s))))) s s"
  by (rule looked_refl) (simp add: caught_def seen_def)

lemma now_displays [simp]:
  assumes "now orig s"
  shows "now orig (snd (cdbg_refresh_regs K s))" "now orig (print_stop_location K pc s)"
    and "now orig (snd (resolve_display_tid K s))"
  using caught_looked [OF viewing.refresh [OF now_looks [OF assms]] assms]
    caught_looked [OF viewing.stop_location [OF now_looks [OF assms]] assms]
    caught_looked [OF viewing.display_tid [OF now_looks [OF assms]] assms]
  by simp_all

lemma now_header [simp]: "now orig s \<Longrightarrow> now orig (print_stop_header K s)"
  by (simp add: print_stop_header_def split_beta)

lemma now_hit_threads [simp]:
  "now orig s \<Longrightarrow> now orig (snd (find_breakpoint_hit_thread K s))"
  "now orig s \<Longrightarrow> now orig (snd (find_watchpoint_hit_thread K s))"
  using caught_pid [of pid mem C orig s]
  by (simp_all add: find_breakpoint_hit_thread_def find_watchpoint_hit_thread_def split_beta Let_def
      split: option.split)

lemma now_single_step [simp]: "now orig s \<Longrightarrow> now orig (snd (cdbg_single_step K s))"
  by (simp add: cdbg_single_step_def split_beta caught_state)

text \<open>A breakpoint that cannot be read is not planted, and nothing is written.\<close>

lemma enable_code:
  assumes "trapped (insert bp bps) orig (mem (world y))" and "\<not> bp_enabled bp"
    and "\<And>b. b \<in> bps \<Longrightarrow> separate (bp_addr b) (bp_addr bp)"
    and "cdbg_bp_enable K bp pid (bp_addr bp) y = ((ok, bp'), y')"
  shows "trapped (insert bp' bps) orig (mem (world y')) \<and> bp_addr bp' = bp_addr bp"
proof (cases ok)
  case True
  then show ?thesis
    using assms enable_trapped [of bp "bp_addr bp" y bp' bps orig]
      bp_enable_flag [of K bp pid "bp_addr bp" y ok bp']
    by (auto simp: trapped_insert_off)
next
  case False
  have "bp' = bp \<and> mem (world y') = mem (world y)"
    using assms(4) False writes mem_read_spec [of "bp_addr bp" 4 y]
    by (auto simp: cdbg_bp_enable_def Let_def split_beta split: option.splits if_splits)
  with assms(1) show ?thesis by simp
qed

lemma reenable_code:
  assumes "trapped (R \<union> set bps) orig (mem (world y))" and "apart bps"
    and "\<And>a b. a \<in> R \<Longrightarrow> b \<in> set bps \<Longrightarrow> separate (bp_addr a) (bp_addr b)"
    and "reenable_loop K pid pc bps y = ((ok, bps'), y')"
  shows "trapped (R \<union> set bps') orig (mem (world y'))"
  using assms
proof (induction bps arbitrary: R y ok bps')
  case (Cons bp bps)
  have rest: "apart bps" "\<And>b. b \<in> set bps \<Longrightarrow> separate (bp_addr bp) (bp_addr b)"
    using Cons.prems(2) by (simp_all add: apart_def)
  have step: "trapped (R \<union> set (bp1 # bps1)) orig (mem (world y'))"
    if "trapped (insert bp1 R \<union> set bps) orig (mem (world y1))" "bp_addr bp1 = bp_addr bp"
      "reenable_loop K pid pc bps y1 = ((ok1, bps1), y')" for bp1 y1 ok1 bps1
    using Cons.IH [OF that(1) rest(1) _ that(3)] Cons.prems(3) rest(2) that(2)
    by (metis Un_insert_left Un_insert_right insert_iff list.set(2) list.set_intros(2))
  show ?case
  proof (cases "\<not> bp_enabled bp \<and> bp_addr bp \<noteq> pc")
    case False
    then show ?thesis
      using Cons.prems(1,4) step [of bp y] by (auto simp: split_beta Let_def prod_eq_iff)
  next
    case True
    obtain ok1 bp1 y1 where e: "cdbg_bp_enable K bp pid (bp_addr bp) y = ((ok1, bp1), y1)"
      by (metis prod.exhaust)
    have "trapped (insert bp1 (R \<union> set bps)) orig (mem (world y1)) \<and> bp_addr bp1 = bp_addr bp"
      using enable_code [OF _ _ _ e, of "R \<union> set bps" orig] Cons.prems(1,3) rest(2) True
      by (auto simp: separate_sym)
    then show ?thesis
      using Cons.prems(4) True e step [of bp1 y1]
      by (cases ok1) (auto simp: split_beta Let_def prod_eq_iff)
  qed
qed simp

lemma now_reenable [simp]:
  assumes "now orig s"
  shows "now orig (snd (reenable_breakpoints_after_step K s))"
proof (cases "breakpoints s = [] \<or> state s \<noteq> State_STOPPED \<or> \<not> fst (cdbg_refresh_regs K s)")
  case True
  with assms show ?thesis by (auto simp: reenable_breakpoints_after_step_def split_beta)
next
  case False
  let ?t = "snd (cdbg_refresh_regs K s)"
  obtain ok bps y where r: "reenable_loop K pid (cdbg_regs_pc (regs ?t)) (breakpoints ?t) (dsys ?t) = ((ok, bps), y)"
    by (metis prod.exhaust)
  have t: "cdbg.pid ?t = pid" "state ?t \<noteq> State_IDLE" "apart (breakpoints ?t)" "within C (set (breakpoints ?t))"
    "trapped_on C (set (breakpoints ?t)) orig (mem (world (dsys ?t)))"
    using now_displays(1) [OF assms] by (simp_all add: caught_def)
  have "trapped (set bps) (outside C orig (mem (world (dsys ?t)))) (mem (world y))"
    using reenable_code [of "{}" "breakpoints ?t" _ "dsys ?t", OF _ t(3) _ r] trapped_on_outside [OF t(5,4)]
    by simp
  moreover have "map bp_addr bps = map bp_addr (breakpoints ?t)"
    using reenable_loop_addrs(1) [of K pid "cdbg_regs_pc (regs ?t)" "breakpoints ?t" "dsys ?t"] r by simp
  moreover from this have "within C (set bps)"
    using t(4) within_addrs [of "set bps" "set (breakpoints ?t)" C] by (metis list.set_map)
  ultimately show ?thesis
    using False r t(1-3) trapped_outside [of "set bps" C orig] apart_addrs [of bps]
    by (simp add: reenable_breakpoints_after_step_def split_beta Let_def caught_def)
qed

lemma now_breakpoint_hit [simp]:
  assumes "now orig s" and "i < length (breakpoints s)"
  shows "now orig (snd (handle_breakpoint_hit K i s))"
proof -
  let ?bp = "breakpoints s ! i" and ?rest = "set (remove_nth i (breakpoints s))"
  obtain ok bp y where d: "cdbg_bp_disable K ?bp pid (dsys s) = ((ok, bp), y)" by (metis prod.exhaust)
  have ok: ok using writes d by (auto simp: cdbg_bp_disable_def split_beta split: if_splits)
  have bp: "\<not> bp_enabled bp" "bp_addr bp = bp_addr ?bp"
    using bp_disable_flag [of K ?bp pid "dsys s" ok bp] d ok by auto
  have s: "cdbg.pid s = pid" "state s \<noteq> State_IDLE" "apart (breakpoints s)" "within C (set (breakpoints s))"
    "trapped_on C (set (breakpoints s)) orig (mem (world (dsys s)))"
    using assms(1) by (simp_all add: caught_def)
  note split = apart_split [OF s(3) assms(2)]
  let ?o = "outside C orig (mem (world (dsys s)))" and ?bps = "(breakpoints s)[i := bp]"
  have addrs: "map bp_addr ?bps = map bp_addr (breakpoints s)" by (simp add: map_update_same bp(2))
  have set: "set ?bps = insert bp ?rest"
    using assms(2) by (simp add: remove_nth_def upd_conv_take_nth_drop)
  have "trapped ?rest ?o (mem (world y))"
    using disable_trapped [of ?bp "dsys s" ?rest ?o] trapped_on_outside [OF s(5,4)] d ok split
    by simp
  then have "trapped (set ?bps) ?o (mem (world y))" by (simp add: set trapped_insert_off bp(1))
  moreover have "within C (set ?bps)"
    using s(4) addrs within_addrs [of "set ?bps" "set (breakpoints s)" C] by (metis list.set_map)
  ultimately have "now orig (s\<lparr>dsys := y, breakpoints := ?bps\<rparr>)"
    using s(1-3) apart_addrs [OF addrs] by (simp add: caught_def trapped_outside)
  then have u: "now orig (snd (cdbg_refresh_regs K (s\<lparr>dsys := y, breakpoints := ?bps\<rparr>)))" by simp
  have "on_sys (cdbg_bp_disable K ?bp (cdbg.pid s)) s = ((ok, bp), s\<lparr>dsys := y\<rparr>)"
    by (simp add: on_sys_def d s(1))
  with u ok caught_pid [OF u] show ?thesis
    by (simp add: handle_breakpoint_hit_def Let_def split_beta)
qed

section \<open>Operations that wait\<close>

lemma now_process_wait:
  assumes "now orig s"
  shows "ensures True (cdbg_process_wait K s) (\<lambda>_. now orig)"
  using assms caught_pid [OF assms] code_process_wait [of "dsys s"]
  by (auto simp: cdbg_process_wait_def ensures_partial bind_eq_Some_conv split: option.splits)

lemmas now_process_wait_rule = now_process_wait [THEN ensures_mono]

lemma later_wait:
  assumes "now orig s"
  shows "ensures True (cdbg_wait K s) (\<lambda>_. later orig)"
  unfolding cdbg_wait_def
  using now_process_wait [OF assms]
  by (auto simp: split_beta Let_def ensures_Some_pair caught_state elim!: ensures_mono)

lemmas later_wait_rule = later_wait [THEN ensures_mono]

lemma later_step_over: "now orig s \<Longrightarrow> ensures True (step_over_disabled_breakpoint K s) (\<lambda>_. later orig)"
  unfolding step_over_disabled_breakpoint_def
  by (auto simp: split_beta Let_def ensures_Some_pair intro!: later_wait_rule)

lemmas later_step_over_rule = later_step_over [THEN ensures_mono]

lemma now_pid: "now orig s \<Longrightarrow> cdbg.pid s = pid"
  by (simp add: caught_def)

lemma later_continue: "now orig s \<Longrightarrow> ensures True (cdbg_continue K s) (\<lambda>_. later orig)"
  unfolding cdbg_continue_def
  by (auto simp: now_pid split_beta Let_def ensures_Some_pair caught_state intro!: later_step_over_rule)

lemmas later_continue_rule = later_continue [THEN ensures_mono]

lemma later_step_past: "now orig s \<Longrightarrow> ensures True (step_past_all_watchpoints K s) (\<lambda>_. later orig)"
  unfolding step_past_all_watchpoints_def
  by (auto simp: now_pid split_beta Let_def ensures_Some_pair intro!: later_wait_rule)

lemmas later_step_past_rule = later_step_past [THEN ensures_mono]

lemma later_past:
  assumes "now orig s"
    and "\<And>t. now orig t \<Longrightarrow> state t = State_STOPPED \<Longrightarrow> later orig (snd (f t))"
  shows "ensures True (step_past_all_watchpoints K s) (\<lambda>ok t. later orig
     (snd (if \<not> ok then (False, t)
           else if state t \<noteq> State_STOPPED then (True, report_process_exit t) else f t)))"
proof (rule later_step_past_rule [OF assms(1)])
  fix ok t
  assume "later orig t"
  then show "later orig (snd (if \<not> ok then (False, t)
      else if state t \<noteq> State_STOPPED then (True, report_process_exit t) else f t))"
    using assms(2) [of t] by auto
qed

lemma later_watchpoint_hit:
  assumes "now orig s"
  shows "ensures True (handle_watchpoint_hit K i is_write s) (\<lambda>_. later orig)"
  unfolding handle_watchpoint_hit_def Let_def ensures_bind split ensures_Some_pair
  by (rule later_past) (use assms in \<open>simp_all add: now_pid split_beta split: option.split\<close>)

lemma later_unresolved_hit:
  assumes "now orig s"
  shows "ensures True (handle_unresolved_watchpoint_hit K far s) (\<lambda>_. later orig)"
  unfolding handle_unresolved_watchpoint_hit_def Let_def ensures_bind split ensures_Some_pair
  by (rule later_past) (use assms in \<open>simp_all add: now_pid\<close>)

lemmas later_watchpoint_hit_rules =
  later_watchpoint_hit [THEN ensures_mono] later_unresolved_hit [THEN ensures_mono]

text \<open>When nothing is reported the debuggee has not moved.\<close>

lemma later_try_report:
  "now orig s \<Longrightarrow>
     ensures True (try_report_watchpoint_hit K s) (\<lambda>r t. later orig t \<and> (\<not> r \<longrightarrow> now orig t))"
  unfolding try_report_watchpoint_hit_def
  by (auto simp: now_pid split_beta Let_def ensures_Some_pair split: option.split
      intro!: later_watchpoint_hit_rules)

lemmas later_try_report_rule = later_try_report [THEN ensures_mono]

lemma later_report_stop: "now orig s \<Longrightarrow> ensures True (report_stop K s) (\<lambda>_. later orig)"
  unfolding report_stop_def
  by (auto simp: now_pid split_beta Let_def ensures_Some_pair index_of_Some split: option.split
      intro!: later_try_report_rule)

lemmas later_report_stop_rule = later_report_stop [THEN ensures_mono]

lemma later_one_step:
  "now orig s \<Longrightarrow> ensures True (one_step K s) (\<lambda>r t. later orig t \<and> (r = Inr () \<longrightarrow> now orig t))"
  unfolding one_step_def
  by (auto simp: now_pid split_beta Let_def ensures_Some_pair intro!: later_wait_rule)

lemmas later_one_step_rule = later_one_step [THEN ensures_mono]

lemma later_after_step:
  "now orig s \<Longrightarrow>
     ensures True (after_step K start s) (\<lambda>r t. later orig t \<and> (\<forall>pc. r = Inr pc \<longrightarrow> now orig t))"
  unfolding after_step_def
  by (auto simp: now_pid split_beta Let_def ensures_Some_pair split: option.split
      intro!: later_report_stop_rule later_try_report_rule)

lemmas later_after_step_rule = later_after_step [THEN ensures_mono]

lemma later_step_loop: "now orig s \<Longrightarrow> ensures True (step_loop K start n s) (\<lambda>_. later orig)"
  by (induction n arbitrary: s)
    (auto simp: now_pid split_beta Let_def ensures_Some_pair split: sum.split
      intro!: later_one_step_rule later_after_step_rule)

lemma later_step_without_line: "now orig s \<Longrightarrow> ensures True (step_without_line K s) (\<lambda>_. later orig)"
  unfolding step_without_line_def
  by (auto simp: now_pid split_beta Let_def ensures_Some_pair intro!: later_wait_rule later_report_stop_rule)

lemma later_step_next_line: "now orig s \<Longrightarrow> ensures True (cdbg_step_next_line K s) (\<lambda>_. later orig)"
  unfolding cdbg_step_next_line_def
  by (auto simp: now_pid split_beta Let_def split: option.split
      intro!: later_step_without_line later_step_loop simp del: step_loop.simps)

section \<open>Commands\<close>

lemma later_after_resume: "now orig s \<Longrightarrow> ensures True (after_resume K s) (\<lambda>_. later orig)"
  unfolding after_resume_def
  by (auto simp: now_pid split_beta Let_def intro!: later_wait_rule later_report_stop_rule)

lemma later_moves:
  assumes "now orig s"
  shows "ensures True (repl_continue K s) (\<lambda>_. later orig)"
    and "ensures True (repl_si K s) (\<lambda>_. later orig)"
    and "ensures True (repl_step cdbg_step_next_line K s) (\<lambda>_. later orig)"
  using assms
  unfolding repl_continue_def repl_si_def repl_step_def not_running_def
  by (auto simp: now_pid split_beta Let_def
      intro!: later_continue_rule later_after_resume later_step_next_line [THEN ensures_mono])

end

end
