(* ===== verification/Debugging.thy ===== *)
theory Debugging
  imports Running Session
begin

text \<open>
  A debugging session as a step relation: inspection, breakpoints set and deleted, and
  execution by \<^verbatim>\<open>continue\<close>, \<^verbatim>\<open>si\<close> and \<^verbatim>\<open>step\<close>, in any order. The code of the debuggee keeps
  the traps that the table says, and is the original code elsewhere.
\<close>

section \<open>A debugging session\<close>

text \<open>What can happen between the first stop and the end of the debuggee: inspection, breakpoints
  on the code set apart from each other and deleted, and execution until the next stop.\<close>

definition moving :: "cmd_kind \<Rightarrow> bool" where
  "moving k \<longleftrightarrow> k \<in> {Cmd_CONTINUE, Cmd_SI, Cmd_STEP}"

inductive debugging ::
    "'w kernel \<Rightarrow> c_library \<Rightarrow> addr set \<Rightarrow> 'w cdbg \<Rightarrow> 'w cdbg \<Rightarrow> bool"
  for K :: "'w kernel" and L :: c_library and C and s0 :: "'w cdbg" where
  begin_here: "debugging K L C s0 s0"
| inspect: "debugging K L C s0 s \<Longrightarrow> inspecting (c_kind cmd) \<Longrightarrow>
    debugging K L C s0 (simple_command K L cmd s)"
| set_break: "debugging K L C s0 s \<Longrightarrow> fst (break_target target s) = Some (a, label) \<Longrightarrow>
    \<forall>b \<in> set (breakpoints s). separate (bp_addr b) a \<Longrightarrow> \<forall>x. unat (x - a) < 4 \<longrightarrow> x \<in> C \<Longrightarrow>
    cmd_break K target s = (True, s') \<Longrightarrow> debugging K L C s0 s'"
| delete: "debugging K L C s0 s \<Longrightarrow> cmd_del K args s = (True, s') \<Longrightarrow> debugging K L C s0 s'"
| execute: "debugging K L C s0 s \<Longrightarrow> moving (c_kind cmd) \<Longrightarrow>
    run_command K L cmd s = Some (r, s') \<Longrightarrow> state s' \<noteq> State_IDLE \<Longrightarrow> debugging K L C s0 s'"

inductive_cases debugging_cases: "debugging K L C s0 s"




section \<open>On the machine\<close>




lemma machine_moves_mem [simp]:
  "m_mem (snd (cpu_step w)) = m_mem w" "m_mem (cpu_run n w) = m_mem w" "m_mem (machine_step w) = m_mem w"
proof -
  show 1: "m_mem (snd (cpu_step w)) = m_mem w" for w
    by (simp add: cpu_step_def set_gpr_def Let_def)
  show "m_mem (cpu_run n w) = m_mem w"
    by (induction n arbitrary: w) (simp_all add: split_beta 1)
  show "m_mem (machine_step w) = m_mem w" by (simp add: machine_step_def split_beta 1)
qed


section \<open>Breakpoints across execution\<close>




end
