(* ===== verification/DwarfText.thy ===== *)
theory DwarfText
  imports Dwarf
begin

text \<open>
  The output of \<^verbatim>\<open>dwarfdump --debug-info\<close> as the scans of Dwarf expect it: the lines that
  begin a debugging entry and the lines of its attributes, and what \<^verbatim>\<open>strstr\<close>, \<^verbatim>\<open>strtoull\<close>
  and the helpers built on them find in such lines.
\<close>

section \<open>Searching\<close>

lemma strstr_None: "strstr s p = None \<longleftrightarrow> \<not> sublist p s"
  by (simp add: strstr_sublist [symmetric])

lemma contains_at:
  assumes "c \<notin> set p" and "p \<noteq> []"
  shows "strstr (t @ c # r) p = None \<longleftrightarrow> strstr t p = None \<and> strstr r p = None"
proof -
  have "sublist p (t @ c # r) \<longleftrightarrow> sublist p t \<or> sublist p r"
    using assms by (auto simp: sublist_append sublist_Cons_right prefix_Cons)
  then show ?thesis by (simp add: strstr_None)
qed

lemma strstr_cut: "c \<notin> set p \<Longrightarrow> p \<noteq> [] \<Longrightarrow> strstr (c # r) p = strstr r p"
  by (auto simp: prefix_Cons)

lemma strstr_skip: "c \<notin> set t \<Longrightarrow> strstr (t @ r) (c # p) = strstr r (c # p)"
  by (induction t) auto

lemma strstr_absent: "c \<in> set p \<Longrightarrow> c \<notin> set t \<Longrightarrow> strstr t p = None"
  using set_mono_sublist [of p t] by (auto simp: strstr_None)

lemma strstr_longer: "strstr t p = None \<Longrightarrow> strstr t (p @ q) = None"
  unfolding strstr_None by (meson prefixI prefix_imp_sublist sublist_order.order_trans)

lemma strchr_at [simp]: "c \<notin> set t \<Longrightarrow> strchr (t @ c # r) c = Some (c # r)"
  by (induction t) auto

section \<open>Numbers in a line\<close>

lemma scan_number_then:
  assumes ds: "ds \<noteq> []" "\<forall>c \<in> set ds. is_digit_of b c" and b: "b \<noteq> 0" "b \<noteq> 16"
    and r: "r = [] \<or> \<not> is_digit_of b (hd r)"
  shows "scan_number b (ds @ r) = Some (False, digits_value b ds, r)"
    and "scan_number b (CHR ''+'' # ds @ r) = Some (False, digits_value b ds, r)"
    and "scan_number b (CHR ''-'' # ds @ r) = Some (True, digits_value b ds, r)"
proof -
  from ds obtain c cs where c: "ds = c # cs" by (cases ds) auto
  with ds have n: "\<not> isspace c \<and> c \<noteq> CHR ''-'' \<and> c \<noteq> CHR ''+''" by (auto dest: is_digit_not_space)
  have "takeWhile (is_digit_of b) (ds @ r) = ds" "dropWhile (is_digit_of b) (ds @ r) = r"
    using ds(2) r by (cases r; simp add: takeWhile_append2 dropWhile_append2)+
  moreover have "skip_sign (dropWhile isspace (ds @ r)) = (False, ds @ r)"
    using c n by (simp add: skip_sign_def)
  moreover have "dropWhile isspace (CHR ''+'' # x) = CHR ''+'' # x"
    "dropWhile isspace (CHR ''-'' # x) = CHR ''-'' # x" for x
    by (simp_all add: isspace_def ccode_def)
  ultimately show "scan_number b (ds @ r) = Some (False, digits_value b ds, r)"
    and "scan_number b (CHR ''+'' # ds @ r) = Some (False, digits_value b ds, r)"
    and "scan_number b (CHR ''-'' # ds @ r) = Some (True, digits_value b ds, r)"
    using ds(1) b by (simp_all add: scan_number_def skip_sign_def Let_def)
qed

lemma scan_hex_then:
  assumes ds: "ds \<noteq> []" "\<forall>c \<in> set ds. is_digit_of 16 c" and r: "r = [] \<or> \<not> is_digit_of 16 (hd r)"
  shows "scan_number 16 (''0x'' @ ds @ r) = Some (False, digits_value 16 ds, r)"
proof -
  from ds obtain c cs where c: "ds = c # cs" by (cases ds) auto
  have "hex_prefix (''0x'' @ ds @ r)" using c ds by (simp add: hex_prefix_def isxdigit_def)
  moreover have "skip_sign (dropWhile isspace (''0x'' @ ds @ r)) = (False, ''0x'' @ ds @ r)"
    by (simp add: skip_sign_def isspace_def ccode_def)
  moreover have "takeWhile (is_digit_of 16) (ds @ r) = ds" "dropWhile (is_digit_of 16) (ds @ r) = r"
    using ds(2) r by (cases r; simp add: takeWhile_append2 dropWhile_append2)+
  moreover have "drop 2 (''0x'' @ ds @ r) = ds @ r" by simp
  ultimately show ?thesis using ds(1)
    by (simp add: scan_number_def Let_def append.simps(1) del: append.simps(2))
qed

lemma digits_value_zeros: "digits_value b (replicate n CHR ''0'' @ ds) = digits_value b ds"
  by (induction n) (simp_all add: digits_value_def digit_val_def isdigit_def ccode_def)


lemma digit_char_lower: "d < 16 \<Longrightarrow> isdigit (digit_char d) \<or> islower (digit_char d)"
  by (auto simp: digit_char_def isdigit_def islower_def ccode_char_of)

lemma digits_of_lower: "2 \<le> b \<Longrightarrow> b \<le> 16 \<Longrightarrow> \<forall>c \<in> set (digits_of b n). isdigit c \<or> islower c"
proof (induction b n rule: digits_of.induct)
  case (1 b n)
  have "n mod b < 16" using 1(2,3) mod_less_divisor [of b n] by linarith
  with 1 show ?case by (subst digits_of.simps) (auto intro!: digit_char_lower)
qed

lemma digit_0: "is_digit_of 16 CHR ''0''"
  by (simp add: text_eval)

lemma isdigit_0 [simp]: "isdigit CHR ''0''" and islower_x [simp]: "islower CHR ''x''"
  by (simp_all add: isdigit_def islower_def ccode_def)

lemma hex_lower:
  "c \<in> set (fmt_0x16 w) \<Longrightarrow> isdigit c \<or> islower c" "c \<in> set (fmt_0x8 v) \<Longrightarrow> isdigit c \<or> islower c"
  using digits_of_lower [of 16 "unat w"] digits_of_lower [of 16 "unat v"]
  by (auto simp: fmt_0x16_def fmt_0x8_def fmt_x_def pad_left_def)

text \<open>\<^verbatim>\<open>%+lld\<close>.\<close>

definition fmt_plus :: "int \<Rightarrow> string" where
  "fmt_plus i = (if i < 0 then CHR ''-'' # fmt_u (nat (- i)) else CHR ''+'' # fmt_u (nat i))"

lemma strtoll_plus:
  assumes "- (2 ^ 63) \<le> i" and "i < 2 ^ 63" and "r \<noteq> []" and "\<not> is_digit_of 10 (hd r)"
  shows "strtoll 10 (fmt_plus i @ r) = Some (i, r)"
  using scan_number_then [of "fmt_u n" 10 r for n, unfolded fmt_u_def] assms
  by (auto simp: strtoll_def fmt_plus_def fmt_u_def digits_of_digits digits_value_digits_of)

text \<open>\<^verbatim>\<open>0x%0nllx\<close>.\<close>

definition fmt_0x :: "nat \<Rightarrow> u64 \<Rightarrow> string" where
  "fmt_0x n w = ''0x'' @ pad_left n CHR ''0'' (fmt_x w)"

lemma strtoull_0x:
  assumes "r \<noteq> []" and "\<not> is_digit_of 16 (hd r)"
  shows "strtoull 16 (fmt_0x n w @ r) = Some (w, r)"
proof -
  have "\<forall>c \<in> set (pad_left n CHR ''0'' (fmt_x w)). is_digit_of 16 c"
    using digits_of_digits [of 16 "unat w"]
    by (auto simp: pad_left_def fmt_x_def digit_0)
  moreover have "digits_value 16 (pad_left n CHR ''0'' (fmt_x w)) = unat w"
    by (simp add: pad_left_def digits_value_zeros fmt_x_def digits_value_digits_of)
  moreover have "pad_left n CHR ''0'' (fmt_x w) \<noteq> []" by (simp add: pad_left_def fmt_x_def)
  moreover have "unat w \<le> 2 ^ 64 - 1" using unsigned_less [where ?'a = nat, of w] by simp
  ultimately show ?thesis
    using scan_hex_then [of "pad_left n CHR ''0'' (fmt_x w)" r] assms
    by (simp add: strtoull_def fmt_0x_def)
qed

lemma strtoull_0x16:
  "r \<noteq> [] \<Longrightarrow> \<not> is_digit_of 16 (hd r) \<Longrightarrow> strtoull 16 (fmt_0x16 w @ r) = Some (w, r)"
  using strtoull_0x [of r 16 w] by (simp add: fmt_0x_def fmt_0x16_def)

section \<open>Lines\<close>

text \<open>The line that begins a debugging entry, with its offset and at its depth; the line of an
  attribute; and the values of attributes: a quoted name, a reference to a type followed by
  its name, an address.\<close>

definition die_line :: "u32 \<Rightarrow> nat \<Rightarrow> string \<Rightarrow> string" where
  "die_line ref d tag = fmt_0x8 ref @ CHR '':'' # replicate d CHR '' '' @ tag @ nl"

definition attr_line :: "nat \<Rightarrow> string \<Rightarrow> string \<Rightarrow> string" where
  "attr_line d name value =
     replicate (d + 13) CHR '' '' @ name @ CHR 0x09 # CHR ''('' # value @ CHR '')'' # nl"

definition quoted :: "string \<Rightarrow> string" where
  "quoted t = quote # t @ [quote]"

definition type_value :: "u32 \<Rightarrow> string \<Rightarrow> string" where
  "type_value ref t = fmt_0x8 ref @ CHR '' '' # quoted t"

text \<open>What is searched for: a text without separators that does not occur in numbers. A plain
  text does not look like a tag, an attribute or the end of a list of children.\<close>

definition keyword :: "string \<Rightarrow> bool" where
  "keyword p \<longleftrightarrow> p \<noteq> [] \<and> set p \<inter> set ('' ():'' @ quote # CHR 0x09 # nl) = {}
     \<and> (\<exists>c \<in> set p. \<not> isdigit c \<and> \<not> islower c)"

definition plain :: "string \<Rightarrow> bool" where
  "plain t \<longleftrightarrow> strstr t ''DW_'' = None \<and> strstr t ''NULL'' = None \<and> set t \<inter> {quote, CHR 0x0A} = {}"

text \<open>A line without any of these words.\<close>

definition lacks :: "string list \<Rightarrow> string \<Rightarrow> bool" where
  "lacks ps l \<longleftrightarrow> (\<forall>p \<in> set ps. strstr l p = None)"

lemma keyword_hex: "keyword p \<Longrightarrow> strstr (fmt_0x16 w) p = None" "keyword p \<Longrightarrow> strstr (fmt_0x8 v) p = None"
  using hex_lower by (auto simp: keyword_def intro!: strstr_absent)

lemma strstr_spaces: "c \<noteq> CHR '' '' \<Longrightarrow> strstr (replicate n CHR '' '' @ t) (c # p) = strstr t (c # p)"
  by (rule strstr_skip) auto

lemma keyword_spaces: "keyword p \<Longrightarrow> strstr (replicate n CHR '' '' @ t) p = strstr t p"
  using strstr_spaces [of "hd p" n t "tl p"] by (cases p) (auto simp: keyword_def)

lemma keyword_at:
  assumes "keyword p" and "c \<in> set ('' ():'' @ quote # CHR 0x09 # nl)"
  shows "strstr (t @ c # r) p = None \<longleftrightarrow> strstr t p = None \<and> strstr r p = None"
    and "strstr (c # r) p = None \<longleftrightarrow> strstr r p = None"
proof -
  have c: "c \<notin> set p" "p \<noteq> []" using assms unfolding keyword_def by blast+
  then show "strstr (t @ c # r) p = None \<longleftrightarrow> strstr t p = None \<and> strstr r p = None"
    and "strstr (c # r) p = None \<longleftrightarrow> strstr r p = None"
    using strstr_cut [OF c] by (simp_all add: contains_at)
qed

lemma keyword_nil [simp]: "keyword p \<Longrightarrow> strstr [] p = None"
  by (simp add: keyword_def)

lemma keyword_die [simp]:
  "keyword p \<Longrightarrow> strstr (die_line ref d tag) p = None \<longleftrightarrow> strstr tag p = None"
  by (simp add: die_line_def keyword_at keyword_spaces keyword_hex del: strstr.simps)

lemma keyword_attr [simp]:
  "keyword p \<Longrightarrow> strstr (attr_line d name value) p = None \<longleftrightarrow> strstr name p = None \<and> strstr value p = None"
  by (simp add: attr_line_def keyword_at keyword_spaces del: strstr.simps replicate.simps)

lemma keyword_quoted: "keyword p \<Longrightarrow> strstr (quoted t) p = None \<longleftrightarrow> strstr t p = None"
  by (simp add: quoted_def keyword_at del: strstr.simps)

lemma keyword_type: "keyword p \<Longrightarrow> strstr (type_value ref t) p = None \<longleftrightarrow> strstr t p = None"
  by (simp add: type_value_def keyword_at keyword_hex keyword_quoted del: strstr.simps)

lemma dwarf_keywords [simp]:
  "keyword ''DW_TAG_''" "keyword ''NULL''" "keyword ''DW_TAG_subprogram''" "keyword ''DW_TAG_variable''"
  "keyword ''DW_TAG_formal_parameter''" "keyword ''DW_TAG_structure_type''" "keyword ''DW_TAG_member''"
  "keyword ''DW_AT_low_pc''" "keyword ''DW_AT_high_pc''" "keyword ''DW_AT_location''"
  "keyword ''DW_AT_name''" "keyword ''DW_AT_type''" "keyword ''DW_AT_byte_size''"
  "keyword ''DW_AT_data_member_location''" "keyword ''DW_OP_fbreg''" "keyword ''DW_OP_breg''"
  by (simp_all add: keyword_def quote_def isdigit_def islower_def ccode_def)

lemma plain_none:
  "plain t \<Longrightarrow> strstr t (CHR ''D'' # CHR ''W'' # CHR ''_'' # q) = None"
  "plain t \<Longrightarrow> strstr t ''NULL'' = None" "plain t \<Longrightarrow> quote \<notin> set t"
  using strstr_longer [of t "''DW_''" q] by (auto simp: plain_def)

subsection \<open>Values\<close>

lemma parse_quoted:
  assumes "quote \<notin> set a" and "quote \<notin> set t" and "length t < n"
  shows "parse_quoted_value (a @ quoted t @ r) n = Some t"
  using assms strchr_at [of quote a "t @ quote # r"] strchr_at [of quote t r]
  by (simp add: parse_quoted_value_def quoted_def)

lemma quote_other: "quote \<noteq> CHR 0x09" "quote \<noteq> CHR ''(''" "quote \<noteq> CHR '' ''"
  by (simp_all add: quote_def)

lemma quoted_attr:
  "quote \<notin> set name \<Longrightarrow> quote \<notin> set t \<Longrightarrow> length t < n \<Longrightarrow>
     parse_quoted_value (attr_line d name (quoted t)) n = Some t"
  using parse_quoted [of "replicate (d + 13) CHR '' '' @ name @ [CHR 0x09, CHR ''('']" t n "CHR '')'' # nl"]
  by (simp add: attr_line_def quote_other)

lemma hex_no_quote: "quote \<notin> set (fmt_0x8 v)"
  using hex_lower(2) [of quote v] by (auto simp: quote_def isdigit_def islower_def ccode_def)

lemma type_attr:
  "quote \<notin> set name \<Longrightarrow> quote \<notin> set t \<Longrightarrow> length t < n \<Longrightarrow>
     parse_quoted_value (attr_line d name (type_value ref t)) n = Some t"
  using parse_quoted [of "replicate (d + 13) CHR '' '' @ name @ [CHR 0x09, CHR ''(''] @ fmt_0x8 ref @ '' ''"
      t n "CHR '')'' # nl"] hex_no_quote [of ref]
  by (simp add: attr_line_def type_value_def quote_other)

lemma hex_attr:
  "CHR ''0'' \<notin> set name \<Longrightarrow> parse_hex_value (attr_line d name (fmt_0x16 w)) = Some w"
  using strstr_skip [of "CHR ''0''" "replicate (d + 13) CHR '' '' @ name @ [CHR 0x09, CHR ''('']"
      "fmt_0x16 w @ CHR '')'' # nl" "''x''"]
    strtoull_0x16 [of "CHR '')'' # nl" w]
  by (auto simp: attr_line_def parse_hex_value_def fmt_0x16_def text_eval)

lemma depth_die [simp]:
  assumes "tag \<noteq> []" and "hd tag \<noteq> CHR '' ''"
  shows "dwarf_line_depth (die_line ref d tag) = d"
proof -
  have "CHR '':'' \<notin> set (fmt_0x8 ref)"
    using hex_lower(2) [of "CHR '':''" ref] by (auto simp: isdigit_def islower_def ccode_def)
  moreover have "takeWhile (\<lambda>c. c = CHR '' '') (replicate d CHR '' '' @ tag @ nl) = replicate d CHR '' ''"
    using assms by (cases tag) (auto simp: takeWhile_append)
  ultimately show ?thesis
    using strchr_at [of "CHR '':''" "fmt_0x8 ref" "replicate d CHR '' '' @ tag @ nl"]
    by (simp add: dwarf_line_depth_def die_line_def)
qed

subsection \<open>The stream\<close>

definition one_line :: "string \<Rightarrow> bool" where
  "one_line l \<longleftrightarrow> length l < 1024 \<and> (\<exists>t. l = t @ nl \<and> CHR 0x0A \<notin> set t)"

lemma upto_newline_line: "CHR 0x0A \<notin> set t \<Longrightarrow> upto_newline (t @ CHR 0x0A # r) = t @ nl"
  by (induction t) auto

lemma fgets_lines: "\<forall>l \<in> set ls. one_line l \<Longrightarrow> fgets_all 1024 (concat ls) = ls"
proof (induction ls)
  case Nil
  then show ?case by (simp add: fgets_all.simps)
next
  case (Cons l ls)
  then obtain t where t: "l = t @ nl" "CHR 0x0A \<notin> set t" "length l < 1024"
    by (auto simp: one_line_def)
  then have "fgets 1024 (concat (l # ls)) = l" by (simp add: fgets_def upto_newline_line)
  with Cons t show ?case by (simp add: fgets_all.simps [of 1024 "t @ CHR 0x0A # concat ls"])
qed

lemma scan_lines_append:
  "scan_lines f st (xs @ ys) =
     (case scan_lines f st xs of Inl st' \<Rightarrow> scan_lines f st' ys | Inr b \<Rightarrow> Inr b)"
  by (induction xs arbitrary: st) (auto split: sum.split)

lemma length_digits_of: "n < b ^ k \<Longrightarrow> 0 < k \<Longrightarrow> 2 \<le> b \<Longrightarrow> length (digits_of b n) \<le> k"
proof (induction b n arbitrary: k rule: digits_of.induct)
  case (1 b n)
  show ?case
  proof (cases "n < b")
    case True
    with 1 show ?thesis by (subst digits_of.simps) simp
  next
    case False
    with 1(2,3) obtain k' where k: "k = Suc k'" "0 < k'" by (cases k; cases "k - 1") auto
    then have "n div b < b ^ k'" using 1(2,4) by (simp add: div_less_iff_less_mult mult.commute)
    with 1(1) [of k'] False 1(4) k show ?thesis by (subst digits_of.simps) simp
  qed
qed

lemma hex_length: "length (fmt_0x8 v) = 10" "length (fmt_0x16 w) = 18"
  using unsigned_less [where ?'a = nat, of v] unsigned_less [where ?'a = nat, of w]
    length_digits_of [of "unat v" 16 8] length_digits_of [of "unat w" 16 16]
  by (simp_all add: fmt_0x8_def fmt_0x16_def pad_left_def fmt_x_def)

lemma plus_length:
  assumes "- (2 ^ 63) \<le> i" and "i < 2 ^ 63"
  shows "length (fmt_plus i) \<le> 20"
proof -
  have "nat \<bar>i\<bar> < 10 ^ 19" using assms by auto
  then show ?thesis
    using length_digits_of [of "nat \<bar>i\<bar>" 10 19] by (auto simp: fmt_plus_def fmt_u_def)
qed

lemma no_newline:
  "CHR 0x0A \<notin> set (fmt_0x8 v)" "CHR 0x0A \<notin> set (fmt_0x16 w)" "CHR 0x0A \<notin> set (fmt_plus i)"
proof -
  have n: "\<not> (isdigit CHR 0x0A \<or> islower CHR 0x0A)" by (simp add: isdigit_def islower_def ccode_def)
  with hex_lower show "CHR 0x0A \<notin> set (fmt_0x8 v)" "CHR 0x0A \<notin> set (fmt_0x16 w)" by blast+
  show "CHR 0x0A \<notin> set (fmt_plus i)"
    using n digits_of_lower [of 10] by (auto simp: fmt_plus_def fmt_u_def)
qed

lemma one_line_die:
  assumes "CHR 0x0A \<notin> set tag" and "length tag \<le> 500" and "d \<le> 500"
  shows "one_line (die_line ref d tag)"
proof -
  let ?t = "fmt_0x8 ref @ CHR '':'' # replicate d CHR '' '' @ tag"
  have "die_line ref d tag = ?t @ nl" by (simp add: die_line_def)
  moreover have "CHR 0x0A \<notin> set ?t" using assms(1) no_newline by simp
  ultimately show ?thesis using assms(2,3) unfolding one_line_def by (auto simp: hex_length)
qed

lemma one_line_attr:
  assumes "CHR 0x0A \<notin> set name" "CHR 0x0A \<notin> set value" and "length name + length value + d \<le> 1000"
  shows "one_line (attr_line d name value)"
proof -
  let ?t = "replicate (d + 13) CHR '' '' @ name @ CHR 0x09 # CHR ''('' # value @ '')''"
  have "attr_line d name value = ?t @ nl" by (simp add: attr_line_def)
  moreover have "CHR 0x0A \<notin> set ?t" using assms(1,2) by simp
  ultimately show ?thesis using assms(3) unfolding one_line_def by auto
qed

lemma scan_same: "\<forall>l \<in> set ls. f st l = Inl st \<Longrightarrow> scan_lines f st ls = Inl st"
  by (induction ls) auto

lemma starts_lines [simp]:
  "dwarf_starts_die (die_line ref d tag) \<longleftrightarrow> strstr tag ''DW_TAG_'' \<noteq> None \<or> strstr tag ''NULL'' \<noteq> None"
  "dwarf_starts_die (attr_line d name value) \<longleftrightarrow>
     strstr name ''DW_TAG_'' \<noteq> None \<or> strstr value ''DW_TAG_'' \<noteq> None
     \<or> strstr name ''NULL'' \<noteq> None \<or> strstr value ''NULL'' \<noteq> None"
  by (auto simp: dwarf_starts_die_def)

lemma find_append: "find P (xs @ ys) = (case find P xs of None \<Rightarrow> find P ys | Some x \<Rightarrow> Some x)"
  by (induction xs) auto

text \<open>What \<^verbatim>\<open>dwarfdump\<close> prints for the program of this state.\<close>

definition dwarfdump_prints :: "'w kernel \<Rightarrow> 'w cdbg \<Rightarrow> string list \<Rightarrow> bool" where
  "dwarfdump_prints K s ls \<longleftrightarrow> debug_info_path s \<noteq> [] \<and> length (debug_info_path s) < CDBG_MAX_PATH
     \<and> (\<exists>status. k_popen K (''dwarfdump --debug-info '' @ [CHR 0x27] @ debug_info_path s @ [CHR 0x27] @ '' 2>/dev/null'')
         (world (dsys s)) = Some (concat ls, status))"

lemma debug_info_read:
  "dwarfdump_prints K s ls \<Longrightarrow> \<forall>l \<in> set ls. one_line l \<Longrightarrow> debug_info_lines K s = Some ls"
  by (auto simp: dwarfdump_prints_def debug_info_lines_def fgets_lines)

end
