(* ===== verification/DwarfStruct.thy ===== *)
theory DwarfStruct
  imports DwarfText Machine
begin

text \<open>
  The members of a struct in the output of \<^verbatim>\<open>dwarfdump\<close>: structs among other entries are
  printed line by line, and \<open>dwarf_lookup_struct\<close> reads back the first struct of a name.
\<close>

section \<open>Structs and their lines\<close>

record dmember =
  dm_ref :: u32
  dm_name :: string
  dm_type_ref :: u32
  dm_type :: string
  dm_offset :: u64
  dm_more :: "string list"

record dstruct =
  ds_ref :: u32
  ds_name :: string
  ds_size :: u64
  ds_more :: "string list"
  ds_members :: "dmember list"
  ds_null :: u32

datatype type_entry = Struct dstruct | Else "string list"

definition member_lines :: "dmember \<Rightarrow> string list" where
  "member_lines m =
     [die_line (dm_ref m) 5 ''DW_TAG_member'', attr_line 5 ''DW_AT_name'' (quoted (dm_name m)),
      attr_line 5 ''DW_AT_type'' (type_value (dm_type_ref m) (dm_type m))] @ dm_more m
     @ [attr_line 5 ''DW_AT_data_member_location'' (fmt_0x 2 (dm_offset m))]"

definition struct_head :: "dstruct \<Rightarrow> string list" where
  "struct_head d =
     [die_line (ds_ref d) 3 ''DW_TAG_structure_type'', attr_line 3 ''DW_AT_name'' (quoted (ds_name d)),
      attr_line 3 ''DW_AT_byte_size'' (fmt_0x 2 (ds_size d))] @ ds_more d"

definition struct_lines :: "dstruct \<Rightarrow> string list" where
  "struct_lines d =
     struct_head d @ concat (map member_lines (ds_members d)) @ [die_line (ds_null d) 5 ''NULL'']"

fun type_lines :: "type_entry \<Rightarrow> string list" where
  "type_lines (Struct d) = struct_lines d"
| "type_lines (Else ls) = ls"

definition good_member :: "dmember \<Rightarrow> bool" where
  "good_member m \<longleftrightarrow> plain (dm_name m) \<and> dm_name m \<noteq> [] \<and> length (dm_name m) < 64
     \<and> plain (dm_type m) \<and> length (dm_type m) < 64
     \<and> (\<forall>l \<in> set (dm_more m). one_line l \<and> lacks [''DW_TAG_'', ''NULL'', ''DW_AT_name'', ''DW_AT_byte_size'',
          ''DW_AT_type'', ''DW_AT_data_member_location''] l)"

definition good_struct :: "dstruct \<Rightarrow> bool" where
  "good_struct d \<longleftrightarrow> plain (ds_name d) \<and> length (ds_name d) < 128 \<and> ds_members d \<noteq> []
     \<and> (\<forall>m \<in> set (ds_members d). good_member m)
     \<and> (\<forall>l \<in> set (ds_more d). one_line l \<and> lacks [''DW_TAG_'', ''NULL'', ''DW_AT_name'', ''DW_AT_byte_size''] l)"

definition good_else :: "string list \<Rightarrow> bool" where
  "good_else ls \<longleftrightarrow> ls \<noteq> [] \<and> dwarf_starts_die (hd ls)
     \<and> (\<forall>l \<in> set ls. one_line l \<and> lacks [''DW_TAG_structure_type''] l)"

fun good_type :: "type_entry \<Rightarrow> bool" where
  "good_type (Struct d) = good_struct d"
| "good_type (Else ls) = good_else ls"

fun structs_of :: "type_entry list \<Rightarrow> dstruct list" where
  "structs_of [] = []"
| "structs_of (Struct d # es) = d # structs_of es"
| "structs_of (Else ls # es) = structs_of es"

definition raw_member :: "dmember \<Rightarrow> struct_member" where
  "raw_member m = zero_member\<lparr>sm_name := dm_name m, sm_type := dm_type m, sm_offset := dm_offset m\<rparr>"

definition read_member :: "dmember \<Rightarrow> struct_member" where
  "read_member m = (raw_member m)\<lparr>sm_size := type_scalar_size (dm_type m),
     sm_signed := \<not> contains (dm_type m) ''unsigned''\<rparr>"

section \<open>The scan\<close>

lemma hex2_lower: "c \<in> set (fmt_0x n w) \<Longrightarrow> isdigit c \<or> islower c"
  using digits_of_lower [of 16 "unat w"] by (auto simp: fmt_0x_def fmt_x_def pad_left_def)

lemma hex2_none [simp]: "keyword p \<Longrightarrow> strstr (fmt_0x n w) p = None"
  using hex2_lower by (auto simp: keyword_def intro!: strstr_absent)

lemma open_attr:
  "CHR ''('' \<notin> set name \<Longrightarrow> strchr (attr_line d name value) CHR ''('' = Some (CHR ''('' # value @ CHR '')'' # nl)"
  using strchr_at [of "CHR ''(''" "replicate (d + 13) CHR '' '' @ name @ [CHR 0x09]" "value @ CHR '')'' # nl"]
  by (simp add: attr_line_def)

lemma offset_attr:
  "parse_member_offset (attr_line d ''DW_AT_data_member_location'' (fmt_0x n w)) = Some w"
proof -
  have "strstr (attr_line d ''DW_AT_data_member_location'' (fmt_0x n w)) ''DW_AT_data_member_location'' =
      Some (''DW_AT_data_member_location'' @ [CHR 0x09] @ CHR ''('' # fmt_0x n w @ CHR '')'' # nl)"
    by (simp add: attr_line_def strstr_spaces del: replicate.simps)
  moreover have "strtoull 16 (fmt_0x n w @ CHR '')'' # nl) = Some (w, CHR '')'' # nl)"
    by (simp add: strtoull_0x text_eval)
  ultimately show ?thesis by (simp add: parse_member_offset_def)
qed

lemma struct_begins:
  "\<not> ss_reading st \<Longrightarrow> struct_line n name st (die_line ref d ''DW_TAG_structure_type'') =
     Inl (st\<lparr>ss_in := True, ss_matches := False, ss_byte_size := 0\<rparr>)"
  by (simp add: struct_line_def Let_def)

lemma struct_name:
  "\<not> ss_reading st \<Longrightarrow> ss_in st \<Longrightarrow> plain t \<Longrightarrow> length t < 128 \<Longrightarrow>
     struct_line n name st (attr_line d ''DW_AT_name'' (quoted t)) =
       Inl (if t = name then st\<lparr>ss_matches := True\<rparr> else st)"
  using quoted_attr [of "''DW_AT_name''" t 128 d, OF _ plain_none(3) [of t]]
  by (simp add: struct_line_def struct_attribute_def keyword_quoted plain_none quote_def Let_def)

lemma struct_size:
  "\<not> ss_reading st \<Longrightarrow> ss_in st \<Longrightarrow> struct_line n name st (attr_line d ''DW_AT_byte_size'' (fmt_0x k w)) =
     Inl (if ss_matches st then st\<lparr>ss_byte_size := w\<rparr> else st)"
  by (simp add: struct_line_def struct_attribute_def open_attr strtoull_0x text_eval Let_def)

lemma member_begins:
  "ss_in st \<Longrightarrow> ss_matches st \<Longrightarrow> struct_line n name st (die_line ref d ''DW_TAG_member'') =
     Inl ((if ss_reading st then push_member n st else st)\<lparr>ss_member := zero_member, ss_reading := True\<rparr>)"
  by (simp add: struct_line_def push_member_def Let_def)

lemma member_attributes:
  assumes "ss_in st" "ss_matches st" "ss_reading st" "plain t" "length t < 64"
  shows "struct_line n name st (attr_line d ''DW_AT_name'' (quoted t)) =
      Inl (st\<lparr>ss_member := ss_member st\<lparr>sm_name := t\<rparr>\<rparr>)"
    and "struct_line n name st (attr_line d ''DW_AT_type'' (type_value ref t)) =
      Inl (st\<lparr>ss_member := ss_member st\<lparr>sm_type := t\<rparr>\<rparr>)"
  using assms quoted_attr [of "''DW_AT_name''" t 64 d, OF _ plain_none(3) [OF assms(4)]]
    type_attr [of "''DW_AT_type''" t 64 d ref, OF _ plain_none(3) [OF assms(4)]]
  by (simp_all add: struct_line_def struct_attribute_def keyword_quoted keyword_type plain_none quote_def Let_def)

lemma member_offset:
  assumes "ss_in st" "ss_matches st" "ss_reading st"
  shows "struct_line n name st (attr_line d ''DW_AT_data_member_location'' (fmt_0x k w)) =
      Inl (st\<lparr>ss_member := ss_member st\<lparr>sm_offset := w\<rparr>\<rparr>)"
  using assms by (simp add: struct_line_def struct_attribute_def offset_attr Let_def)

lemma struct_ends:
  "ss_in st \<Longrightarrow> ss_matches st \<Longrightarrow> struct_line n name st (die_line ref d ''NULL'') =
     Inr (if ss_reading st then (push_member n st)\<lparr>ss_member := zero_member, ss_reading := False\<rparr> else st)"
  by (simp add: struct_line_def push_member_def Let_def)

text \<open>The members of the struct that is looked for, with one of them still being read.\<close>

lemma member_more:
  assumes "good_member m" and "ss_in st" "ss_matches st" "ss_reading st"
  shows "scan_lines (struct_line n name) st (dm_more m) = Inl st"
  using assms
  by (intro scan_same) (auto simp: good_member_def lacks_def struct_line_def struct_attribute_def dwarf_starts_die_def Let_def)

lemma member_scan:
  assumes "good_member m" and "ss_in st" and "ss_matches st"
  shows "scan_lines (struct_line n name) st (member_lines m) =
    Inl ((if ss_reading st then push_member n st else st)\<lparr>ss_member := raw_member m, ss_reading := True\<rparr>)"
proof -
  have p: "ss_in (push_member n st) = ss_in st" "ss_matches (push_member n st) = ss_matches st"
    by (simp_all add: push_member_def Let_def)
  show ?thesis
    using assms
    by (simp add: member_lines_def scan_lines_append member_begins member_attributes member_more [OF assms(1)]
        member_offset good_member_def raw_member_def p)
qed

lemma push_raw:
  "good_member m \<Longrightarrow> ss_member st = raw_member m \<Longrightarrow> length (ss_members st) \<le> n \<Longrightarrow>
     ss_members (push_member n st) = take n (ss_members st @ [read_member m])
     \<and> ss_byte_size (push_member n st) = ss_byte_size st
     \<and> ss_in (push_member n st) = ss_in st \<and> ss_matches (push_member n st) = ss_matches st"
  by (auto simp: push_member_def raw_member_def read_member_def good_member_def Let_def)

lemma take_cut: "take n (take n xs @ ys) = take n (xs @ ys)"
  by (cases "n \<le> length xs") simp_all

lemma members_scan:
  assumes "\<forall>m \<in> set ms. good_member m" and "good_member p"
    and "ss_in st" and "ss_matches st" and "ss_reading st" and "ss_member st = raw_member p"
    and "length (ss_members st) \<le> n"
  shows "\<exists>st'. scan_lines (struct_line n name) st (concat (map member_lines ms) @ [die_line ref 5 ''NULL'']) = Inr st'
    \<and> ss_members st' = take n (ss_members st @ map read_member (p # ms))
    \<and> ss_byte_size st' = ss_byte_size st \<and> \<not> ss_reading st'"
  using assms
proof (induction ms arbitrary: st p)
  case Nil
  then show ?case using push_raw [of p st n] by (simp add: struct_ends)
next
  case (Cons m ms)
  let ?st = "(push_member n st)\<lparr>ss_member := raw_member m, ss_reading := True\<rparr>"
  note p = push_raw [OF Cons.prems(2,6,7)]
  have "scan_lines (struct_line n name) st (member_lines m) = Inl ?st"
    using member_scan [of m st n name] Cons.prems by simp
  moreover have "take n (ss_members ?st @ map read_member (m # ms)) =
      take n (ss_members st @ map read_member (p # m # ms))"
    using p take_cut [of n "ss_members st @ [read_member p]" "map read_member (m # ms)"]
    by (simp del: take_append)
  moreover have "length (ss_members ?st) \<le> n" using p by simp
  ultimately show ?case
    using Cons.IH [of m ?st] Cons.prems p by (simp add: scan_lines_append del: take_append)
qed

text \<open>The struct itself; a struct of another name, or any other entry.\<close>

definition closed :: "struct_scan \<Rightarrow> bool" where
  "closed st \<longleftrightarrow> \<not> ss_reading st \<and> \<not> ss_matches st \<and> ss_members st = []"

lemma struct_header:
  assumes "good_struct d" and "closed st"
  shows "scan_lines (struct_line n name) st (struct_head d) =
    Inl (st\<lparr>ss_in := True, ss_matches := (ds_name d = name),
      ss_byte_size := (if ds_name d = name then ds_size d else 0)\<rparr>)"
proof -
  have "scan_lines (struct_line n name) st' (ds_more d) = Inl st'" if "\<not> ss_reading st'" "ss_in st'" for st'
    using assms(1) that
    by (intro scan_same) (auto simp: good_struct_def lacks_def struct_line_def struct_attribute_def dwarf_starts_die_def Let_def)
  then show ?thesis
    using assms by (simp add: struct_head_def scan_lines_append struct_begins struct_name struct_size good_struct_def closed_def)
qed

lemma struct_found:
  assumes "good_struct d" and "closed st" and "ds_name d = name"
  shows "\<exists>st'. scan_lines (struct_line n name) st (struct_lines d) = Inr st' \<and> \<not> ss_reading st'
    \<and> ss_members st' = take n (map read_member (ds_members d)) \<and> ss_byte_size st' = ds_size d"
proof -
  let ?st = "st\<lparr>ss_in := True, ss_matches := True, ss_byte_size := ds_size d\<rparr>"
  obtain m ms where m: "ds_members d = m # ms" using assms(1) by (cases "ds_members d") (auto simp: good_struct_def)
  let ?st1 = "?st\<lparr>ss_member := raw_member m, ss_reading := True\<rparr>"
  have g: "good_member m" "\<forall>m \<in> set ms. good_member m" using assms(1) m by (simp_all add: good_struct_def)
  have "scan_lines (struct_line n name) ?st (member_lines m) = Inl ?st1"
    using member_scan [OF g(1), of ?st n name] assms(2) by (simp add: closed_def)
  moreover obtain st' where "scan_lines (struct_line n name) ?st1 (concat (map member_lines ms) @ [die_line (ds_null d) 5 ''NULL'']) = Inr st'"
    "ss_members st' = take n (map read_member (m # ms))" "ss_byte_size st' = ds_size d" "\<not> ss_reading st'"
    using members_scan [OF g(2,1), of ?st1 n name "ds_null d"] assms(2) by (auto simp: closed_def)
  ultimately show ?thesis
    using struct_header [OF assms(1,2), of n name] assms(3)
    by (simp add: struct_lines_def m scan_lines_append)
qed

lemma else_scan:
  assumes "ls \<noteq> []" and "dwarf_starts_die (hd ls)" and "\<forall>l \<in> set ls. strstr l ''DW_TAG_structure_type'' = None"
    and "closed st"
  shows "\<exists>st'. closed st' \<and> scan_lines (struct_line n name) st ls = Inl st'"
proof -
  obtain l ms where ls: "ls = l # ms" using assms(1) by (cases ls) auto
  have 1: "struct_line n name st l = Inl (if ss_in st then st\<lparr>ss_in := False\<rparr> else st)"
    using assms by (auto simp: ls closed_def struct_line_def struct_attribute_def Let_def)
  have "scan_lines (struct_line n name) st' ms = Inl st'" if "closed st'" "\<not> ss_in st'" for st'
    using assms(3) that
    by (intro scan_same) (auto simp: ls closed_def struct_line_def struct_attribute_def Let_def)
  with 1 assms(4) show ?thesis by (simp add: ls closed_def)
qed

lemma member_none: "good_member m \<Longrightarrow> l \<in> set (member_lines m) \<Longrightarrow> strstr l ''DW_TAG_structure_type'' = None"
  using strstr_longer [of l "''DW_TAG_''" "''structure_type''"]
  by (auto simp: member_lines_def good_member_def lacks_def keyword_quoted keyword_type plain_none)

lemma struct_passed:
  assumes "good_struct d" and "closed st" and "ds_name d \<noteq> name"
  shows "\<exists>st'. closed st' \<and> scan_lines (struct_line n name) st (struct_lines d) = Inl st'"
proof -
  let ?ls = "concat (map member_lines (ds_members d)) @ [die_line (ds_null d) 5 ''NULL'']"
  have "dwarf_starts_die (hd ?ls)"
    using assms(1) by (cases "ds_members d") (simp_all add: good_struct_def member_lines_def)
  moreover have "\<forall>l \<in> set ?ls. strstr l ''DW_TAG_structure_type'' = None"
    using assms(1) member_none by (auto simp: good_struct_def)
  moreover have "closed (st\<lparr>ss_in := True, ss_matches := False, ss_byte_size := 0\<rparr>)"
    using assms(2) by (simp add: closed_def)
  ultimately obtain st' where "closed st'"
    "scan_lines (struct_line n name) (st\<lparr>ss_in := True, ss_matches := False, ss_byte_size := 0\<rparr>) ?ls = Inl st'"
    using else_scan [of ?ls] by blast
  then show ?thesis
    using struct_header [OF assms(1,2), of n name] assms(3)
    by (simp add: struct_lines_def scan_lines_append)
qed

lemma types_scan:
  assumes "\<forall>e \<in> set es. good_type e" and "closed st"
  shows "\<exists>st'. \<not> ss_reading st' \<and>
    (case find (\<lambda>d. ds_name d = name) (structs_of es) of
       None \<Rightarrow> closed st' \<and> scan_lines (struct_line n name) st (concat (map type_lines es)) = Inl st'
     | Some d \<Rightarrow> scan_lines (struct_line n name) st (concat (map type_lines es)) = Inr st'
         \<and> ss_members st' = take n (map read_member (ds_members d)) \<and> ss_byte_size st' = ds_size d)"
  using assms
proof (induction es arbitrary: st)
  case Nil
  then show ?case by (auto simp: closed_def)
next
  case (Cons e es)
  have "\<exists>st'. closed st' \<and> scan_lines (struct_line n name) st (type_lines e) = Inl st'"
    if "\<forall>d. e = Struct d \<longrightarrow> ds_name d \<noteq> name"
    using Cons.prems that struct_passed [of _ st name n] else_scan [of "type_lines e" st n name]
    by (cases e) (auto simp: good_else_def lacks_def)
  moreover have "find (\<lambda>d. ds_name d = name) (structs_of (e # es)) = find (\<lambda>d. ds_name d = name) (structs_of es)"
    if "\<forall>d. e = Struct d \<longrightarrow> ds_name d \<noteq> name"
    using that by (cases e) auto
  ultimately consider d where "e = Struct d" "ds_name d = name"
    | st1 where "closed st1" "scan_lines (struct_line n name) st (type_lines e) = Inl st1"
        "find (\<lambda>d. ds_name d = name) (structs_of (e # es)) = find (\<lambda>d. ds_name d = name) (structs_of es)"
    by blast
  then show ?case
  proof cases
    case 1
    then show ?thesis using struct_found [of d st name n] Cons.prems by (auto simp: scan_lines_append)
  next
    case 2
    with Cons.IH [OF _ 2(1)] Cons.prems show ?thesis
      by (cases "find (\<lambda>d. ds_name d = name) (structs_of es)") (auto simp: scan_lines_append)
  qed
qed

section \<open>Looking a struct up\<close>

lemma hex2_length: "length (fmt_0x 2 w) \<le> 18" "CHR 0x0A \<notin> set (fmt_0x 2 w)"
proof -
  show "length (fmt_0x 2 w) \<le> 18"
    using unsigned_less [where ?'a = nat, of w] length_digits_of [of "unat w" 16 16]
    by (simp add: fmt_0x_def pad_left_def fmt_x_def)
  show "CHR 0x0A \<notin> set (fmt_0x 2 w)"
    using hex2_lower [of "CHR 0x0A" 2 w] by (auto simp: isdigit_def islower_def ccode_def)
qed

lemma member_one_line: "good_member m \<Longrightarrow> l \<in> set (member_lines m) \<Longrightarrow> one_line l"
  using hex2_length [of "dm_offset m"]
  by (auto simp: member_lines_def good_member_def plain_def quoted_def type_value_def hex_length no_newline quote_def
      intro!: one_line_die one_line_attr)

lemma type_one_line: "good_type e \<Longrightarrow> l \<in> set (type_lines e) \<Longrightarrow> one_line l"
  by (cases e) (auto simp: good_else_def struct_lines_def struct_head_def good_struct_def plain_def quoted_def
      quote_def hex2_length intro!: one_line_die one_line_attr order_trans [OF hex2_length(1)] dest: member_one_line)

text \<open>C18. A struct is found in the output of \<^verbatim>\<open>dwarfdump\<close> as the data says that was printed: the
  first struct of that name, with the offsets, names and types of its members in their
  order, as many as the caller has room for, and its size; a name that no struct has is not
  found. Structs of other names and any other entries may stand before it.\<close>

theorem struct_found_as_printed:
  assumes "dwarfdump_prints K s (before @ concat (map type_lines es))"
    and "\<forall>l \<in> set before. one_line l \<and> lacks [''DW_TAG_structure_type''] l"
    and "\<forall>e \<in> set es. good_type e" and "name \<noteq> []" and "0 < n"
  shows "dwarf_lookup_struct K s name n =
    map_option (\<lambda>d. (take n (map read_member (ds_members d)), ds_size d))
      (find (\<lambda>d. ds_name d = name) (structs_of es))"
proof -
  have l: "\<forall>l \<in> set (before @ concat (map type_lines es)). one_line l"
    using assms(2,3) type_one_line by auto
  have "scan_lines (struct_line n name) struct_scan0 before = Inl struct_scan0"
    using assms(2) by (intro scan_same)
      (auto simp: lacks_def struct_scan0_def struct_line_def struct_attribute_def Let_def)
  moreover have "closed struct_scan0" by (simp add: closed_def struct_scan0_def)
  moreover have "ds_members d \<noteq> []" if "find (\<lambda>d. ds_name d = name) (structs_of es) = Some d" for d
    using that assms(3) by (induction es rule: structs_of.induct) (auto simp: good_struct_def split: if_splits)
  ultimately show ?thesis
    using types_scan [OF assms(3), where st = struct_scan0 and name = name and n = n] assms(1,4,5)
    by (auto simp: dwarf_lookup_struct_def dwarfdump_prints_def debug_info_read [OF assms(1) l] scan_lines_append closed_def
        split: option.splits)
qed

text \<open>A struct of two members behind another struct; the caller has room for 32.\<close>

definition point1 :: dstruct where
  "point1 = \<lparr>ds_ref = 0x80, ds_name = ''point'', ds_size = 8, ds_more = [],
     ds_members = [\<lparr>dm_ref = 0x90, dm_name = ''x'', dm_type_ref = 0x2a, dm_type = ''int'', dm_offset = 0, dm_more = []\<rparr>,
       \<lparr>dm_ref = 0xa0, dm_name = ''y'', dm_type_ref = 0x2a, dm_type = ''unsigned int'', dm_offset = 4,
         dm_more = [attr_line 5 ''DW_AT_decl_line'' ''3'']\<rparr>],
     ds_null = 0xb0\<rparr>"

definition types1 :: "type_entry list" where
  "types1 = [Else [die_line 0x2a 3 ''DW_TAG_base_type'', attr_line 3 ''DW_AT_name'' (quoted ''int'')],
     Struct (point1\<lparr>ds_name := ''pair''\<rparr>), Struct point1]"

abbreviation refreshed2 :: "machine cdbg" where
  "refreshed2 \<equiv> refreshed_printing (concat (concat (map type_lines types1)))"

theorem struct_found_as_printed_witness:
  "dwarf_lookup_struct machine_kernel refreshed2 ''point'' 32 = Some (map read_member (ds_members point1), 8)"
proof -
  have p: "dwarfdump_prints machine_kernel refreshed2 ([] @ concat (map type_lines types1))"
    by (simp add: dwarfdump_prints_def machine_kernel_def refreshed_printing_def stopped_printing_def
        machine_printing_def CDBG_MAX_PATH_def)
  have e: "\<forall>e \<in> set types1. good_type e"
    by (simp add: types1_def point1_def good_else_def good_struct_def good_member_def lacks_def plain_def
        quote_def keyword_quoted quoted_def [of "''int''"] one_line_die one_line_attr)
  show ?thesis
    using struct_found_as_printed [OF p _ e, of "''point''" 32]
    by (simp add: types1_def point1_def)
qed

end
