(* ===== verification/DwarfLocals.thy ===== *)
theory DwarfLocals
  imports DwarfText Machine
begin

text \<open>
  Local variables in the output of \<^verbatim>\<open>dwarfdump\<close>. A compilation unit is given as data, its
  functions with their variables among other entries, and printed line by line; the scan of
  \<open>find_local_var\<close> over these lines is a search of the data.
\<close>

section \<open>A compilation unit and its lines\<close>

datatype place = At_fb int | At_sp int

record dvar =
  dv_ref :: u32
  dv_param :: bool
  dv_name :: string
  dv_type_ref :: u32
  dv_type :: string
  dv_place :: place
  dv_more :: "string list"

record dfun =
  df_ref :: u32
  df_low :: addr
  df_high :: addr
  df_more :: "string list"
  df_vars :: "dvar list"
  df_null :: u32

text \<open>Between the functions stand the lines of other entries: types with their members, global
  variables.\<close>

datatype unit_entry = Fun dfun | Other "string list"

fun place_text :: "place \<Rightarrow> string" where
  "place_text (At_fb n) = ''DW_OP_fbreg '' @ fmt_plus n"
| "place_text (At_sp n) = ''DW_OP_breg31 WSP'' @ fmt_plus n"

definition var_lines :: "dvar \<Rightarrow> string list" where
  "var_lines v =
     [die_line (dv_ref v) 5 (if dv_param v then ''DW_TAG_formal_parameter'' else ''DW_TAG_variable''),
      attr_line 5 ''DW_AT_location'' (place_text (dv_place v)),
      attr_line 5 ''DW_AT_name'' (quoted (dv_name v))] @ dv_more v
     @ [attr_line 5 ''DW_AT_type'' (type_value (dv_type_ref v) (dv_type v))]"

definition fun_lines :: "dfun \<Rightarrow> string list" where
  "fun_lines f =
     [die_line (df_ref f) 3 ''DW_TAG_subprogram'', attr_line 3 ''DW_AT_low_pc'' (fmt_0x16 (df_low f)),
      attr_line 3 ''DW_AT_high_pc'' (fmt_0x16 (df_high f))] @ df_more f
     @ (if df_vars f = [] then []
        else concat (map var_lines (df_vars f)) @ [die_line (df_null f) 5 ''NULL''])"

fun entry_lines :: "unit_entry \<Rightarrow> string list" where
  "entry_lines (Fun f) = fun_lines f"
| "entry_lines (Other ls) = ls"







fun place_of :: "place \<Rightarrow> int \<times> var_base" where
  "place_of (At_fb n) = (n, Base_FB)"
| "place_of (At_sp n) = (n, Base_SP)"

definition read_var :: "dvar \<Rightarrow> var_info" where
  "read_var v = zero_var\<lparr>vi_name := dv_name v, vi_type := dv_type v, vi_fbreg_offset := fst (place_of (dv_place v)),
     vi_base := snd (place_of (dv_place v)), vi_has_location := True\<rparr>"

section \<open>The scan\<close>

lemma place_none [simp]:
  "strstr (place_text pl) (CHR ''D'' # CHR ''W'' # CHR ''_'' # CHR ''A'' # q) = None"
  "strstr (place_text pl) (CHR ''D'' # CHR ''W'' # CHR ''_'' # CHR ''T'' # q) = None"
  "strstr (place_text pl) ''NULL'' = None" "strstr (place_text (At_sp m)) ''DW_OP_fbreg'' = None"
proof -
  have d: "c \<in> set (fmt_plus n) \<Longrightarrow> isdigit c \<or> islower c \<or> c = CHR ''+'' \<or> c = CHR ''-''" for c n
    using digits_of_lower [of 10] by (auto simp: fmt_plus_def fmt_u_def split: if_splits)
  have "CHR ''D'' \<notin> set (fmt_plus n)" "CHR ''N'' \<notin> set (fmt_plus n)" for n
    using d [of "CHR ''D''" n] d [of "CHR ''N''" n] by (auto simp: isdigit_def islower_def ccode_def)
  then have n: "strstr (fmt_plus n) (CHR ''D'' # q) = None" "strstr (fmt_plus n) (CHR ''N'' # q) = None" for n q
    by (simp_all add: strstr_absent [of "CHR ''D''"] strstr_absent [of "CHR ''N''"])
  show "strstr (place_text pl) (CHR ''D'' # CHR ''W'' # CHR ''_'' # CHR ''A'' # q) = None"
    "strstr (place_text pl) (CHR ''D'' # CHR ''W'' # CHR ''_'' # CHR ''T'' # q) = None"
    "strstr (place_text pl) ''NULL'' = None"
    by (cases pl; simp add: n place_text.simps)+
  show "strstr (place_text (At_sp m)) ''DW_OP_fbreg'' = None" by (simp add: n place_text.simps)
qed

declare place_text.simps [simp del]

lemma breg_at [simp]:
  "strstr (attr_line d ''DW_AT_location'' (place_text (At_sp n))) ''DW_OP_fbreg'' = None"
  "strstr (attr_line d ''DW_AT_location'' (place_text (At_sp n))) ''DW_OP_breg'' =
     Some (''DW_OP_breg31 WSP'' @ fmt_plus n @ CHR '')'' # nl)"
  "strtoll 10 (CHR ''3'' # CHR ''1'' # CHR '' '' # r) = Some (31, CHR '' '' # r)"
  by simp
    (simp_all add: place_text.simps attr_line_def strstr_spaces strtoll_def text_eval del: replicate.simps)

lemma fbreg_at [simp]:
  "strstr (attr_line d ''DW_AT_location'' (place_text (At_fb n))) ''DW_OP_fbreg'' =
     Some (''DW_OP_fbreg '' @ fmt_plus n @ CHR '')'' # nl)"
  by (simp add: place_text.simps attr_line_def strstr_spaces del: replicate.simps)


text \<open>How the scan reads each kind of line.\<close>

lemma fbreg_base_place [simp]:
  "fbreg_base (attr_line d ''DW_AT_location'' (place_text pl)) b = snd (place_of pl)"
  by (cases pl) (simp_all add: fbreg_base_def)






text \<open>Over the variables of a function at the pc, with one of them still being read; and over
  those of any other function.\<close>

lemma ready_read [simp]: "name \<noteq> [] \<Longrightarrow> var_ready (read_var v) name \<longleftrightarrow> dv_name v = name"
  by (auto simp: var_ready_def read_var_def)















text \<open>What is left out of \<open>good_entry\<close>. The range of a block inside a function replaces that of
  the function, so the variables behind a block that does not hold the pc are not found; a
  name with \<^verbatim>\<open>NULL\<close> in it begins an entry; and the name of the register in a location relative
  to the frame pointer is read as the offset.\<close>

lemma block_narrows_scope:
  assumes "lc_in st" and "lc_depth st = 3" and "\<not> lc_reading st"
  shows "scan_lines (local_line K s pc name) st [die_line ref 5 ''DW_TAG_lexical_block'',
      attr_line 5 ''DW_AT_low_pc'' (fmt_0x16 low), attr_line 5 ''DW_AT_high_pc'' (fmt_0x16 high)] =
    Inl (st\<lparr>lc_low := low, lc_high := high, lc_matches := pc_in_range pc low high\<rparr>)"
  using assms by (simp add: local_line_def local_die_def local_attribute_def hex_attr keyword_hex Let_def)

lemma null_begins_entry: "dwarf_starts_die (attr_line d ''DW_AT_name'' (quoted ''isNULL''))"
  by (simp add: quoted_def)

lemma register_read_as_offset:
  "parse_fbreg_offset (attr_line d ''DW_AT_location'' ''DW_OP_breg29 W29-20'') = Some (29, Base_X29)"
proof -
  have "strstr (attr_line d ''DW_AT_location'' ''DW_OP_breg29 W29-20'') ''DW_OP_breg'' =
      Some (''DW_OP_breg29 W29-20)'' @ nl)"
    by (simp add: attr_line_def strstr_spaces del: replicate.simps)
  moreover have "strstr (attr_line d ''DW_AT_location'' ''DW_OP_breg29 W29-20'') ''DW_OP_fbreg'' = None"
    by simp
  ultimately show ?thesis
    unfolding parse_fbreg_offset_def by (simp (no_asm_simp) add: strtoll_def strpbrk_def text_eval)
qed

section \<open>Finding a variable\<close>

text \<open>The whole output: what stands before the first function, and the entries.\<close>

definition unit_lines :: "string list \<Rightarrow> unit_entry list \<Rightarrow> string list" where
  "unit_lines before es = before @ concat (map entry_lines es)"









lemma complete_keeps [simp]:
  "vi_base (complete_var_type K s v) = vi_base v" "vi_fbreg_offset (complete_var_type K s v) = vi_fbreg_offset v"
  "vi_type (complete_var_type K s v) = vi_type v"
  by (simp_all add: complete_var_type_def Let_def split: option.split)



text \<open>A unit with a type and two functions that both have a variable \<^verbatim>\<open>n\<close>; the pc is in the second.\<close>

definition n1 :: dvar where
  "n1 = \<lparr>dv_ref = 0x60, dv_param = True, dv_name = ''n'', dv_type_ref = 0x2a, dv_type = ''char *'',
     dv_place = At_fb (- 4), dv_more = []\<rparr>"

definition n2 :: dvar where
  "n2 = n1\<lparr>dv_ref := 0x90, dv_param := False, dv_type := ''int'', dv_place := At_sp 8,
     dv_more := [attr_line 5 ''DW_AT_decl_line'' ''7'']\<rparr>"

definition unit1 :: "unit_entry list" where
  "unit1 = [Other [die_line 0x2a 3 ''DW_TAG_base_type'', attr_line 3 ''DW_AT_name'' (quoted ''int'')],
     Fun \<lparr>df_ref = 0x40, df_low = 0x100003000, df_high = 0x100004000, df_more = [], df_vars = [n1], df_null = 0x70\<rparr>,
     Fun \<lparr>df_ref = 0x80, df_low = 0x100004000, df_high = 0x100004028,
       df_more = [attr_line 3 ''DW_AT_name'' (quoted ''main'')],
       df_vars = [n1\<lparr>dv_name := ''argc''\<rparr>, n2], df_null = 0xa0\<rparr>]"

definition before1 :: "string list" where "before1 = [''a.out:'' @ nl, die_line 0x0b 1 ''DW_TAG_compile_unit'']"

abbreviation stopped1 :: "machine cdbg" where
  "stopped1 \<equiv> stopped_printing (concat (unit_lines before1 unit1))"





end
