(* ===== verification/Variables.thy ===== *)
theory Variables
  imports DwarfLocals Objects
begin

text \<open>
  The commands on a local variable, from its entry in the output of \<^verbatim>\<open>dwarfdump\<close> to the
  hardware: \<^verbatim>\<open>watch\<close> makes every thread trap exactly the accesses to its bytes, \<^verbatim>\<open>print\<close>
  shows the number that its bytes in the frame denote.
\<close>

section \<open>A name as an expression\<close>




section \<open>A scalar variable\<close>




section \<open>watch\<close>




section \<open>print\<close>







section \<open>On the machine\<close>









end
