(* ===== verification/Stepping.thy ===== *)
theory Stepping
  imports Machine
begin

text \<open>
  What \<^verbatim>\<open>step\<close> and \<^verbatim>\<open>next\<close> promise, apart from their loops: the debuggee is moved on as
  long as it stays on the line it started from (or in code without lines), and the first
  arrival that is something else is where the command ends. The relations below say what one
  move is and what an end is; the locale proves that a counted loop of the code's shape finds
  exactly that end, and it is interpreted on the loops of both commands.
\<close>

section \<open>Moves and ends\<close>

text \<open>The text shown where a new line is reached.\<close>

definition shown_at :: "'w kernel \<Rightarrow> addr \<Rightarrow> 'w cdbg \<Rightarrow> 'w cdbg" where
  "shown_at K pc s = print_stop_location K pc
     (out (''Stopped (pc='' @ hex_addr pc @ '')'' @ nl) (print_stop_header K s))"

text \<open>One move arrives at a stop whose registers have been read.\<close>

inductive arrives :: "'w kernel \<Rightarrow> (bool + unit, 'w) op \<Rightarrow> 'w cdbg \<Rightarrow> 'w cdbg \<Rightarrow> bool"
  for K adv where
  arrival: "adv s = Some (Inr (), u) \<Longrightarrow> cdbg_refresh_regs K u = (True, t) \<Longrightarrow> arrives K adv s t"

text \<open>A move that ends nothing: no breakpoint, no watchpoint, the line of the start or none.\<close>

inductive same_line :: "'w kernel \<Rightarrow> (bool + unit, 'w) op \<Rightarrow> string \<times> u32 \<Rightarrow> 'w cdbg \<Rightarrow> 'w cdbg \<Rightarrow> bool"
  for K adv start where
  stays: "arrives K adv s t \<Longrightarrow> \<not> cdbg_bp_is_trap (cdbg_regs_pc (regs t)) (breakpoints t)
    \<Longrightarrow> try_report_watchpoint_hit K t = Some (False, u)
    \<Longrightarrow> line_at u (cdbg_regs_pc (regs t)) \<in> {None, Some start} \<Longrightarrow> same_line K adv start s u"

inductive walks :: "'w kernel \<Rightarrow> (bool + unit, 'w) op \<Rightarrow> string \<times> u32 \<Rightarrow> nat \<Rightarrow> 'w cdbg \<Rightarrow> 'w cdbg \<Rightarrow> bool"
  for K adv start where
  here: "walks K adv start 0 s s"
| on: "same_line K adv start s t \<Longrightarrow> walks K adv start k t u \<Longrightarrow> walks K adv start (Suc k) s u"

text \<open>The ends: the debuggee is not stopped any more, or it has arrived at a breakpoint, at a
  watchpoint, or at another line.\<close>

inductive line_ends :: "'w kernel \<Rightarrow> (bool + unit, 'w) op \<Rightarrow> string \<times> u32 \<Rightarrow> 'w cdbg \<Rightarrow> 'w cdbg \<Rightarrow> bool"
  for K adv start where
  gone: "adv s = Some (Inl True, s') \<Longrightarrow> state s' \<noteq> State_STOPPED \<Longrightarrow> line_ends K adv start s s'"
| breakpoint: "arrives K adv s t \<Longrightarrow> cdbg_bp_is_trap (cdbg_regs_pc (regs t)) (breakpoints t)
    \<Longrightarrow> report_stop K t = Some (True, s') \<Longrightarrow> line_ends K adv start s s'"
| watchpoint: "arrives K adv s t \<Longrightarrow> \<not> cdbg_bp_is_trap (cdbg_regs_pc (regs t)) (breakpoints t)
    \<Longrightarrow> try_report_watchpoint_hit K t = Some (True, s') \<Longrightarrow> line_ends K adv start s s'"
| new_line: "arrives K adv s t \<Longrightarrow> \<not> cdbg_bp_is_trap (cdbg_regs_pc (regs t)) (breakpoints t)
    \<Longrightarrow> try_report_watchpoint_hit K t = Some (False, u)
    \<Longrightarrow> line_at u (cdbg_regs_pc (regs t)) = Some cur \<Longrightarrow> cur \<noteq> start
    \<Longrightarrow> line_ends K adv start s (shown_at K (cdbg_regs_pc (regs t)) u)"

inductive_simps walks_simps: "walks K adv start 0 s u" "walks K adv start (Suc k) s u"

section \<open>What is decided after a move\<close>

lemmas after_step_shown = after_step_def [folded shown_at_def]

lemma after_step_ends:
  assumes "adv s = Some (Inr (), u)" and "after_step K start u = Some (Inl True, s')"
  shows "line_ends K adv start s s'"
proof -
  obtain t where t: "cdbg_refresh_regs K u = (True, t)"
    using assms(2) by (cases "cdbg_refresh_regs K u") (auto simp: after_step_def split: if_splits)
  have a: "arrives K adv s t" using assms(1) t by (rule arrival)
  show ?thesis
    using assms(2)
    by (auto simp: after_step_shown t Let_def bind_eq_Some_conv split: if_splits option.splits
        intro: line_ends.breakpoint [OF a] line_ends.watchpoint [OF a]
          line_ends.new_line [OF a])
qed

lemma after_step_on:
  assumes "adv s = Some (Inr (), u)" and "after_step K start u = Some (Inr pc, v)"
  shows "same_line K adv start s v"
proof -
  obtain t where t: "cdbg_refresh_regs K u = (True, t)"
    using assms(2) by (cases "cdbg_refresh_regs K u") (auto simp: after_step_def split: if_splits)
  have a: "arrives K adv s t" using assms(1) t by (rule arrival)
  show ?thesis
    using assms(2)
    by (auto simp: after_step_def t Let_def bind_eq_Some_conv split: if_splits option.splits
        intro: stays [OF a])
qed

lemma same_line_after:
  "same_line K adv start s v \<Longrightarrow>
   \<exists>u pc. adv s = Some (Inr (), u) \<and> after_step K start u = Some (Inr pc, v)"
  by (auto simp: same_line.simps arrives.simps after_step_def Let_def)

lemma line_ends_after:
  "line_ends K adv start s s' \<Longrightarrow> adv s = Some (Inl True, s')
     \<or> (\<exists>u. adv s = Some (Inr (), u) \<and> after_step K start u = Some (Inl True, s'))"
  by (auto simp: line_ends.simps arrives.simps after_step_shown Let_def)

section \<open>A counted loop of moves\<close>

text \<open>The loops of both commands have this shape: a budget of moves, after each of which the
  same questions are asked.\<close>

locale line_loop =
  fixes K :: "'w kernel" and start :: "string \<times> u32" and adv :: "(bool + unit, 'w) op"
    and loop :: "nat \<Rightarrow> (bool, 'w) op"
  assumes exhausted: "loop 0 s = Some (False, err (''Step limit exceeded'' @ nl) s)"
    and repeat: "loop (Suc n) s = do { (r, s) \<leftarrow> adv s;
          case r of
            Inl b \<Rightarrow> Some (b, s)
          | Inr _ \<Rightarrow>
              do { (r, s) \<leftarrow> after_step K start s;
                   case r of Inl b \<Rightarrow> Some (b, s) | Inr _ \<Rightarrow> loop n s } }"
    and stopped_no_more: "adv s = Some (Inl True, t) \<Longrightarrow> state t \<noteq> State_STOPPED"
begin

lemma loop_Suc:
  "loop (Suc n) s = Some (True, s') \<longleftrightarrow>
     line_ends K adv start s s' \<or> (\<exists>v. same_line K adv start s v \<and> loop n v = Some (True, s'))"
proof
  assume l: "loop (Suc n) s = Some (True, s')"
  then obtain r u where m: "adv s = Some (r, u)" by (auto simp: repeat bind_eq_Some_conv)
  show "line_ends K adv start s s' \<or> (\<exists>v. same_line K adv start s v \<and> loop n v = Some (True, s'))"
  proof (cases r)
    case (Inl b)
    with l m show ?thesis by (auto simp: repeat stopped_no_more intro: gone)
  next
    case (Inr x)
    with l m obtain r' v where a: "adv s = Some (Inr (), u)" "after_step K start u = Some (r', v)"
      by (auto simp: repeat bind_eq_Some_conv)
    with l show ?thesis
      by (cases r') (auto simp: repeat intro: after_step_ends dest: after_step_on)
  qed
next
  assume "line_ends K adv start s s' \<or> (\<exists>v. same_line K adv start s v \<and> loop n v = Some (True, s'))"
  then show "loop (Suc n) s = Some (True, s')"
    by (auto simp: repeat dest!: line_ends_after same_line_after)
qed

lemma loop_finds_end:
  "loop n s = Some (True, s') \<longleftrightarrow>
     (\<exists>k<n. \<exists>u. walks K adv start k s u \<and> line_ends K adv start u s')"
proof (induction n arbitrary: s)
  case 0
  show ?case by (simp add: exhausted)
next
  case (Suc n)
  have "(\<exists>k<Suc n. \<exists>u. walks K adv start k s u \<and> line_ends K adv start u s') \<longleftrightarrow>
      line_ends K adv start s s' \<or>
      (\<exists>v. same_line K adv start s v \<and> (\<exists>k<n. \<exists>u. walks K adv start k v u \<and> line_ends K adv start u s'))"
    by (auto simp: Ex_less_Suc2 walks_simps)
  then show ?case by (simp add: loop_Suc Suc.IH)
qed

lemma loop_gives_up:
  "walks K adv start n s u \<Longrightarrow> loop n s = Some (False, err (''Step limit exceeded'' @ nl) u)"
  by (induction rule: walks.induct) (auto simp: exhausted repeat dest!: same_line_after)

end

section \<open>The loop of step\<close>

lemma one_step_gone: "one_step K s = Some (Inl True, t) \<Longrightarrow> state t \<noteq> State_STOPPED"
  by (auto simp: one_step_def Let_def bind_eq_Some_conv split: if_splits prod.splits)

interpretation step_lines: line_loop K start "one_step K" "step_loop K start"
  by unfold_locales (auto dest: one_step_gone)

section \<open>The loop of next\<close>

text \<open>A move of \<^verbatim>\<open>next\<close>: over the call at the pc, or one instruction.\<close>

definition move_over :: "'w kernel \<Rightarrow> (bool + unit, 'w) op" where
  "move_over K s =
     (let (call, s) = call_return_address K (cdbg_regs_pc (regs s)) s
      in case call of
           Some return_addr \<Rightarrow>
             do { (ok, s) \<leftarrow> step_over_call K return_addr s;
                  Some (if \<not> ok then (Inl False, s)
                        else if state s \<noteq> State_STOPPED then (Inl True, s)
                        else (Inr (), s)) }
         | None \<Rightarrow> one_step K s)"

lemma move_over_gone: "move_over K s = Some (Inl True, t) \<Longrightarrow> state t \<noteq> State_STOPPED"
  by (auto simp: move_over_def bind_eq_Some_conv split: if_splits prod.splits option.splits
      dest: one_step_gone)

lemma unreported_keeps_regs:
  "try_report_watchpoint_hit K s = Some (False, t) \<Longrightarrow> regs t = regs s"
  by (auto simp: try_report_watchpoint_hit_def bind_eq_Some_conv on_sys_def
      split: if_splits prod.splits option.splits)

lemma after_step_pc: "after_step K start s = Some (Inr pc, t) \<Longrightarrow> pc = cdbg_regs_pc (regs t)"
  by (auto simp: after_step_def Let_def bind_eq_Some_conv split: if_splits prod.splits option.splits
      dest!: unreported_keeps_regs)

interpretation next_lines: line_loop K start "move_over K"
    "\<lambda>n s. next_loop K start n (cdbg_regs_pc (regs s)) s"
proof unfold_locales
  have "Option.bind (after_step K start v) (\<lambda>(r, s). case r of Inl b \<Rightarrow> Some (b, s) | Inr pc \<Rightarrow> next_loop K start n pc s)
      = Option.bind (after_step K start v) (\<lambda>(r, s). case r of Inl b \<Rightarrow> Some (b, s)
          | Inr _ \<Rightarrow> next_loop K start n (cdbg_regs_pc (regs s)) s)" for v n
    by (cases "after_step K start v") (auto split: sum.split dest: after_step_pc)
  then show "next_loop K start (Suc n) (cdbg_regs_pc (regs s)) s = do { (r, s) \<leftarrow> move_over K s;
          case r of
            Inl b \<Rightarrow> Some (b, s)
          | Inr _ \<Rightarrow>
              do { (r, s) \<leftarrow> after_step K start s;
                   case r of Inl b \<Rightarrow> Some (b, s)
                   | Inr _ \<Rightarrow> next_loop K start n (cdbg_regs_pc (regs s)) s } }" for n s
    by (simp add: move_over_def split_beta cong: sum.case_cong split: option.split)
qed (auto dest: move_over_gone)

section \<open>The commands\<close>

text \<open>C9. Where the pc has a line, \<^verbatim>\<open>step\<close> and \<^verbatim>\<open>next\<close> succeed exactly when the debuggee comes
  to an end of the line within the budget of moves, and they end in the state of the first such
  end: after moves that all stayed on the line (or had none) and hit nothing, the debuggee is
  gone, or it is at a planted breakpoint, at a watchpoint, or on another line, and that is what
  is reported. When it stays on the line for the whole budget they say so and fail.\<close>

theorem step_and_next_find_line_end:
  assumes "cdbg_refresh_regs K s = (True, t)"
    and "line_at t (cdbg_regs_pc (regs t)) = Some start"
  shows "(cdbg_step_next_line K s = Some (True, s') \<longleftrightarrow>
      (\<exists>k<CDBG_MAX_STEP_ITERATIONS. \<exists>u. walks K (one_step K) start k t u
         \<and> line_ends K (one_step K) start u s'))
    \<and> (cdbg_next_source_line K s = Some (True, s') \<longleftrightarrow>
      (\<exists>k<CDBG_MAX_STEP_ITERATIONS. \<exists>u. walks K (move_over K) start k t u
         \<and> line_ends K (move_over K) start u s'))
    \<and> (walks K (one_step K) start CDBG_MAX_STEP_ITERATIONS t u \<longrightarrow>
      cdbg_step_next_line K s = Some (False, err (''Step limit exceeded'' @ nl) u))
    \<and> (walks K (move_over K) start CDBG_MAX_STEP_ITERATIONS t u \<longrightarrow>
      cdbg_next_source_line K s = Some (False, err (''Step limit exceeded'' @ nl) u))"
  using assms
  by (simp add: cdbg_step_next_line_def cdbg_next_source_line_def step_lines.loop_finds_end
      next_lines.loop_finds_end step_lines.loop_gives_up next_lines.loop_gives_up)

text \<open>On the machine: line 3 is the first instruction, line 4 the second.\<close>

definition two_lines :: cdbg_lineno where
  "two_lines = empty_lineno\<lparr>ln_entries :=
     [\<lparr>le_address = code_base, le_line = 3, le_column = 1, le_file = ''m.c''\<rparr>,
      \<lparr>le_address = code_base + 4, le_line = 4, le_column = 1, le_file = ''m.c''\<rparr>]\<rparr>"

definition on_line3 :: "machine cdbg" where
  "on_line3 = stopped0\<lparr>lineno := two_lines\<rparr>"

lemma two_lines_at:
  "cdbg_lineno_line_at_pc two_lines code_base CDBG_LINENO_MAX_FILE = Some (''m.c'', 3)"
  "cdbg_lineno_line_at_pc two_lines (code_base + 4) CDBG_LINENO_MAX_FILE = Some (''m.c'', 4)"
  by (simp_all add: cdbg_lineno_line_at_pc_def lineno_entry_at_pc_def cdbg_lineno_lookup_pc_def
      cdbg_lineno_runtime_addr_def two_lines_def empty_lineno_def code_base_def
      CDBG_LINENO_MAX_FILE_def snprintf_s_def Let_def)

lemma bytes_at_put_bytes_first:
  assumes "length (bs @ cs) \<le> 2 ^ 64"
  shows "bytes_at (put_bytes a (bs @ cs) m) a (length bs) = bs"
proof (rule nth_equalityI)
  fix i assume i: "i < length (bytes_at (put_bytes a (bs @ cs) m) a (length bs))"
  then have "unat (of_nat i :: u64) = i"
    using assms by (simp add: unat_of_nat take_bit_nat_eq_self)
  with i assms show "bytes_at (put_bytes a (bs @ cs) m) a (length bs) ! i = bs ! i"
    by (simp add: nth_bytes_at put_bytes_apply nth_append)
qed simp

lemma fetch0: "fetch machine0 = nop"
proof -
  have "bytes_at (m_mem machine0) code_base 4 = le_bytes 4 nop"
    using bytes_at_put_bytes_first [of "le_bytes 4 nop" "concat (map (le_bytes 4) (tl program))"]
    by (simp add: machine0_def program_def)
  then show ?thesis using le_bytes_inj [of 4 nop] by (simp add: fetch_def machine0_def)
qed

lemma on_line3_fields:
  "pid on_line3 = the_pid" "current_tid on_line3 = 0" "breakpoints on_line3 = []"
  "watchpoints on_line3 = []" "lineno on_line3 = two_lines" "dsys on_line3 = sys0"
  by (simp_all add: on_line3_def) (simp add: stopped0_def cdbg_init_def)

lemma line3_refreshed:
  "\<exists>r. cdbg_refresh_regs machine_kernel on_line3 = (True, on_line3\<lparr>regs := r\<rparr>)
     \<and> cdbg_regs_pc r = code_base"
  by (intro exI conjI, rule machine_refresh)
    (simp_all add: on_line3_fields cdbg_regs_pc_def, simp add: machine0_def)

lemma line3_moves:
  "\<exists>u. arrives machine_kernel (one_step machine_kernel) (on_line3\<lparr>regs := r\<rparr>) u
     \<and> breakpoints u = [] \<and> watchpoints u = [] \<and> lineno u = two_lines
     \<and> cdbg_regs_pc (regs u) = code_base + 4"
proof -
  let ?s = "on_line3\<lparr>regs := r\<rparr>"
  let ?w = "(set_gpr ((m_gpr machine0 thread1)\<lparr>r_pc := code_base + 4\<rparr>) machine0)\<lparr>m_status := TRAPPED\<rparr>"
  let ?u = "?s\<lparr>state := State_STOPPED, wait_status := TRAPPED, dsys := sys0\<lparr>world := ?w\<rparr>\<rparr>"
  have m: "machine_step machine0 = ?w"
    by (simp add: machine_step_def cpu_step_def Let_def fetch0 nop_def CDBG_TRAP_INST_def)
      (simp add: machine0_def)
  have k: "k_pt_step machine_kernel the_pid machine0 = (True, ?w)" by (simp add: machine_kernel_def m)
  have "cdbg_single_step machine_kernel ?s = (True, ?s\<lparr>state := State_RUNNING, dsys := sys0\<lparr>world := ?w\<rparr>\<rparr>)"
    by (simp add: cdbg_single_step_def on_sys_def syscall_def on_line3_fields k)
  moreover have "cdbg_wait machine_kernel (?s\<lparr>state := State_RUNNING, dsys := sys0\<lparr>world := ?w\<rparr>\<rparr>) = Some (0, ?u)"
    by (simp add: cdbg_wait_def cdbg_process_wait_def machine_process_wait on_line3_fields
        reenable_breakpoints_after_step_def WIFEXITED_def WIFSIGNALED_def TRAPPED_def)
  ultimately have o: "one_step machine_kernel ?s = Some (Inr (), ?u)"
    by (simp add: one_step_def)
  let ?v = "?u\<lparr>regs := r\<lparr>native := m_gpr ?w thread1, neon := m_neon ?w thread1\<rparr>\<rparr>"
  have "cdbg_refresh_regs machine_kernel ?u = (True, ?v)"
    by (simp add: machine_refresh on_line3_fields)
  with o have "arrives machine_kernel (one_step machine_kernel) ?s ?v" by (rule arrival)
  then show ?thesis
    by (intro exI [of _ ?v]) (simp add: on_line3_fields cdbg_regs_pc_def set_gpr_def)
qed

text \<open>\<^verbatim>\<open>step\<close> leaves line 3 with one instruction.\<close>

theorem step_and_next_find_line_end_witness:
  "\<exists>s'. cdbg_step_next_line machine_kernel on_line3 = Some (True, s')"
proof -
  obtain r where r: "cdbg_refresh_regs machine_kernel on_line3 = (True, on_line3\<lparr>regs := r\<rparr>)"
      "cdbg_regs_pc r = code_base"
    using line3_refreshed by blast
  obtain u where u: "arrives machine_kernel (one_step machine_kernel) (on_line3\<lparr>regs := r\<rparr>) u"
      "breakpoints u = []" "watchpoints u = []" "lineno u = two_lines" "cdbg_regs_pc (regs u) = code_base + 4"
    using line3_moves by blast
  then have "line_ends machine_kernel (one_step machine_kernel) (''m.c'', 3) (on_line3\<lparr>regs := r\<rparr>)
      (shown_at machine_kernel (cdbg_regs_pc (regs u)) u)"
    by (intro line_ends.new_line [OF u(1), of u "(''m.c'', 4)"])
      (simp_all add: try_report_watchpoint_hit_def two_lines_at)
  moreover have "0 < CDBG_MAX_STEP_ITERATIONS" by (simp add: CDBG_MAX_STEP_ITERATIONS_def)
  ultimately show ?thesis
    using step_and_next_find_line_end [OF r(1), of "(''m.c'', 3)"] walks.here r(2)
    by (simp add: on_line3_fields two_lines_at) blast
qed

end
