(* ===== verification/Spec2Isabelle.thy ===== *)
theory Spec2Isabelle
  imports ExprText LineSpec RegSpec Stops Objects Arith Frames CommandPrint AtStop Session Running
    Debugging DwarfStruct Variables Stepping
begin

text \<open>
  This library models cdbg, a command-line debugger for macOS on arm64: the C sources
  \<^verbatim>\<open>src/*.c\<close> and \<^verbatim>\<open>include/*.h\<close>, with the flex and bison sources of its expression
  scanner and parser.

  The program. \<^verbatim>\<open>debugger.c\<close> keeps one record \<^verbatim>\<open>cdbg_t\<close> (the debuggee's pid and state, the
  registers last read, the tables of breakpoints and watchpoints, the line table, the
  symbols, the settings) and implements the commands. It drives the debuggee through
  \<^verbatim>\<open>process.c\<close> (fork, exec, wait), \<^verbatim>\<open>memory.c\<close>, \<^verbatim>\<open>threads.c\<close> and \<^verbatim>\<open>regs.c\<close> (Mach and ptrace),
  \<^verbatim>\<open>breakpoint.c\<close> (traps in the code) and \<^verbatim>\<open>watchpoint.c\<close> (debug registers), and reads debug
  information through \<^verbatim>\<open>lineno.c\<close> (DWARF line tables) and \<^verbatim>\<open>syms.c\<close> (symbol tables).

  How it is modelled.
  \<^item> The operating system is a parameter: the record \<open>kernel\<close> of theory Kernel has one
    function for each call the sources make, over a world of any type. What the debugger
    itself holds beside its record (output, send rights) is the record \<open>sys\<close>. What is relied
    on of the system is stated as locales (\<open>traced_memory\<close>, \<open>stopped_task\<close>,
    \<open>suspendable_task\<close>, \<open>debuggable_task\<close>, \<open>armable_task\<close>, \<open>region_map\<close>, \<open>waits\<close>); theory Machine
    implements the calls over a small machine with paged memory, two threads and debug
    registers, and interprets every one of them on it.
  \<^item> An operation that always returns is a function from state to result and state; one that
    may not return (a wait that is interrupted for ever, the loop of \<^verbatim>\<open>parse_line_table\<close>) yields
    an option, built with \<open>partial_function\<close>. \<open>ensures b m Q\<close> (Prelude) says of such a result
    that it satisfies Q, and, when b is false, that it exists.
  \<^item> C results 0 and -1 are booleans or options; out parameters are results. Machine integers
    are words of their width. Strings are lists of characters without the terminator, and
    every copy into a buffer is \<open>snprintf_s\<close> with the size of the buffer.

  The theories, in the order they build on each other.
  \<^item> Prelude, CString: words as bytes, results that may not exist, the C library functions
    used on strings. Text, Language: \<^verbatim>\<open>trim_space\<close>, \<^verbatim>\<open>parse_u64\<close>, the assignment splitter,
    the field parsers of dwarfdump lines, the source languages.
  \<^item> Kernel, Memory, Threads, Regs, Breakpoint, Watchpoint: the layer over the system.
  \<^item> Cursor, MachO, LineTable, Scan, Lineno, Syms: debug information. LineSpec holds the
    abstract line-number machine of the DWARF standard and the refinement proof.
  \<^item> Expr: the scanner \<^verbatim>\<open>expr.l\<close> and the parser \<^verbatim>\<open>expr.y\<close>. ExprPrint, ExprText: a printer to
    tokens and to text, and the round trips. The fuel of \<open>parse_expr\<close>, \<open>parse_fuel\<close>, is
    linear in the number of tokens, as each call consumes a token or descends one of four
    levels; that it is enough is part of the round trip.
  \<^item> Debugger, Display, Control, Run, Tables, Places: \<^verbatim>\<open>debugger.c\<close>, by groups of commands.
  \<^item> Dwarf, Values, Eval, Inspect, Show, Help: the variables and types found in the output of
    dwarfdump, the values of the debuggee, \<^verbatim>\<open>expr_eval.c\<close>, the commands \<^verbatim>\<open>print\<close>, \<^verbatim>\<open>set\<close>,
    \<^verbatim>\<open>watch\<close>, \<^verbatim>\<open>show\<close>, \<^verbatim>\<open>tb\<close>, \<^verbatim>\<open>thread\<close>, \<^verbatim>\<open>leaks\<close>, \<^verbatim>\<open>help\<close>.
  \<^item> Command, Repl: \<^verbatim>\<open>command.l\<close> and \<^verbatim>\<open>command.y\<close>, the dispatch of a command, the command loop
    and \<^verbatim>\<open>main.c\<close>. CommandPrint: a printer of commands and the round trip.
  \<^item> Steady, Stops, Traps, WatchThreads, RegSpec: what the commands keep. Steady proves that
    every control operation returns and keeps the configuration, once for all kernels;
    Stops the state machine of waiting; Traps the invariant relating the table of
    breakpoints to memory; WatchThreads what arming does on all threads; RegSpec registers
    as a register file.
  \<^item> Quiet: the commands that inspect. The locale \<open>inspection\<close> carries any invariant that the
    reading calls keep through all of them; \<open>reading_calls\<close> instantiates it to a view of the
    world, \<open>holding\<close> to the send rights.
  \<^item> AtStop: the commands given at a stop as a step relation, with the invariant of Traps.
    Session: the command loop as a whole; the well-formedness of the debugger's record is
    an invariant of every command, and a session over a responsive kernel returns.
  \<^item> Running: the locale \<open>running_code\<close> adds to \<open>traced_memory\<close> and \<open>reading_calls\<close> that executing
    keeps the code, and carries the invariant through waiting, planting again and reporting.
    Debugging: sessions of inspection, breakpoints, \<open>continue\<close>, \<open>si\<close> and \<open>step\<close> as a step
    relation. \<open>next\<close> is not one of its steps: its temporary breakpoint may lie on the
    user's own, which is the case of the property \<open>second_plant_leaves_trap\<close>.
  \<^item> Arith: the integer expressions against their meaning. Objects: scalars as numbers, the
    bytes an assignment writes, elements of arrays. Frames: symbols and backtraces.
  \<^item> DwarfText, DwarfLocals, DwarfStruct: the output of dwarfdump, printed from data. The lines of
    entries and attributes and what \<^verbatim>\<open>strstr\<close> and \<^verbatim>\<open>strtoull\<close> find in them; the local variables
    of the functions at the pc; the members of a struct. Blocks with a range of their own,
    names with \<^verbatim>\<open>NULL\<close> in them and locations relative to x29 are left out of what is printed:
    three lemmas say what the scan makes of them.
  \<^item> Stepping: what \<^verbatim>\<open>step\<close> and \<^verbatim>\<open>next\<close> promise, as moves that stay on a line and ends of a
    line; the locale \<open>line_loop\<close> proves that the loops of both commands find the first end.
  \<^item> Variables: \<^verbatim>\<open>watch\<close> and \<^verbatim>\<open>print\<close> of a local variable, from its entry in the output of
    dwarfdump over the scanner, the parser and the evaluator to the debug registers of the
    threads and the bytes of the frame.
  \<^item> Machine: the simulated system and the interpretations. This theory: the properties of
    the system layer and of execution control; the others stand in the theories above.

  Bounds. \<^verbatim>\<open>cdbg_step_next_line\<close> and \<^verbatim>\<open>cdbg_next_source_line\<close> give up after
  \<^verbatim>\<open>CDBG_MAX_STEP_ITERATIONS\<close> steps; \<open>step_loop\<close> and \<open>next_loop\<close> count the same number down.
  \<^verbatim>\<open>cmd_backtrace\<close> walks at most \<^verbatim>\<open>CDBG_MAX_BACKTRACE_FRAMES\<close> frames; \<open>backtrace_loop\<close> counts
  them down. The command loop \<open>repl_loop\<close> recurses on its input.

  Not modelled. The scanners and parsers under \<^verbatim>\<open>build\<close> are generated by flex and bison from
  the \<^verbatim>\<open>.l\<close> and \<^verbatim>\<open>.y\<close> files, which are modelled instead. \<^verbatim>\<open>examples/target.c\<close> is a program to be
  debugged. The tools that the debugger runs (dwarfdump, otool, nm, leaks) are parameters:
  the lines they print are results of the kernel's \<open>k_popen\<close>. \<^verbatim>\<open>strtod\<close> and the printing of
  doubles (\<^verbatim>\<open>%g\<close>, \<^verbatim>\<open>%.17g\<close>) are parameters, so a double is the word of its bits. The handler
  of SIGINT only sends a signal to the debuggee, which to the model is an event of the
  kernel. Allocation is taken to succeed.
\<close>

section \<open>Breakpoints\<close>

text \<open>C1. A successful \<^verbatim>\<open>break\<close> at a place apart from the other breakpoints adds exactly one
  breakpoint, at that address and enabled, and keeps the invariant of the table over the
  debuggee's memory: traps under the enabled breakpoints, the original bytes everywhere
  else and in the saved instructions.\<close>

theorem break_keeps_memory:
  assumes "traced_memory K p T mem" and "pid s = p"
    and "cmd_break K target s = (True, s')" and "fst (break_target target s) = Some (a, label)"
    and "apart (breakpoints s)" and "\<forall>b \<in> set (breakpoints s). separate (bp_addr b) a"
    and "trapped (set (breakpoints s)) orig (mem (world (dsys s)))"
  shows "trapped (set (breakpoints s')) orig (mem (world (dsys s'))) \<and> apart (breakpoints s')
    \<and> (\<exists>bp. breakpoints s' = breakpoints s @ [bp] \<and> bp_enabled bp \<and> bp_addr bp = a)"
  using traced_memory.cmd_break_keeps [OF assms(1) assms(3,4,5) _ assms(7,2)] assms(6) by blast

theorem break_keeps_memory_witness:
  "trapped (set (breakpoints broken0)) (m_mem machine0) (m_mem (world (dsys broken0)))
   \<and> apart (breakpoints broken0)
   \<and> (\<exists>bp. breakpoints broken0 = [bp] \<and> bp_enabled bp \<and> bp_addr bp = 0x100004008)"
  using break_keeps_memory [OF machine_memory.traced_memory_axioms _ break0 target0, of "m_mem machine0"]
    trapped_none [of "m_mem machine0"]
  by (simp add: apart_def)

text \<open>C2. \<^verbatim>\<open>del all\<close> on a live debuggee empties the table and, when it succeeds, memory is
  what it was before the first breakpoint was planted.\<close>

theorem delete_all_restores_memory:
  assumes "traced_memory K p T mem" and "pid s = p" "0 < p" "state s \<noteq> State_IDLE"
    and "cmd_del K (Some ''all'') s = (True, s')" and "apart (breakpoints s)"
    and "trapped (set (breakpoints s)) orig (mem (world (dsys s)))"
  shows "breakpoints s' = [] \<and> mem (world (dsys s')) = orig"
proof -
  have t: "trapped (set (breakpoints s')) orig (mem (world (dsys s')))"
    using traced_memory.cmd_del_keeps [OF assms(1,5,6,7,2,3,4)] by simp
  have all: "trim_space ''all'' = ''all''"
    by (simp add: trim_space_def trim_left_def trim_right_def text_eval)
  have "breakpoints s' = []"
    using assms(5)
  proof (cases rule: cmd_del_True)
    case none
    then show ?thesis by simp
  next
    case (all s1)
    then show ?thesis using bp_table.delete_down_items [OF refl all(2)] by simp
  next
    case (some a "is")
    then show ?thesis by (simp add: all)
  qed
  with t trapped_restored [of "{}" orig] show ?thesis by simp
qed

theorem delete_all_restores_memory_witness:
  "breakpoints (snd (cmd_del machine_kernel (Some ''all'') broken0)) = []
   \<and> m_mem (world (dsys (snd (cmd_del machine_kernel (Some ''all'') broken0)))) = m_mem machine0"
proof -
  let ?d = "cmd_del machine_kernel (Some ''all'') broken0"
  have s: "pid broken0 = the_pid" "state broken0 = State_STOPPED" "length (breakpoints broken0) = 1"
    "apart (breakpoints broken0)"
    "trapped (set (breakpoints broken0)) (m_mem machine0) (m_mem (world (dsys broken0)))"
    using machine_memory.cmd_break_keeps [OF break0 target0, of "m_mem machine0"] broken0_fields
      trapped_none [of "m_mem machine0"]
    by (auto simp: apart_def)
  have "fst ?d" using machine_delete_all [of broken0] s by simp
  then have "?d = (True, snd ?d)" by (simp add: prod_eq_iff)
  from delete_all_restores_memory [OF machine_memory.traced_memory_axioms s(1) _ _ this s(4,5)] s(2)
  show ?thesis by (simp add: the_pid_def)
qed

text \<open>C23. \<^verbatim>\<open>del n1 n2 ...\<close> removes exactly the breakpoints that had these numbers when the
  command was given, whatever their order and repetitions, and every number was one of the
  table; the array the numbers are collected in, one element for each breakpoint, is never
  overrun.\<close>

theorem delete_removes_exactly:
  assumes "cmd_del K (Some args) s = (True, s')" and "trim_space args \<noteq> ''all''"
    and "breakpoints s \<noteq> []"
    and "tokens = strtok (snprintf_s 256 (trim_space args)) ('' '' @ [CHR 0x09])"
  shows "\<exists>is. collect_indices ''breakpoint'' (length (breakpoints s)) tokens [] = Inr is
    \<and> length is \<le> length (breakpoints s)
    \<and> set is = (\<lambda>t. unat (the (parse_u64 t))) ` set tokens \<and> (\<forall>i \<in> set is. i < length (breakpoints s))
    \<and> breakpoints s' = nths (breakpoints s) (- set is)"
  using assms(1)
proof (cases rule: cmd_del_True)
  case (some a "is")
  then have c: "collect_indices ''breakpoint'' (length (breakpoints s)) tokens [] = Inr is"
    using assms(4) by simp
  note p = collect_indices_props [OF c, simplified]
  have "distinct (exchange_sort is)"
    using p by (metis mset_eq_imp_distinct_iff mset_exchange_sort)
  from bp_table.delete_each_items [OF exchange_sort_descending this some(4)] p
    collect_indices_fits [OF c] c
  show ?thesis by (intro exI [of _ "is"]) simp
qed (use assms(2,3) in simp_all)

theorem delete_removes_exactly_witness:
  "breakpoints (snd (cmd_del machine_kernel (Some ''0'') broken0)) = []"
proof -
  let ?d = "cmd_del machine_kernel (Some ''0'') broken0"
  obtain bp where b: "breakpoints broken0 = [bp]" using broken0_table by auto
  have p: "parse_u64 ''0'' = Some 0" by (simp add: parse_u64_def strtoull_def text_eval)
  have "?d = (True, snd ?d)" using delete0 by (simp add: prod_eq_iff)
  from delete_removes_exactly [OF this _ _ refl] show ?thesis
    by (simp add: tokens0 b p nths_singleton)
qed

text \<open>C8. \<^verbatim>\<open>cdbg_wait\<close> is a state machine: it reports a stop (0) only in state stopped with
  every breakpoint planted again except one at the pc, the end of the process (1) only in
  state idle after an exit or a signal, and otherwise an error; and the pid never changes.\<close>

theorem wait_outcomes:
  assumes "cdbg_wait K s = Some (rc, s')"
  shows "pid s' = pid s
    \<and> (rc = 0 \<longrightarrow> state s' = State_STOPPED \<and>
         (\<forall>bp \<in> set (breakpoints s'). bp_addr bp \<noteq> cdbg_regs_pc (regs s') \<longrightarrow> bp_enabled bp))
    \<and> (rc = 1 \<longrightarrow> state s' = State_IDLE \<and> (WIFEXITED (wait_status s') \<or> WIFSIGNALED (wait_status s')))
    \<and> (rc = - 1 \<longrightarrow> state s' = state s \<or> state s' = State_STOPPED)
    \<and> rc \<in> {- 1, 0, 1}"
  using assms by (rule wait_outcome)

theorem wait_outcomes_witness:
  "\<exists>rc s'. cdbg_wait machine_kernel stopped0 = Some (rc, s') \<and> pid s' = the_pid \<and> rc \<in> {- 1, 0, 1}"
proof -
  have "ensures False (cdbg_wait machine_kernel stopped0) (\<lambda>_. steady stopped0)"
    by (rule machine_waits.keeps_wait) simp
  then obtain rc s' where "cdbg_wait machine_kernel stopped0 = Some (rc, s')"
    by (auto simp: ensures_total)
  with wait_outcomes [OF this] show ?thesis by auto
qed

text \<open>C10. Against a kernel whose waits are not interrupted for ever, the three ways to run a
  stopped debuggee on (\<^verbatim>\<open>continue\<close>, \<^verbatim>\<open>step\<close>, \<^verbatim>\<open>next\<close>) return, whatever the kernel answers
  on the way, and leave the places of the breakpoints and watchpoints, the tables of lines
  and symbols, the settings and the Mach rights held as they were.\<close>

theorem stepping_returns:
  assumes "responsive K"
  shows "(\<exists>r s'. cdbg_step_next_line K s = Some (r, s') \<and> steady s s')
    \<and> (\<exists>r s'. cdbg_next_source_line K s = Some (r, s') \<and> steady s s')
    \<and> (\<exists>r s'. cdbg_continue K s = Some (r, s') \<and> steady s s')"
proof -
  note w = waits_responsive [OF assms]
  show ?thesis
    using waits.keeps_step_next_line [OF w steady_refl, of s]
      waits.keeps_next_source_line [OF w steady_refl, of s]
      waits.keeps_continue [OF w steady_refl, of s]
    by (simp add: ensures_total)
qed

theorem stepping_returns_witness:
  "\<exists>r s'. cdbg_step_next_line machine_kernel stopped0 = Some (r, s') \<and> steady stopped0 s'"
  using stepping_returns [OF machine_responsive, of stopped0] by blast

text \<open>C12. Reporting a stop (which selects the thread, suspends the others, and may step past the
  armed watchpoints) and stepping over a call return as well, with the same frame.\<close>

theorem stops_return:
  assumes "responsive K"
  shows "(\<exists>r s'. report_stop K s = Some (r, s') \<and> steady s s')
    \<and> (\<exists>r s'. step_over_call K a s = Some (r, s') \<and> steady s s')
    \<and> (\<exists>r s'. stop_debuggee K s = Some (r, s') \<and> steady s s')"
proof -
  note w = waits_responsive [OF assms]
  show ?thesis
    using waits.keeps_report_stop [OF w steady_refl, of s]
      waits.keeps_step_over_call [OF w steady_refl, of a s]
      waits.keeps_stop_debuggee [OF w steady_refl, of s]
    by (simp add: ensures_total)
qed

theorem stops_return_witness:
  "\<exists>r s'. report_stop machine_kernel stopped0 = Some (r, s') \<and> steady stopped0 s'"
  using stops_return [OF machine_responsive, of stopped0] by blast

text \<open>No Mach send right is leaked: whatever the kernel does, a \<^verbatim>\<open>run\<close> that returns (killing the
  old debuggee, loading symbols, forking, waiting, running to the entry stop) holds as many
  rights as before, and so does every memory, register, thread and watchpoint access.\<close>

theorem no_right_leaks:
  "(\<forall>r s'. cdbg_run K argv s = Some (r, s') \<longrightarrow> rights (dsys s') = rights (dsys s))
   \<and> rights (snd (cdbg_mem_read K p a n y)) = rights y
   \<and> rights (snd (cdbg_mem_write K p a bs y)) = rights y
   \<and> rights (snd (cdbg_threads_list K p n y)) = rights y
   \<and> rights (snd (cdbg_threads_suspend_others K p t y)) = rights y
   \<and> rights (snd (cdbg_regs_get K p t r y)) = rights y
   \<and> rights (snd (cdbg_regs_set K p t r y)) = rights y
   \<and> rights (snd (arm_watchpoint_all_threads K p wp y)) = rights y"
  using holds_run [OF refl, of K argv s] by (simp add: ensures_partial)

theorem no_right_leaks_witness:
  "rights (snd (cdbg_mem_read machine_kernel the_pid code_base 4 sys0)) = {#}"
  using no_right_leaks [of machine_kernel None stopped0 the_pid code_base 4 sys0]
  by (simp add: sys0_def)

text \<open>C38. A new \<^verbatim>\<open>run\<close> that succeeds starts without breakpoints and watchpoints: those set
  before it are gone.\<close>

theorem run_forgets_breakpoints:
  "ensures True (cdbg_run K argv s) (\<lambda>ok s'. ok \<longrightarrow> breakpoints s' = [] \<and> watchpoints s' = [])"
  using run_clears [of K argv s] by (simp add: cleared_def)

theorem run_forgets_breakpoints_witness:
  "\<exists>s'. cdbg_run machine_kernel (Some [''./a'']) stopped0 = Some (True, s') \<and> breakpoints s' = []"
proof -
  obtain s' where "cdbg_run machine_kernel (Some [''./a'']) stopped0 = Some (True, s')"
    using run0 by auto
  with run_forgets_breakpoints [of machine_kernel "Some [''./a'']" stopped0] show ?thesis by simp
qed

text \<open>C39. Once the end of the process has been reported, or the debuggee has been killed, no
  breakpoint or watchpoint counts as planted and no pid is remembered.\<close>

theorem end_resets:
  "(state s = State_IDLE \<longrightarrow> pid (report_process_exit s) = 0
      \<and> (\<forall>bp \<in> set (breakpoints (report_process_exit s)). \<not> bp_enabled bp)
      \<and> (\<forall>wp \<in> set (watchpoints (report_process_exit s)). \<not> wp_enabled wp))
   \<and> (stop_debuggee K s = Some (True, s') \<longrightarrow> pid s' \<le> 0 \<and> state s' = State_IDLE
      \<and> (0 < pid s \<longrightarrow> pid s' = 0 \<and> (\<forall>bp \<in> set (breakpoints s'). \<not> bp_enabled bp)
           \<and> (\<forall>wp \<in> set (watchpoints s'). \<not> wp_enabled wp)))"
  using report_exit_state [of s] stop_debuggee_state [of K s s'] by blast

theorem end_resets_witness:
  "pid (report_process_exit (broken0\<lparr>state := State_IDLE\<rparr>)) = 0
   \<and> filter bp_enabled (breakpoints (report_process_exit (broken0\<lparr>state := State_IDLE\<rparr>))) = []"
  using end_resets [of "broken0\<lparr>state := State_IDLE\<rparr>"] by (simp add: filter_empty_conv)

section \<open>Line numbers\<close>

text \<open>C7. The byte-level loop of \<^verbatim>\<open>parse_line_program\<close> refines the abstract line-number machine of
  the DWARF standard: run on the standard encoding of a program (LEB128 operands, special,
  standard and extended opcodes), from a state that refines the machine's registers, it
  returns with exactly the rows the machine emits appended to the table.\<close>

theorem line_program_is_machine:
  assumes "standard_header h" and "refines st m"
    and "ahead d c (concat (map encode is))" and "c_end c = c_pos c + length (concat (map encode is))"
    and "\<forall>i \<in> set is. encodable h i" and "lines_fit h is m"
  shows "line_program d h dirs files (c, st, ln) =
    Inr (ln\<lparr>ln_entries := ln_entries ln @ concat (map (row_entry dirs files) (rows h is m))\<rparr>)"
  using assms by (rule line_program_refines)

theorem line_program_is_machine_witness:
  "line_program [1, 32, 6, 1] header0 [] [(''a.c'', 0), (''a.c'', 0)]
     (\<lparr>c_pos = 0, c_end = 4\<rparr>, initial_state header0, empty_lineno) =
   Inr (empty_lineno\<lparr>ln_entries :=
     [\<lparr>le_address = 0, le_line = 1, le_column = 0, le_file = ''a.c''\<rparr>,
      \<lparr>le_address = 4, le_line = 1, le_column = 0, le_file = ''a.c''\<rparr>,
      \<lparr>le_address = 4, le_line = 1, le_column = 0, le_file = ''a.c''\<rparr>]\<rparr>)"
proof -
  let ?is = "[I_Copy, I_Special 32, I_Negate_stmt, I_Copy]"
  have h: "standard_header header0" by (simp add: standard_header_def header0_def)
  have a: "ahead [1, 32, 6, 1] \<lparr>c_pos = 0, c_end = 4\<rparr> (concat (map encode ?is))"
    by (simp add: ahead_def)
  have f: "lines_fit header0 ?is machine_start"
    by (simp add: machine_start_def header0_def Let_def)
  from line_program_is_machine [OF h refines_start a _ _ f, where dirs = "[]"
      and files = "[(''a.c'', 0), (''a.c'', 0)]" and ln = empty_lineno]
  show ?thesis
    by (simp add: empty_lineno_def header0_def machine_start_def row_entry_def build_file_path_def
        snprintf_s_def CDBG_LINENO_MAX_FILE_def Let_def)
qed



text \<open>C26. Parsing does not return when one to three bytes are left before the end of the section:
  the length cannot be read, so the cursor does not move.\<close>

theorem line_table_stuck:
  assumes "c_pos c < c_end c" "c_end c < c_pos c + 4"
  shows "parse_line_table d line_str c ln = None"
  using parse_line_table_short [of d line_str c ln] assms
  by (cases "parse_line_table d line_str c ln") auto

theorem line_table_stuck_witness:
  "parse_line_table [0, 0] None \<lparr>c_pos = 0, c_end = 2\<rparr> empty_lineno = None"
  by (rule line_table_stuck) simp_all

text \<open>C27. The two variable-length readers decode every 64-bit value from its standard
  encoding, signed or unsigned, and stop exactly behind it.\<close>

theorem leb128_roundtrip:
  "(ahead d c (uleb_bytes w) \<longrightarrow> read_uleb128 d c = (w, advance (length (uleb_bytes w)) c))
   \<and> (ahead d c (sleb_bytes w) \<longrightarrow> read_sleb128 d c = (w, advance (length (sleb_bytes w)) c))"
  using read_uleb_bytes [of d c w] read_sleb_bytes [of d c w] by blast

theorem leb128_roundtrip_witness:
  "read_uleb128 (uleb_bytes 624485) \<lparr>c_pos = 0, c_end = length (uleb_bytes 624485)\<rparr>
   = (624485, \<lparr>c_pos = length (uleb_bytes 624485), c_end = length (uleb_bytes 624485)\<rparr>)"
  using leb128_roundtrip [of "uleb_bytes 624485" "\<lparr>c_pos = 0, c_end = length (uleb_bytes 624485)\<rparr>" 624485]
  by (simp add: ahead_def advance_def)

text \<open>C32. The entry of a pc is the last that starts at or below it: no other such entry starts
  higher, and there is none exactly when every entry starts above.\<close>

theorem lookup_pc_is_last_below:
  "(cdbg_lineno_lookup_pc ln pc = None \<longleftrightarrow>
      (\<forall>x \<in> set (ln_entries ln). pc < cdbg_lineno_runtime_addr ln (le_address x)))
   \<and> (\<forall>e. cdbg_lineno_lookup_pc ln pc = Some e \<longrightarrow>
      e \<in> set (ln_entries ln) \<and> cdbg_lineno_runtime_addr ln (le_address e) \<le> pc
      \<and> (\<forall>x \<in> set (ln_entries ln). cdbg_lineno_runtime_addr ln (le_address x) \<le> pc \<longrightarrow>
           cdbg_lineno_runtime_addr ln (le_address x) \<le> cdbg_lineno_runtime_addr ln (le_address e)))"
  using lookup_pc_None [of ln pc] lookup_pc_Some [of ln pc] by blast

theorem lookup_pc_is_last_below_witness:
  "cdbg_lineno_lookup_pc (empty_lineno\<lparr>ln_entries := [entry0, entry1]\<rparr>) 0x100000f20 = Some entry1
   \<and> entry1 \<in> set [entry0, entry1]"
proof -
  have "cdbg_lineno_lookup_pc (empty_lineno\<lparr>ln_entries := [entry0, entry1]\<rparr>) 0x100000f20 = Some entry1"
    by (simp add: cdbg_lineno_lookup_pc_def cdbg_lineno_runtime_addr_def empty_lineno_def
        entry0_def entry1_def)
  with lookup_pc_is_last_below [of "empty_lineno\<lparr>ln_entries := [entry0, entry1]\<rparr>" "0x100000f20"]
  show ?thesis by (simp add: empty_lineno_def)
qed

text \<open>C35. The line shown for a pc is that of the last entry at or below it, as long as that
  entry has a line and starts at most 128 bytes below: the loop that also cuts the range at
  the following entries never changes the result.\<close>

theorem entry_at_pc_within_128:
  "lineno_entry_at_pc ln pc = Some e \<longleftrightarrow>
     cdbg_lineno_lookup_pc ln pc = Some e \<and> le_line e \<noteq> 0
     \<and> pc \<le> cdbg_lineno_runtime_addr ln (le_address e) + 128"
  by (rule lineno_entry_at_pc_eq)

text \<open>C34. A line number is taken as a place only when it is unique: the entry found has that line,
  every other entry with it is of the same file, and none of them starts lower.\<close>

theorem lookup_unique_is_unique:
  assumes "cdbg_lineno_lookup_line_unique ln line = Some e"
  shows "e \<in> set (ln_entries ln) \<and> le_line e = line
    \<and> (\<forall>x \<in> set (ln_entries ln). le_line x = line \<longrightarrow>
         le_file x = le_file e \<and> le_address e \<le> le_address x)"
proof -
  have "lookup_unique_loop line (ln_entries ln) None = Some e"
    using assms by (simp add: cdbg_lineno_lookup_line_unique_def)
  from lookup_unique_loop_Some [OF this] show ?thesis by blast
qed

theorem lookup_unique_is_unique_witness:
  "cdbg_lineno_lookup_line_unique (empty_lineno\<lparr>ln_entries := [entry0, entry1]\<rparr>) 4 = Some entry1
   \<and> le_line entry1 = 4"
proof -
  have "cdbg_lineno_lookup_line_unique (empty_lineno\<lparr>ln_entries := [entry0, entry1]\<rparr>) 4 = Some entry1"
    by (simp add: cdbg_lineno_lookup_line_unique_def empty_lineno_def entry0_def entry1_def)
  with lookup_unique_is_unique [OF this] show ?thesis by blast
qed

text \<open>The entry of the next line (where \<^verbatim>\<open>break\<close> on a function stops) lies above the pc, in
  the file of the pc's entry and on another line, and is the lowest such entry.\<close>

theorem next_line_is_first:
  assumes "cdbg_lineno_lookup_next_line_after_pc ln pc = Some e"
  shows "\<exists>cur. cdbg_lineno_lookup_pc ln pc = Some cur \<and> e \<in> set (ln_entries ln)
    \<and> pc < cdbg_lineno_runtime_addr ln (le_address e) \<and> le_file e = le_file cur \<and> le_line e \<noteq> le_line cur
    \<and> (\<forall>x \<in> set (ln_entries ln). pc < cdbg_lineno_runtime_addr ln (le_address x)
         \<and> le_file x = le_file cur \<and> le_line x \<noteq> le_line cur \<longrightarrow> le_address e \<le> le_address x)"
proof -
  obtain cur where c: "cdbg_lineno_lookup_pc ln pc = Some cur"
    using assms by (auto simp: cdbg_lineno_lookup_next_line_after_pc_def split: option.splits)
  with assms have "best_of (\<lambda>e. \<not> cdbg_lineno_runtime_addr ln (le_address e) \<le> pc
      \<and> le_file e = le_file cur \<and> le_line e \<noteq> le_line cur)
      (\<lambda>e b. le_address e < le_address b) None (ln_entries ln) = Some e"
    by (simp add: cdbg_lineno_lookup_next_line_after_pc_def)
  from line_scan.best_is_least [OF this] c show ?thesis by (auto simp: word_le_def word_less_def not_le)
qed

theorem next_line_is_first_witness:
  "cdbg_lineno_lookup_next_line_after_pc (empty_lineno\<lparr>ln_entries := [entry0, entry1]\<rparr>) 0x100000f04
     = Some entry1
   \<and> 0x100000f04 < cdbg_lineno_runtime_addr (empty_lineno\<lparr>ln_entries := [entry0, entry1]\<rparr>) (le_address entry1)"
proof -
  have "cdbg_lineno_lookup_next_line_after_pc (empty_lineno\<lparr>ln_entries := [entry0, entry1]\<rparr>) 0x100000f04
     = Some entry1"
    by (simp add: cdbg_lineno_lookup_next_line_after_pc_def cdbg_lineno_lookup_pc_def
        cdbg_lineno_runtime_addr_def empty_lineno_def entry0_def entry1_def)
  with next_line_is_first [OF this] show ?thesis by blast
qed

section \<open>Memory and breakpoints\<close>



text \<open>C24. A breakpoint that is planted and lifted restores the memory it was planted on.\<close>

theorem plant_and_lift:
  assumes "traced_memory K p T mem"
    and "cdbg_bp_enable K bp p a y = ((True, bp'), y1)" and "mem (world y2) = mem (world y1)"
    and "cdbg_bp_disable K bp' p y2 = ((True, bp''), y3)"
  shows "bytes_at (mem (world y1)) a 4 = le_bytes 4 CDBG_TRAP_INST \<and> bp_enabled bp'
    \<and> mem (world y3) = mem (world y) \<and> \<not> bp_enabled bp''"
proof -
  have pl: "planted bp' (mem (world y)) (mem (world y1))" "bp_addr bp' = a"
    using traced_memory.bp_enable_spec [OF assms(1), of bp a y bp'] assms(2) by simp_all
  then have "bytes_at (mem (world y1)) a 4 = le_bytes 4 CDBG_TRAP_INST" "bp_enabled bp'"
    using bytes_at_put_bytes [of "le_bytes 4 CDBG_TRAP_INST" a "mem (world y)"]
    by (simp_all add: planted_def)
  moreover have "mem (world y3) = mem (world y)"
    using traced_memory.bp_disable_spec [OF assms(1), of bp' "mem (world y)" y2] pl assms(3,4) by simp
  ultimately show ?thesis using bp_disable_flag [of K bp' p y2 True bp''] assms(4) by simp
qed

theorem plant_and_lift_witness:
  "\<exists>bp' y1 bp'' y3. cdbg_bp_enable machine_kernel zero_bp the_pid code_base sys0 = ((True, bp'), y1)
     \<and> cdbg_bp_disable machine_kernel bp' the_pid y1 = ((True, bp''), y3)
     \<and> m_mem (world y3) = m_mem machine0"
proof -
  obtain bp' y1 where 1: "cdbg_bp_enable machine_kernel zero_bp the_pid code_base sys0 = ((True, bp'), y1)"
    using machine_enable [of zero_bp code_base sys0] by (metis prod.collapse)
  obtain bp'' y3 where 2: "cdbg_bp_disable machine_kernel bp' the_pid y1 = ((True, bp''), y3)"
    using machine_disable [of bp' the_pid y1] by (metis prod.collapse)
  from plant_and_lift [OF machine_memory.traced_memory_axioms 1 refl 2] 1 2 show ?thesis by auto
qed

text \<open>C40. Two breakpoints at one address, lifted in the order they were planted: the first restores
  the instruction, the second puts the trap back, so it stays in memory with no breakpoint
  left that knows of it.\<close>

theorem second_plant_leaves_trap:
  assumes "traced_memory K p T mem"
    and "cdbg_bp_enable K b1 p a y = ((True, c1), y1)" and "cdbg_bp_enable K b2 p a y1 = ((True, c2), y2)"
    and "cdbg_bp_disable K c1 p y2 = ((True, d1), y3)" and "cdbg_bp_disable K c2 p y3 = ((True, d2), y4)"
  shows "mem (world y3) = mem (world y)
    \<and> mem (world y4) = put_bytes a (le_bytes 4 CDBG_TRAP_INST) (mem (world y))"
  using traced_memory.planted_twice [OF assms] .

theorem second_plant_leaves_trap_witness:
  "\<exists>y4 :: machine. m_mem y4 = put_bytes code_base (le_bytes 4 CDBG_TRAP_INST) (m_mem machine0)"
proof -
  obtain c1 y1 where 1: "cdbg_bp_enable machine_kernel zero_bp the_pid code_base sys0 = ((True, c1), y1)"
    using machine_enable [of zero_bp code_base sys0] by (metis prod.collapse)
  obtain c2 y2 where 2: "cdbg_bp_enable machine_kernel zero_bp the_pid code_base y1 = ((True, c2), y2)"
    using machine_enable [of zero_bp code_base y1] by (metis prod.collapse)
  obtain d1 y3 where 3: "cdbg_bp_disable machine_kernel c1 the_pid y2 = ((True, d1), y3)"
    using machine_disable [of c1 the_pid y2] by (metis prod.collapse)
  obtain d2 y4 where 4: "cdbg_bp_disable machine_kernel c2 the_pid y3 = ((True, d2), y4)"
    using machine_disable [of c2 the_pid y3] by (metis prod.collapse)
  from second_plant_leaves_trap [OF machine_memory.traced_memory_axioms 1 2 3 4]
  show ?thesis by (metis stopped0_fields(6))
qed

section \<open>Threads and watchpoints\<close>

text \<open>C30. A thread id resolves to the port of that thread, and 0 to the first one, with exactly
  one right to it held afterwards (those to the task and to the other threads are given
  back); an id no thread has resolves to nothing and leaves every right as it was.\<close>

theorem resolve_keeps_one_right:
  assumes "stopped_task K p task ts ident"
  shows "(t \<in> set ts \<longrightarrow> cdbg_threads_resolve_port K p (ident t) y
            = (Some t, y\<lparr>rights := live [t] + rights y\<rparr>))
    \<and> cdbg_threads_resolve_port K p 0 y = (Some (hd ts), y\<lparr>rights := live [hd ts] + rights y\<rparr>)
    \<and> (tid \<noteq> 0 \<and> tid \<notin> ident ` set ts \<longrightarrow> cdbg_threads_resolve_port K p tid y = (None, y))"
  using stopped_task.resolve [OF assms, of t "ident t" y]
    stopped_task.resolve [OF assms, of "hd ts" 0 y]
    stopped_task.resolve_unknown [OF assms, of tid y] stopped_task.ports(3) [OF assms]
  by simp

theorem resolve_keeps_one_right_witness:
  "cdbg_threads_resolve_port machine_kernel the_pid 1002 sys0
     = (Some thread2, sys0\<lparr>rights := {#thread2#}\<rparr>)
   \<and> cdbg_threads_resolve_port machine_kernel the_pid 7 sys0 = (None, sys0)"
proof -
  have i: "the_ident thread2 = 1002" "thread2 \<in> set the_threads" "7 \<notin> the_ident ` set the_threads"
    by (simp_all add: the_ident_def the_threads_def thread1_def thread2_def)
  show ?thesis
    using resolve_keeps_one_right [OF machine_task.stopped_task_axioms, of thread2 sys0 7] i
    by (simp add: sys0_def live_def thread2_def)
qed



text \<open>C13. When a watchpoint has been armed on all threads, the debug registers of every thread trap
  exactly the accesses of the asked kind to the bytes of \<open>[addr, addr + size)\<close>, and the
  other pairs are as before.\<close>

theorem watch_traps_exactly:
  assumes "armable_task K p task ts ident dbgs nslots"
    and "arm_watchpoint_all_threads K p wp y = (True, y')" and "t \<in> set ts"
  shows "(hw_triggers (dbgs (world y') t) (nat (wp_slot wp)) x is_write \<longleftrightarrow>
      unat (wp_addr wp) \<le> unat x \<and> unat x < unat (wp_addr wp) + unat (wp_size wp)
      \<and> kind_matches (wp_kind wp) is_write)
    \<and> (i \<noteq> nat (wp_slot wp) \<and> i < nslots \<longrightarrow>
      d_wvr (dbgs (world y') t) i = d_wvr (dbgs (world y) t) i
      \<and> d_wcr (dbgs (world y') t) i = d_wcr (dbgs (world y) t) i)"
  using armable_task.arm_all_triggers [OF assms] armable_task.arm_all_others [OF assms(1,2)] by blast

theorem watch_traps_exactly_witness:
  "hw_triggers (m_dbg (world (snd (arm_watchpoint_all_threads machine_kernel the_pid wp0 sys0))) thread2)
     1 0x16f000104 True
   \<and> \<not> hw_triggers (m_dbg (world (snd (arm_watchpoint_all_threads machine_kernel the_pid wp0 sys0))) thread2)
     1 0x16f000108 True"
proof -
  let ?a = "arm_watchpoint_all_threads machine_kernel the_pid wp0 sys0"
  have a: "?a = (True, snd ?a)" using arm_wp0 by (simp add: prod_eq_iff)
  have t: "thread2 \<in> set the_threads" by (simp add: the_threads_def)
  show ?thesis
    using watch_traps_exactly [OF machine_debug.armable_task_axioms a t, of "0x16f000104" True]
      watch_traps_exactly [OF machine_debug.armable_task_axioms a t, of "0x16f000108" True]
    by (simp add: wp0_def kind_matches_def)
qed

text \<open>Disarming clears the enable bit of the pair, so the thread no longer traps on it.\<close>

theorem disarmed_never_traps:
  assumes "debuggable_task K p task ts ident dbgs nslots" and "t \<in> set ts"
    and "cdbg_watch_disarm K p (ident t) slot y = (True, y')"
  shows "0 \<le> slot \<and> slot < int CDBG_MAX_WATCHPOINTS \<and> \<not> hw_triggers (dbgs (world y') t) (nat slot) x is_write
    \<and> (u \<noteq> t \<longrightarrow> dbgs (world y') u = dbgs (world y) u)"
  using debuggable_task.watch_disarm_spec [OF assms(1,2) disjI1 [OF refl] assms(3)]
  by (auto simp: hw_triggers_def implemented_def bit_and_iff bit_not_iff)

theorem disarmed_never_traps_witness:
  "\<not> hw_triggers (m_dbg (world (snd (cdbg_watch_disarm machine_kernel the_pid 1001 1 sys0))) thread1) 1 0x16f000100 True"
proof -
  let ?d = "cdbg_watch_disarm machine_kernel the_pid 1001 1 sys0"
  have "?d = (True, snd ?d)" using disarm0 by (simp add: prod_eq_iff)
  then have d: "cdbg_watch_disarm machine_kernel the_pid (the_ident thread1) 1 sys0 = (True, snd ?d)"
    by (simp add: the_ident_def)
  have t: "thread1 \<in> set the_threads" by (simp add: the_threads_def)
  from disarmed_never_traps [OF machine_debug.debuggable_task_axioms t d] show ?thesis by simp
qed

text \<open>The slot chosen for a new watchpoint is one of the four and free; when there is none,
  four watchpoints are enabled.\<close>

theorem free_slot_is_free:
  "case find_free_watch_slot wps of
     Some slot \<Rightarrow> 0 \<le> slot \<and> slot < int CDBG_MAX_WATCHPOINTS
       \<and> (\<forall>wp \<in> set wps. wp_enabled wp \<longrightarrow> wp_slot wp \<noteq> slot)
   | None \<Rightarrow> CDBG_MAX_WATCHPOINTS \<le> length (filter wp_enabled wps)"
  using find_free_slot_Some [of wps] find_free_slot_None [of wps] by (simp split: option.split)

theorem free_slot_is_free_witness:
  "find_free_watch_slot [wp0\<lparr>wp_slot := 0, wp_enabled := True\<rparr>] = Some 1 \<and> (1 :: int) < int CDBG_MAX_WATCHPOINTS"
proof -
  have "find_free_watch_slot [wp0\<lparr>wp_slot := 0, wp_enabled := True\<rparr>] = Some 1"
    by (simp add: find_free_watch_slot_def CDBG_MAX_WATCHPOINTS_def wp0_def upt_rec)
  with free_slot_is_free [of "[wp0\<lparr>wp_slot := 0, wp_enabled := True\<rparr>]"] show ?thesis by simp
qed

section \<open>Slides and symbols\<close>

text \<open>The slide of the loaded tables is the address of the first readable and executable region
  of the task, less the link address; the scan over the regions returns, and without such a
  region the slide is left alone.\<close>

theorem slide_is_first_code_region:
  assumes "region_map K p task regions"
  shows "cdbg_lineno_update_slide K ln p y =
      Some (case find rx regions of
              None \<Rightarrow> (False, ln)
            | Some r \<Rightarrow> (True, ln\<lparr>ln_slide := region_addr r - ln_link_base ln\<rparr>), y)
    \<and> cdbg_syms_update_slide K sy p y =
      Some (case find rx regions of
              None \<Rightarrow> (False, sy)
            | Some r \<Rightarrow> (True, sy\<lparr>sy_slide := region_addr r - sy_link_base sy\<rparr>), y)"
  using region_map.update_slide_spec [OF assms]
  by (simp add: cdbg_lineno_update_slide_def cdbg_syms_update_slide_def split: option.split)

theorem slide_is_first_code_region_witness:
  "cdbg_lineno_update_slide machine_kernel (empty_lineno\<lparr>ln_link_base := 0x100000000\<rparr>) the_pid sys0
   = Some ((True, empty_lineno\<lparr>ln_link_base := 0x100000000, ln_slide := 0x4000\<rparr>), sys0)"
  using slide_is_first_code_region [OF machine_regions.region_map_axioms,
      of "empty_lineno\<lparr>ln_link_base := 0x100000000\<rparr>" sys0]
  by (simp add: the_regions_def rx_def empty_lineno_def)

text \<open>Whatever the files and \<^verbatim>\<open>nm\<close> contain, every symbol loaded has a name that is not
  empty, fits its buffer, starts with a printable character other than \<^verbatim>\<open>.\<close> and \<^verbatim>\<open>L\<close>,
  and has a real type.\<close>

theorem symbols_are_good: "good_syms (snd (cdbg_syms_load K path w))"
  by (rule good_syms_load)

section \<open>Registers\<close>

text \<open>C36. Access by name is access to a register file: reading a name yields the value of the
  register it denotes, writing it changes that register only (to the value, or its low 32
  bits for the status registers), and exactly the readable names can be written.\<close>

theorem registers_by_name:
  assumes "fst (cdbg_regs_set_by_name K p tid r name v y) = (ok, r')"
  shows "cdbg_regs_get_by_name r' other = map_option (reg_value r') (reg_of_name other)
    \<and> (case reg_of_name name of
         None \<Rightarrow> \<not> ok \<and> r' = r
       | Some g \<Rightarrow> \<forall>g'. reg_value r' g' = (if g' = g then reg_fit g v else reg_value r g'))"
  using set_by_name_file [OF assms] get_by_name_file [of r' other] by blast

theorem registers_by_name_witness:
  "cdbg_regs_get_by_name (snd (fst (cdbg_regs_set_by_name machine_kernel the_pid 1001 zero_regs ''cpsr''
     0x160000000 sys0))) ''cpsr'' = Some 0x60000000"
proof -
  let ?r = "fst (cdbg_regs_set_by_name machine_kernel the_pid 1001 zero_regs ''cpsr'' 0x160000000 sys0)"
  have n: "reg_of_name ''cpsr'' = Some Reg_cpsr" by (simp add: reg_of_name_def)
  have f: "?r = (fst ?r, snd ?r)" by simp
  have "reg_value (snd ?r) Reg_cpsr = reg_fit Reg_cpsr 0x160000000"
    and "cdbg_regs_get_by_name (snd ?r) ''cpsr'' = Some (reg_value (snd ?r) Reg_cpsr)"
    using registers_by_name [OF f, of "''cpsr''"] unfolding n option.case by (metis, simp)
  moreover have "reg_fit Reg_cpsr 0x160000000 = 0x60000000" by simp
  ultimately show ?thesis by simp
qed



end
